(* ===== verification/Prelude.thy ===== *)
theory Prelude
  imports
    Complex_Main
    "HOL-Library.AList"
    "HOL-Library.Char_ord"
    "HOL-Library.List_Lexorder"
    "HOL-Library.Product_Lexorder"
begin

text \<open>
  What every component of the development shares: the Python values a JSON document can hold,
  the exceptions the modelled code can raise, insertion-ordered dictionaries as association
  lists, the string and number conversions of the language, and the loop that collects the
  errors of several checks.

  Strings are ASCII: a Python code point, its byte and the HOL character are then the same
  thing. A float is its exact rational value or one of the three special values; the rounding
  of a decimal literal to the nearest double is not modelled, the overflow to infinity is.
\<close>

section \<open>Collections of facts\<close>

named_theorems dict_simps \<open>lookups and key sets of updated dictionaries\<close>
named_theorems check_simps \<open>when a collecting loop reports nothing\<close>

section \<open>Values and exceptions\<close>

datatype py_exn = ValueError | TypeError | KeyError | OverflowError

datatype pyfloat = FFin rat | FInf | FNegInf | FNaN

datatype pyval =
    PNone
  | PBool bool
  | PInt int
  | PFloat pyfloat
  | PStr string
  | PList "pyval list"
  | PDict "(string \<times> pyval) list"

type_synonym config = "(string \<times> pyval) list"

text \<open>The truth value of \<open>bool(v)\<close>.\<close>

fun py_truthy :: "pyval \<Rightarrow> bool" where
  "py_truthy PNone = False"
| "py_truthy (PBool b) = b"
| "py_truthy (PInt n) = (n \<noteq> 0)"
| "py_truthy (PFloat f) = (f \<noteq> FFin 0)"
| "py_truthy (PStr s) = (s \<noteq> [])"
| "py_truthy (PList xs) = (xs \<noteq> [])"
| "py_truthy (PDict d) = (d \<noteq> [])"

fun float_lt :: "pyfloat \<Rightarrow> pyfloat \<Rightarrow> bool" where
  "float_lt (FFin a) (FFin b) = (a < b)"
| "float_lt (FFin _) FInf = True"
| "float_lt FNegInf (FFin _) = True"
| "float_lt FNegInf FInf = True"
| "float_lt _ _ = False"

section \<open>Dictionaries\<close>

text \<open>
  A \<open>dict\<close> keeps its keys in the order of their first insertion; assigning an existing key
  replaces the value in place. \<open>AList.update\<close> does exactly that.
\<close>

type_synonym ('k, 'v) dict = "('k \<times> 'v) list"

abbreviation dict_get :: "('k, 'v) dict \<Rightarrow> 'k \<Rightarrow> 'v option" where
  "dict_get d k \<equiv> map_of d k"

abbreviation dict_set :: "('k, 'v) dict \<Rightarrow> 'k \<Rightarrow> 'v \<Rightarrow> ('k, 'v) dict" where
  "dict_set d k v \<equiv> AList.update k v d"

abbreviation dict_keys :: "('k, 'v) dict \<Rightarrow> 'k list" where
  "dict_keys d \<equiv> map fst d"

definition dict_get_or :: "('k, 'v) dict \<Rightarrow> 'k \<Rightarrow> 'v \<Rightarrow> 'v" where
  "dict_get_or d k v = (case dict_get d k of None \<Rightarrow> v | Some w \<Rightarrow> w)"

text \<open>The dictionary comprehension \<open>{key(x): val(x) for x in xs}\<close>: a later key overwrites.\<close>

definition dict_of :: "('a \<Rightarrow> 'k) \<Rightarrow> ('a \<Rightarrow> 'v) \<Rightarrow> 'a list \<Rightarrow> ('k, 'v) dict" where
  "dict_of key val xs = foldl (\<lambda>d x. dict_set d (key x) (val x)) [] xs"

text \<open>\<open>d[k].append(v)\<close> on a \<open>defaultdict(list)\<close>.\<close>

definition dict_append :: "('k, 'v list) dict \<Rightarrow> 'k \<Rightarrow> 'v \<Rightarrow> ('k, 'v list) dict" where
  "dict_append d k v = dict_set d k (dict_get_or d k [] @ [v])"

section \<open>Strings\<close>

definition startswith :: "string \<Rightarrow> string \<Rightarrow> bool" where
  "startswith s p = (take (length p) s = p)"

definition removeprefix :: "string \<Rightarrow> string \<Rightarrow> string" where
  "removeprefix s p = (if startswith s p then drop (length p) s else s)"

definition code_of :: "char \<Rightarrow> nat" where
  "code_of c = (of_char c :: nat)"

definition is_space :: "char \<Rightarrow> bool" where
  "is_space c = (code_of c \<in> {9, 10, 11, 12, 13, 28, 29, 30, 31, 32})"

definition is_digit :: "char \<Rightarrow> bool" where
  "is_digit c = (48 \<le> code_of c \<and> code_of c \<le> 57)"

definition py_strip :: "string \<Rightarrow> string" where
  "py_strip s = rev (dropWhile is_space (rev (dropWhile is_space s)))"

definition lower_char :: "char \<Rightarrow> char" where
  "lower_char c = (if 65 \<le> code_of c \<and> code_of c \<le> 90 then char_of (code_of c + 32) else c)"

definition py_lower :: "string \<Rightarrow> string" where
  "py_lower s = map lower_char s"

definition upper_char :: "char \<Rightarrow> char" where
  "upper_char c = (if 97 \<le> code_of c \<and> code_of c \<le> 122 then char_of (code_of c - 32) else c)"

definition py_upper :: "string \<Rightarrow> string" where
  "py_upper s = map upper_char s"

section \<open>Numbers in text\<close>

definition digit_char :: "nat \<Rightarrow> char" where
  "digit_char d = char_of (48 + d)"

definition digit_val :: "char \<Rightarrow> nat" where
  "digit_val c = code_of c - 48"

fun string_of_nat :: "nat \<Rightarrow> string" where
  "string_of_nat n =
     (if n < 10 then [digit_char n] else string_of_nat (n div 10) @ [digit_char (n mod 10)])"

declare string_of_nat.simps [simp del]

definition nat_of_digits :: "string \<Rightarrow> nat" where
  "nat_of_digits s = foldl (\<lambda>a c. 10 * a + digit_val c) 0 s"

text \<open>
  Digits with single underscores between them, as \<open>int\<close> and \<open>float\<close> accept them: the digits
  without the underscores, and what follows.
\<close>

fun read_digits :: "string \<Rightarrow> string \<times> string" where
  "read_digits [] = ([], [])"
| "read_digits (c # cs) =
     (if is_digit c then
        (case cs of
           [] \<Rightarrow> ([c], [])
         | u # us \<Rightarrow>
             (if u = CHR ''_'' \<and> us \<noteq> [] \<and> is_digit (hd us)
              then (let (ds, rest) = read_digits us in (c # ds, rest))
              else (let (ds, rest) = read_digits cs in (c # ds, rest))))
      else ([], c # cs))"

definition split_sign :: "string \<Rightarrow> bool \<times> string" where
  "split_sign s =
     (case s of
        [] \<Rightarrow> (False, [])
      | c # cs \<Rightarrow> if c = CHR ''-'' then (True, cs) else if c = CHR ''+'' then (False, cs) else (False, s))"

text \<open>The interpreter refuses to convert more than 4300 digits.\<close>

definition int_max_str_digits :: nat where
  "int_max_str_digits = 4300"

definition int_of_digits :: "string \<Rightarrow> py_exn + int" where
  "int_of_digits ds =
     (if length ds > int_max_str_digits then Inl ValueError else Inr (int (nat_of_digits ds)))"

definition py_int_of_string :: "string \<Rightarrow> py_exn + int" where
  "py_int_of_string s =
     (let (neg, body) = split_sign (py_strip s);
          (ds, rest) = read_digits body
      in if ds = [] \<or> rest \<noteq> [] then Inl ValueError
         else map_sum id (\<lambda>n. if neg then - n else n) (int_of_digits ds))"

definition rat_trunc :: "rat \<Rightarrow> int" where
  "rat_trunc q = (if q < 0 then - \<lfloor>- q\<rfloor> else \<lfloor>q\<rfloor>)"

text \<open>\<open>int(v)\<close>.\<close>

fun py_int :: "pyval \<Rightarrow> py_exn + int" where
  "py_int PNone = Inl TypeError"
| "py_int (PBool b) = Inr (if b then 1 else 0)"
| "py_int (PInt n) = Inr n"
| "py_int (PFloat (FFin q)) = Inr (rat_trunc q)"
| "py_int (PFloat FNaN) = Inl ValueError"
| "py_int (PFloat _) = Inl OverflowError"
| "py_int (PStr s) = py_int_of_string s"
| "py_int (PList _) = Inl TypeError"
| "py_int (PDict _) = Inl TypeError"

text \<open>Magnitudes from \<open>float_limit\<close> on round to infinity.\<close>

definition float_limit :: rat where
  "float_limit = 2 ^ 1024 - 2 ^ 970"

definition float_of_rat :: "rat \<Rightarrow> pyfloat" where
  "float_of_rat q = (if q \<ge> float_limit then FInf else if q \<le> - float_limit then FNegInf else FFin q)"

definition read_fraction :: "string \<Rightarrow> string \<times> string" where
  "read_fraction s =
     (case s of
        [] \<Rightarrow> ([], [])
      | c # cs \<Rightarrow> if c = CHR ''.'' then read_digits cs else ([], s))"

definition read_exponent :: "string \<Rightarrow> (int \<times> string) option" where
  "read_exponent s =
     (case s of
        [] \<Rightarrow> Some (0, [])
      | c # cs \<Rightarrow>
          (if lower_char c = CHR ''e'' then
             (let (neg, body) = split_sign cs; (ds, rest) = read_digits body
              in if ds = [] then None
                 else Some ((if neg then - int (nat_of_digits ds) else int (nat_of_digits ds)), rest))
           else Some (0, s)))"

definition scale10 :: "rat \<Rightarrow> int \<Rightarrow> rat" where
  "scale10 q e = (if 0 \<le> e then q * 10 ^ nat e else q / 10 ^ nat (- e))"

definition py_float_of_string :: "string \<Rightarrow> py_exn + pyfloat" where
  "py_float_of_string s =
     (let (neg, body) = split_sign (py_strip s); word = py_lower body in
      if word = ''inf'' \<or> word = ''infinity'' then Inr (if neg then FNegInf else FInf)
      else if word = ''nan'' then Inr FNaN
      else
        (let (ds, rest) = read_digits body; (fs, rest') = read_fraction rest in
         if ds = [] \<and> fs = [] then Inl ValueError
         else (case read_exponent rest' of
                 None \<Rightarrow> Inl ValueError
               | Some (e, tail) \<Rightarrow>
                   if tail \<noteq> [] then Inl ValueError
                   else (let q = scale10 (rat_of_nat (nat_of_digits (ds @ fs))) (e - int (length fs))
                         in Inr (float_of_rat (if neg then - q else q))))))"

text \<open>\<open>float(v)\<close>.\<close>

fun py_float :: "pyval \<Rightarrow> py_exn + pyfloat" where
  "py_float PNone = Inl TypeError"
| "py_float (PBool b) = Inr (FFin (if b then 1 else 0))"
| "py_float (PInt n) =
     (if \<bar>rat_of_int n\<bar> \<ge> float_limit then Inl OverflowError else Inr (FFin (rat_of_int n)))"
| "py_float (PFloat f) = Inr f"
| "py_float (PStr s) = py_float_of_string s"
| "py_float (PList _) = Inl TypeError"
| "py_float (PDict _) = Inl TypeError"

section \<open>Loops that collect errors\<close>

text \<open>
  A loop body that appends to an error list, or raises: the first exception ends the loop, as
  it ends the Python function.
\<close>

primrec collect :: "('a \<Rightarrow> 'e + 'b list) \<Rightarrow> 'a list \<Rightarrow> 'e + 'b list" where
  "collect f [] = Inr []"
| "collect f (x # xs) =
     (case f x of
        Inl e \<Rightarrow> Inl e
      | Inr ys \<Rightarrow> (case collect f xs of Inl e \<Rightarrow> Inl e | Inr zs \<Rightarrow> Inr (ys @ zs)))"

text \<open>Two stages one after the other.\<close>

definition and_then :: "'e + 'b list \<Rightarrow> 'e + 'b list \<Rightarrow> 'e + 'b list" where
  "and_then a b =
     (case a of
        Inl e \<Rightarrow> Inl e
      | Inr ys \<Rightarrow> (case b of Inl e \<Rightarrow> Inl e | Inr zs \<Rightarrow> Inr (ys @ zs)))"

section \<open>Lemmas on dictionaries\<close>

lemma dict_get_set [dict_simps]: "dict_get (dict_set d k v) k' = (if k' = k then Some v else dict_get d k')"
  by (simp add: update_conv')

lemma dict_keys_set [dict_simps]: "fst ` set (dict_set d k v) = insert k (fst ` set d)"
  by (induction d) auto

lemma dict_get_None [dict_simps]: "dict_get d k = None \<longleftrightarrow> k \<notin> fst ` set d"
  by (simp add: map_of_eq_None_iff)

lemma dict_get_Some_key: "dict_get d k = Some v \<Longrightarrow> k \<in> fst ` set d"
  by (force dest: map_of_SomeD)

lemma dict_get_or_set [dict_simps]:
  "dict_get_or (dict_set d k v) k' w = (if k' = k then v else dict_get_or d k' w)"
  by (simp add: dict_get_or_def dict_simps)

lemma dict_get_or_append [dict_simps]:
  "dict_get_or (dict_append d k v) k' [] = dict_get_or d k' [] @ (if k' = k then [v] else [])"
  by (simp add: dict_append_def dict_simps)

lemma dict_get_append [dict_simps]:
  "dict_get (dict_append d k v) k' = (if k' = k then Some (dict_get_or d k [] @ [v]) else dict_get d k')"
  by (simp add: dict_append_def dict_simps)

lemma dict_of_Nil [simp]: "dict_of key val [] = []"
  by (simp add: dict_of_def)

lemma dict_of_snoc: "dict_of key val (xs @ [x]) = dict_set (dict_of key val xs) (key x) (val x)"
  by (simp add: dict_of_def)

lemma distinct_dict_of [simp]: "distinct (dict_keys (dict_of key val xs))"
  by (induction xs rule: rev_induct) (simp_all add: dict_of_snoc distinct_update)

lemma dict_keys_dict_of [simp]: "fst ` set (dict_of key val xs) = key ` set xs"
  by (induction xs rule: rev_induct) (simp_all add: dict_of_snoc dict_simps)

lemma dict_keys_dict_of_cong: "dict_keys (dict_of key f xs) = dict_keys (dict_of key g xs)"
  by (induction xs rule: rev_induct) (simp_all add: dict_of_snoc update_keys)

lemma dict_of_get_imp: "dict_get (dict_of key val xs) k = Some v \<Longrightarrow> \<exists>x\<in>set xs. key x = k \<and> val x = v"
  by (induction xs arbitrary: v rule: rev_induct) (auto simp: dict_of_snoc dict_simps split: if_splits)

text \<open>With distinct keys the comprehension is a plain map in the order of the list.\<close>

lemma update_fresh: "k \<notin> fst ` set d \<Longrightarrow> dict_set d k v = d @ [(k, v)]"
  by (induction d) auto

lemma dict_of_distinct: "distinct (map key xs) \<Longrightarrow> dict_of key val xs = map (\<lambda>x. (key x, val x)) xs"
proof (induction xs rule: rev_induct)
  case Nil
  then show ?case by simp
next
  case (snoc x xs)
  then have "dict_of key val xs = map (\<lambda>x. (key x, val x)) xs" and "key x \<notin> key ` set xs"
    by auto
  then show ?case by (auto simp: dict_of_snoc update_fresh image_iff)
qed

lemma dict_of_get_distinct:
  "distinct (map key xs) \<Longrightarrow> x \<in> set xs \<Longrightarrow> dict_get (dict_of key val xs) (key x) = Some (val x)"
  by (simp add: dict_of_distinct map_of_eq_Some_iff comp_def)

section \<open>Lemmas on collecting loops\<close>

lemma collect_Nil_iff [check_simps]: "collect f xs = Inr [] \<longleftrightarrow> (\<forall>x\<in>set xs. f x = Inr [])"
  by (induction xs) (auto split: sum.splits)

lemma and_then_Nil_iff [check_simps]: "and_then a b = Inr [] \<longleftrightarrow> a = Inr [] \<and> b = Inr []"
  by (auto simp: and_then_def split: sum.splits)

lemma and_then_Inr: "and_then a b = Inr zs \<longleftrightarrow> (\<exists>xs ys. a = Inr xs \<and> b = Inr ys \<and> zs = xs @ ys)"
  by (auto simp: and_then_def split: sum.splits)

lemma and_then_total: "(\<exists>zs. and_then a b = Inr zs) \<longleftrightarrow> (\<exists>xs. a = Inr xs) \<and> (\<exists>ys. b = Inr ys)"
  by (auto simp: and_then_def split: sum.splits)

lemma collect_total:
  assumes "\<And>x. x \<in> set xs \<Longrightarrow> \<exists>ys. f x = Inr ys"
  shows "\<exists>ys. collect f xs = Inr ys"
  using assms
proof (induction xs)
  case Nil
  then show ?case by simp
next
  case (Cons x xs)
  then obtain ys zs where "f x = Inr ys" "collect f xs = Inr zs"
    by (metis list.set_intros(1,2))
  then show ?case by simp
qed

lemma collect_Inr_iff: "(\<exists>ys. collect f xs = Inr ys) \<longleftrightarrow> (\<forall>x\<in>set xs. \<exists>ys. f x = Inr ys)"
  by (induction xs) (auto split: sum.splits)

lemma set_collect:
  "collect f xs = Inr ys \<Longrightarrow> y \<in> set ys \<longleftrightarrow> (\<exists>x\<in>set xs. \<exists>zs. f x = Inr zs \<and> y \<in> set zs)"
  by (induction xs arbitrary: ys) (auto split: sum.splits)

lemma collect_pure: "(\<And>x. x \<in> set xs \<Longrightarrow> f x = Inr (g x)) \<Longrightarrow> collect f xs = Inr (concat (map g xs))"
  by (induction xs) auto

section \<open>Lemmas on numbers in text\<close>

lemma code_digit_char [simp]: "d < 10 \<Longrightarrow> code_of (digit_char d) = 48 + d"
  by (simp add: code_of_def digit_char_def)

lemma is_digit_digit_char [simp]: "d < 10 \<Longrightarrow> is_digit (digit_char d)"
  by (simp add: is_digit_def)

lemma digit_val_digit_char [simp]: "d < 10 \<Longrightarrow> digit_val (digit_char d) = d"
  by (simp add: digit_val_def)

lemma nat_of_digits_snoc [simp]: "nat_of_digits (s @ [c]) = 10 * nat_of_digits s + digit_val c"
  by (simp add: nat_of_digits_def)

lemma nat_of_digits_string_of_nat [simp]: "nat_of_digits (string_of_nat n) = n"
proof (induction n rule: string_of_nat.induct)
  case (1 n)
  show ?case
  proof (cases "n < 10")
    case True
    then show ?thesis by (simp add: string_of_nat.simps [of n] nat_of_digits_def)
  next
    case False
    with 1 have "nat_of_digits (string_of_nat (n div 10)) = n div 10" by simp
    with False show ?thesis by (simp add: string_of_nat.simps [of n])
  qed
qed

lemma string_of_nat_digits: "\<forall>c\<in>set (string_of_nat n). is_digit c"
proof (induction n rule: string_of_nat.induct)
  case (1 n)
  then show ?case by (cases "n < 10") (auto simp: string_of_nat.simps [of n])
qed

lemma string_of_nat_nonempty [simp]: "string_of_nat n \<noteq> []"
  by (subst string_of_nat.simps) simp

lemma string_of_nat_inject [simp]: "string_of_nat m = string_of_nat n \<longleftrightarrow> m = n"
  by (metis nat_of_digits_string_of_nat)

lemma digit_not_special: "is_digit c \<Longrightarrow> \<not> is_space c \<and> c \<noteq> CHR ''_'' \<and> c \<noteq> CHR ''-'' \<and> c \<noteq> CHR ''+''"
  by (auto simp: is_digit_def is_space_def code_of_def)

lemma read_digits_digits: "\<forall>c\<in>set s. is_digit c \<Longrightarrow> read_digits s = (s, [])"
proof (induction s rule: read_digits.induct)
  case 1
  then show ?case by simp
next
  case (2 c cs)
  then show ?case by (cases cs) (auto dest: digit_not_special)
qed

lemma py_strip_digits: "s \<noteq> [] \<Longrightarrow> \<forall>c\<in>set s. is_digit c \<Longrightarrow> py_strip s = s"
proof -
  assume ne: "s \<noteq> []" and d: "\<forall>c\<in>set s. is_digit c"
  then have "\<And>c. c \<in> set s \<Longrightarrow> \<not> is_space c" by (simp add: digit_not_special)
  then have "dropWhile is_space s = s" "dropWhile is_space (rev s) = rev s"
    using ne by (simp_all add: dropWhile_eq_self_iff hd_rev)
  then show ?thesis by (simp add: py_strip_def)
qed

lemma split_sign_digits: "s \<noteq> [] \<Longrightarrow> \<forall>c\<in>set s. is_digit c \<Longrightarrow> split_sign s = (False, s)"
  by (cases s) (auto simp: split_sign_def dest: digit_not_special)

text \<open>Printing an index and reading it back.\<close>

lemma py_int_of_string_of_nat:
  "length (string_of_nat n) \<le> int_max_str_digits \<Longrightarrow> py_int_of_string (string_of_nat n) = Inr (int n)"
  using string_of_nat_digits [of n]
  by (simp add: py_int_of_string_def py_strip_digits split_sign_digits read_digits_digits int_of_digits_def)

lemma startswith_append [simp]: "startswith (p @ s) p"
  by (simp add: startswith_def)

lemma removeprefix_append [simp]: "removeprefix (p @ s) p = s"
  by (simp add: removeprefix_def)

section \<open>Invariants of step relations\<close>

text \<open>A property every step of a relation keeps holds at the end of every run that starts with it.\<close>

locale step_invariant =
  fixes step :: "'s \<Rightarrow> 's \<Rightarrow> bool" and inv :: "'s \<Rightarrow> bool"
  assumes step_inv: "inv s \<Longrightarrow> step s s' \<Longrightarrow> inv s'"
begin

lemma run_inv: "step\<^sup>*\<^sup>* s s' \<Longrightarrow> inv s \<Longrightarrow> inv s'"
  by (induction rule: rtranclp_induct) (auto intro: step_inv)

lemma run_inv_both: "step\<^sup>*\<^sup>* s s' \<Longrightarrow> step\<^sup>*\<^sup>* s' s'' \<Longrightarrow> inv s \<Longrightarrow> inv s' \<and> inv s''"
  using run_inv by blast

end

end
