(* ===== verification/Registry.thy ===== *)
theory Registry
  imports Prelude
begin

text \<open>
  The typed node registry: \<open>app/node_registry/base.py\<close> (port types, port, parameter and node
  type definitions) and \<open>app/node_registry/registry.py\<close> (\<open>NodeTypeRegistry\<close>). A registry is the
  dictionary \<open>_types\<close> of the class; \<open>register\<close> and \<open>_load_builtins\<close> return the updated one.
  The interface the pipeline validator uses (look a type up, ask whether an edge is allowed) is
  the locale \<open>node_registry\<close>; \<open>NodeTypeRegistry\<close> is its interpretation.
\<close>

section \<open>Data\<close>

datatype PortType =
    VIDEO | AUDIO | IMAGE | SUBTITLE | ANY_MEDIA | SEARCH_RESULTS | URL_VALUE | ASSET_VALUE

record PortDefinition =
  port_name :: string
  port_type :: PortType
  port_required :: bool
  port_description :: string

record ParamDefinition =
  param_name :: string
  param_type :: string
  param_default :: pyval
  param_required :: bool
  param_description :: string
  param_options :: "string list option"
  param_min_value :: "pyfloat option"
  param_max_value :: "pyfloat option"

record NodeTypeDefinition =
  type_name :: string
  display_name :: string
  category :: string
  nd_description :: string
  icon :: string
  inputs :: "PortDefinition list"
  outputs :: "PortDefinition list"
  params :: "ParamDefinition list"
  worker_type :: string

type_synonym registry = "(string, NodeTypeDefinition) dict"

section \<open>Operations\<close>

definition register :: "registry \<Rightarrow> NodeTypeDefinition \<Rightarrow> registry" where
  "register types d = dict_set types (type_name d) d"

definition get_type :: "registry \<Rightarrow> string \<Rightarrow> NodeTypeDefinition option" where
  "get_type types name = dict_get types name"

definition list_types :: "registry \<Rightarrow> NodeTypeDefinition list" where
  "list_types types = map snd types"

text \<open>\<open>next((p for p in ports if p.name == name), None)\<close>\<close>

definition find_port :: "PortDefinition list \<Rightarrow> string \<Rightarrow> PortDefinition option" where
  "find_port ports name = find (\<lambda>p. port_name p = name) ports"

definition validate_edge :: "registry \<Rightarrow> string \<Rightarrow> string \<Rightarrow> string \<Rightarrow> string \<Rightarrow> bool" where
  "validate_edge types source_type source_port target_type target_port =
     (case (dict_get types source_type, dict_get types target_type) of
        (Some src_def, Some tgt_def) \<Rightarrow>
          (case (find_port (outputs src_def) source_port, find_port (inputs tgt_def) target_port) of
             (Some src_port_def, Some tgt_port_def) \<Rightarrow>
               if port_type tgt_port_def = ANY_MEDIA then True
               else if port_type src_port_def = ANY_MEDIA then True
               else port_type src_port_def = port_type tgt_port_def
           | _ \<Rightarrow> False)
      | _ \<Rightarrow> False)"

definition load_builtins :: "NodeTypeDefinition list \<Rightarrow> registry \<Rightarrow> registry" where
  "load_builtins mods types = foldl register types mods"

section \<open>The interface of a registry\<close>

text \<open>
  What the validator and the engine rely on: registering a definition makes it the answer for
  its own name and changes no other answer, and an edge is only ever allowed between two known
  types, from a declared output to a declared input, with equal or unrestricted port types.
\<close>

definition compatible_ports :: "PortDefinition \<Rightarrow> PortDefinition \<Rightarrow> bool" where
  "compatible_ports src tgt \<longleftrightarrow>
     port_type tgt = ANY_MEDIA \<or> port_type src = ANY_MEDIA \<or> port_type src = port_type tgt"

locale node_registry =
  fixes reg :: "'r \<Rightarrow> NodeTypeDefinition \<Rightarrow> 'r"
    and lookup :: "'r \<Rightarrow> string \<Rightarrow> NodeTypeDefinition option"
    and edge_ok :: "'r \<Rightarrow> string \<Rightarrow> string \<Rightarrow> string \<Rightarrow> string \<Rightarrow> bool"
  assumes lookup_reg: "lookup (reg r d) t = (if t = type_name d then Some d else lookup r t)"
    and edge_ok_iff: "edge_ok r st sp tt tp \<longleftrightarrow>
      (\<exists>sd td p q. lookup r st = Some sd \<and> lookup r tt = Some td
         \<and> find_port (outputs sd) sp = Some p \<and> find_port (inputs td) tp = Some q
         \<and> compatible_ports p q)"
begin

lemma lookup_foldl:
  "distinct (map type_name ds) \<Longrightarrow> d \<in> set ds \<Longrightarrow> lookup (foldl reg r ds) (type_name d) = Some d"
proof (induction ds rule: rev_induct)
  case Nil
  then show ?case by simp
next
  case (snoc x ds)
  then show ?case by (cases "d = x") (auto simp: lookup_reg image_iff)
qed

lemma lookup_foldl_other:
  "t \<notin> type_name ` set ds \<Longrightarrow> lookup (foldl reg r ds) t = lookup r t"
  by (induction ds rule: rev_induct) (auto simp: lookup_reg)

lemma lookup_foldl_Some:
  assumes "lookup (foldl reg r ds) t = Some d"
  shows "d \<in> set ds \<and> t = type_name d \<or> lookup r t = Some d"
  using assms by (induction ds rule: rev_induct) (auto simp: lookup_reg split: if_splits)

lemma edge_survives_reg:
  assumes "edge_ok r st sp tt tp" and "type_name d \<noteq> st" and "type_name d \<noteq> tt"
  shows "edge_ok (reg r d) st sp tt tp"
  using assms by (auto simp: edge_ok_iff lookup_reg)

end

lemma validate_edge_iff:
  "validate_edge r st sp tt tp \<longleftrightarrow>
     (\<exists>sd td p q. get_type r st = Some sd \<and> get_type r tt = Some td
        \<and> find_port (outputs sd) sp = Some p \<and> find_port (inputs td) tp = Some q
        \<and> compatible_ports p q)"
  by (auto simp: validate_edge_def get_type_def compatible_ports_def split: option.splits)

interpretation reg: node_registry register get_type validate_edge
  by unfold_locales (auto simp: register_def get_type_def dict_simps validate_edge_iff)

lemma find_port_SomeD: "find_port ps n = Some p \<Longrightarrow> p \<in> set ps \<and> port_name p = n"
  by (auto simp: find_port_def find_Some_iff)

end
