(* ===== verification/Planner.thy ===== *)
theory Planner
  imports Registry
begin

text \<open>
  The pipeline documents of \<open>app/schemas/pipeline.py\<close> and the planner helpers of
  \<open>app/orchestrator/planner.py\<close>: which node types exist only at planning time, the handles of a
  \<open>zip_records\<close> node, and the compilation of a definition into the one that is executed.
  Message texts of validation errors and warnings are not modelled; every other field is.
\<close>

section \<open>Pipeline documents\<close>

record PipelineNode =
  node_id :: string
  node_type :: string
  position :: "(string, pyfloat) dict"
  node_label :: string
  node_config :: config
  node_asset_id :: "string option"

record PipelineEdge =
  edge_id :: string
  edge_source :: string
  edge_target :: string
  sourceHandle :: string
  targetHandle :: string

record PipelineDefinition =
  nodes :: "PipelineNode list"
  edges :: "PipelineEdge list"
  viewport :: "(string, pyfloat) dict"

record ValidationError =
  err_type :: string
  err_node_id :: "string option"
  err_edge_id :: "string option"
  err_nodes :: "string list option"
  err_source_port :: "string option"
  err_target_port :: "string option"
  err_param_name :: "string option"

record ValidationWarning =
  warn_type :: string
  warn_node_id :: "string option"

record ValidationResult =
  valid :: bool
  errors :: "ValidationError list"
  warnings :: "ValidationWarning list"

definition error_of_type :: "string \<Rightarrow> ValidationError" where
  "error_of_type t = \<lparr>err_type = t, err_node_id = None, err_edge_id = None, err_nodes = None,
     err_source_port = None, err_target_port = None, err_param_name = None\<rparr>"

section \<open>Planner node types and handles\<close>

definition SEARCH_NODE_TYPES :: "string list" where
  "SEARCH_NODE_TYPES =
     [''youtube_search'', ''x_search'', ''xiaohongshu_search'', ''bilibili_search'', ''material_search'']"

definition PLANNER_NODE_TYPES :: "string list" where
  "PLANNER_NODE_TYPES = SEARCH_NODE_TYPES @ [''zip_records'']"

definition SEARCH_RESULTS_HANDLE :: string where "SEARCH_RESULTS_HANDLE = ''results''"
definition ZIP_INPUT_PREFIX :: string where "ZIP_INPUT_PREFIX = ''input_''"
definition ZIP_OUTPUT_PREFIX :: string where "ZIP_OUTPUT_PREFIX = ''output_''"
definition URL_INPUT_HANDLE :: string where "URL_INPUT_HANDLE = ''url_input''"
definition ASSET_INPUT_HANDLE :: string where "ASSET_INPUT_HANDLE = ''asset_input''"

definition is_planner_node_type :: "string \<Rightarrow> bool" where
  "is_planner_node_type t = (t \<in> set PLANNER_NODE_TYPES)"

definition is_search_node_type :: "string \<Rightarrow> bool" where
  "is_search_node_type t = (t \<in> set SEARCH_NODE_TYPES)"

text \<open>
  \<open>int(raw)\<close> is guarded against \<open>TypeError\<close> and \<open>ValueError\<close> only: an infinite float escapes as
  \<open>OverflowError\<close>.
\<close>

definition get_zip_channel_count :: "config \<Rightarrow> py_exn + int" where
  "get_zip_channel_count cfg =
     (case py_int (dict_get_or cfg ''channel_count'' (PInt 2)) of
        Inl TypeError \<Rightarrow> Inr 2
      | Inl ValueError \<Rightarrow> Inr 2
      | Inl e \<Rightarrow> Inl e
      | Inr n \<Rightarrow> Inr (max 1 n))"

definition is_zip_handle :: "string \<Rightarrow> string \<Rightarrow> int \<Rightarrow> bool" where
  "is_zip_handle prefix handle channel_count =
     (if \<not> startswith handle prefix then False
      else (case py_int_of_string (removeprefix handle prefix) of
              Inl _ \<Rightarrow> False
            | Inr index \<Rightarrow> 1 \<le> index \<and> index \<le> channel_count))"

definition is_zip_input_handle :: "string \<Rightarrow> int \<Rightarrow> bool" where
  "is_zip_input_handle = is_zip_handle ZIP_INPUT_PREFIX"

definition is_zip_output_handle :: "string \<Rightarrow> int \<Rightarrow> bool" where
  "is_zip_output_handle = is_zip_handle ZIP_OUTPUT_PREFIX"

definition compile_runtime_definition :: "PipelineDefinition \<Rightarrow> PipelineDefinition" where
  "compile_runtime_definition d =
     (let planner_node_ids = map node_id (filter (\<lambda>n. is_planner_node_type (node_type n)) (nodes d))
      in d\<lparr>nodes := filter (\<lambda>n. node_id n \<notin> set planner_node_ids) (nodes d),
           edges := filter (\<lambda>e. edge_source e \<notin> set planner_node_ids
                              \<and> edge_target e \<notin> set planner_node_ids) (edges d)\<rparr>)"

section \<open>Facts about handles\<close>

text \<open>The handles a zip node prints for its channels are the ones it accepts.\<close>

lemma is_zip_handle_printed:
  "length (string_of_nat i) \<le> int_max_str_digits \<Longrightarrow>
   is_zip_handle p (p @ string_of_nat i) n \<longleftrightarrow> 1 \<le> i \<and> int i \<le> n"
  by (auto simp: is_zip_handle_def py_int_of_string_of_nat)

lemma get_zip_channel_count_ge_1: "get_zip_channel_count cfg = Inr n \<Longrightarrow> 1 \<le> n"
  by (auto simp: get_zip_channel_count_def split: sum.splits py_exn.splits)

lemma is_search_imp_planner: "is_search_node_type t \<Longrightarrow> is_planner_node_type t"
  by (simp add: is_search_node_type_def is_planner_node_type_def PLANNER_NODE_TYPES_def)

section \<open>Facts about the compiled definition\<close>

definition planner_ids :: "PipelineDefinition \<Rightarrow> string set" where
  "planner_ids d = {node_id n |n. n \<in> set (nodes d) \<and> is_planner_node_type (node_type n)}"

lemma nodes_compile:
  "nodes (compile_runtime_definition d) = filter (\<lambda>n. node_id n \<notin> planner_ids d) (nodes d)"
  by (auto simp: compile_runtime_definition_def Let_def planner_ids_def intro!: filter_cong)

lemma edges_compile:
  "edges (compile_runtime_definition d) =
     filter (\<lambda>e. edge_source e \<notin> planner_ids d \<and> edge_target e \<notin> planner_ids d) (edges d)"
  by (auto simp: compile_runtime_definition_def Let_def planner_ids_def intro!: filter_cong)

lemma planner_ids_empty:
  "planner_ids d = {} \<longleftrightarrow> (\<forall>n\<in>set (nodes d). \<not> is_planner_node_type (node_type n))"
  by (auto simp: planner_ids_def)

lemma compile_no_planner_node:
  "n \<in> set (nodes (compile_runtime_definition d)) \<Longrightarrow> \<not> is_planner_node_type (node_type n)"
  by (auto simp: nodes_compile planner_ids_def)

lemma compile_identity:
  assumes "\<forall>n\<in>set (nodes d). \<not> is_planner_node_type (node_type n)"
  shows "compile_runtime_definition d = d"
proof -
  have "planner_ids d = {}" using assms by (simp add: planner_ids_empty)
  then have "nodes (compile_runtime_definition d) = nodes d"
    and "edges (compile_runtime_definition d) = edges d"
    by (simp_all add: nodes_compile edges_compile)
  then show ?thesis by (simp add: compile_runtime_definition_def Let_def)
qed

lemma compile_idempotent: "compile_runtime_definition (compile_runtime_definition d) = compile_runtime_definition d"
  by (rule compile_identity) (simp add: compile_no_planner_node)

end
