(* ===== verification/Graph.thy ===== *)
theory Graph
  imports Planner
begin

text \<open>
  The graph part of \<open>app/orchestrator/dag.py\<close>: \<open>_build_graph\<close>, Kahn's algorithm
  \<open>_kahn_topological_order\<close>, \<open>topological_sort\<close> and \<open>build_dependency_map\<close>. The queue is a
  \<open>deque\<close>, a list popped at its head; \<open>remaining\<close> is a dictionary whose missing key would raise
  \<open>KeyError\<close>. The loop terminates because every node that is pushed uses up one positive
  counter. The lemmas show that the result enumerates, without repetition and along the edges,
  exactly the nodes that no cycle reaches, and every node when the graph is acyclic.
\<close>

section \<open>Building the graph\<close>

definition edge_error :: "PipelineEdge \<Rightarrow> ValidationError" where
  "edge_error e = (error_of_type ''invalid_edge'')\<lparr>err_edge_id := Some (edge_id e)\<rparr>"

type_synonym in_degrees = "(string, int) dict"
type_synonym adjacency = "(string, string list) dict"

primrec build_graph_loop ::
  "string list \<Rightarrow> PipelineEdge list \<Rightarrow> in_degrees \<Rightarrow> adjacency \<Rightarrow> ValidationError list
   \<Rightarrow> in_degrees \<times> adjacency \<times> ValidationError list" where
  "build_graph_loop ids [] deg adj errs = (deg, adj, errs)"
| "build_graph_loop ids (e # es) deg adj errs =
     (if edge_source e \<notin> set ids then build_graph_loop ids es deg adj (errs @ [edge_error e])
      else if edge_target e \<notin> set ids then build_graph_loop ids es deg adj (errs @ [edge_error e])
      else build_graph_loop ids es
             (dict_set deg (edge_target e) (dict_get_or deg (edge_target e) 0 + 1))
             (dict_append adj (edge_source e) (edge_target e)) errs)"

definition build_graph :: "PipelineDefinition \<Rightarrow> in_degrees \<times> adjacency \<times> ValidationError list" where
  "build_graph d =
     build_graph_loop (map node_id (nodes d)) (edges d) (dict_of node_id (\<lambda>_. 0) (nodes d)) [] []"

section \<open>Kahn's algorithm\<close>

text \<open>The inner loop over the successors of a node.\<close>

fun relax :: "string list \<Rightarrow> in_degrees \<Rightarrow> string list \<Rightarrow> py_exn + in_degrees \<times> string list" where
  "relax [] remaining queue = Inr (remaining, queue)"
| "relax (downstream # rest) remaining queue =
     (case dict_get remaining downstream of
        None \<Rightarrow> Inl KeyError
      | Some c \<Rightarrow>
          relax rest (dict_set remaining downstream (c - 1))
            (if c - 1 = 0 then queue @ [downstream] else queue))"

definition open_count :: "in_degrees \<Rightarrow> nat" where
  "open_count remaining = length (filter (\<lambda>p. snd p > 0) remaining)"

lemma open_count_set:
  "dict_get remaining x = Some c \<Longrightarrow>
   open_count (dict_set remaining x (c - 1)) + (if c - 1 = 0 then 1 else 0) = open_count remaining"
  by (induction remaining) (auto simp: open_count_def)

lemma relax_measure:
  "relax xs remaining queue = Inr (remaining', queue') \<Longrightarrow>
   open_count remaining' + length queue' = open_count remaining + length queue"
proof (induction xs remaining queue rule: relax.induct)
  case (1 remaining queue)
  then show ?case by simp
next
  case (2 x rest remaining queue)
  then obtain c where c: "dict_get remaining x = Some c" by (auto split: option.splits)
  with 2 show ?case using open_count_set [OF c] by (auto split: if_splits)
qed

function kahn_loop :: "adjacency \<Rightarrow> string list \<Rightarrow> in_degrees \<Rightarrow> string list \<Rightarrow> py_exn + string list" where
  "kahn_loop adj [] remaining order = Inr order"
| "kahn_loop adj (nid # queue) remaining order =
     (case relax (dict_get_or adj nid []) remaining queue of
        Inl e \<Rightarrow> Inl e
      | Inr (remaining', queue') \<Rightarrow> kahn_loop adj queue' remaining' (order @ [nid]))"
  by pat_completeness auto
termination
  by (relation "measure (\<lambda>(adj, queue, remaining, order). open_count remaining + length queue)")
    (auto dest: relax_measure)

definition kahn_topological_order :: "in_degrees \<Rightarrow> adjacency \<Rightarrow> py_exn + string list" where
  "kahn_topological_order in_degree adj =
     kahn_loop adj (map fst (filter (\<lambda>(nid, deg). deg = 0) in_degree)) in_degree []"

definition topological_sort :: "PipelineDefinition \<Rightarrow> py_exn + string list" where
  "topological_sort d = (let (in_degree, adj, _) = build_graph d in kahn_topological_order in_degree adj)"

definition add_dependency :: "(string, string list) dict \<Rightarrow> PipelineEdge \<Rightarrow> (string, string list) dict" where
  "add_dependency deps e =
     (if edge_target e \<in> set (dict_keys deps) then dict_append deps (edge_target e) (edge_source e) else deps)"

definition build_dependency_map :: "PipelineDefinition \<Rightarrow> (string, string list) dict" where
  "build_dependency_map d = foldl add_dependency (dict_of node_id (\<lambda>_. []) (nodes d)) (edges d)"

section \<open>The graph of a definition\<close>

definition node_ids :: "PipelineDefinition \<Rightarrow> string set" where
  "node_ids d = node_id ` set (nodes d)"

definition good_edge :: "PipelineDefinition \<Rightarrow> PipelineEdge \<Rightarrow> bool" where
  "good_edge d e \<longleftrightarrow> edge_source e \<in> node_ids d \<and> edge_target e \<in> node_ids d"

definition arcs :: "PipelineDefinition \<Rightarrow> (string \<times> string) list" where
  "arcs d = map (\<lambda>e. (edge_source e, edge_target e)) (filter (good_edge d) (edges d))"

definition edge_rel :: "PipelineDefinition \<Rightarrow> (string \<times> string) set" where
  "edge_rel d = set (arcs d)"

definition succs_of :: "('a \<times> 'a) list \<Rightarrow> 'a \<Rightarrow> 'a list" where
  "succs_of es u = map snd (filter (\<lambda>p. fst p = u) es)"

definition open_preds :: "('a \<times> 'a) list \<Rightarrow> 'a set \<Rightarrow> 'a \<Rightarrow> nat" where
  "open_preds es seen v = length (filter (\<lambda>p. snd p = v \<and> fst p \<notin> seen) es)"

lemma edge_rel_nodes: "edge_rel d \<subseteq> node_ids d \<times> node_ids d"
  by (auto simp: edge_rel_def arcs_def good_edge_def)

lemma edge_rel_iff:
  "(u, v) \<in> edge_rel d \<longleftrightarrow>
     (\<exists>e\<in>set (edges d). good_edge d e \<and> edge_source e = u \<and> edge_target e = v)"
  by (auto simp: edge_rel_def arcs_def)

lemma finite_edge_rel [simp]: "finite (edge_rel d)"
  by (simp add: edge_rel_def)

text \<open>What the loop of \<open>_build_graph\<close> leaves in its three results.\<close>

lemma build_graph_loop_spec:
  fixes d :: PipelineDefinition and es :: "PipelineEdge list"
  defines "as \<equiv> map (\<lambda>e. (edge_source e, edge_target e)) (filter (good_edge d) es)"
  assumes "build_graph_loop (map node_id (nodes d)) es deg adj errs = (deg', adj', errs')"
    and "node_ids d \<subseteq> set (dict_keys deg)"
  shows "dict_keys deg' = dict_keys deg
    \<and> (\<forall>v\<in>set (dict_keys deg). dict_get_or deg' v 0 = dict_get_or deg v 0 + int (open_preds as {} v))
    \<and> (\<forall>u. dict_get_or adj' u [] = dict_get_or adj u [] @ succs_of as u)
    \<and> errs' = errs @ map edge_error (filter (\<lambda>e. \<not> good_edge d e) es)"
  using assms(2,3) unfolding as_def
proof (induction es arbitrary: deg adj errs)
  case Nil
  then show ?case by (simp add: open_preds_def succs_of_def)
next
  case (Cons e es)
  show ?case
  proof (cases "good_edge d e")
    case False
    then have "build_graph_loop (map node_id (nodes d)) es deg adj (errs @ [edge_error e]) = (deg', adj', errs')"
      using Cons.prems(1) by (auto simp: good_edge_def node_ids_def split: if_splits)
    from Cons.IH [OF this Cons.prems(2)] False show ?thesis by simp
  next
    case True
    let ?deg = "dict_set deg (edge_target e) (dict_get_or deg (edge_target e) 0 + 1)"
    let ?adj = "dict_append adj (edge_source e) (edge_target e)"
    have t: "edge_target e \<in> set (dict_keys deg)" using True Cons.prems(2) by (auto simp: good_edge_def)
    then have k: "dict_keys ?deg = dict_keys deg" by (simp add: update_keys)
    have "build_graph_loop (map node_id (nodes d)) es ?deg ?adj errs = (deg', adj', errs')"
      using Cons.prems(1) True by (auto simp: good_edge_def node_ids_def)
    from Cons.IH [OF this] Cons.prems(2) k True show ?thesis
      by (auto simp: dict_simps open_preds_def succs_of_def)
  qed
qed

lemma dict_of_const: "dict_get (dict_of key (\<lambda>_. c) xs) k = (if k \<in> key ` set xs then Some c else None)"
  by (induction xs rule: rev_induct) (auto simp: dict_of_snoc dict_simps)

lemma build_graph_spec:
  assumes "build_graph d = (deg, adj, errs)"
  shows "dict_keys deg = dict_keys (dict_of node_id (\<lambda>_. 0 :: int) (nodes d))"
    and "v \<in> node_ids d \<Longrightarrow> dict_get deg v = Some (int (open_preds (arcs d) {} v))"
    and "dict_get_or adj u [] = succs_of (arcs d) u"
    and "errs = map edge_error (filter (\<lambda>e. \<not> good_edge d e) (edges d))"
proof -
  let ?deg0 = "dict_of node_id (\<lambda>_. 0 :: int) (nodes d)"
  have keys: "set (dict_keys ?deg0) = node_ids d" by (simp add: node_ids_def)
  note s = build_graph_loop_spec [OF assms [unfolded build_graph_def], folded arcs_def]
  then have kk: "dict_keys deg = dict_keys ?deg0" using keys by simp
  then show "dict_keys deg = dict_keys ?deg0" .
  show "dict_get_or adj u [] = succs_of (arcs d) u" using s keys by (simp add: dict_get_or_def)
  show "errs = map edge_error (filter (\<lambda>e. \<not> good_edge d e) (edges d))" using s keys by simp
  show "dict_get deg v = Some (int (open_preds (arcs d) {} v))" if "v \<in> node_ids d"
  proof -
    have "v \<in> set (dict_keys deg)" using that keys kk by simp
    then obtain c where c: "dict_get deg v = Some c" by (metis dict_get_None list.set_map not_None_eq)
    have "dict_get_or deg v 0 = dict_get_or ?deg0 v 0 + int (open_preds (arcs d) {} v)"
      using s keys that by blast
    moreover have "dict_get_or ?deg0 v 0 = 0" by (simp add: dict_get_or_def dict_of_const)
    ultimately show ?thesis using c by (simp add: dict_get_or_def)
  qed
qed

section \<open>Correctness of Kahn's algorithm\<close>

text \<open>
  The inner loop lowers each counter by the number of times the node occurs among the
  successors and pushes, once each, the nodes whose counter passes zero on the way.
\<close>

lemma relax_spec:
  assumes "set xs \<subseteq> fst ` set rem"
  shows "\<exists>rem' new. relax xs rem q = Inr (rem', q @ new)
    \<and> (\<forall>v. dict_get rem' v = map_option (\<lambda>c. c - int (count_list xs v)) (dict_get rem v))
    \<and> fst ` set rem' = fst ` set rem \<and> distinct new
    \<and> set new = {v. \<exists>c. dict_get rem v = Some c \<and> 1 \<le> c \<and> c \<le> int (count_list xs v)}"
  using assms
proof (induction xs arbitrary: rem q)
  case Nil
  show ?case by (intro exI [of _ rem] exI [of _ "[]"]) (auto simp: option.map_ident)
next
  case (Cons x xs)
  then obtain c where c: "dict_get rem x = Some c" by (metis dict_get_None insert_subset list.simps(15) not_None_eq)
  let ?rem = "dict_set rem x (c - 1)" and ?q = "if c - 1 = 0 then q @ [x] else q"
  have keys: "fst ` set ?rem = fst ` set rem" using Cons.prems by (auto simp: dict_simps)
  with Cons.prems have "set xs \<subseteq> fst ` set ?rem" by auto
  from Cons.IH [OF this, of ?q] obtain rem' new where
    r: "relax xs ?rem ?q = Inr (rem', ?q @ new)" and
    g: "\<forall>v. dict_get rem' v = map_option (\<lambda>c. c - int (count_list xs v)) (dict_get ?rem v)" and
    k: "fst ` set rem' = fst ` set ?rem" and dn: "distinct new" and
    sn: "set new = {v. \<exists>c. dict_get ?rem v = Some c \<and> 1 \<le> c \<and> c \<le> int (count_list xs v)}"
    by blast
  define new' where "new' = (if c - 1 = 0 then x # new else new)"
  have a1: "relax (x # xs) rem q = Inr (rem', q @ new')"
    using c r by (auto simp: new'_def split: if_splits)
  have a2: "\<forall>v. dict_get rem' v = map_option (\<lambda>c. c - int (count_list (x # xs) v)) (dict_get rem v)"
    using g c by (auto simp: dict_simps)
  have "x \<notin> set new" if "c = 1" using sn that by (auto simp: dict_simps)
  then have a3: "distinct new'" using dn by (simp add: new'_def)
  have a4: "set new' = {v. \<exists>c. dict_get rem v = Some c \<and> 1 \<le> c \<and> c \<le> int (count_list (x # xs) v)}"
  proof (rule set_eqI, unfold mem_Collect_eq)
    fix v
    have old: "v \<in> set new \<longleftrightarrow> (\<exists>c'. dict_get ?rem v = Some c' \<and> 1 \<le> c' \<and> c' \<le> int (count_list xs v))"
      unfolding sn mem_Collect_eq ..
    have now: "v \<in> set new' \<longleftrightarrow> c = 1 \<and> v = x \<or> v \<in> set new" by (simp add: new'_def)
    show "v \<in> set new' \<longleftrightarrow> (\<exists>c. dict_get rem v = Some c \<and> 1 \<le> c \<and> c \<le> int (count_list (x # xs) v))"
    proof (cases "v = x")
      case True
      have "v \<in> set new \<longleftrightarrow> 1 \<le> c - 1 \<and> c - 1 \<le> int (count_list xs x)"
        unfolding old using True by (simp add: dict_get_set)
      then show ?thesis unfolding now using True c by auto
    next
      case False
      then show ?thesis unfolding now old by (simp add: dict_get_set)
    qed
  qed
  have a5: "fst ` set rem' = fst ` set rem" using k keys by simp
  show ?case
    by (rule exI [of _ rem'], rule exI [of _ new'], intro conjI) (fact a1 a2 a3 a4 a5)+
qed

lemma count_succs: "count_list (succs_of es u) v = length (filter (\<lambda>p. snd p = v \<and> fst p = u) es)"
  by (induction es) (auto simp: succs_of_def)

lemma open_preds_insert:
  assumes "u \<notin> seen"
  shows "open_preds es seen v = open_preds es (insert u seen) v + count_list (succs_of es u) v"
  using assms by (induction es) (auto simp: open_preds_def count_succs succs_of_def)

lemma open_preds_zero: "open_preds es seen v = 0 \<longleftrightarrow> (\<forall>u. (u, v) \<in> set es \<longrightarrow> u \<in> seen)"
  by (force simp: open_preds_def filter_empty_conv)

text \<open>Every predecessor of a listed node is listed before it.\<close>

definition topo_prefix :: "('a \<times> 'a) set \<Rightarrow> 'a list \<Rightarrow> bool" where
  "topo_prefix r order \<longleftrightarrow> (\<forall>xs n ys. order = xs @ n # ys \<longrightarrow> (\<forall>u. (u, n) \<in> r \<longrightarrow> u \<in> set xs))"

lemma topo_prefix_Nil [simp]: "topo_prefix r []"
  by (simp add: topo_prefix_def)

lemma topo_prefix_snoc:
  "topo_prefix r (order @ [n]) \<longleftrightarrow> topo_prefix r order \<and> (\<forall>u. (u, n) \<in> r \<longrightarrow> u \<in> set order)"
proof
  assume a: "topo_prefix r (order @ [n])"
  then have "\<forall>u. (u, n) \<in> r \<longrightarrow> u \<in> set order" by (auto simp: topo_prefix_def)
  moreover have "topo_prefix r order"
    unfolding topo_prefix_def
  proof (intro allI impI)
    fix xs m ys u assume "order = xs @ m # ys" and um: "(u, m) \<in> r"
    then have "order @ [n] = xs @ m # (ys @ [n])" by simp
    with a um show "u \<in> set xs" unfolding topo_prefix_def by blast
  qed
  ultimately show "topo_prefix r order \<and> (\<forall>u. (u, n) \<in> r \<longrightarrow> u \<in> set order)" by simp
next
  assume a: "topo_prefix r order \<and> (\<forall>u. (u, n) \<in> r \<longrightarrow> u \<in> set order)"
  show "topo_prefix r (order @ [n])"
    unfolding topo_prefix_def
  proof (intro allI impI)
    fix xs m ys u assume eq: "order @ [n] = xs @ m # ys" and um: "(u, m) \<in> r"
    show "u \<in> set xs"
    proof (cases ys rule: rev_cases)
      case Nil
      with eq a um show ?thesis by simp
    next
      case (snoc zs z)
      with eq have "order = xs @ m # zs" by simp
      with a um show ?thesis unfolding topo_prefix_def by blast
    qed
  qed
qed

definition kahn_inv ::
  "string set \<Rightarrow> (string \<times> string) list \<Rightarrow> string list \<Rightarrow> in_degrees \<Rightarrow> string list \<Rightarrow> bool" where
  "kahn_inv N es q rem order \<longleftrightarrow>
     distinct (order @ q) \<and> set (order @ q) \<subseteq> N \<and> fst ` set rem = N
     \<and> (\<forall>v\<in>N. dict_get rem v = Some (int (open_preds es (set order) v)))
     \<and> (\<forall>v\<in>N. v \<in> set (order @ q) \<longleftrightarrow> open_preds es (set order) v = 0)
     \<and> topo_prefix (set es) order"

lemma kahn_inv_step:
  assumes inv: "kahn_inv N es (n # q) rem order" and es: "set es \<subseteq> N \<times> N"
  obtains rem' q' where "relax (succs_of es n) rem q = Inr (rem', q')"
    and "kahn_inv N es q' rem' (order @ [n])"
proof -
  have n: "n \<notin> set order" "n \<in> N" "n \<notin> set q" and keys: "fst ` set rem = N"
    using inv by (auto simp: kahn_inv_def)
  have sub: "set (succs_of es n) \<subseteq> fst ` set rem" using es keys by (auto simp: succs_of_def)
  from relax_spec [OF sub, of q] obtain rem' new where
    r: "relax (succs_of es n) rem q = Inr (rem', q @ new)" and
    g: "\<forall>v. dict_get rem' v = map_option (\<lambda>c. c - int (count_list (succs_of es n) v)) (dict_get rem v)" and
    k: "fst ` set rem' = fst ` set rem" and dn: "distinct new" and
    sn: "set new = {v. \<exists>c. dict_get rem v = Some c \<and> 1 \<le> c \<and> c \<le> int (count_list (succs_of es n) v)}"
    by blast
  have ins: "set (order @ [n]) = insert n (set order)" by simp
  note split = open_preds_insert [OF n(1), of es]
  have rem: "dict_get rem v = Some (int (open_preds es (set order) v))" if "v \<in> N" for v
    using inv that by (simp add: kahn_inv_def)
  have old: "v \<in> set (order @ n # q) \<longleftrightarrow> open_preds es (set order) v = 0" if "v \<in> N" for v
    using inv that by (simp add: kahn_inv_def)
  have new: "v \<in> set new \<longleftrightarrow> open_preds es (set order) v \<noteq> 0 \<and> open_preds es (insert n (set order)) v = 0"
    if "v \<in> N" for v
    using sn rem [OF that] split [of v] by auto
  have newN: "set new \<subseteq> N"
  proof
    fix v assume "v \<in> set new"
    then obtain c where "dict_get rem v = Some c" using sn by blast
    then have "v \<in> fst ` set rem" by (rule dict_get_Some_key)
    then show "v \<in> N" using keys by simp
  qed
  have fresh: "v \<notin> set (order @ n # q)" if "v \<in> set new" for v
  proof -
    have v: "v \<in> N" using newN that by (rule subsetD)
    then have "open_preds es (set order) v \<noteq> 0" using new [OF v] that by simp
    then show ?thesis using old [OF v] by simp
  qed
  have "distinct (order @ n # q)" using inv by (simp add: kahn_inv_def)
  moreover have "set (order @ n # q) \<inter> set new = {}"
    using fresh by (simp only: disjoint_iff) metis
  ultimately have "distinct ((order @ n # q) @ new)" using dn by (simp only: distinct_append)
  then have "distinct ((order @ [n]) @ q @ new)" by simp
  moreover have "set ((order @ [n]) @ q @ new) \<subseteq> N"
  proof -
    have "set (order @ n # q) \<subseteq> N" using inv by (simp add: kahn_inv_def)
    then show ?thesis using newN by simp
  qed
  moreover have "\<forall>v\<in>N. dict_get rem' v = Some (int (open_preds es (set (order @ [n])) v))"
  proof
    fix v assume v: "v \<in> N"
    show "dict_get rem' v = Some (int (open_preds es (set (order @ [n])) v))"
      unfolding ins using g [rule_format, of v] rem [OF v] split [of v] by simp
  qed
  moreover have "\<forall>v\<in>N. v \<in> set ((order @ [n]) @ q @ new) \<longleftrightarrow> open_preds es (set (order @ [n])) v = 0"
  proof
    fix v assume v: "v \<in> N"
    have "v \<in> set ((order @ [n]) @ q @ new) \<longleftrightarrow> v \<in> set (order @ n # q) \<or> v \<in> set new" by auto
    then show "v \<in> set ((order @ [n]) @ q @ new) \<longleftrightarrow> open_preds es (set (order @ [n])) v = 0"
      unfolding ins using old [OF v] new [OF v] split [of v] by auto
  qed
  moreover have "topo_prefix (set es) (order @ [n])"
  proof -
    have "open_preds es (set order) n = 0" using old [OF n(2)] by simp
    then show ?thesis using inv by (simp add: topo_prefix_snoc kahn_inv_def open_preds_zero)
  qed
  ultimately have "kahn_inv N es (q @ new) rem' (order @ [n])"
    using k keys by (simp only: kahn_inv_def)
  with r show ?thesis by (rule that)
qed

lemma kahn_loop_inv:
  assumes "kahn_inv N es q rem order" and "set es \<subseteq> N \<times> N"
    and "\<And>u. dict_get_or adj u [] = succs_of es u"
  shows "\<exists>result rem'. kahn_loop adj q rem order = Inr result \<and> kahn_inv N es [] rem' result"
  using assms
proof (induction adj q rem order rule: kahn_loop.induct)
  case (1 adj rem order)
  then show ?case by auto
next
  case (2 adj n q rem order)
  obtain rem' q' where r: "relax (succs_of es n) rem q = Inr (rem', q')"
    and i: "kahn_inv N es q' rem' (order @ [n])"
    using kahn_inv_step [OF 2(2,3)] by blast
  have r': "relax (dict_get_or adj n []) rem q = Inr (rem', q')" using r 2(4) by simp
  from 2(1) [OF r' refl i 2(3,4)] r' show ?case by simp
qed


text \<open>The invariant holds when the loop starts, so \<open>topological_sort\<close> never raises.\<close>

lemma kahn_inv_start:
  assumes b: "build_graph d = (deg, adj, errs)"
  shows "kahn_inv (node_ids d) (arcs d) (map fst (filter (\<lambda>(nid, c). c = 0) deg)) deg []"
proof -
  note k = build_graph_spec(1) [OF b]
  have dk: "distinct (map fst deg)" by (simp only: k distinct_dict_of)
  have keys: "fst ` set deg = node_ids d"
    using arg_cong [OF k, of set] by (simp add: node_ids_def)
  note get = build_graph_spec(2) [OF b]
  let ?q = "map fst (filter (\<lambda>(nid, c). c = 0) deg)"
  have "distinct ?q" using dk by (simp add: distinct_map_filter)
  moreover have sub: "set ?q \<subseteq> node_ids d" using keys by auto
  moreover have "v \<in> set ?q \<longleftrightarrow> open_preds (arcs d) {} v = 0" if v: "v \<in> node_ids d" for v
  proof -
    have "v \<in> set ?q \<longleftrightarrow> (v, 0) \<in> set deg" by force
    also have "\<dots> \<longleftrightarrow> dict_get deg v = Some 0" using dk by simp
    also have "\<dots> \<longleftrightarrow> open_preds (arcs d) {} v = 0" using get [OF v] by simp
    finally show ?thesis .
  qed
  ultimately show ?thesis using keys get by (simp add: kahn_inv_def)
qed

lemma topological_sort_inv:
  obtains order rem where "topological_sort d = Inr order" and "kahn_inv (node_ids d) (arcs d) [] rem order"
proof -
  obtain deg adj errs where b: "build_graph d = (deg, adj, errs)" by (metis prod_cases3)
  have "set (arcs d) \<subseteq> node_ids d \<times> node_ids d" using edge_rel_nodes by (simp add: edge_rel_def)
  from kahn_loop_inv [OF kahn_inv_start [OF b] this build_graph_spec(3) [OF b]] that b
  show ?thesis by (auto simp: topological_sort_def kahn_topological_order_def)
qed

lemma topo_prefix_acyclic:
  assumes "topo_prefix r order" and "distinct order" and "r \<subseteq> set order \<times> set order"
  shows "acyclic r"
proof -
  let ?pos = "\<lambda>v. THE i. i < length order \<and> order ! i = v"
  have pos: "?pos (order ! i) = i" if "i < length order" for i
    using that assms(2) by (auto simp: nth_eq_iff_index_eq)
  have "r \<subseteq> inv_image less_than ?pos"
  proof
    fix p assume p: "p \<in> r"
    obtain u v where uv: "p = (u, v)" by force
    have "v \<in> set order" using p uv assms(3) by blast
    then obtain j where j: "j < length order" "order ! j = v" by (auto simp: in_set_conv_nth)
    have "order = take j order @ v # drop (Suc j) order" using j id_take_nth_drop by metis
    then have "u \<in> set (take j order)" using assms(1) p uv by (auto simp: topo_prefix_def)
    then obtain i where "i < j" "order ! i = u" using j by (auto simp: in_set_conv_nth)
    then show "p \<in> inv_image less_than ?pos" using pos [of i] pos [of j] j uv by simp
  qed
  then have "wf r" by (rule wf_subset [rotated]) simp
  then show ?thesis by (rule wf_acyclic)
qed

text \<open>A set of nodes that is never emptied by the loop contains a cycle.\<close>

lemma kahn_final_complete:
  assumes inv: "kahn_inv N es [] rem order" and "acyclic (set es)" and es: "set es \<subseteq> N \<times> N"
  shows "set order = N"
proof (rule ccontr)
  assume "set order \<noteq> N"
  then obtain v where v: "v \<in> N - set order" using inv by (auto simp: kahn_inv_def)
  have "wf (set es)" using assms(2) by (simp add: finite_acyclic_wf)
  then obtain m where m: "m \<in> N - set order" "\<And>y. (y, m) \<in> set es \<Longrightarrow> y \<notin> N - set order"
    using v by (rule wfE_min) blast
  then have "\<forall>y. (y, m) \<in> set es \<longrightarrow> y \<in> set order" using es by blast
  then have "open_preds es (set order) m = 0" by (simp add: open_preds_zero)
  moreover have "\<forall>v\<in>N. v \<in> set order \<longleftrightarrow> open_preds es (set order) v = 0"
    using inv by (simp add: kahn_inv_def)
  ultimately show False using m(1) by blast
qed

lemma topological_sort_complete_iff:
  assumes "topological_sort d = Inr order"
  shows "set order = node_ids d \<longleftrightarrow> acyclic (edge_rel d)"
proof -
  obtain order' rem where o: "topological_sort d = Inr order'" and inv: "kahn_inv (node_ids d) (arcs d) [] rem order'"
    by (rule topological_sort_inv)
  then have [simp]: "order' = order" using assms by simp
  have sub: "set (arcs d) \<subseteq> node_ids d \<times> node_ids d" using edge_rel_nodes by (simp add: edge_rel_def)
  show ?thesis
  proof
    assume "set order = node_ids d"
    then show "acyclic (edge_rel d)"
      using inv sub topo_prefix_acyclic [of "set (arcs d)" order] by (simp add: kahn_inv_def edge_rel_def)
  next
    assume "acyclic (edge_rel d)"
    then show "set order = node_ids d"
      using kahn_final_complete [OF inv] sub by (simp add: edge_rel_def)
  qed
qed

lemma topological_sort_order:
  assumes "topological_sort d = Inr order"
  shows "distinct order" and "set order \<subseteq> node_ids d" and "topo_prefix (edge_rel d) order"
  using topological_sort_inv [of d] assms by (auto simp: kahn_inv_def edge_rel_def)

section \<open>The dependency map\<close>

lemma add_dependency_get:
  "dict_get (add_dependency deps e) v =
     map_option (\<lambda>us. us @ (if edge_target e = v then [edge_source e] else [])) (dict_get deps v)"
  by (cases "dict_get deps v") (auto simp: add_dependency_def dict_get_append dict_get_or_def map_of_eq_None_iff [symmetric]
      dest: dict_get_Some_key)

lemma foldl_add_dependency_get:
  "dict_get (foldl add_dependency deps es) v =
     map_option (\<lambda>us. us @ map edge_source (filter (\<lambda>e. edge_target e = v) es)) (dict_get deps v)"
  by (induction es arbitrary: deps) (auto simp: add_dependency_get option.map_comp o_def option.map_ident)

lemma build_dependency_map_get:
  "dict_get (build_dependency_map d) v =
     (if v \<in> node_ids d then Some (map edge_source (filter (\<lambda>e. edge_target e = v) (edges d))) else None)"
  by (simp add: build_dependency_map_def foldl_add_dependency_get dict_of_const node_ids_def)

lemma build_dependency_map_keys: "dict_keys (build_dependency_map d) = dict_keys (dict_of node_id (\<lambda>_. [] :: string list) (nodes d))"
proof -
  have "dict_keys (foldl add_dependency deps es) = dict_keys deps" for deps es
    by (induction es arbitrary: deps) (simp_all add: add_dependency_def dict_append_def update_keys)
  then show ?thesis by (simp add: build_dependency_map_def)
qed


section \<open>Which nodes are sorted\<close>

lemma topo_prefix_pred:
  assumes "topo_prefix r order" and "v \<in> set order" and "(u, v) \<in> r"
  shows "u \<in> set order"
proof -
  obtain xs ys where "order = xs @ v # ys" using assms(2) by (meson split_list)
  then show ?thesis using assms(1,3) unfolding topo_prefix_def by (metis Un_iff set_append)
qed

lemma topo_prefix_no_cycle:
  assumes "topo_prefix r order" and "distinct order" and "v \<in> set order"
  shows "(v, v) \<notin> r\<^sup>+"
proof
  assume cyc: "(v, v) \<in> r\<^sup>+"
  let ?s = "r \<inter> set order \<times> set order"
  have "topo_prefix ?s order" using assms(1) by (auto simp: topo_prefix_def)
  then have "acyclic ?s" using assms(2) by (rule topo_prefix_acyclic) simp
  moreover have "(u, v) \<in> r\<^sup>+ \<Longrightarrow> (u, v) \<in> ?s\<^sup>+ \<and> u \<in> set order" for u
  proof (induction rule: converse_trancl_induct)
    case (base y)
    then show ?case using topo_prefix_pred [OF assms(1,3)] assms(3) by blast
  next
    case (step y z)
    then have "y \<in> set order" using topo_prefix_pred [OF assms(1)] by blast
    with step show ?case by (meson IntI SigmaI trancl_into_trancl2)
  qed
  ultimately show False using cyc by (auto simp: acyclic_def)
qed

lemma topo_prefix_ancestors:
  "(u, v) \<in> r\<^sup>* \<Longrightarrow> topo_prefix r order \<Longrightarrow> v \<in> set order \<Longrightarrow> u \<in> set order"
  by (induction rule: converse_rtrancl_induct) (auto dest: topo_prefix_pred)

text \<open>A node that is left over has a predecessor that is left over, so a cycle reaches it.\<close>

lemma kahn_left_over:
  assumes inv: "kahn_inv N es [] rem order" and es: "set es \<subseteq> N \<times> N" and v: "v \<in> N - set order"
  shows "\<exists>u. (u, u) \<in> (set es)\<^sup>+ \<and> (u, v) \<in> (set es)\<^sup>*"
proof (rule ccontr)
  assume no: "\<not> ?thesis"
  let ?P = "{u \<in> N - set order. (u, v) \<in> (set es)\<^sup>*}"
  let ?s = "set es \<inter> ?P \<times> ?P"
  have "acyclic ?s"
  proof (rule acyclicI, intro allI notI)
    fix x assume c: "(x, x) \<in> ?s\<^sup>+"
    then have "x \<in> ?P" by (rule trancl.cases) blast+
    moreover have "(x, x) \<in> (set es)\<^sup>+" using c by (rule trancl_mono) blast
    ultimately show False using no by blast
  qed
  then have "wf ?s" by (simp add: finite_acyclic_wf)
  moreover have "v \<in> ?P" using v by simp
  ultimately obtain m where m: "m \<in> ?P" "\<And>y. (y, m) \<in> ?s \<Longrightarrow> y \<notin> ?P"
    by (rule wfE_min) blast
  have "\<forall>v\<in>N. v \<in> set order \<longleftrightarrow> open_preds es (set order) v = 0"
    using inv by (simp add: kahn_inv_def)
  then have "open_preds es (set order) m \<noteq> 0" using m(1) by blast
  then obtain y where y: "(y, m) \<in> set es" "y \<notin> set order" by (auto simp: open_preds_zero)
  then have "y \<in> ?P" using es m(1) by (auto intro: converse_rtrancl_into_rtrancl)
  with m y show False by blast
qed

lemma topological_sort_set:
  assumes "topological_sort d = Inr order"
  shows "set order = {v \<in> node_ids d. \<nexists>u. (u, u) \<in> (edge_rel d)\<^sup>+ \<and> (u, v) \<in> (edge_rel d)\<^sup>*}"
proof -
  obtain order' rem where o: "topological_sort d = Inr order'" and inv: "kahn_inv (node_ids d) (arcs d) [] rem order'"
    by (rule topological_sort_inv)
  have [simp]: "order' = order" using o assms by simp
  have sub: "set (arcs d) \<subseteq> node_ids d \<times> node_ids d" using edge_rel_nodes by (simp add: edge_rel_def)
  note t = topological_sort_order [OF assms]
  show ?thesis
  proof (rule set_eqI)
    fix v
    show "v \<in> set order \<longleftrightarrow> v \<in> {v \<in> node_ids d. \<nexists>u. (u, u) \<in> (edge_rel d)\<^sup>+ \<and> (u, v) \<in> (edge_rel d)\<^sup>*}"
      using t(2) topo_prefix_no_cycle [OF t(3,1)] topo_prefix_ancestors [OF _ t(3)]
        kahn_left_over [OF inv sub, of v, folded edge_rel_def, simplified] by blast
  qed
qed

section \<open>Properties\<close>

text \<open>C18: \<open>topological_sort\<close> always returns. It lists, without repetition, exactly the nodes that no
  cycle reaches, each one after all of its predecessors; it lists every node exactly when the
  graph is acyclic.\<close>

theorem topological_sort_correct:
  "\<exists>order. topological_sort d = Inr order \<and> distinct order \<and> topo_prefix (edge_rel d) order
     \<and> set order = {v \<in> node_ids d. \<nexists>u. (u, u) \<in> (edge_rel d)\<^sup>+ \<and> (u, v) \<in> (edge_rel d)\<^sup>*}
     \<and> (set order = node_ids d \<longleftrightarrow> acyclic (edge_rel d))"
proof -
  obtain order where o: "topological_sort d = Inr order" by (rule topological_sort_inv)
  with topological_sort_order [OF o] topological_sort_set [OF o] topological_sort_complete_iff [OF o]
  show ?thesis by blast
qed

text \<open>C34: \<open>build_dependency_map\<close> has one entry per node id, in the order of the nodes, and the entry
  of a node lists the sources of the edges into it in the order of the edges, with repetitions.\<close>

theorem build_dependency_map_correct:
  "dict_keys (build_dependency_map d) = dict_keys (dict_of node_id (\<lambda>_. ()) (nodes d))
   \<and> dict_get (build_dependency_map d) v =
       (if v \<in> node_ids d then Some (map edge_source (filter (\<lambda>e. edge_target e = v) (edges d))) else None)"
  by (simp only: build_dependency_map_keys build_dependency_map_get
      dict_keys_dict_of_cong [of node_id "\<lambda>_. [] :: string list" "nodes d" "\<lambda>_. ()"])

end
