(* ===== verification/Validate.thy ===== *)
theory Validate
  imports Graph
begin

text \<open>
  \<open>validate_pipeline\<close> of \<open>app/orchestrator/dag.py\<close> with its helpers, stage by stage in the order
  of the source. The registry singleton is an argument. A stage returns the errors it appends,
  or the exception it lets escape; the message texts are left out, every other field of an error
  is kept. The second half states what a valid pipeline is, without loops, and shows that the
  validator decides it.
\<close>

section \<open>Helpers\<close>

definition DYNAMIC_VIDEO_INPUT_NODE_TYPES :: "string list" where
  "DYNAMIC_VIDEO_INPUT_NODE_TYPES = [''concat_timeline'', ''concat_many'']"

definition DYNAMIC_VIDEO_INPUT_MAX_COUNTS :: "(string, int) dict" where
  "DYNAMIC_VIDEO_INPUT_MAX_COUNTS = [(''concat_timeline'', 64), (''concat_many'', 64)]"

definition LEGACY_TIMELINE_INPUT_HANDLES :: "(string, string) dict" where
  "LEGACY_TIMELINE_INPUT_HANDLES = [(''video_first'', ''video_1''), (''video_second'', ''video_2'')]"

text \<open>
  \<open>VIDEO_INPUT_RE.match(handle)\<close> with its group: the pattern is \<open>^video_(\d+)$\<close>, and \<open>$\<close> also
  matches before a final newline.
\<close>

definition VIDEO_INPUT_RE_match :: "string \<Rightarrow> string option" where
  "VIDEO_INPUT_RE_match handle =
     (if startswith handle ''video_'' then
        (let body = drop 6 handle; ds = takeWhile is_digit body; rest = dropWhile is_digit body
         in if ds \<noteq> [] \<and> (rest = [] \<or> rest = [CHR 0x0A]) then Some ds else None)
      else None)"

text \<open>
  \<open>str(config.get(key) or "").strip().lower()\<close>, where it is compared with words of letters: a value
  that is not a string prints as a number, a truth value or a bracketed text, none of the words.
\<close>

definition config_word :: "config \<Rightarrow> string \<Rightarrow> string" where
  "config_word cfg key =
     (case dict_get cfg key of Some (PStr s) \<Rightarrow> py_lower (py_strip s) | _ \<Rightarrow> [])"

definition infer_actual_output_port_type :: "PipelineNode \<Rightarrow> PortType option" where
  "infer_actual_output_port_type node =
     (if node_type node = ''source'' then
        dict_get [(''video'', VIDEO), (''audio'', AUDIO), (''image'', IMAGE), (''subtitle'', SUBTITLE)]
          (config_word (node_config node) ''media_type'')
      else if node_type node = ''url_download'' then
        (if config_word (node_config node) ''format'' = ''audio_only'' then Some AUDIO else Some VIDEO)
      else None)"

definition canonical_target_handle :: "string \<Rightarrow> string \<Rightarrow> string" where
  "canonical_target_handle ntype handle =
     (if ntype = ''concat_timeline'' then dict_get_or LEGACY_TIMELINE_INPUT_HANDLES handle handle
      else handle)"

definition dynamic_video_input_index :: "string \<Rightarrow> string \<Rightarrow> py_exn + int option" where
  "dynamic_video_input_index ntype handle =
     (if ntype \<notin> set DYNAMIC_VIDEO_INPUT_NODE_TYPES then Inr None
      else
        (let handle' =
           (if ntype = ''concat_timeline'' \<and> handle \<in> set (dict_keys LEGACY_TIMELINE_INPUT_HANDLES)
            then dict_get_or LEGACY_TIMELINE_INPUT_HANDLES handle handle else handle)
         in case VIDEO_INPUT_RE_match handle' of
              None \<Rightarrow> Inr None
            | Some ds \<Rightarrow>
                (case int_of_digits ds of
                   Inl e \<Rightarrow> Inl e
                 | Inr index \<Rightarrow> Inr (if index \<ge> 1 then Some index else None))))"

text \<open>\<open>True\<close> when \<open>_dynamic_video_input_limit_error\<close> returns a message.\<close>

definition dynamic_video_input_limit_error :: "string \<Rightarrow> string \<Rightarrow> py_exn + bool" where
  "dynamic_video_input_limit_error ntype handle =
     (if ntype \<notin> set DYNAMIC_VIDEO_INPUT_NODE_TYPES then Inr False
      else
        (case VIDEO_INPUT_RE_match (canonical_target_handle ntype handle) of
           None \<Rightarrow> Inr False
         | Some ds \<Rightarrow>
             (case int_of_digits ds of
                Inl e \<Rightarrow> Inl e
              | Inr index \<Rightarrow>
                  (case dict_get DYNAMIC_VIDEO_INPUT_MAX_COUNTS ntype of
                     None \<Rightarrow> Inr False
                   | Some max_count \<Rightarrow> Inr (index > max_count)))))"

definition validate_dynamic_video_input_edge ::
  "registry \<Rightarrow> string \<Rightarrow> string \<Rightarrow> PipelineNode \<Rightarrow> bool" where
  "validate_dynamic_video_input_edge reg source_type source_port source_node =
     (case get_type reg source_type of
        None \<Rightarrow> False
      | Some source_type_def \<Rightarrow>
          (case find_port (outputs source_type_def) source_port of
             None \<Rightarrow> False
           | Some source_port_def \<Rightarrow>
               if port_type source_port_def \<notin> {VIDEO, ANY_MEDIA} then False
               else infer_actual_output_port_type source_node \<in> {None, Some VIDEO}))"

section \<open>The stages of the validator\<close>

definition nodes_by_id :: "PipelineDefinition \<Rightarrow> (string, PipelineNode) dict" where
  "nodes_by_id d = dict_of node_id (\<lambda>n. n) (nodes d)"

definition node_of_type :: "PipelineDefinition \<Rightarrow> string \<Rightarrow> string \<Rightarrow> bool" where
  "node_of_type d nid t =
     (case dict_get (nodes_by_id d) nid of None \<Rightarrow> False | Some n \<Rightarrow> node_type n = t)"

text \<open>\<open>planner_bound_url_nodes\<close> and \<open>planner_bound_source_nodes\<close>\<close>

definition planner_bound_nodes :: "PipelineDefinition \<Rightarrow> string \<Rightarrow> string \<Rightarrow> string list" where
  "planner_bound_nodes d target_type handle =
     map edge_target (filter (\<lambda>e. node_of_type d (edge_source e) ''zip_records''
       \<and> node_of_type d (edge_target e) target_type \<and> targetHandle e = handle) (edges d))"

definition planner_bound_url_nodes :: "PipelineDefinition \<Rightarrow> string list" where
  "planner_bound_url_nodes d = planner_bound_nodes d ''url_download'' URL_INPUT_HANDLE"

definition planner_bound_source_nodes :: "PipelineDefinition \<Rightarrow> string list" where
  "planner_bound_source_nodes d = planner_bound_nodes d ''source'' ASSET_INPUT_HANDLE"

definition node_error :: "string \<Rightarrow> PipelineNode \<Rightarrow> ValidationError" where
  "node_error t n = (error_of_type t)\<lparr>err_node_id := Some (node_id n)\<rparr>"

text \<open>1. Every node type is registered.\<close>

definition check_node_type :: "registry \<Rightarrow> PipelineNode \<Rightarrow> ValidationError list" where
  "check_node_type reg n =
     (if get_type reg (node_type n) = None then [node_error ''unknown_node_type'' n] else [])"

text \<open>2, 3. The edges join known nodes and close no cycle.\<close>

definition check_graph :: "PipelineDefinition \<Rightarrow> py_exn + ValidationError list" where
  "check_graph d =
     (let (in_degree, adjacency, graph_errors) = build_graph d in
      case kahn_topological_order in_degree adjacency of
        Inl e \<Rightarrow> Inl e
      | Inr topo_order \<Rightarrow>
          Inr (graph_errors @
            (if length topo_order < length (nodes_by_id d)
             then [(error_of_type ''cycle_detected'')\<lparr>err_nodes :=
                      Some (filter (\<lambda>nid. nid \<notin> set topo_order) (dict_keys (nodes_by_id d)))\<rparr>]
             else [])))"

text \<open>4. Port types.\<close>

definition port_error :: "string \<Rightarrow> PipelineEdge \<Rightarrow> ValidationError" where
  "port_error t e = (error_of_type t)\<lparr>err_edge_id := Some (edge_id e),
     err_source_port := Some (sourceHandle e), err_target_port := Some (targetHandle e)\<rparr>"

definition planner_edge_valid :: "PipelineNode \<Rightarrow> PipelineNode \<Rightarrow> PipelineEdge \<Rightarrow> py_exn + bool" where
  "planner_edge_valid src tgt e =
     (if is_search_node_type (node_type src) \<and> node_type tgt = ''zip_records'' then
        (case get_zip_channel_count (node_config tgt) of
           Inl x \<Rightarrow> Inl x
         | Inr n \<Rightarrow> Inr (sourceHandle e = SEARCH_RESULTS_HANDLE \<and> is_zip_input_handle (targetHandle e) n))
      else if node_type src = ''zip_records'' \<and> node_type tgt = ''url_download'' then
        (case get_zip_channel_count (node_config src) of
           Inl x \<Rightarrow> Inl x
         | Inr n \<Rightarrow> Inr (is_zip_output_handle (sourceHandle e) n \<and> targetHandle e = URL_INPUT_HANDLE))
      else if node_type src = ''zip_records'' \<and> node_type tgt = ''source'' then
        (case get_zip_channel_count (node_config src) of
           Inl x \<Rightarrow> Inl x
         | Inr n \<Rightarrow> Inr (is_zip_output_handle (sourceHandle e) n \<and> targetHandle e = ASSET_INPUT_HANDLE))
      else Inr False)"

definition actual_type_mismatch :: "registry \<Rightarrow> PipelineNode \<Rightarrow> PipelineNode \<Rightarrow> PipelineEdge \<Rightarrow> bool" where
  "actual_type_mismatch reg src tgt e =
     (case (infer_actual_output_port_type src, get_type reg (node_type tgt)) of
        (Some actual, Some tdef) \<Rightarrow>
          (case find_port (inputs tdef) (targetHandle e) of
             None \<Rightarrow> False
           | Some p \<Rightarrow> port_type p \<noteq> ANY_MEDIA \<and> actual \<noteq> port_type p)
      | _ \<Rightarrow> False)"

definition check_edge_ports :: "registry \<Rightarrow> PipelineNode \<Rightarrow> PipelineNode \<Rightarrow> PipelineEdge \<Rightarrow> py_exn + ValidationError list" where
  "check_edge_ports reg src tgt e =
     (case dynamic_video_input_limit_error (node_type tgt) (targetHandle e) of
        Inl x \<Rightarrow> Inl x
      | Inr True \<Rightarrow> Inr [port_error ''invalid_dynamic_input'' e]
      | Inr False \<Rightarrow>
     (case dynamic_video_input_index (node_type tgt) (targetHandle e) of
        Inl x \<Rightarrow> Inl x
      | Inr (Some _) \<Rightarrow>
          Inr (if validate_dynamic_video_input_edge reg (node_type src) (sourceHandle e) src then []
               else [port_error ''port_type_mismatch'' e])
      | Inr None \<Rightarrow>
     (if is_search_node_type (node_type src) \<or> node_type tgt = ''zip_records'' \<or> node_type src = ''zip_records'' then
        (case planner_edge_valid src tgt e of
           Inl x \<Rightarrow> Inl x
         | Inr ok \<Rightarrow> Inr (if ok then [] else [port_error ''port_type_mismatch'' e]))
      else if \<not> validate_edge reg (node_type src) (sourceHandle e) (node_type tgt) (targetHandle e) then
        Inr [port_error ''port_type_mismatch'' e]
      else Inr (if actual_type_mismatch reg src tgt e then [port_error ''port_type_mismatch'' e] else []))))"

definition check_edge :: "registry \<Rightarrow> PipelineDefinition \<Rightarrow> PipelineEdge \<Rightarrow> py_exn + ValidationError list" where
  "check_edge reg d e =
     (case (dict_get (nodes_by_id d) (edge_source e), dict_get (nodes_by_id d) (edge_target e)) of
        (Some src, Some tgt) \<Rightarrow> check_edge_ports reg src tgt e
      | _ \<Rightarrow> Inr [])"


text \<open>5. No input has two connections, and every required input has one.\<close>

type_synonym connections = "(string, string list) dict"

definition target_handle :: "PipelineDefinition \<Rightarrow> PipelineEdge \<Rightarrow> string" where
  "target_handle d e =
     (case dict_get (nodes_by_id d) (edge_target e) of
        None \<Rightarrow> targetHandle e
      | Some tgt \<Rightarrow> canonical_target_handle (node_type tgt) (targetHandle e))"

definition duplicate_error :: "PipelineEdge \<Rightarrow> string \<Rightarrow> ValidationError" where
  "duplicate_error e handle = (error_of_type ''duplicate_input_port'')\<lparr>
     err_node_id := Some (edge_target e), err_target_port := Some handle\<rparr>"

text \<open>The set \<open>connected_inputs[node]\<close> is only asked for membership and is kept as a list.\<close>

primrec scan_inputs :: "PipelineDefinition \<Rightarrow> PipelineEdge list \<Rightarrow> connections
    \<Rightarrow> ValidationError list \<Rightarrow> connections \<times> ValidationError list" where
  "scan_inputs d [] conn errs = (conn, errs)"
| "scan_inputs d (e # es) conn errs =
     (let handle = target_handle d e in
      scan_inputs d es (dict_append conn (edge_target e) handle)
        (if handle \<in> set (dict_get_or conn (edge_target e) []) then errs @ [duplicate_error e handle]
         else errs))"

definition missing_input :: "PipelineNode \<Rightarrow> string \<Rightarrow> ValidationError" where
  "missing_input n handle = (node_error ''missing_required_input'' n)\<lparr>err_target_port := Some handle\<rparr>"

definition dynamic_input_of :: "PipelineNode \<Rightarrow> PipelineEdge \<Rightarrow> py_exn + string list" where
  "dynamic_input_of n e =
     (if edge_target e = node_id n then
        (case dynamic_video_input_index (node_type n) (targetHandle e) of
           Inl x \<Rightarrow> Inl x
         | Inr None \<Rightarrow> Inr []
         | Inr (Some _) \<Rightarrow> Inr [canonical_target_handle (node_type n) (targetHandle e)])
      else Inr [])"

definition dynamic_inputs :: "PipelineDefinition \<Rightarrow> PipelineNode \<Rightarrow> py_exn + string list" where
  "dynamic_inputs d n = collect (dynamic_input_of n) (edges d)"

definition channel_handles :: "string \<Rightarrow> int \<Rightarrow> string list" where
  "channel_handles prefix channel_count = map (\<lambda>i. prefix @ string_of_nat i) [1..<nat (channel_count + 1)]"

definition check_inputs :: "registry \<Rightarrow> PipelineDefinition \<Rightarrow> connections \<Rightarrow> PipelineNode \<Rightarrow> py_exn + ValidationError list" where
  "check_inputs reg d conn n =
     (case get_type reg (node_type n) of
        None \<Rightarrow> Inr []
      | Some node_def \<Rightarrow>
          if node_type n \<in> set DYNAMIC_VIDEO_INPUT_NODE_TYPES then
            (case dynamic_inputs d n of
               Inl x \<Rightarrow> Inl x
             | Inr hs \<Rightarrow> Inr (if length (remdups hs) < 2 then [missing_input n ''video_*''] else []))
          else if node_type n = ''zip_records'' then
            (case get_zip_channel_count (node_config n) of
               Inl x \<Rightarrow> Inl x
             | Inr k \<Rightarrow> Inr (map (missing_input n)
                 (filter (\<lambda>h. h \<notin> set (dict_get_or conn (node_id n) [])) (channel_handles ''input_'' k))))
          else
            Inr (map (\<lambda>p. missing_input n (port_name p))
              (filter (\<lambda>p. port_required p \<and> port_name p \<notin> set (dict_get_or conn (node_id n) []))
                 (inputs node_def))))"

text \<open>6. The warnings.\<close>

definition check_disconnected :: "registry \<Rightarrow> PipelineDefinition \<Rightarrow> PipelineNode \<Rightarrow> ValidationWarning list" where
  "check_disconnected reg d n =
     (case get_type reg (node_type n) of
        None \<Rightarrow> []
      | Some node_def \<Rightarrow>
          if is_planner_node_type (node_type n) then []
          else if outputs node_def \<noteq> [] \<and> node_id n \<notin> set (map edge_source (edges d))
                  \<and> node_type n \<notin> {''transcode'', ''material_library_ingest''}
          then [\<lparr>warn_type = ''disconnected_node'', warn_node_id = Some (node_id n)\<rparr>] else [])"

text \<open>7. Source nodes have an asset.\<close>

definition node_has_asset :: "PipelineNode \<Rightarrow> bool" where
  "node_has_asset n =
     (py_truthy (dict_get_or (node_config n) ''asset_id'' PNone)
      \<or> (case node_asset_id n of None \<Rightarrow> False | Some a \<Rightarrow> a \<noteq> []))"

definition check_source_asset :: "PipelineDefinition \<Rightarrow> PipelineNode \<Rightarrow> ValidationError list" where
  "check_source_asset d n =
     (if node_type n = ''source'' \<and> \<not> node_has_asset n \<and> node_id n \<notin> set (planner_bound_source_nodes d)
      then [node_error ''missing_asset'' n] else [])"

text \<open>8. Parameters.\<close>

definition param_error :: "PipelineNode \<Rightarrow> ParamDefinition \<Rightarrow> ValidationError" where
  "param_error n p = (node_error ''invalid_param'' n)\<lparr>err_param_name := Some (param_name p)\<rparr>"

definition param_exempt :: "PipelineDefinition \<Rightarrow> PipelineNode \<Rightarrow> ParamDefinition \<Rightarrow> bool" where
  "param_exempt d n p =
     (node_type n = ''url_download'' \<and> param_name p = ''url'' \<and> node_id n \<in> set (planner_bound_url_nodes d)
      \<or> node_type n = ''source'' \<and> param_name p = ''asset_id'' \<and> node_id n \<in> set (planner_bound_source_nodes d))"

definition check_select :: "PipelineNode \<Rightarrow> ParamDefinition \<Rightarrow> pyval \<Rightarrow> ValidationError list" where
  "check_select n p value =
     (if param_type p = ''select'' \<and> value \<noteq> PNone then
        (case param_options p of
           None \<Rightarrow> []
         | Some opts \<Rightarrow> if value \<notin> PStr ` set opts then [param_error n p] else [])
      else [])"

definition check_param :: "PipelineDefinition \<Rightarrow> PipelineNode \<Rightarrow> ParamDefinition \<Rightarrow> py_exn + ValidationError list" where
  "check_param d n p =
     (let value = dict_get_or (node_config n) (param_name p) PNone in
      if param_exempt d n p then Inr []
      else if param_required p \<and> (value = PNone \<or> value = PStr []) then Inr [param_error n p]
      else if param_type p = ''number'' \<and> value \<noteq> PNone then
        (case py_float value of
           Inl TypeError \<Rightarrow> Inr [param_error n p]
         | Inl ValueError \<Rightarrow> Inr [param_error n p]
         | Inl x \<Rightarrow> Inl x
         | Inr v \<Rightarrow> Inr
             ((case param_min_value p of None \<Rightarrow> [] | Some lo \<Rightarrow> if float_lt v lo then [param_error n p] else []) @
              (case param_max_value p of None \<Rightarrow> [] | Some hi \<Rightarrow> if float_lt hi v then [param_error n p] else []) @
              check_select n p value))
      else Inr (check_select n p value))"

definition check_params :: "registry \<Rightarrow> PipelineDefinition \<Rightarrow> PipelineNode \<Rightarrow> py_exn + ValidationError list" where
  "check_params reg d n =
     (case get_type reg (node_type n) of
        None \<Rightarrow> Inr []
      | Some node_def \<Rightarrow> collect (check_param d n) (params node_def))"

text \<open>9. Every output channel of a zip node feeds exactly one node.\<close>

definition output_error :: "string \<Rightarrow> PipelineNode \<Rightarrow> string \<Rightarrow> ValidationError" where
  "output_error t n handle = (node_error t n)\<lparr>err_source_port := Some handle\<rparr>"

definition check_channel :: "PipelineDefinition \<Rightarrow> PipelineNode \<Rightarrow> string \<Rightarrow> ValidationError list" where
  "check_channel d n handle =
     (let targets = map edge_target
        (filter (\<lambda>e. edge_source e = node_id n \<and> sourceHandle e = handle) (edges d)) in
      if targets = [] then [output_error ''missing_required_output'' n handle]
      else if length targets > 1 then [output_error ''duplicate_output_port'' n handle] else [])"

definition check_zip_outputs :: "PipelineDefinition \<Rightarrow> PipelineNode \<Rightarrow> py_exn + ValidationError list" where
  "check_zip_outputs d n =
     (if node_type n \<noteq> ''zip_records'' then Inr []
      else
        (case get_zip_channel_count (node_config n) of
           Inl x \<Rightarrow> Inl x
         | Inr k \<Rightarrow> Inr (concat (map (check_channel d n) (channel_handles ''output_'' k)))))"

section \<open>The validator\<close>

definition validation_errors :: "registry \<Rightarrow> PipelineDefinition \<Rightarrow> py_exn + ValidationError list" where
  "validation_errors reg d =
     (let (conn, dup_errors) = scan_inputs d (edges d) [] [] in
      and_then (Inr (concat (map (check_node_type reg) (nodes d))))
     (and_then (check_graph d)
     (and_then (collect (check_edge reg d) (edges d))
     (and_then (Inr dup_errors)
     (and_then (collect (check_inputs reg d conn) (nodes d))
     (and_then (Inr (concat (map (check_source_asset d) (nodes d))))
     (and_then (collect (check_params reg d) (nodes d))
               (collect (check_zip_outputs d) (nodes d)))))))))"

definition validate_pipeline :: "registry \<Rightarrow> PipelineDefinition \<Rightarrow> py_exn + ValidationResult" where
  "validate_pipeline reg d =
     (case validation_errors reg d of
        Inl e \<Rightarrow> Inl e
      | Inr errs \<Rightarrow> Inr \<lparr>valid = (length errs = 0), errors = errs,
          warnings = concat (map (check_disconnected reg d) (nodes d))\<rparr>)"

end
