(* ===== verification/Valid_Pipelines.thy ===== *)
theory Valid_Pipelines
  imports Validate
begin

text \<open>
  What \<open>validate_pipeline\<close> promises: \<open>pipeline_ok\<close> says, without loops or error lists, when a
  pipeline can be executed, and every stage of the validator reports nothing exactly when its
  part of the specification holds.
\<close>

section \<open>The specification\<close>

definition edge_accepted :: "registry \<Rightarrow> PipelineNode \<Rightarrow> PipelineNode \<Rightarrow> PipelineEdge \<Rightarrow> bool" where
  "edge_accepted reg src tgt e \<longleftrightarrow>
     (case dynamic_video_input_index (node_type tgt) (targetHandle e) of
        Inl _ \<Rightarrow> False
      | Inr (Some i) \<Rightarrow>
          i \<le> 64 \<and> infer_actual_output_port_type src \<in> {None, Some VIDEO}
          \<and> (\<exists>sd p. get_type reg (node_type src) = Some sd
               \<and> find_port (outputs sd) (sourceHandle e) = Some p \<and> port_type p \<in> {VIDEO, ANY_MEDIA})
      | Inr None \<Rightarrow>
          if is_search_node_type (node_type src) \<or> node_type tgt = ''zip_records'' \<or> node_type src = ''zip_records''
          then planner_edge_valid src tgt e = Inr True
          else (\<exists>sd td p q. get_type reg (node_type src) = Some sd \<and> get_type reg (node_type tgt) = Some td
                  \<and> find_port (outputs sd) (sourceHandle e) = Some p
                  \<and> find_port (inputs td) (targetHandle e) = Some q \<and> compatible_ports p q
                  \<and> (\<forall>a. infer_actual_output_port_type src = Some a \<longrightarrow> port_type q \<in> {ANY_MEDIA, a})))"

definition input_connected :: "PipelineDefinition \<Rightarrow> PipelineNode \<Rightarrow> string \<Rightarrow> bool" where
  "input_connected d n handle \<longleftrightarrow>
     (\<exists>e\<in>set (edges d). edge_target e = node_id n \<and> target_handle d e = handle)"

definition dynamic_slots :: "PipelineDefinition \<Rightarrow> PipelineNode \<Rightarrow> string set" where
  "dynamic_slots d n =
     {canonical_target_handle (node_type n) (targetHandle e) |e i. e \<in> set (edges d)
        \<and> edge_target e = node_id n \<and> dynamic_video_input_index (node_type n) (targetHandle e) = Inr (Some i)}"

definition inputs_ok :: "registry \<Rightarrow> PipelineDefinition \<Rightarrow> PipelineNode \<Rightarrow> bool" where
  "inputs_ok reg d n \<longleftrightarrow>
     (if node_type n \<in> {''concat_timeline'', ''concat_many''} then
        card (dynamic_slots d n) \<ge> 2
        \<and> (\<forall>e\<in>set (edges d). edge_target e = node_id n \<longrightarrow>
              (\<exists>i. dynamic_video_input_index (node_type n) (targetHandle e) = Inr i))
      else if node_type n = ''zip_records'' then
        (\<exists>k. get_zip_channel_count (node_config n) = Inr k
           \<and> (\<forall>i\<in>{1..nat k}. input_connected d n (''input_'' @ string_of_nat i)))
      else (\<forall>nd. get_type reg (node_type n) = Some nd \<longrightarrow>
             (\<forall>p\<in>set (inputs nd). port_required p \<longrightarrow> input_connected d n (port_name p))))"

definition param_value_ok :: "ParamDefinition \<Rightarrow> pyval \<Rightarrow> bool" where
  "param_value_ok p v \<longleftrightarrow>
     (param_required p \<longrightarrow> v \<noteq> PNone \<and> v \<noteq> PStr [])
     \<and> (param_type p = ''number'' \<and> v \<noteq> PNone \<longrightarrow>
          (\<exists>x. py_float v = Inr x
             \<and> (\<forall>lo. param_min_value p = Some lo \<longrightarrow> \<not> float_lt x lo)
             \<and> (\<forall>hi. param_max_value p = Some hi \<longrightarrow> \<not> float_lt hi x)))
     \<and> (param_type p = ''select'' \<and> v \<noteq> PNone \<longrightarrow>
          (\<forall>opts. param_options p = Some opts \<longrightarrow> v \<in> PStr ` set opts))"

definition params_ok :: "registry \<Rightarrow> PipelineDefinition \<Rightarrow> PipelineNode \<Rightarrow> bool" where
  "params_ok reg d n \<longleftrightarrow>
     (\<forall>nd. get_type reg (node_type n) = Some nd \<longrightarrow>
        (\<forall>p\<in>set (params nd). param_exempt d n p
           \<or> param_value_ok p (dict_get_or (node_config n) (param_name p) PNone)))"

definition zip_outputs_ok :: "PipelineDefinition \<Rightarrow> PipelineNode \<Rightarrow> bool" where
  "zip_outputs_ok d n \<longleftrightarrow>
     (node_type n = ''zip_records'' \<longrightarrow>
        (\<exists>k. get_zip_channel_count (node_config n) = Inr k
           \<and> (\<forall>i\<in>{1..nat k}. length (filter (\<lambda>e. edge_source e = node_id n
                 \<and> sourceHandle e = ''output_'' @ string_of_nat i) (edges d)) = 1)))"

definition pipeline_ok :: "registry \<Rightarrow> PipelineDefinition \<Rightarrow> bool" where
  "pipeline_ok reg d \<longleftrightarrow>
     (\<forall>n\<in>set (nodes d). get_type reg (node_type n) \<noteq> None)
     \<and> (\<forall>e\<in>set (edges d). good_edge d e)
     \<and> acyclic (edge_rel d)
     \<and> (\<forall>e\<in>set (edges d). \<forall>src tgt. dict_get (nodes_by_id d) (edge_source e) = Some src
          \<longrightarrow> dict_get (nodes_by_id d) (edge_target e) = Some tgt \<longrightarrow> edge_accepted reg src tgt e)
     \<and> distinct (map (\<lambda>e. (edge_target e, target_handle d e)) (edges d))
     \<and> (\<forall>n\<in>set (nodes d). inputs_ok reg d n)
     \<and> (\<forall>n\<in>set (nodes d). node_type n = ''source'' \<longrightarrow>
          node_has_asset n \<or> node_id n \<in> set (planner_bound_source_nodes d))
     \<and> (\<forall>n\<in>set (nodes d). params_ok reg d n)
     \<and> (\<forall>n\<in>set (nodes d). zip_outputs_ok d n)"

section \<open>Every stage decides its part\<close>

lemma nodes_by_id_keys [simp]: "fst ` set (nodes_by_id d) = node_ids d"
  by (simp add: nodes_by_id_def node_ids_def)

lemma nodes_by_id_Some: "dict_get (nodes_by_id d) x = Some n \<Longrightarrow> n \<in> set (nodes d) \<and> node_id n = x"
  unfolding nodes_by_id_def by (drule dict_of_get_imp) auto

lemma nodes_by_id_length: "length (nodes_by_id d) = card (node_ids d)"
proof -
  have "distinct (map fst (nodes_by_id d))" by (simp only: nodes_by_id_def distinct_dict_of)
  then have "card (set (map fst (nodes_by_id d))) = length (map fst (nodes_by_id d))"
    by (rule distinct_card)
  then show ?thesis by simp
qed

lemma check_node_type_Nil [check_simps]: "check_node_type reg n = [] \<longleftrightarrow> get_type reg (node_type n) \<noteq> None"
  by (simp add: check_node_type_def)

lemma check_graph_Nil [check_simps]:
  "check_graph d = Inr [] \<longleftrightarrow> (\<forall>e\<in>set (edges d). good_edge d e) \<and> acyclic (edge_rel d)"
proof -
  obtain deg adj errs where b: "build_graph d = (deg, adj, errs)" by (metis prod_cases3)
  obtain order rem where o: "topological_sort d = Inr order" by (rule topological_sort_inv)
  then have k: "kahn_topological_order deg adj = Inr order" by (simp add: topological_sort_def b)
  note t = topological_sort_order(1,2) [OF o]
  have fin: "finite (node_ids d)" by (simp add: node_ids_def)
  have "length order < card (node_ids d) \<longleftrightarrow> set order \<noteq> node_ids d"
    using t fin by (metis card_mono card_subset_eq distinct_card leD linorder_neqE_nat)
  then have c: "length order < length (nodes_by_id d) \<longleftrightarrow> \<not> acyclic (edge_rel d)"
    by (simp add: nodes_by_id_length topological_sort_complete_iff [OF o])
  have "errs = [] \<longleftrightarrow> (\<forall>e\<in>set (edges d). good_edge d e)"
    using build_graph_spec(4) [OF b] by (simp add: filter_empty_conv)
  with c show ?thesis by (simp add: check_graph_def b k)
qed

text \<open>The two helpers for dynamic inputs read the same number.\<close>

lemma dynamic_handle: "(if t = ''concat_timeline'' \<and> h \<in> set (dict_keys LEGACY_TIMELINE_INPUT_HANDLES)
   then dict_get_or LEGACY_TIMELINE_INPUT_HANDLES h h else h) = canonical_target_handle t h"
  by (simp add: canonical_target_handle_def dict_get_or_def LEGACY_TIMELINE_INPUT_HANDLES_def)

lemma dynamic_limit_iff_index:
  "dynamic_video_input_limit_error t h =
     map_sum id (\<lambda>i. case i of None \<Rightarrow> False | Some i \<Rightarrow> i > 64) (dynamic_video_input_index t h)"
  unfolding dynamic_video_input_index_def dynamic_handle Let_def
  by (auto simp: dynamic_video_input_limit_error_def DYNAMIC_VIDEO_INPUT_NODE_TYPES_def
      DYNAMIC_VIDEO_INPUT_MAX_COUNTS_def split: option.splits sum.splits)

lemma plain_edge_iff:
  "validate_edge reg (node_type src) (sourceHandle e) (node_type tgt) (targetHandle e)
     \<and> \<not> actual_type_mismatch reg src tgt e \<longleftrightarrow>
   (\<exists>sd td p q. get_type reg (node_type src) = Some sd \<and> get_type reg (node_type tgt) = Some td
      \<and> find_port (outputs sd) (sourceHandle e) = Some p
      \<and> find_port (inputs td) (targetHandle e) = Some q \<and> compatible_ports p q
      \<and> (\<forall>a. infer_actual_output_port_type src = Some a \<longrightarrow> port_type q \<in> {ANY_MEDIA, a}))"
  (is "_ \<longleftrightarrow> ?R")
proof (cases "validate_edge reg (node_type src) (sourceHandle e) (node_type tgt) (targetHandle e)")
  case False
  then have "\<not> ?R" unfolding validate_edge_iff by blast
  with False show ?thesis by blast
next
  case True
  then obtain sd td p q where "get_type reg (node_type src) = Some sd" "get_type reg (node_type tgt) = Some td"
    "find_port (outputs sd) (sourceHandle e) = Some p" "find_port (inputs td) (targetHandle e) = Some q"
    "compatible_ports p q" unfolding validate_edge_iff by blast
  with True show ?thesis
    by (cases "infer_actual_output_port_type src") (auto simp: actual_type_mismatch_def)
qed

lemma dynamic_edge_iff:
  "validate_dynamic_video_input_edge reg t h src \<longleftrightarrow>
     infer_actual_output_port_type src \<in> {None, Some VIDEO}
     \<and> (\<exists>sd p. get_type reg t = Some sd \<and> find_port (outputs sd) h = Some p \<and> port_type p \<in> {VIDEO, ANY_MEDIA})"
  by (cases "get_type reg t"; cases "find_port (outputs (the (get_type reg t))) h")
    (simp_all add: validate_dynamic_video_input_edge_def)

lemma check_edge_ports_Nil [check_simps]: "check_edge_ports reg src tgt e = Inr [] \<longleftrightarrow> edge_accepted reg src tgt e"
proof (cases "dynamic_video_input_index (node_type tgt) (targetHandle e)")
  case (Inl x)
  then show ?thesis by (simp add: check_edge_ports_def edge_accepted_def dynamic_limit_iff_index)
next
  case (Inr i)
  show ?thesis
  proof (cases i)
    case None
    show ?thesis
      unfolding check_edge_ports_def edge_accepted_def plain_edge_iff [symmetric]
      using Inr None by (simp add: dynamic_limit_iff_index split: sum.split)
  next
    case (Some k)
    with Inr show ?thesis
      by (cases "k > 64") (simp_all add: check_edge_ports_def edge_accepted_def dynamic_limit_iff_index dynamic_edge_iff)
  qed
qed

lemma check_edge_Nil [check_simps]:
  "check_edge reg d e = Inr [] \<longleftrightarrow>
     (\<forall>src tgt. dict_get (nodes_by_id d) (edge_source e) = Some src
        \<longrightarrow> dict_get (nodes_by_id d) (edge_target e) = Some tgt \<longrightarrow> edge_accepted reg src tgt e)"
  by (simp add: check_edge_def check_edge_ports_Nil split: option.split)

lemma scan_inputs_conn:
  "scan_inputs d es conn errs = (conn', errs') \<Longrightarrow>
   dict_get_or conn' v [] = dict_get_or conn v [] @ map (target_handle d) (filter (\<lambda>e. edge_target e = v) es)"
  by (induction es arbitrary: conn errs) (fastforce simp: Let_def dict_get_or_append)+

lemma scan_inputs_errors:
  "scan_inputs d es conn errs = (conn', errs') \<Longrightarrow>
   errs' = [] \<longleftrightarrow> errs = [] \<and> distinct (map (\<lambda>e. (edge_target e, target_handle d e)) es)
     \<and> (\<forall>e\<in>set es. target_handle d e \<notin> set (dict_get_or conn (edge_target e) []))"
proof (induction es arbitrary: conn errs)
  case Nil
  then show ?case by simp
next
  case (Cons e es)
  from Cons.IH [OF Cons.prems [unfolded scan_inputs.simps Let_def]] show ?case
    by (auto simp: dict_get_or_append image_iff split: if_splits)
qed

lemma scan_inputs_start:
  assumes "scan_inputs d (edges d) [] [] = (conn, errs)"
  shows "errs = [] \<longleftrightarrow> distinct (map (\<lambda>e. (edge_target e, target_handle d e)) (edges d))"
    and "h \<in> set (dict_get_or conn (node_id n) []) \<longleftrightarrow> input_connected d n h"
proof -
  show "errs = [] \<longleftrightarrow> distinct (map (\<lambda>e. (edge_target e, target_handle d e)) (edges d))"
    using scan_inputs_errors [OF assms] by (simp add: dict_get_or_def)
  show "h \<in> set (dict_get_or conn (node_id n) []) \<longleftrightarrow> input_connected d n h"
    using scan_inputs_conn [OF assms, of "node_id n"]
    by (auto simp: dict_get_or_def input_connected_def)
qed

lemma set_channel_handles: "set (channel_handles p k) = {p @ string_of_nat i |i. i \<in> {1..nat k}}"
  by (auto simp: channel_handles_def nat_add_distrib)


lemma dynamic_input_of_Inr:
  "(\<exists>hs. dynamic_input_of n e = Inr hs) \<longleftrightarrow>
     (edge_target e = node_id n \<longrightarrow> (\<exists>i. dynamic_video_input_index (node_type n) (targetHandle e) = Inr i))"
  by (simp add: dynamic_input_of_def split: sum.split option.split)

lemma dynamic_input_of_mem:
  "(\<exists>hs. dynamic_input_of n e = Inr hs \<and> h \<in> set hs) \<longleftrightarrow>
     edge_target e = node_id n \<and> h = canonical_target_handle (node_type n) (targetHandle e)
     \<and> (\<exists>i. dynamic_video_input_index (node_type n) (targetHandle e) = Inr (Some i))"
  by (cases "dynamic_video_input_index (node_type n) (targetHandle e)")
    (auto simp: dynamic_input_of_def split: option.split)

lemma dynamic_inputs_total:
  "(\<exists>hs. dynamic_inputs d n = Inr hs) \<longleftrightarrow>
     (\<forall>e\<in>set (edges d). edge_target e = node_id n \<longrightarrow>
        (\<exists>i. dynamic_video_input_index (node_type n) (targetHandle e) = Inr i))"
  by (simp only: dynamic_inputs_def collect_Inr_iff dynamic_input_of_Inr)

lemma dynamic_inputs_set:
  assumes "dynamic_inputs d n = Inr hs"
  shows "set hs = dynamic_slots d n"
proof (rule set_eqI)
  fix h
  from set_collect [OF assms [unfolded dynamic_inputs_def], of h]
  show "h \<in> set hs \<longleftrightarrow> h \<in> dynamic_slots d n"
    unfolding dynamic_input_of_mem dynamic_slots_def by blast
qed

lemma check_inputs_Nil:
  assumes conn: "scan_inputs d (edges d) [] [] = (conn, errs)" and known: "get_type reg (node_type n) = Some nd"
  shows "check_inputs reg d conn n = Inr [] \<longleftrightarrow> inputs_ok reg d n"
proof (cases "node_type n \<in> set DYNAMIC_VIDEO_INPUT_NODE_TYPES")
  case True
  then have t: "node_type n \<in> {''concat_timeline'', ''concat_many''}"
    by (simp add: DYNAMIC_VIDEO_INPUT_NODE_TYPES_def)
  show ?thesis
  proof (cases "dynamic_inputs d n")
    case (Inl x)
    then have "\<not> (\<exists>hs. dynamic_inputs d n = Inr hs)" by simp
    with True t known Inl show ?thesis
      unfolding dynamic_inputs_total by (simp add: check_inputs_def inputs_ok_def)
  next
    case (Inr hs)
    then have "card (dynamic_slots d n) = length (remdups hs)"
      by (simp add: dynamic_inputs_set [symmetric] length_remdups_card_conv)
    moreover have "\<exists>hs. dynamic_inputs d n = Inr hs" using Inr by simp
    ultimately show ?thesis using True t known Inr
      unfolding dynamic_inputs_total by (auto simp: check_inputs_def inputs_ok_def)
  qed
next
  case False
  then have t: "node_type n \<notin> {''concat_timeline'', ''concat_many''}"
    by (simp add: DYNAMIC_VIDEO_INPUT_NODE_TYPES_def)
  note c = scan_inputs_start(2) [OF conn]
  show ?thesis
  proof (cases "node_type n = ''zip_records''")
    case True
    with False t known show ?thesis
      by (cases "get_zip_channel_count (node_config n)")
        (auto simp: check_inputs_def inputs_ok_def filter_empty_conv c set_channel_handles)
  next
    case other: False
    with False t known show ?thesis
      by (auto simp: check_inputs_def inputs_ok_def filter_empty_conv c)
  qed
qed

lemma check_source_asset_Nil [check_simps]:
  "check_source_asset d n = [] \<longleftrightarrow>
     (node_type n = ''source'' \<longrightarrow> node_has_asset n \<or> node_id n \<in> set (planner_bound_source_nodes d))"
  by (simp add: check_source_asset_def)

lemma check_select_Nil:
  "check_select n p v = [] \<longleftrightarrow>
     (param_type p = ''select'' \<and> v \<noteq> PNone \<longrightarrow> (\<forall>opts. param_options p = Some opts \<longrightarrow> v \<in> PStr ` set opts))"
  by (cases "param_options p") (auto simp: check_select_def)

lemma check_param_Nil [check_simps]:
  "check_param d n p = Inr [] \<longleftrightarrow>
     param_exempt d n p \<or> param_value_ok p (dict_get_or (node_config n) (param_name p) PNone)"
proof -
  let ?v = "dict_get_or (node_config n) (param_name p) PNone"
  show ?thesis
  proof (cases "param_exempt d n p \<or> (param_required p \<and> (?v = PNone \<or> ?v = PStr []))")
    case True
    then show ?thesis by (auto simp: check_param_def param_value_ok_def)
  next
    case False
    then have r: "param_required p \<longrightarrow> ?v \<noteq> PNone \<and> ?v \<noteq> PStr []" by blast
    show ?thesis
    proof (cases "param_type p = ''number'' \<and> ?v \<noteq> PNone")
      case True
      with False r show ?thesis
        by (auto simp: check_param_def param_value_ok_def check_select_Nil Let_def
            split: sum.split py_exn.split option.split)
    next
      case False': False
      with False r have "check_param d n p = Inr (check_select n p ?v)"
        unfolding check_param_def Let_def by argo
      with False False' r show ?thesis by (simp only: param_value_ok_def check_select_Nil sum.inject) blast
    qed
  qed
qed

lemma check_params_Nil [check_simps]: "check_params reg d n = Inr [] \<longleftrightarrow> params_ok reg d n"
  by (auto simp: check_params_def params_ok_def check_simps split: option.split)

lemma check_channel_Nil [check_simps]:
  "check_channel d n h = [] \<longleftrightarrow> length (filter (\<lambda>e. edge_source e = node_id n \<and> sourceHandle e = h) (edges d)) = 1"
  by (cases "filter (\<lambda>e. edge_source e = node_id n \<and> sourceHandle e = h) (edges d)")
    (simp_all add: check_channel_def Let_def)

lemma check_zip_outputs_Nil [check_simps]: "check_zip_outputs d n = Inr [] \<longleftrightarrow> zip_outputs_ok d n"
  by (auto simp: check_zip_outputs_def zip_outputs_ok_def check_simps set_channel_handles split: sum.split)

section \<open>The validator decides the specification\<close>

lemma validation_errors_Nil: "validation_errors reg d = Inr [] \<longleftrightarrow> pipeline_ok reg d"
proof -
  obtain conn errs where s: "scan_inputs d (edges d) [] [] = (conn, errs)" by force
  show ?thesis
  proof (cases "\<forall>n\<in>set (nodes d). get_type reg (node_type n) \<noteq> None")
    case True
    then have "(\<forall>n\<in>set (nodes d). check_inputs reg d conn n = Inr []) \<longleftrightarrow> (\<forall>n\<in>set (nodes d). inputs_ok reg d n)"
      using check_inputs_Nil [OF s] by (metis option.exhaust)
    with True show ?thesis
      by (simp add: validation_errors_def s check_simps scan_inputs_start(1) [OF s] pipeline_ok_def)
  next
    case False
    then show ?thesis by (auto simp: validation_errors_def s check_simps pipeline_ok_def)
  qed
qed

end
