(* ===== verification/Builtins.thy ===== *)
theory Builtins
  imports Registry
begin

text \<open>
  The built-in node types, \<open>app/node_registry/builtin/*.py\<close>: the \<open>DEFINITION\<close> of every module,
  field by field, the tuple \<open>BUILTIN_MODULES\<close> in its order, and the registry
  \<open>NodeTypeRegistry.get()\<close> builds from it. A field the source leaves out has the default of its
  dataclass in \<open>base.py\<close>.
\<close>

section \<open>The node types\<close>

definition source_DEFINITION :: NodeTypeDefinition where
  "source_DEFINITION = \<lparr>
    type_name = ''source'', display_name = ''Source'', category = ''source'',
    nd_description = ''Input source referencing an uploaded asset'',
    icon = ''upload'',
    inputs = [\<lparr>port_name = ''asset_input'', port_type = ASSET_VALUE, port_required = False,
       port_description = ''Optional planner-provided asset reference''\<rparr>],
    outputs = [\<lparr>port_name = ''output'', port_type = ANY_MEDIA, port_required = True,
       port_description = ''Source media output''\<rparr>],
    params = [\<lparr>param_name = ''asset_id'', param_type = ''string'', param_default = PNone,
       param_required = True,
       param_description = ''ID of the uploaded asset'',
       param_options = None,
       param_min_value = None, param_max_value = None\<rparr>,
      \<lparr>param_name = ''media_type'', param_type = ''select'', param_default = PStr ''video'',
       param_required = False,
       param_description = ''Type of the source media'',
       param_options = Some [''video'', ''audio'', ''image'', ''subtitle''],
       param_min_value = None, param_max_value = None\<rparr>],
    worker_type = ''none''\<rparr>"

definition concat_horizontal_DEFINITION :: NodeTypeDefinition where
  "concat_horizontal_DEFINITION = \<lparr>
    type_name = ''concat_horizontal'', display_name = ''Horizontal Concat'', category = ''combine'',
    nd_description = ''Place two videos side by side horizontally'',
    icon = ''columns'',
    inputs = [\<lparr>port_name = ''video_left'', port_type = VIDEO, port_required = True,
       port_description = ''Left video''\<rparr>,
      \<lparr>port_name = ''video_right'', port_type = VIDEO, port_required = True,
       port_description = ''Right video''\<rparr>],
    outputs = [\<lparr>port_name = ''output'', port_type = VIDEO, port_required = True,
       port_description = ''Combined video''\<rparr>],
    params = [\<lparr>param_name = ''output_format'', param_type = ''select'', param_default = PStr ''mp4'',
       param_required = False,
       param_description = [],
       param_options = Some [''mp4'', ''mkv'', ''webm''],
       param_min_value = None, param_max_value = None\<rparr>,
      \<lparr>param_name = ''resize_mode'', param_type = ''select'', param_default = PStr ''match_height'',
       param_required = False,
       param_description = ''How to handle different resolutions'',
       param_options = Some [''match_height'', ''match_width'', ''none''],
       param_min_value = None, param_max_value = None\<rparr>],
    worker_type = ''ffmpeg_go''\<rparr>"

definition concat_vertical_DEFINITION :: NodeTypeDefinition where
  "concat_vertical_DEFINITION = \<lparr>
    type_name = ''concat_vertical'', display_name = ''Vertical Concat'', category = ''combine'',
    nd_description = ''Stack two videos vertically (top and bottom)'',
    icon = ''rows'',
    inputs = [\<lparr>port_name = ''video_top'', port_type = VIDEO, port_required = True,
       port_description = ''Top video''\<rparr>,
      \<lparr>port_name = ''video_bottom'', port_type = VIDEO, port_required = True,
       port_description = ''Bottom video''\<rparr>],
    outputs = [\<lparr>port_name = ''output'', port_type = VIDEO, port_required = True,
       port_description = ''Combined video''\<rparr>],
    params = [\<lparr>param_name = ''output_format'', param_type = ''select'', param_default = PStr ''mp4'',
       param_required = False,
       param_description = [],
       param_options = Some [''mp4'', ''mkv'', ''webm''],
       param_min_value = None, param_max_value = None\<rparr>,
      \<lparr>param_name = ''resize_mode'', param_type = ''select'', param_default = PStr ''match_width'',
       param_required = False,
       param_description = ''How to handle different resolutions'',
       param_options = Some [''match_height'', ''match_width'', ''none''],
       param_min_value = None, param_max_value = None\<rparr>],
    worker_type = ''ffmpeg_go''\<rparr>"

definition concat_timeline_DEFINITION :: NodeTypeDefinition where
  "concat_timeline_DEFINITION = \<lparr>
    type_name = ''concat_timeline'', display_name = ''Timeline Concat'', category = ''combine'',
    nd_description = ''Concatenate videos sequentially on a dynamic timeline.'',
    icon = ''git-merge'',
    inputs = [\<lparr>port_name = ''video_1'', port_type = VIDEO, port_required = True,
       port_description = ''Video input 1''\<rparr>,
      \<lparr>port_name = ''video_2'', port_type = VIDEO, port_required = True,
       port_description = ''Video input 2''\<rparr>],
    outputs = [\<lparr>port_name = ''output'', port_type = VIDEO, port_required = True,
       port_description = ''Concatenated video''\<rparr>],
    params = [\<lparr>param_name = ''input_count'', param_type = ''number'', param_default = PInt 2,
       param_required = False,
       param_description = ''Visible timeline input ports; expands automatically as inputs are connected'',
       param_options = None,
       param_min_value = Some (FFin 2), param_max_value = None\<rparr>,
      \<lparr>param_name = ''output_format'', param_type = ''select'', param_default = PStr ''mp4'',
       param_required = False,
       param_description = [],
       param_options = Some [''mp4'', ''mkv'', ''webm''],
       param_min_value = None, param_max_value = None\<rparr>,
      \<lparr>param_name = ''transition'', param_type = ''select'', param_default = PStr ''none'',
       param_required = False,
       param_description = ''Transition effect between clips'',
       param_options = Some [''none'', ''fade'', ''dissolve''],
       param_min_value = None, param_max_value = None\<rparr>,
      \<lparr>param_name = ''transition_duration'', param_type = ''number'', param_default = PFloat (FFin (1 / 2)),
       param_required = False,
       param_description = ''Transition duration in seconds'',
       param_options = None,
       param_min_value = Some (FFin 0), param_max_value = Some (FFin 5)\<rparr>],
    worker_type = ''ffmpeg_go''\<rparr>"

definition concat_many_DEFINITION :: NodeTypeDefinition where
  "concat_many_DEFINITION = \<lparr>
    type_name = ''concat_many'', display_name = ''Concat Many'', category = ''combine'',
    nd_description = ''Concatenate videos sequentially with dynamic timeline inputs.'',
    icon = ''git-merge'',
    inputs = [\<lparr>port_name = ''video_1'', port_type = VIDEO, port_required = True,
       port_description = ''Video input 1''\<rparr>,
      \<lparr>port_name = ''video_2'', port_type = VIDEO, port_required = True,
       port_description = ''Video input 2''\<rparr>],
    outputs = [\<lparr>port_name = ''output'', port_type = VIDEO, port_required = True,
       port_description = ''Concatenated video''\<rparr>],
    params = [\<lparr>param_name = ''input_count'', param_type = ''number'', param_default = PInt 2,
       param_required = False,
       param_description = ''Visible timeline input ports; expands automatically as inputs are connected'',
       param_options = None,
       param_min_value = Some (FFin 2), param_max_value = None\<rparr>,
      \<lparr>param_name = ''output_format'', param_type = ''select'', param_default = PStr ''mp4'',
       param_required = False,
       param_description = [],
       param_options = Some [''mp4'', ''mkv'', ''webm''],
       param_min_value = None, param_max_value = None\<rparr>,
      \<lparr>param_name = ''transition'', param_type = ''select'', param_default = PStr ''none'',
       param_required = False,
       param_description = [],
       param_options = Some [''none'', ''fade'', ''dissolve''],
       param_min_value = None, param_max_value = None\<rparr>,
      \<lparr>param_name = ''transition_duration'', param_type = ''number'', param_default = PFloat (FFin (3 / 10)),
       param_required = False,
       param_description = [],
       param_options = None,
       param_min_value = Some (FFin 0), param_max_value = Some (FFin 5)\<rparr>,
      \<lparr>param_name = ''target_duration'', param_type = ''number'', param_default = PInt 30,
       param_required = False,
       param_description = [],
       param_options = None,
       param_min_value = Some (FFin 0), param_max_value = Some (FFin 3600)\<rparr>,
      \<lparr>param_name = ''normalize_resolution'', param_type = ''boolean'', param_default = PBool True,
       param_required = False,
       param_description = [],
       param_options = None,
       param_min_value = None, param_max_value = None\<rparr>,
      \<lparr>param_name = ''aspect_ratio'', param_type = ''select'', param_default = PStr ''9:16'',
       param_required = False,
       param_description = [],
       param_options = Some [''9:16'', ''16:9'', ''1:1'', ''auto''],
       param_min_value = None, param_max_value = None\<rparr>,
      \<lparr>param_name = ''width'', param_type = ''number'', param_default = PInt 1080,
       param_required = False,
       param_description = [],
       param_options = None,
       param_min_value = Some (FFin 64), param_max_value = Some (FFin 7680)\<rparr>,
      \<lparr>param_name = ''height'', param_type = ''number'', param_default = PInt 1920,
       param_required = False,
       param_description = [],
       param_options = None,
       param_min_value = Some (FFin 64), param_max_value = Some (FFin 7680)\<rparr>],
    worker_type = ''ffmpeg_go''\<rparr>"

definition montage_assembler_DEFINITION :: NodeTypeDefinition where
  "montage_assembler_DEFINITION = \<lparr>
    type_name = ''montage_assembler'', display_name = ''Montage Assembler'', category = ''combine'',
    nd_description = ''Assemble 2 to 12 clips into a short-form montage.'',
    icon = ''film'',
    inputs = map (\<lambda>index. \<lparr>port_name = ''video_'' @ string_of_nat index, port_type = VIDEO,
       port_required = (index \<le> 2), port_description = ''Video input '' @ string_of_nat index\<rparr>)
       [1..<13],
    outputs = [\<lparr>port_name = ''output'', port_type = VIDEO, port_required = True,
       port_description = ''Assembled montage video''\<rparr>],
    params = [\<lparr>param_name = ''style'', param_type = ''select'', param_default = PStr ''fast_cuts'',
       param_required = False,
       param_description = ''Montage pacing style'',
       param_options = Some [''fast_cuts'', ''balanced'', ''cinematic''],
       param_min_value = None, param_max_value = None\<rparr>,
      \<lparr>param_name = ''target_duration'', param_type = ''number'', param_default = PInt 30,
       param_required = False,
       param_description = [],
       param_options = None,
       param_min_value = Some (FFin 0), param_max_value = Some (FFin 3600)\<rparr>,
      \<lparr>param_name = ''aspect_ratio'', param_type = ''select'', param_default = PStr ''9:16'',
       param_required = False,
       param_description = [],
       param_options = Some [''9:16'', ''16:9'', ''1:1'', ''auto''],
       param_min_value = None, param_max_value = None\<rparr>,
      \<lparr>param_name = ''beat_sync'', param_type = ''boolean'', param_default = PBool False,
       param_required = False,
       param_description = [],
       param_options = None,
       param_min_value = None, param_max_value = None\<rparr>,
      \<lparr>param_name = ''max_clip_duration'', param_type = ''number'', param_default = PInt 6,
       param_required = False,
       param_description = [],
       param_options = None,
       param_min_value = Some (FFin (1 / 2)), param_max_value = Some (FFin 120)\<rparr>,
      \<lparr>param_name = ''min_clip_duration'', param_type = ''number'', param_default = PInt 1,
       param_required = False,
       param_description = [],
       param_options = None,
       param_min_value = Some (FFin (1 / 10)), param_max_value = Some (FFin 120)\<rparr>,
      \<lparr>param_name = ''intro_hook'', param_type = ''string'', param_default = PStr [],
       param_required = False,
       param_description = [],
       param_options = None,
       param_min_value = None, param_max_value = None\<rparr>,
      \<lparr>param_name = ''width'', param_type = ''number'', param_default = PInt 1080,
       param_required = False,
       param_description = [],
       param_options = None,
       param_min_value = Some (FFin 64), param_max_value = Some (FFin 7680)\<rparr>,
      \<lparr>param_name = ''height'', param_type = ''number'', param_default = PInt 1920,
       param_required = False,
       param_description = [],
       param_options = None,
       param_min_value = Some (FFin 64), param_max_value = Some (FFin 7680)\<rparr>],
    worker_type = ''ffmpeg_go''\<rparr>"

definition concat_vertical_timeline_DEFINITION :: NodeTypeDefinition where
  "concat_vertical_timeline_DEFINITION = \<lparr>
    type_name = ''concat_vertical_timeline'', display_name = ''Vertical Timeline Concat'', category = ''combine'',
    nd_description = ''Play one video on top with a static bottom image, then switch to a second video on bottom with a static top image.'',
    icon = ''rows-3'',
    inputs = [\<lparr>port_name = ''video_first'', port_type = VIDEO, port_required = True,
       port_description = ''Video shown in the first segment''\<rparr>,
      \<lparr>port_name = ''video_second'', port_type = VIDEO, port_required = True,
       port_description = ''Video shown in the second segment''\<rparr>,
      \<lparr>port_name = ''image_top'', port_type = IMAGE, port_required = False,
       port_description = ''Optional static image shown on top during the second segment. Defaults to the fifteenth frame from the end of the first video, or the last frame if the video is shorter.''\<rparr>,
      \<lparr>port_name = ''image_bottom'', port_type = IMAGE, port_required = False,
       port_description = ''Optional static image shown on bottom during the first segment. Defaults to the fifteenth frame of the second video, or the last frame if the video is shorter.''\<rparr>],
    outputs = [\<lparr>port_name = ''output'', port_type = VIDEO, port_required = True,
       port_description = ''Combined vertical timeline video''\<rparr>],
    params = [\<lparr>param_name = ''pane_width'', param_type = ''number'', param_default = PInt 640,
       param_required = False,
       param_description = ''Width of each pane in pixels'',
       param_options = None,
       param_min_value = Some (FFin 160), param_max_value = Some (FFin 2160)\<rparr>,
      \<lparr>param_name = ''pane_height'', param_type = ''number'', param_default = PInt 360,
       param_required = False,
       param_description = ''Height of each pane in pixels'',
       param_options = None,
       param_min_value = Some (FFin 90), param_max_value = Some (FFin 2160)\<rparr>,
      \<lparr>param_name = ''background_color'', param_type = ''string'', param_default = PStr ''black'',
       param_required = False,
       param_description = ''Pad color used when media aspect ratios do not match the pane size'',
       param_options = None,
       param_min_value = None, param_max_value = None\<rparr>,
      \<lparr>param_name = ''output_format'', param_type = ''select'', param_default = PStr ''mp4'',
       param_required = False,
       param_description = [],
       param_options = Some [''mp4'', ''mkv'', ''webm''],
       param_min_value = None, param_max_value = None\<rparr>],
    worker_type = ''ffmpeg_go''\<rparr>"

definition trim_DEFINITION :: NodeTypeDefinition where
  "trim_DEFINITION = \<lparr>
    type_name = ''trim'', display_name = ''Trim'', category = ''transform'',
    nd_description = ''Trim a video to a specific time range'',
    icon = ''scissors'',
    inputs = [\<lparr>port_name = ''input'', port_type = VIDEO, port_required = True,
       port_description = ''Input video''\<rparr>],
    outputs = [\<lparr>port_name = ''output'', port_type = VIDEO, port_required = True,
       port_description = ''Trimmed video''\<rparr>],
    params = [\<lparr>param_name = ''start_time'', param_type = ''string'', param_default = PStr ''00:00:00'',
       param_required = True,
       param_description = ''Start time (HH:MM:SS or seconds)'',
       param_options = None,
       param_min_value = None, param_max_value = None\<rparr>,
      \<lparr>param_name = ''end_time'', param_type = ''string'', param_default = PStr [],
       param_required = False,
       param_description = ''End time (HH:MM:SS or seconds, empty for end of video)'',
       param_options = None,
       param_min_value = None, param_max_value = None\<rparr>,
      \<lparr>param_name = ''duration'', param_type = ''string'', param_default = PStr [],
       param_required = False,
       param_description = ''Duration (alternative to end_time)'',
       param_options = None,
       param_min_value = None, param_max_value = None\<rparr>],
    worker_type = ''ffmpeg_go''\<rparr>"

definition watermark_DEFINITION :: NodeTypeDefinition where
  "watermark_DEFINITION = \<lparr>
    type_name = ''watermark'', display_name = ''Watermark'', category = ''transform'',
    nd_description = ''Add an image watermark overlay to a video'',
    icon = ''image'',
    inputs = [\<lparr>port_name = ''video'', port_type = VIDEO, port_required = True,
       port_description = ''Input video''\<rparr>,
      \<lparr>port_name = ''overlay'', port_type = IMAGE, port_required = True,
       port_description = ''Watermark image''\<rparr>],
    outputs = [\<lparr>port_name = ''output'', port_type = VIDEO, port_required = True,
       port_description = ''Watermarked video''\<rparr>],
    params = [\<lparr>param_name = ''position'', param_type = ''select'', param_default = PStr ''bottom_right'',
       param_required = False,
       param_description = ''Watermark position'',
       param_options = Some [''top_left'', ''top_right'', ''bottom_left'', ''bottom_right'', ''center''],
       param_min_value = None, param_max_value = None\<rparr>,
      \<lparr>param_name = ''opacity'', param_type = ''number'', param_default = PFloat (FFin (4 / 5)),
       param_required = False,
       param_description = ''Watermark opacity (0-1)'',
       param_options = None,
       param_min_value = Some (FFin 0), param_max_value = Some (FFin 1)\<rparr>,
      \<lparr>param_name = ''scale'', param_type = ''number'', param_default = PFloat (FFin (3 / 20)),
       param_required = False,
       param_description = ''Watermark scale relative to video width'',
       param_options = None,
       param_min_value = Some (FFin (1 / 100)), param_max_value = Some (FFin 1)\<rparr>,
      \<lparr>param_name = ''margin'', param_type = ''number'', param_default = PInt 10,
       param_required = False,
       param_description = ''Margin from edge in pixels'',
       param_options = None,
       param_min_value = Some (FFin 0), param_max_value = Some (FFin 500)\<rparr>],
    worker_type = ''ffmpeg_go''\<rparr>"

definition subtitle_DEFINITION :: NodeTypeDefinition where
  "subtitle_DEFINITION = \<lparr>
    type_name = ''subtitle'', display_name = ''Subtitle'', category = ''transform'',
    nd_description = ''Burn subtitles into a video'',
    icon = ''captions'',
    inputs = [\<lparr>port_name = ''video'', port_type = VIDEO, port_required = True,
       port_description = ''Input video''\<rparr>,
      \<lparr>port_name = ''subtitle_file'', port_type = SUBTITLE, port_required = True,
       port_description = ''Subtitle file (SRT/ASS)''\<rparr>],
    outputs = [\<lparr>port_name = ''output'', port_type = VIDEO, port_required = True,
       port_description = ''Video with subtitles''\<rparr>],
    params = [\<lparr>param_name = ''font_size'', param_type = ''number'', param_default = PInt 24,
       param_required = False,
       param_description = ''Subtitle font size'',
       param_options = None,
       param_min_value = Some (FFin 8), param_max_value = Some (FFin 72)\<rparr>,
      \<lparr>param_name = ''font_color'', param_type = ''string'', param_default = PStr ''white'',
       param_required = False,
       param_description = ''Subtitle font color'',
       param_options = None,
       param_min_value = None, param_max_value = None\<rparr>,
      \<lparr>param_name = ''outline_color'', param_type = ''string'', param_default = PStr ''black'',
       param_required = False,
       param_description = ''Subtitle outline color'',
       param_options = None,
       param_min_value = None, param_max_value = None\<rparr>,
      \<lparr>param_name = ''position'', param_type = ''select'', param_default = PStr ''bottom'',
       param_required = False,
       param_description = ''Subtitle vertical position'',
       param_options = Some [''top'', ''center'', ''bottom''],
       param_min_value = None, param_max_value = None\<rparr>],
    worker_type = ''ffmpeg''\<rparr>"

definition speech_to_subtitle_DEFINITION :: NodeTypeDefinition where
  "speech_to_subtitle_DEFINITION = \<lparr>
    type_name = ''speech_to_subtitle'', display_name = ''Speech To Subtitle'', category = ''audio'',
    nd_description = ''Transcribe spoken audio from a media input into an SRT subtitle file'',
    icon = ''mic'',
    inputs = [\<lparr>port_name = ''media'', port_type = ANY_MEDIA, port_required = True,
       port_description = ''Audio or video source''\<rparr>],
    outputs = [\<lparr>port_name = ''output'', port_type = SUBTITLE, port_required = True,
       port_description = ''Generated subtitle file''\<rparr>],
    params = [\<lparr>param_name = ''model'', param_type = ''select'', param_default = PStr ''medium'',
       param_required = False,
       param_description = ''Whisper model size'',
       param_options = Some [''tiny'', ''base'', ''small'', ''medium'', ''large-v3''],
       param_min_value = None, param_max_value = None\<rparr>,
      \<lparr>param_name = ''language'', param_type = ''string'', param_default = PStr [],
       param_required = False,
       param_description = ''Optional language hint such as en or zh'',
       param_options = None,
       param_min_value = None, param_max_value = None\<rparr>,
      \<lparr>param_name = ''beam_size'', param_type = ''number'', param_default = PInt 5,
       param_required = False,
       param_description = ''Decoding beam size'',
       param_options = None,
       param_min_value = Some (FFin 1), param_max_value = Some (FFin 10)\<rparr>,
      \<lparr>param_name = ''merge_adjacent'', param_type = ''boolean'', param_default = PBool True,
       param_required = False,
       param_description = ''Merge adjacent short subtitle segments to make downstream translation/TTS smoother'',
       param_options = None,
       param_min_value = None, param_max_value = None\<rparr>,
      \<lparr>param_name = ''merge_max_gap_seconds'', param_type = ''number'', param_default = PFloat (FFin (3 / 5)),
       param_required = False,
       param_description = ''Maximum silence gap allowed when merging neighboring subtitle cues'',
       param_options = None,
       param_min_value = Some (FFin 0), param_max_value = Some (FFin 5)\<rparr>,
      \<lparr>param_name = ''merge_min_chars'', param_type = ''number'', param_default = PInt 40,
       param_required = False,
       param_description = ''Treat subtitle cues shorter than this as merge candidates'',
       param_options = None,
       param_min_value = Some (FFin 1), param_max_value = Some (FFin 200)\<rparr>,
      \<lparr>param_name = ''merge_min_duration_seconds'', param_type = ''number'', param_default = PFloat (FFin (11 / 5)),
       param_required = False,
       param_description = ''Treat subtitle cues shorter than this duration as merge candidates'',
       param_options = None,
       param_min_value = Some (FFin (1 / 10)), param_max_value = Some (FFin 10)\<rparr>,
      \<lparr>param_name = ''merge_max_duration_seconds'', param_type = ''number'', param_default = PFloat (FFin 8),
       param_required = False,
       param_description = ''Never merge subtitle cues into a segment longer than this duration'',
       param_options = None,
       param_min_value = Some (FFin (1 / 2)), param_max_value = Some (FFin 30)\<rparr>],
    worker_type = ''ffmpeg''\<rparr>"

definition smart_trim_DEFINITION :: NodeTypeDefinition where
  "smart_trim_DEFINITION = \<lparr>
    type_name = ''smart_trim'', display_name = ''Smart Trim'', category = ''ai_transform'',
    nd_description = ''Find and trim video segments by natural language prompt'',
    icon = ''sparkles-scissors'',
    inputs = [\<lparr>port_name = ''input'', port_type = VIDEO, port_required = True,
       port_description = ''Input video''\<rparr>],
    outputs = [\<lparr>port_name = ''output'', port_type = VIDEO, port_required = True,
       port_description = ''Matched video clip, montage, or original video''\<rparr>],
    params = [\<lparr>param_name = ''prompt'', param_type = ''string'', param_default = PNone,
       param_required = True,
       param_description = ''Natural language segment description'',
       param_options = None,
       param_min_value = None, param_max_value = None\<rparr>,
      \<lparr>param_name = ''negative_prompt'', param_type = ''string'', param_default = PStr [],
       param_required = False,
       param_description = ''Things that should not appear'',
       param_options = None,
       param_min_value = None, param_max_value = None\<rparr>,
      \<lparr>param_name = ''mode'', param_type = ''select'', param_default = PStr ''auto'',
       param_required = True,
       param_description = ''Output selection policy'',
       param_options = Some [''auto'', ''best_clip'', ''all_matches_montage'', ''full_if_match'', ''no_full_video''],
       param_min_value = None, param_max_value = None\<rparr>,
      \<lparr>param_name = ''target_duration'', param_type = ''number'', param_default = PInt 0,
       param_required = True,
       param_description = [],
       param_options = None,
       param_min_value = Some (FFin 0), param_max_value = Some (FFin 600)\<rparr>,
      \<lparr>param_name = ''min_clip_duration'', param_type = ''number'', param_default = PFloat (FFin (3 / 2)),
       param_required = True,
       param_description = [],
       param_options = None,
       param_min_value = Some (FFin (3 / 10)), param_max_value = Some (FFin 30)\<rparr>,
      \<lparr>param_name = ''max_clip_duration'', param_type = ''number'', param_default = PInt 8,
       param_required = True,
       param_description = [],
       param_options = None,
       param_min_value = Some (FFin 1), param_max_value = Some (FFin 120)\<rparr>,
      \<lparr>param_name = ''max_clips'', param_type = ''number'', param_default = PInt 8,
       param_required = True,
       param_description = [],
       param_options = None,
       param_min_value = Some (FFin 1), param_max_value = Some (FFin 30)\<rparr>,
      \<lparr>param_name = ''sample_fps'', param_type = ''number'', param_default = PInt 1,
       param_required = True,
       param_description = [],
       param_options = None,
       param_min_value = Some (FFin (1 / 10)), param_max_value = Some (FFin 4)\<rparr>,
      \<lparr>param_name = ''match_threshold'', param_type = ''number'', param_default = PFloat (FFin (7 / 20)),
       param_required = True,
       param_description = [],
       param_options = None,
       param_min_value = Some (FFin 0), param_max_value = Some (FFin 1)\<rparr>,
      \<lparr>param_name = ''return_full_threshold'', param_type = ''number'', param_default = PFloat (FFin (13 / 20)),
       param_required = True,
       param_description = [],
       param_options = None,
       param_min_value = Some (FFin 0), param_max_value = Some (FFin 1)\<rparr>,
      \<lparr>param_name = ''padding_before'', param_type = ''number'', param_default = PFloat (FFin (1 / 2)),
       param_required = True,
       param_description = [],
       param_options = None,
       param_min_value = Some (FFin 0), param_max_value = Some (FFin 10)\<rparr>,
      \<lparr>param_name = ''padding_after'', param_type = ''number'', param_default = PFloat (FFin (1 / 2)),
       param_required = True,
       param_description = [],
       param_options = None,
       param_min_value = Some (FFin 0), param_max_value = Some (FFin 10)\<rparr>,
      \<lparr>param_name = ''merge_gap'', param_type = ''number'', param_default = PFloat (FFin 1),
       param_required = True,
       param_description = [],
       param_options = None,
       param_min_value = Some (FFin 0), param_max_value = Some (FFin 10)\<rparr>,
      \<lparr>param_name = ''use_visual'', param_type = ''boolean'', param_default = PBool True,
       param_required = False,
       param_description = [],
       param_options = None,
       param_min_value = None, param_max_value = None\<rparr>,
      \<lparr>param_name = ''use_asr'', param_type = ''boolean'', param_default = PBool True,
       param_required = False,
       param_description = [],
       param_options = None,
       param_min_value = None, param_max_value = None\<rparr>,
      \<lparr>param_name = ''use_vlm_verify'', param_type = ''boolean'', param_default = PBool False,
       param_required = False,
       param_description = [],
       param_options = None,
       param_min_value = None, param_max_value = None\<rparr>,
      \<lparr>param_name = ''language'', param_type = ''string'', param_default = PStr ''zh'',
       param_required = False,
       param_description = [],
       param_options = None,
       param_min_value = None, param_max_value = None\<rparr>,
      \<lparr>param_name = ''whisper_model'', param_type = ''select'', param_default = PStr ''medium'',
       param_required = False,
       param_description = ''Whisper model used when ASR scoring is enabled'',
       param_options = Some [''tiny'', ''base'', ''small'', ''medium'', ''large-v3''],
       param_min_value = None, param_max_value = None\<rparr>,
      \<lparr>param_name = ''output_format'', param_type = ''select'', param_default = PStr ''mp4'',
       param_required = True,
       param_description = [],
       param_options = Some [''mp4'', ''mkv'', ''webm''],
       param_min_value = None, param_max_value = None\<rparr>,
      \<lparr>param_name = ''no_match_policy'', param_type = ''select'', param_default = PStr ''placeholder'',
       param_required = True,
       param_description = ''How to handle no matched segment'',
       param_options = Some [''placeholder'', ''fail''],
       param_min_value = None, param_max_value = None\<rparr>],
    worker_type = ''vision''\<rparr>"

definition subtitle_translate_DEFINITION :: NodeTypeDefinition where
  "subtitle_translate_DEFINITION = \<lparr>
    type_name = ''subtitle_translate'', display_name = ''Subtitle Translate'', category = ''audio'',
    nd_description = ''Translate an SRT subtitle file into another language'',
    icon = ''languages'',
    inputs = [\<lparr>port_name = ''subtitle_file'', port_type = SUBTITLE, port_required = True,
       port_description = ''Input subtitle file''\<rparr>],
    outputs = [\<lparr>port_name = ''output'', port_type = SUBTITLE, port_required = True,
       port_description = ''Translated subtitle file''\<rparr>],
    params = [\<lparr>param_name = ''target_language'', param_type = ''string'', param_default = PStr ''en'',
       param_required = True,
       param_description = ''Target language code or name'',
       param_options = None,
       param_min_value = None, param_max_value = None\<rparr>,
      \<lparr>param_name = ''source_language'', param_type = ''string'', param_default = PStr [],
       param_required = False,
       param_description = ''Optional source language hint'',
       param_options = None,
       param_min_value = None, param_max_value = None\<rparr>,
      \<lparr>param_name = ''model'', param_type = ''string'', param_default = PStr [],
       param_required = False,
       param_description = ''Optional watchdog route/model override'',
       param_options = None,
       param_min_value = None, param_max_value = None\<rparr>],
    worker_type = ''ffmpeg''\<rparr>"

definition subtitle_to_speech_DEFINITION :: NodeTypeDefinition where
  "subtitle_to_speech_DEFINITION = \<lparr>
    type_name = ''subtitle_to_speech'', display_name = ''Subtitle To Speech'', category = ''audio'',
    nd_description = ''Generate a timed speech track from subtitle cues using the configured TTS service'',
    icon = ''audio-lines'',
    inputs = [\<lparr>port_name = ''subtitle_file'', port_type = SUBTITLE, port_required = True,
       port_description = ''Input subtitle file''\<rparr>,
      \<lparr>port_name = ''reference_audio'', port_type = ANY_MEDIA, port_required = False,
       port_description = ''Optional reference voice audio/video''\<rparr>,
      \<lparr>port_name = ''ref_text'', port_type = SUBTITLE, port_required = False,
       port_description = ''Optional transcript/subtitle file matching the reference voice audio''\<rparr>],
    outputs = [\<lparr>port_name = ''output'', port_type = AUDIO, port_required = True,
       port_description = ''Generated speech audio''\<rparr>],
    params = [\<lparr>param_name = ''language'', param_type = ''string'', param_default = PStr ''en'',
       param_required = False,
       param_description = ''TTS language code'',
       param_options = None,
       param_min_value = None, param_max_value = None\<rparr>,
      \<lparr>param_name = ''block_merge_gap_seconds'', param_type = ''number'', param_default = PFloat (FFin (3 / 5)),
       param_required = False,
       param_description = ''Merge nearby subtitle cues into one speech block when the gap is small'',
       param_options = None,
       param_min_value = None, param_max_value = None\<rparr>,
      \<lparr>param_name = ''block_min_chars'', param_type = ''number'', param_default = PInt 70,
       param_required = False,
       param_description = ''Try to merge short subtitle cues until each speech block is at least this long'',
       param_options = None,
       param_min_value = None, param_max_value = None\<rparr>,
      \<lparr>param_name = ''block_max_chars'', param_type = ''number'', param_default = PInt 220,
       param_required = False,
       param_description = ''Soft upper bound for text length inside one speech block'',
       param_options = None,
       param_min_value = None, param_max_value = None\<rparr>,
      \<lparr>param_name = ''block_min_duration_seconds'', param_type = ''number'', param_default = PFloat (FFin (5 / 2)),
       param_required = False,
       param_description = ''Try to merge subtitle cues until each speech block lasts at least this long'',
       param_options = None,
       param_min_value = None, param_max_value = None\<rparr>,
      \<lparr>param_name = ''block_max_duration_seconds'', param_type = ''number'', param_default = PFloat (FFin 10),
       param_required = False,
       param_description = ''Soft upper bound for a single speech block duration'',
       param_options = None,
       param_min_value = None, param_max_value = None\<rparr>,
      \<lparr>param_name = ''alignment_max_speedup'', param_type = ''number'', param_default = PFloat (FFin (11 / 10)),
       param_required = False,
       param_description = ''Maximum atempo speed-up used to prevent overlap when generated speech runs long'',
       param_options = None,
       param_min_value = None, param_max_value = None\<rparr>,
      \<lparr>param_name = ''alignment_max_leading_delay_ms'', param_type = ''number'', param_default = PInt 800,
       param_required = False,
       param_description = ''Maximum extra delay before a short speech block when there is spare room'',
       param_options = None,
       param_min_value = None, param_max_value = None\<rparr>,
      \<lparr>param_name = ''alignment_rewrite_with_llm'', param_type = ''boolean'', param_default = PBool True,
       param_required = False,
       param_description = ''Use the LLM gateway to shorten long speech blocks before applying speed-up alignment'',
       param_options = None,
       param_min_value = None, param_max_value = None\<rparr>,
      \<lparr>param_name = ''alignment_rewrite_min_speedup'', param_type = ''number'', param_default = PFloat (FFin (11 / 10)),
       param_required = False,
       param_description = ''Required speed-up ratio that triggers LLM rewrite and re-synthesis'',
       param_options = None,
       param_min_value = None, param_max_value = None\<rparr>,
      \<lparr>param_name = ''alignment_rewrite_model'', param_type = ''string'', param_default = PStr [],
       param_required = False,
       param_description = ''Optional model override for TTS alignment rewrite requests'',
       param_options = None,
       param_min_value = None, param_max_value = None\<rparr>],
    worker_type = ''ffmpeg''\<rparr>"

definition bgm_DEFINITION :: NodeTypeDefinition where
  "bgm_DEFINITION = \<lparr>
    type_name = ''bgm'', display_name = ''Background Music'', category = ''audio'',
    nd_description = ''Add background music to a video'',
    icon = ''music'',
    inputs = [\<lparr>port_name = ''video'', port_type = VIDEO, port_required = True,
       port_description = ''Input video''\<rparr>,
      \<lparr>port_name = ''audio'', port_type = AUDIO, port_required = True,
       port_description = ''Background music''\<rparr>],
    outputs = [\<lparr>port_name = ''output'', port_type = VIDEO, port_required = True,
       port_description = ''Video with background music''\<rparr>],
    params = [\<lparr>param_name = ''volume'', param_type = ''number'', param_default = PFloat (FFin (3 / 10)),
       param_required = False,
       param_description = ''Background music volume (0-2)'',
       param_options = None,
       param_min_value = Some (FFin 0), param_max_value = Some (FFin 2)\<rparr>,
      \<lparr>param_name = ''original_volume'', param_type = ''number'', param_default = PFloat (FFin 1),
       param_required = False,
       param_description = ''Original audio volume (0-2)'',
       param_options = None,
       param_min_value = Some (FFin 0), param_max_value = Some (FFin 2)\<rparr>,
      \<lparr>param_name = ''loop'', param_type = ''boolean'', param_default = PBool True,
       param_required = False,
       param_description = ''Loop music if shorter than video'',
       param_options = None,
       param_min_value = None, param_max_value = None\<rparr>,
      \<lparr>param_name = ''fade_in'', param_type = ''number'', param_default = PFloat (FFin 0),
       param_required = False,
       param_description = ''Fade in duration in seconds'',
       param_options = None,
       param_min_value = Some (FFin 0), param_max_value = Some (FFin 10)\<rparr>,
      \<lparr>param_name = ''fade_out'', param_type = ''number'', param_default = PFloat (FFin 0),
       param_required = False,
       param_description = ''Fade out duration in seconds'',
       param_options = None,
       param_min_value = Some (FFin 0), param_max_value = Some (FFin 10)\<rparr>],
    worker_type = ''ffmpeg_go''\<rparr>"

definition replace_audio_DEFINITION :: NodeTypeDefinition where
  "replace_audio_DEFINITION = \<lparr>
    type_name = ''replace_audio'', display_name = ''Replace Audio'', category = ''audio'',
    nd_description = ''Replace a video's audio track with a supplied audio file'',
    icon = ''replace'',
    inputs = [\<lparr>port_name = ''video'', port_type = VIDEO, port_required = True,
       port_description = ''Input video''\<rparr>,
      \<lparr>port_name = ''audio'', port_type = AUDIO, port_required = True,
       port_description = ''Replacement audio''\<rparr>],
    outputs = [\<lparr>port_name = ''output'', port_type = VIDEO, port_required = True,
       port_description = ''Video with replaced audio''\<rparr>],
    params = [\<lparr>param_name = ''loop_if_shorter'', param_type = ''boolean'', param_default = PBool True,
       param_required = False,
       param_description = ''Loop the replacement audio when it is shorter than the video'',
       param_options = None,
       param_min_value = None, param_max_value = None\<rparr>,
      \<lparr>param_name = ''audio_volume'', param_type = ''number'', param_default = PFloat (FFin 1),
       param_required = False,
       param_description = ''Replacement audio volume multiplier'',
       param_options = None,
       param_min_value = Some (FFin 0), param_max_value = Some (FFin 4)\<rparr>],
    worker_type = ''ffmpeg_go''\<rparr>"

definition transcode_DEFINITION :: NodeTypeDefinition where
  "transcode_DEFINITION = \<lparr>
    type_name = ''transcode'', display_name = ''Transcode'', category = ''output'',
    nd_description = ''Transcode video to a different format or codec'',
    icon = ''file-output'',
    inputs = [\<lparr>port_name = ''input'', port_type = VIDEO, port_required = True,
       port_description = ''Input video''\<rparr>],
    outputs = [\<lparr>port_name = ''output'', port_type = VIDEO, port_required = True,
       port_description = ''Transcoded video''\<rparr>],
    params = [\<lparr>param_name = ''format'', param_type = ''select'', param_default = PStr ''mp4'',
       param_required = False,
       param_description = ''Output container format'',
       param_options = Some [''mp4'', ''mkv'', ''webm'', ''avi'', ''mov''],
       param_min_value = None, param_max_value = None\<rparr>,
      \<lparr>param_name = ''video_codec'', param_type = ''select'', param_default = PStr ''libx264'',
       param_required = False,
       param_description = ''Video codec'',
       param_options = Some [''libx264'', ''libx265'', ''h264_nvenc'', ''hevc_nvenc'', ''libvpx-vp9'', ''copy''],
       param_min_value = None, param_max_value = None\<rparr>,
      \<lparr>param_name = ''audio_codec'', param_type = ''select'', param_default = PStr ''aac'',
       param_required = False,
       param_description = ''Audio codec'',
       param_options = Some [''aac'', ''libopus'', ''libmp3lame'', ''copy''],
       param_min_value = None, param_max_value = None\<rparr>,
      \<lparr>param_name = ''resolution'', param_type = ''select'', param_default = PStr ''original'',
       param_required = False,
       param_description = ''Output resolution'',
       param_options = Some [''original'', ''3840x2160'', ''1920x1080'', ''1280x720'', ''854x480''],
       param_min_value = None, param_max_value = None\<rparr>,
      \<lparr>param_name = ''bitrate'', param_type = ''string'', param_default = PStr [],
       param_required = False,
       param_description = ''Video bitrate (e.g. 5M, 2000k, empty for auto)'',
       param_options = None,
       param_min_value = None, param_max_value = None\<rparr>,
      \<lparr>param_name = ''crf'', param_type = ''number'', param_default = PInt 20,
       param_required = False,
       param_description = ''Constant Rate Factor (lower = better quality)'',
       param_options = None,
       param_min_value = Some (FFin 0), param_max_value = Some (FFin 51)\<rparr>,
      \<lparr>param_name = ''preset'', param_type = ''select'', param_default = PStr ''medium'',
       param_required = False,
       param_description = ''Encoding speed preset'',
       param_options = Some [''ultrafast'', ''superfast'', ''veryfast'', ''faster'', ''fast'', ''medium'', ''slow'', ''slower'', ''veryslow''],
       param_min_value = None, param_max_value = None\<rparr>],
    worker_type = ''ffmpeg_go''\<rparr>"

definition title_overlay_DEFINITION :: NodeTypeDefinition where
  "title_overlay_DEFINITION = \<lparr>
    type_name = ''title_overlay'', display_name = ''Title Overlay'', category = ''transform'',
    nd_description = ''Overlay short title text on video.'',
    icon = ''type'',
    inputs = [\<lparr>port_name = ''input'', port_type = VIDEO, port_required = True,
       port_description = ''Input video''\<rparr>],
    outputs = [\<lparr>port_name = ''output'', port_type = VIDEO, port_required = True,
       port_description = ''Titled video''\<rparr>],
    params = [\<lparr>param_name = ''text'', param_type = ''string'', param_default = PStr [],
       param_required = False,
       param_description = ''Overlay text'',
       param_options = None,
       param_min_value = None, param_max_value = None\<rparr>,
      \<lparr>param_name = ''position'', param_type = ''select'', param_default = PStr ''top'',
       param_required = False,
       param_description = [],
       param_options = Some [''top'', ''center'', ''bottom''],
       param_min_value = None, param_max_value = None\<rparr>,
      \<lparr>param_name = ''start_time'', param_type = ''number'', param_default = PInt 0,
       param_required = False,
       param_description = [],
       param_options = None,
       param_min_value = Some (FFin 0), param_max_value = None\<rparr>,
      \<lparr>param_name = ''duration'', param_type = ''number'', param_default = PInt 3,
       param_required = False,
       param_description = [],
       param_options = None,
       param_min_value = Some (FFin (1 / 10)), param_max_value = Some (FFin 3600)\<rparr>,
      \<lparr>param_name = ''font_size'', param_type = ''number'', param_default = PInt 72,
       param_required = False,
       param_description = [],
       param_options = None,
       param_min_value = Some (FFin 8), param_max_value = Some (FFin 240)\<rparr>,
      \<lparr>param_name = ''safe_area'', param_type = ''boolean'', param_default = PBool True,
       param_required = False,
       param_description = [],
       param_options = None,
       param_min_value = None, param_max_value = None\<rparr>],
    worker_type = ''ffmpeg_go''\<rparr>"

definition url_download_DEFINITION :: NodeTypeDefinition where
  "url_download_DEFINITION = \<lparr>
    type_name = ''url_download'', display_name = ''URL Download'', category = ''source'',
    nd_description = ''Download media from YouTube, X, Bilibili, Xiaohongshu, or direct URLs'',
    icon = ''download'',
    inputs = [\<lparr>port_name = ''url_input'', port_type = URL_VALUE, port_required = False,
       port_description = ''Planner-provided URL''\<rparr>],
    outputs = [\<lparr>port_name = ''output'', port_type = ANY_MEDIA, port_required = True,
       port_description = ''Downloaded video''\<rparr>],
    params = [\<lparr>param_name = ''url'', param_type = ''string'', param_default = PNone,
       param_required = True,
       param_description = ''YouTube, X, Bilibili, Xiaohongshu, or direct media URL'',
       param_options = None,
       param_min_value = None, param_max_value = None\<rparr>,
      \<lparr>param_name = ''format'', param_type = ''select'', param_default = PStr ''best'',
       param_required = False,
       param_description = ''Download quality'',
       param_options = Some [''best'', ''1080p'', ''720p'', ''480p'', ''audio_only''],
       param_min_value = None, param_max_value = None\<rparr>],
    worker_type = ''ffmpeg''\<rparr>"

definition vertical_crop_DEFINITION :: NodeTypeDefinition where
  "vertical_crop_DEFINITION = \<lparr>
    type_name = ''vertical_crop'', display_name = ''Vertical Crop'', category = ''transform'',
    nd_description = ''Convert video to a vertical frame with crop or blurred background.'',
    icon = ''crop'',
    inputs = [\<lparr>port_name = ''input'', port_type = VIDEO, port_required = True,
       port_description = ''Input video''\<rparr>],
    outputs = [\<lparr>port_name = ''output'', port_type = VIDEO, port_required = True,
       port_description = ''Vertical video''\<rparr>],
    params = [\<lparr>param_name = ''mode'', param_type = ''select'', param_default = PStr ''center_crop'',
       param_required = False,
       param_description = [],
       param_options = Some [''center_crop'', ''blur_bg'', ''smart_subject''],
       param_min_value = None, param_max_value = None\<rparr>,
      \<lparr>param_name = ''width'', param_type = ''number'', param_default = PInt 1080,
       param_required = False,
       param_description = [],
       param_options = None,
       param_min_value = Some (FFin 64), param_max_value = Some (FFin 4320)\<rparr>,
      \<lparr>param_name = ''height'', param_type = ''number'', param_default = PInt 1920,
       param_required = False,
       param_description = [],
       param_options = None,
       param_min_value = Some (FFin 64), param_max_value = Some (FFin 7680)\<rparr>,
      \<lparr>param_name = ''background'', param_type = ''select'', param_default = PStr ''blur'',
       param_required = False,
       param_description = [],
       param_options = Some [''blur'', ''black'', ''white''],
       param_min_value = None, param_max_value = None\<rparr>],
    worker_type = ''ffmpeg_go''\<rparr>"

definition material_library_ingest_DEFINITION :: NodeTypeDefinition where
  "material_library_ingest_DEFINITION = \<lparr>
    type_name = ''material_library_ingest'', display_name = ''Material Library Ingest'', category = ''transform'',
    nd_description = ''Slice a source video into indexed material clips and store them in one or more material libraries'',
    icon = ''database-zap'',
    inputs = [\<lparr>port_name = ''video'', port_type = VIDEO, port_required = True,
       port_description = ''Source video asset to index''\<rparr>],
    outputs = [\<lparr>port_name = ''output'', port_type = ANY_MEDIA, port_required = True,
       port_description = ''JSON summary artifact''\<rparr>],
    params = [\<lparr>param_name = ''target_library_ids'', param_type = ''string'', param_default = PNone,
       param_required = True,
       param_description = ''Material libraries to ingest into'',
       param_options = None,
       param_min_value = None, param_max_value = None\<rparr>,
      \<lparr>param_name = ''clip_len'', param_type = ''number'', param_default = PInt 8,
       param_required = True,
       param_description = ''Clip length in seconds'',
       param_options = None,
       param_min_value = Some (FFin 1), param_max_value = Some (FFin 120)\<rparr>,
      \<lparr>param_name = ''stride'', param_type = ''number'', param_default = PInt 4,
       param_required = True,
       param_description = ''Sliding window stride in seconds'',
       param_options = None,
       param_min_value = Some (FFin 1), param_max_value = Some (FFin 120)\<rparr>,
      \<lparr>param_name = ''subtitle_mode'', param_type = ''select'', param_default = PStr ''asr_if_missing'',
       param_required = True,
       param_description = ''How subtitles are generated for indexing'',
       param_options = Some [''asr_if_missing'', ''asr_always''],
       param_min_value = None, param_max_value = None\<rparr>,
      \<lparr>param_name = ''store_neighbors'', param_type = ''boolean'', param_default = PBool True,
       param_required = False,
       param_description = ''Store neighboring clip ids for later expansion'',
       param_options = None,
       param_min_value = None, param_max_value = None\<rparr>],
    worker_type = ''ffmpeg''\<rparr>"

definition material_search_DEFINITION :: NodeTypeDefinition where
  "material_search_DEFINITION = \<lparr>
    type_name = ''material_search'', display_name = ''Material Search'', category = ''planner'',
    nd_description = ''Search one or more material libraries with natural language and materialize refined clip assets'',
    icon = ''library'',
    inputs = [],
    outputs = [\<lparr>port_name = ''results'', port_type = SEARCH_RESULTS, port_required = True,
       port_description = ''Material search result list for planner nodes''\<rparr>],
    params = [\<lparr>param_name = ''query'', param_type = ''string'', param_default = PNone,
       param_required = True,
       param_description = ''Natural language query'',
       param_options = None,
       param_min_value = None, param_max_value = None\<rparr>,
      \<lparr>param_name = ''source_library_ids'', param_type = ''string'', param_default = PNone,
       param_required = True,
       param_description = ''Material libraries to search'',
       param_options = None,
       param_min_value = None, param_max_value = None\<rparr>,
      \<lparr>param_name = ''result_library_ids'', param_type = ''string'', param_default = PNone,
       param_required = False,
       param_description = ''Material libraries to save refined clips into'',
       param_options = None,
       param_min_value = None, param_max_value = None\<rparr>,
      \<lparr>param_name = ''top_k'', param_type = ''number'', param_default = PInt 50,
       param_required = True,
       param_description = ''Coarse recall top-k'',
       param_options = None,
       param_min_value = Some (FFin 1), param_max_value = Some (FFin 200)\<rparr>,
      \<lparr>param_name = ''merge_gap'', param_type = ''number'', param_default = PInt 5,
       param_required = True,
       param_description = ''Cluster merge gap in seconds'',
       param_options = None,
       param_min_value = Some (FFin 0), param_max_value = Some (FFin 30)\<rparr>,
      \<lparr>param_name = ''expand_left'', param_type = ''number'', param_default = PInt 4,
       param_required = True,
       param_description = ''Context expansion before cluster'',
       param_options = None,
       param_min_value = Some (FFin 0), param_max_value = Some (FFin 30)\<rparr>,
      \<lparr>param_name = ''expand_right'', param_type = ''number'', param_default = PInt 4,
       param_required = True,
       param_description = ''Context expansion after cluster'',
       param_options = None,
       param_min_value = Some (FFin 0), param_max_value = Some (FFin 30)\<rparr>,
      \<lparr>param_name = ''rerank_top_m'', param_type = ''number'', param_default = PInt 8,
       param_required = True,
       param_description = ''Top windows to rerank/refine'',
       param_options = None,
       param_min_value = Some (FFin 1), param_max_value = Some (FFin 50)\<rparr>,
      \<lparr>param_name = ''min_duration'', param_type = ''number'', param_default = PFloat (FFin (3 / 2)),
       param_required = True,
       param_description = ''Minimum final duration'',
       param_options = None,
       param_min_value = Some (FFin (1 / 2)), param_max_value = Some (FFin 60)\<rparr>,
      \<lparr>param_name = ''max_duration'', param_type = ''number'', param_default = PInt 20,
       param_required = True,
       param_description = ''Maximum final duration'',
       param_options = None,
       param_min_value = Some (FFin 1), param_max_value = Some (FFin 120)\<rparr>,
      \<lparr>param_name = ''dedupe_overlap_threshold'', param_type = ''number'', param_default = PFloat (FFin (3 / 5)),
       param_required = True,
       param_description = ''Overlap ratio used to dedupe refined results'',
       param_options = None,
       param_min_value = Some (FFin 0), param_max_value = Some (FFin 1)\<rparr>],
    worker_type = ''planner''\<rparr>"

definition youtube_search_DEFINITION :: NodeTypeDefinition where
  "youtube_search_DEFINITION = \<lparr>
    type_name = ''youtube_search'', display_name = ''YouTube Search'', category = ''planner'',
    nd_description = ''Search YouTube and prepare a selectable result list for batch planning'',
    icon = ''search'',
    inputs = [],
    outputs = [\<lparr>port_name = ''results'', port_type = SEARCH_RESULTS, port_required = True,
       port_description = ''Search result list for planner nodes''\<rparr>],
    params = [\<lparr>param_name = ''query'', param_type = ''string'', param_default = PNone,
       param_required = True,
       param_description = ''YouTube search query'',
       param_options = None,
       param_min_value = None, param_max_value = None\<rparr>,
      \<lparr>param_name = ''max_results'', param_type = ''number'', param_default = PInt 8,
       param_required = True,
       param_description = ''Maximum number of search results to keep'',
       param_options = None,
       param_min_value = Some (FFin 1), param_max_value = Some (FFin 50)\<rparr>],
    worker_type = ''planner''\<rparr>"

definition x_search_DEFINITION :: NodeTypeDefinition where
  "x_search_DEFINITION = \<lparr>
    type_name = ''x_search'', display_name = ''X Search'', category = ''planner'',
    nd_description = ''Search X and prepare a selectable result list for batch planning'',
    icon = ''search'',
    inputs = [],
    outputs = [\<lparr>port_name = ''results'', port_type = SEARCH_RESULTS, port_required = True,
       port_description = ''Search result list for planner nodes''\<rparr>],
    params = [\<lparr>param_name = ''query'', param_type = ''string'', param_default = PNone,
       param_required = True,
       param_description = ''X search query'',
       param_options = None,
       param_min_value = None, param_max_value = None\<rparr>,
      \<lparr>param_name = ''max_results'', param_type = ''number'', param_default = PInt 8,
       param_required = True,
       param_description = ''Maximum number of search results to keep'',
       param_options = None,
       param_min_value = Some (FFin 1), param_max_value = Some (FFin 50)\<rparr>],
    worker_type = ''planner''\<rparr>"

definition xiaohongshu_search_DEFINITION :: NodeTypeDefinition where
  "xiaohongshu_search_DEFINITION = \<lparr>
    type_name = ''xiaohongshu_search'', display_name = ''Xiaohongshu Search'', category = ''planner'',
    nd_description = ''Search Xiaohongshu and prepare a selectable result list for batch planning'',
    icon = ''search'',
    inputs = [],
    outputs = [\<lparr>port_name = ''results'', port_type = SEARCH_RESULTS, port_required = True,
       port_description = ''Search result list for planner nodes''\<rparr>],
    params = [\<lparr>param_name = ''query'', param_type = ''string'', param_default = PNone,
       param_required = True,
       param_description = ''Xiaohongshu search query'',
       param_options = None,
       param_min_value = None, param_max_value = None\<rparr>,
      \<lparr>param_name = ''max_results'', param_type = ''number'', param_default = PInt 8,
       param_required = True,
       param_description = ''Maximum number of search results to keep'',
       param_options = None,
       param_min_value = Some (FFin 1), param_max_value = Some (FFin 50)\<rparr>],
    worker_type = ''planner''\<rparr>"

definition bilibili_search_DEFINITION :: NodeTypeDefinition where
  "bilibili_search_DEFINITION = \<lparr>
    type_name = ''bilibili_search'', display_name = ''Bilibili Search'', category = ''planner'',
    nd_description = ''Search Bilibili and prepare a selectable result list for batch planning'',
    icon = ''search'',
    inputs = [],
    outputs = [\<lparr>port_name = ''results'', port_type = SEARCH_RESULTS, port_required = True,
       port_description = ''Search result list for planner nodes''\<rparr>],
    params = [\<lparr>param_name = ''query'', param_type = ''string'', param_default = PNone,
       param_required = True,
       param_description = ''Bilibili search query'',
       param_options = None,
       param_min_value = None, param_max_value = None\<rparr>,
      \<lparr>param_name = ''max_results'', param_type = ''number'', param_default = PInt 8,
       param_required = True,
       param_description = ''Maximum number of search results to keep'',
       param_options = None,
       param_min_value = Some (FFin 1), param_max_value = Some (FFin 50)\<rparr>],
    worker_type = ''planner''\<rparr>"

definition zip_records_DEFINITION :: NodeTypeDefinition where
  "zip_records_DEFINITION = \<lparr>
    type_name = ''zip_records'', display_name = ''Zip Records'', category = ''planner'',
    nd_description = ''Zip multiple search result channels into aligned batch records'',
    icon = ''workflow'',
    inputs = [],
    outputs = [],
    params = [\<lparr>param_name = ''channel_count'', param_type = ''number'', param_default = PInt 2,
       param_required = True,
       param_description = ''Number of search channels to zip'',
       param_options = None,
       param_min_value = Some (FFin 1), param_max_value = Some (FFin 12)\<rparr>,
      \<lparr>param_name = ''record_limit'', param_type = ''number'', param_default = PInt 0,
       param_required = True,
       param_description = ''Maximum number of output records (0 = auto)'',
       param_options = None,
       param_min_value = Some (FFin 0), param_max_value = Some (FFin 500)\<rparr>],
    worker_type = ''planner''\<rparr>"

definition export_DEFINITION :: NodeTypeDefinition where
  "export_DEFINITION = \<lparr>
    type_name = ''export'', display_name = ''Export'', category = ''output'',
    nd_description = ''Export processed video to a directory or destination'',
    icon = ''folder-output'',
    inputs = [\<lparr>port_name = ''input'', port_type = ANY_MEDIA, port_required = True,
       port_description = ''File to export''\<rparr>],
    outputs = [],
    params = [\<lparr>param_name = ''output_dir'', param_type = ''string'', param_default = PStr ''/tmp/vp_export'',
       param_required = False,
       param_description = ''Destination directory path'',
       param_options = None,
       param_min_value = None, param_max_value = None\<rparr>,
      \<lparr>param_name = ''filename'', param_type = ''string'', param_default = PStr [],
       param_required = False,
       param_description = ''Output filename (empty = use original name)'',
       param_options = None,
       param_min_value = None, param_max_value = None\<rparr>,
      \<lparr>param_name = ''enable_quality_qa'', param_type = ''boolean'', param_default = PBool True,
       param_required = False,
       param_description = ''Run export quality QA'',
       param_options = None,
       param_min_value = None, param_max_value = None\<rparr>,
      \<lparr>param_name = ''quality_gate_mode'', param_type = ''select'', param_default = PStr ''soft_repair_once'',
       param_required = False,
       param_description = ''Soft quality repair policy'',
       param_options = Some [''soft_repair_once''],
       param_min_value = None, param_max_value = None\<rparr>,
      \<lparr>param_name = ''vmaf_min_score'', param_type = ''number'', param_default = PInt 80,
       param_required = False,
       param_description = ''Minimum VMAF score before soft repair'',
       param_options = None,
       param_min_value = Some (FFin 0), param_max_value = Some (FFin 100)\<rparr>,
      \<lparr>param_name = ''loudnorm_target_i'', param_type = ''number'', param_default = PInt (- 16),
       param_required = False,
       param_description = ''Integrated loudness target'',
       param_options = None,
       param_min_value = Some (FFin (- 40)), param_max_value = Some (FFin 0)\<rparr>,
      \<lparr>param_name = ''loudnorm_target_lra'', param_type = ''number'', param_default = PInt 11,
       param_required = False,
       param_description = ''Loudness range target'',
       param_options = None,
       param_min_value = Some (FFin 1), param_max_value = Some (FFin 30)\<rparr>,
      \<lparr>param_name = ''loudnorm_target_tp'', param_type = ''number'', param_default = PFloat (FFin (- (3 / 2))),
       param_required = False,
       param_description = ''True peak target'',
       param_options = None,
       param_min_value = Some (FFin (- 9)), param_max_value = Some (FFin 0)\<rparr>],
    worker_type = ''ffmpeg_go''\<rparr>"

definition youtube_upload_DEFINITION :: NodeTypeDefinition where
  "youtube_upload_DEFINITION = \<lparr>
    type_name = ''youtube_upload'', display_name = ''YouTube Upload'', category = ''output'',
    nd_description = ''Upload video to YouTube via API'',
    icon = ''upload'',
    inputs = [\<lparr>port_name = ''input'', port_type = ANY_MEDIA, port_required = True,
       port_description = ''Video to upload''\<rparr>],
    outputs = [],
    params = [\<lparr>param_name = ''title'', param_type = ''string'', param_default = PNone,
       param_required = True,
       param_description = ''Video title'',
       param_options = None,
       param_min_value = None, param_max_value = None\<rparr>,
      \<lparr>param_name = ''description'', param_type = ''string'', param_default = PStr [],
       param_required = False,
       param_description = ''Video description'',
       param_options = None,
       param_min_value = None, param_max_value = None\<rparr>,
      \<lparr>param_name = ''privacy'', param_type = ''select'', param_default = PStr ''private'',
       param_required = False,
       param_description = ''Privacy status'',
       param_options = Some [''public'', ''unlisted'', ''private''],
       param_min_value = None, param_max_value = None\<rparr>,
      \<lparr>param_name = ''made_for_kids'', param_type = ''select'', param_default = PStr ''not_set'',
       param_required = False,
       param_description = ''Set YouTube audience flag during upload'',
       param_options = Some [''not_set'', ''yes'', ''no''],
       param_min_value = None, param_max_value = None\<rparr>,
      \<lparr>param_name = ''tags'', param_type = ''string'', param_default = PStr [],
       param_required = False,
       param_description = ''Comma-separated tags'',
       param_options = None,
       param_min_value = None, param_max_value = None\<rparr>],
    worker_type = ''youtube_publisher''\<rparr>"

definition x_upload_DEFINITION :: NodeTypeDefinition where
  "x_upload_DEFINITION = \<lparr>
    type_name = ''x_upload'', display_name = ''X Upload'', category = ''output'',
    nd_description = ''Publish a media post to X through the unified platform browser service'',
    icon = ''upload'',
    inputs = [\<lparr>port_name = ''input'', port_type = ANY_MEDIA, port_required = True,
       port_description = ''Media file to attach to the X post''\<rparr>],
    outputs = [],
    params = [\<lparr>param_name = ''text'', param_type = ''string'', param_default = PNone,
       param_required = True,
       param_description = ''Post text to publish on X'',
       param_options = None,
       param_min_value = None, param_max_value = None\<rparr>,
      \<lparr>param_name = ''reply_to_url'', param_type = ''string'', param_default = PStr [],
       param_required = False,
       param_description = ''Optional X post URL to reply to'',
       param_options = None,
       param_min_value = None, param_max_value = None\<rparr>],
    worker_type = ''ffmpeg''\<rparr>"

definition xiaohongshu_upload_DEFINITION :: NodeTypeDefinition where
  "xiaohongshu_upload_DEFINITION = \<lparr>
    type_name = ''xiaohongshu_upload'', display_name = ''Xiaohongshu Upload'', category = ''output'',
    nd_description = ''Publish a Xiaohongshu image note or video note through the unified platform browser service'',
    icon = ''upload'',
    inputs = [\<lparr>port_name = ''input'', port_type = ANY_MEDIA, port_required = True,
       port_description = ''Primary media file for the Xiaohongshu note''\<rparr>,
      \<lparr>port_name = ''image_2'', port_type = ANY_MEDIA, port_required = False,
       port_description = ''Optional second image for image-note publishing''\<rparr>,
      \<lparr>port_name = ''image_3'', port_type = ANY_MEDIA, port_required = False,
       port_description = ''Optional third image for image-note publishing''\<rparr>,
      \<lparr>port_name = ''image_4'', port_type = ANY_MEDIA, port_required = False,
       port_description = ''Optional fourth image for image-note publishing''\<rparr>,
      \<lparr>port_name = ''image_5'', port_type = ANY_MEDIA, port_required = False,
       port_description = ''Optional fifth image for image-note publishing''\<rparr>,
      \<lparr>port_name = ''image_6'', port_type = ANY_MEDIA, port_required = False,
       port_description = ''Optional sixth image for image-note publishing''\<rparr>,
      \<lparr>port_name = ''image_7'', port_type = ANY_MEDIA, port_required = False,
       port_description = ''Optional seventh image for image-note publishing''\<rparr>,
      \<lparr>port_name = ''image_8'', port_type = ANY_MEDIA, port_required = False,
       port_description = ''Optional eighth image for image-note publishing''\<rparr>,
      \<lparr>port_name = ''image_9'', port_type = ANY_MEDIA, port_required = False,
       port_description = ''Optional ninth image for image-note publishing''\<rparr>],
    outputs = [],
    params = [\<lparr>param_name = ''content'', param_type = ''string'', param_default = PNone,
       param_required = True,
       param_description = ''Note body content'',
       param_options = None,
       param_min_value = None, param_max_value = None\<rparr>,
      \<lparr>param_name = ''title'', param_type = ''string'', param_default = PStr [],
       param_required = False,
       param_description = ''Optional note title'',
       param_options = None,
       param_min_value = None, param_max_value = None\<rparr>,
      \<lparr>param_name = ''topics'', param_type = ''string'', param_default = PStr [],
       param_required = False,
       param_description = ''Comma-separated Xiaohongshu topics without #'',
       param_options = None,
       param_min_value = None, param_max_value = None\<rparr>,
      \<lparr>param_name = ''draft'', param_type = ''boolean'', param_default = PBool False,
       param_required = False,
       param_description = ''Save as draft instead of publishing immediately'',
       param_options = None,
       param_min_value = None, param_max_value = None\<rparr>,
      \<lparr>param_name = ''publish_mode'', param_type = ''select'', param_default = PStr ''image_note'',
       param_required = False,
       param_description = ''Choose whether to publish an image note or a video note'',
       param_options = Some [''image_note'', ''video_note''],
       param_min_value = None, param_max_value = None\<rparr>],
    worker_type = ''ffmpeg''\<rparr>"

section \<open>The registry of the built-in types\<close>

definition BUILTIN_MODULES :: "NodeTypeDefinition list" where
  "BUILTIN_MODULES =
    [source_DEFINITION,
     concat_horizontal_DEFINITION,
     concat_vertical_DEFINITION,
     concat_timeline_DEFINITION,
     concat_many_DEFINITION,
     montage_assembler_DEFINITION,
     concat_vertical_timeline_DEFINITION,
     trim_DEFINITION,
     watermark_DEFINITION,
     subtitle_DEFINITION,
     speech_to_subtitle_DEFINITION,
     smart_trim_DEFINITION,
     subtitle_translate_DEFINITION,
     subtitle_to_speech_DEFINITION,
     bgm_DEFINITION,
     replace_audio_DEFINITION,
     transcode_DEFINITION,
     title_overlay_DEFINITION,
     url_download_DEFINITION,
     vertical_crop_DEFINITION,
     material_library_ingest_DEFINITION,
     material_search_DEFINITION,
     youtube_search_DEFINITION,
     x_search_DEFINITION,
     xiaohongshu_search_DEFINITION,
     bilibili_search_DEFINITION,
     zip_records_DEFINITION,
     export_DEFINITION,
     youtube_upload_DEFINITION,
     x_upload_DEFINITION,
     xiaohongshu_upload_DEFINITION]"

definition builtin_registry :: registry where
  "builtin_registry = load_builtins BUILTIN_MODULES []"

lemmas builtin_defs =
  source_DEFINITION_def
  concat_horizontal_DEFINITION_def
  concat_vertical_DEFINITION_def
  concat_timeline_DEFINITION_def
  concat_many_DEFINITION_def
  montage_assembler_DEFINITION_def
  concat_vertical_timeline_DEFINITION_def
  trim_DEFINITION_def
  watermark_DEFINITION_def
  subtitle_DEFINITION_def
  speech_to_subtitle_DEFINITION_def
  smart_trim_DEFINITION_def
  subtitle_translate_DEFINITION_def
  subtitle_to_speech_DEFINITION_def
  bgm_DEFINITION_def
  replace_audio_DEFINITION_def
  transcode_DEFINITION_def
  title_overlay_DEFINITION_def
  url_download_DEFINITION_def
  vertical_crop_DEFINITION_def
  material_library_ingest_DEFINITION_def
  material_search_DEFINITION_def
  youtube_search_DEFINITION_def
  x_search_DEFINITION_def
  xiaohongshu_search_DEFINITION_def
  bilibili_search_DEFINITION_def
  zip_records_DEFINITION_def
  export_DEFINITION_def
  youtube_upload_DEFINITION_def
  x_upload_DEFINITION_def
  xiaohongshu_upload_DEFINITION_def

end
