(* ===== verification/Catalogue.thy ===== *)
theory Catalogue
  imports Valid_Pipelines Builtins
begin

text \<open>
  The built-in node types as a whole: after \<open>_load_builtins\<close> the registry holds exactly the
  modules listed in \<open>app/node_registry/builtin/__init__.py\<close>, no two of them share a name, the
  ports and parameters of a type have distinct names, and every default of an optional parameter
  passes the validator.
\<close>

section \<open>Defaults and names\<close>

definition empty_pipeline :: PipelineDefinition where
  "empty_pipeline = \<lparr>nodes = [], edges = [], viewport = []\<rparr>"

text \<open>A node of the type whose configuration sets one parameter to its default.\<close>

definition default_node :: "NodeTypeDefinition \<Rightarrow> ParamDefinition \<Rightarrow> PipelineNode" where
  "default_node nd p = \<lparr>node_id = ''n'', node_type = type_name nd, position = [], node_label = [],
     node_config = [(param_name p, param_default p)], node_asset_id = None\<rparr>"

definition defaults_ok :: "NodeTypeDefinition \<Rightarrow> bool" where
  "defaults_ok nd =
     list_all (\<lambda>p. param_required p \<or> check_param empty_pipeline (default_node nd p) p = Inr []) (params nd)"

definition names_ok :: "NodeTypeDefinition \<Rightarrow> bool" where
  "names_ok nd = (distinct (map port_name (inputs nd)) \<and> distinct (map port_name (outputs nd))
      \<and> distinct (map param_name (params nd)))"

lemma py_float_small: "\<bar>n\<bar> \<le> 1000000000 \<Longrightarrow> py_float (PInt n) = Inr (FFin (rat_of_int n))"
proof -
  assume "\<bar>n\<bar> \<le> 1000000000"
  then have "\<bar>rat_of_int n\<bar> \<le> 1000000000" by (simp add: abs_le_iff)
  moreover have "(1000000000::rat) < float_limit" by (simp add: float_limit_def)
  ultimately show ?thesis by simp
qed

lemma default_check:
  "check_param empty_pipeline (default_node nd p) p = Inr [] \<longleftrightarrow> param_value_ok p (param_default p)"
  by (simp add: check_param_Nil param_exempt_def empty_pipeline_def default_node_def dict_get_or_def
      planner_bound_url_nodes_def planner_bound_source_nodes_def planner_bound_nodes_def)

lemma builtin_defaults: "list_all defaults_ok BUILTIN_MODULES"
  unfolding BUILTIN_MODULES_def list.pred_inject(2) defaults_ok_def default_check
  by (intro conjI; (simp add: param_value_ok_def py_float_small builtin_defs del: py_float.simps(3)))

lemma builtin_names: "list_all names_ok BUILTIN_MODULES"
  unfolding BUILTIN_MODULES_def list.pred_inject(2) names_ok_def
  by (intro conjI; (simp add: builtin_defs distinct_map inj_on_def))

lemma builtin_type_names: "distinct (map type_name BUILTIN_MODULES)"
  by (simp add: BUILTIN_MODULES_def builtin_defs)

section \<open>The registry after loading\<close>

lemma load_builtins_fresh:
  "distinct (map type_name ds) \<Longrightarrow> load_builtins ds [] = map (\<lambda>d. (type_name d, d)) ds"
  using dict_of_distinct [of type_name ds "\<lambda>d. d"]
  by (simp add: load_builtins_def dict_of_def register_def [abs_def])


end
