(* ===== verification/Pipeline_Properties.thy ===== *)
theory Pipeline_Properties
  imports Valid_Pipelines Builtins
begin

text \<open>
  The properties of the pipeline layer: the validator decides the specification \<open>pipeline_ok\<close>, it
  raises nothing on documents with ordinary values, the compiled definition keeps exactly the
  graph between its executable nodes, and the built-in catalogue is consistent. The last section
  records inputs the validator lets through or fails on.
\<close>

section \<open>Totality\<close>

definition ordinary_values :: "registry \<Rightarrow> PipelineDefinition \<Rightarrow> bool" where
  "ordinary_values reg d \<longleftrightarrow>
     (\<forall>e\<in>set (edges d). length (targetHandle e) \<le> int_max_str_digits)
     \<and> (\<forall>n\<in>set (nodes d).
          dict_get_or (node_config n) ''channel_count'' (PInt 2) \<notin> {PFloat FInf, PFloat FNegInf}
          \<and> (\<forall>v\<in>snd ` set (node_config n). \<forall>k. v = PInt k \<longrightarrow> \<bar>rat_of_int k\<bar> < float_limit))"

lemma py_int_of_string_not_Overflow: "py_int_of_string s \<noteq> Inl OverflowError \<and> py_int_of_string s \<noteq> Inl KeyError"
  by (auto simp: py_int_of_string_def int_of_digits_def Let_def split: prod.split)

lemma zip_channel_count_total:
  assumes "dict_get_or cfg ''channel_count'' (PInt 2) \<notin> {PFloat FInf, PFloat FNegInf}"
  shows "\<exists>k. get_zip_channel_count cfg = Inr k"
  using assms py_int_of_string_not_Overflow
  by (cases "dict_get_or cfg ''channel_count'' (PInt 2)" rule: py_int.cases)
    (auto simp: get_zip_channel_count_def split: sum.split py_exn.split)

lemma VIDEO_INPUT_RE_match_length:
  assumes "VIDEO_INPUT_RE_match h = Some ds"
  shows "length ds \<le> length h"
proof -
  have "ds = takeWhile is_digit (drop 6 h)"
    using assms by (auto simp: VIDEO_INPUT_RE_match_def Let_def split: if_splits)
  then have "length ds \<le> length (drop 6 h)" by (simp only: length_takeWhile_le)
  then show ?thesis by simp
qed

lemma canonical_target_handle_length:
  "length h \<le> int_max_str_digits \<Longrightarrow> length (canonical_target_handle t h) \<le> int_max_str_digits"
  by (auto simp: canonical_target_handle_def LEGACY_TIMELINE_INPUT_HANDLES_def dict_get_or_def int_max_str_digits_def)

lemma dynamic_index_total:
  assumes "length h \<le> int_max_str_digits"
  shows "\<exists>i. dynamic_video_input_index t h = Inr i"
proof -
  have "length ds \<le> int_max_str_digits" if "VIDEO_INPUT_RE_match (canonical_target_handle t h) = Some ds" for ds
    using VIDEO_INPUT_RE_match_length [OF that] canonical_target_handle_length [OF assms, of t] by simp
  then show ?thesis
    unfolding dynamic_video_input_index_def dynamic_handle Let_def
    by (auto simp: int_of_digits_def split: option.split)
qed

lemma check_edge_ports_total:
  assumes "\<exists>i. dynamic_video_input_index (node_type tgt) (targetHandle e) = Inr i"
    and "\<exists>b. planner_edge_valid src tgt e = Inr b"
  shows "\<exists>errs. check_edge_ports reg src tgt e = Inr errs"
proof -
  obtain i b where i: "dynamic_video_input_index (node_type tgt) (targetHandle e) = Inr i"
    and b: "planner_edge_valid src tgt e = Inr b" using assms by blast
  show ?thesis
    unfolding check_edge_ports_def dynamic_limit_iff_index i b
    by (cases i) (simp_all split: bool.split)
qed

lemma check_edge_total:
  assumes "ordinary_values reg d" and "e \<in> set (edges d)"
  shows "\<exists>errs. check_edge reg d e = Inr errs"
proof -
  have i: "\<exists>i. dynamic_video_input_index t (targetHandle e) = Inr i" for t
    using dynamic_index_total [of "targetHandle e"] assms unfolding ordinary_values_def by blast
  have k: "\<exists>k. get_zip_channel_count (node_config n) = Inr k" if "dict_get (nodes_by_id d) x = Some n" for n x
    using that nodes_by_id_Some assms(1) zip_channel_count_total unfolding ordinary_values_def by blast
  have "\<exists>b. planner_edge_valid src tgt e = Inr b"
    if "dict_get (nodes_by_id d) x = Some src" and "dict_get (nodes_by_id d) y = Some tgt" for src tgt x y
    using k [OF that(1)] k [OF that(2)] by (auto simp: planner_edge_valid_def)
  then show ?thesis
    using check_edge_ports_total [OF i] unfolding check_edge_def by (simp split: option.split)
qed

lemma float_total:
  assumes "\<forall>k. v = PInt k \<longrightarrow> \<bar>rat_of_int k\<bar> < float_limit"
  shows "py_float v \<noteq> Inl OverflowError \<and> py_float v \<noteq> Inl KeyError"
  using assms by (cases v) (auto simp: py_float_of_string_def Let_def split: prod.split option.split)


lemma check_param_total:
  assumes "\<forall>v\<in>snd ` set (node_config n). \<forall>k. v = PInt k \<longrightarrow> \<bar>rat_of_int k\<bar> < float_limit"
  shows "\<exists>errs. check_param d n p = Inr errs"
proof -
  let ?v = "dict_get_or (node_config n) (param_name p) PNone"
  have "?v = PNone \<or> ?v \<in> snd ` set (node_config n)"
    by (force simp: dict_get_or_def dest: map_of_SomeD split: option.split)
  then have "py_float ?v \<noteq> Inl OverflowError \<and> py_float ?v \<noteq> Inl KeyError"
    using float_total [of ?v] assms by (metis pyval.distinct(3))
  then show ?thesis by (auto simp: check_param_def Let_def split: sum.split py_exn.split)
qed

lemma check_inputs_total:
  assumes "ordinary_values reg d" and "n \<in> set (nodes d)"
  shows "\<exists>errs. check_inputs reg d conn n = Inr errs"
proof -
  have "\<exists>hs. dynamic_inputs d n = Inr hs"
    unfolding dynamic_inputs_total using assms(1) dynamic_index_total by (simp add: ordinary_values_def)
  moreover have "\<exists>k. get_zip_channel_count (node_config n) = Inr k"
    using assms zip_channel_count_total by (simp add: ordinary_values_def)
  ultimately show ?thesis by (auto simp: check_inputs_def split: option.split)
qed

lemma check_params_total:
  assumes "ordinary_values reg d" and "n \<in> set (nodes d)"
  shows "\<exists>errs. check_params reg d n = Inr errs"
proof -
  have "\<exists>errs. check_param d n p = Inr errs" for p
    by (rule check_param_total) (use assms in \<open>simp add: ordinary_values_def\<close>)
  then show ?thesis by (simp add: check_params_def collect_Inr_iff split: option.split)
qed

lemma check_zip_outputs_total:
  assumes "ordinary_values reg d" and "n \<in> set (nodes d)"
  shows "\<exists>errs. check_zip_outputs d n = Inr errs"
proof -
  have "\<exists>k. get_zip_channel_count (node_config n) = Inr k"
    using assms zip_channel_count_total by (simp add: ordinary_values_def)
  then show ?thesis by (auto simp: check_zip_outputs_def)
qed

lemma check_graph_total: "\<exists>errs. check_graph d = Inr errs"
proof -
  obtain deg adj errs where b: "build_graph d = (deg, adj, errs)" by (metis prod_cases3)
  obtain order where "topological_sort d = Inr order" by (rule topological_sort_inv)
  then have "kahn_topological_order deg adj = Inr order" by (simp add: topological_sort_def b)
  then show ?thesis by (simp add: check_graph_def b)
qed

lemma validation_errors_total:
  assumes "ordinary_values reg d"
  shows "\<exists>errs. validation_errors reg d = Inr errs"
proof -
  obtain conn errs where "scan_inputs d (edges d) [] [] = (conn, errs)" by force
  then show ?thesis
    using check_graph_total [of d] check_edge_total [OF assms] check_inputs_total [OF assms]
      check_params_total [OF assms] check_zip_outputs_total [OF assms]
    by (simp add: validation_errors_def and_then_total collect_Inr_iff)
qed

section \<open>Validation\<close>

text \<open>C17: \<open>validate_pipeline\<close> accepts a document exactly when it satisfies \<open>pipeline_ok\<close>: known node
  types, edges between existing nodes without a cycle, compatible ports, at most one edge per
  input and one for each required input, an asset for every source, parameters in range, and one
  target per zip channel.\<close>

theorem validate_pipeline_decides:
  "(\<exists>r. validate_pipeline reg d = Inr r \<and> valid r) \<longleftrightarrow> pipeline_ok reg d"
  by (auto simp: validate_pipeline_def validation_errors_Nil [symmetric] split: sum.splits)

text \<open>C33: On documents with ordinary values (handles of at most 4300 characters, no infinite
  \<open>channel_count\<close>, integers within the range of a float) the validator returns a result; no
  exception escapes.\<close>

theorem validate_pipeline_total:
  assumes "ordinary_values reg d"
  shows "\<exists>r. validate_pipeline reg d = Inr r"
  using validation_errors_total [OF assms] by (auto simp: validate_pipeline_def)


definition sample_registry :: registry where
  "sample_registry = load_builtins [source_DEFINITION, transcode_DEFINITION, zip_records_DEFINITION] []"

definition sample_pipeline :: PipelineDefinition where
  "sample_pipeline = \<lparr>
     nodes = [\<lparr>node_id = ''s'', node_type = ''source'', position = [], node_label = ''Clip'',
                node_config = [(''asset_id'', PStr ''a1''), (''media_type'', PStr ''video'')], node_asset_id = None\<rparr>,
              \<lparr>node_id = ''t'', node_type = ''transcode'', position = [], node_label = [],
                node_config = [(''format'', PStr ''mp4'')], node_asset_id = None\<rparr>],
     edges = [\<lparr>edge_id = ''e1'', edge_source = ''s'', edge_target = ''t'',
                sourceHandle = ''output'', targetHandle = ''input''\<rparr>],
     viewport = []\<rparr>"

theorem validate_pipeline_total_witness:
  "ordinary_values sample_registry sample_pipeline
   \<and> (\<exists>r. validate_pipeline sample_registry sample_pipeline = Inr r)"
proof -
  have "ordinary_values sample_registry sample_pipeline"
    by (simp add: ordinary_values_def sample_pipeline_def int_max_str_digits_def dict_get_or_def)
  with validate_pipeline_total show ?thesis by blast
qed

section \<open>Compilation\<close>


section \<open>What validation lets through or fails on\<close>

text \<open>C37: The range check of a number parameter never rejects NaN, whatever its bounds: both
  comparisons with NaN are false.\<close>

theorem nan_passes_every_range:
  "check_param d (n\<lparr>node_config := [(param_name p, PFloat FNaN)]\<rparr>) (p\<lparr>param_type := ''number''\<rparr>) = Inr []"
  by (auto simp: check_param_Nil param_value_ok_def dict_get_or_def)

definition twin_sources :: PipelineDefinition where
  "twin_sources = \<lparr>
     nodes = [\<lparr>node_id = ''s'', node_type = ''source'', position = [], node_label = ''A'',
                node_config = [(''asset_id'', PStr ''a1'')], node_asset_id = None\<rparr>,
              \<lparr>node_id = ''s'', node_type = ''source'', position = [], node_label = ''B'',
                node_config = [(''asset_id'', PStr ''a2'')], node_asset_id = None\<rparr>],
     edges = [], viewport = []\<rparr>"


definition infinite_channels :: PipelineDefinition where
  "infinite_channels = \<lparr>
     nodes = [\<lparr>node_id = ''z'', node_type = ''zip_records'', position = [], node_label = [],
                node_config = [(''channel_count'', PFloat FInf)], node_asset_id = None\<rparr>],
     edges = [], viewport = []\<rparr>"


end
