(* ===== verification/Jobs.thy ===== *)
theory Jobs
  imports Graph
begin

text \<open>
  The rows the orchestrator works on: \<open>app/models/job.py\<close>, \<open>app/models/artifact.py\<close>,
  \<open>app/models/asset.py\<close>, \<open>app/models/pipeline.py\<close>, \<open>app/models/schedule.py\<close>, the columns of \<open>ChannelProfile\<close> and
  \<open>ProductionTask\<close> the execution authority reads, and the dispatch, registration, attestation,
  receipt and delivery rows of the registered workers. A database is the
  record \<open>world\<close> of its tables, each a list of rows in the order of insertion; \<open>next_id\<close> supplies
  the identifiers the database generates. A job carries its \<open>node_executions\<close> relationship.

  Identifiers are natural numbers and instants are integers: the code only compares them. The
  clock is an argument \<open>now\<close> of the operations that read it, the one setting the scheduler reads
  is a field of \<open>world\<close>. The locale \<open>row_table\<close> is the
  interface of a table addressed by primary key.
\<close>

type_synonym uuid = nat
type_synonym datetime = int

section \<open>Rows\<close>

datatype JobStatus =
    JOB_PENDING | WAITING_WINDOW | VALIDATING | PLANNING | JOB_RUNNING
  | JOB_SUCCEEDED | JOB_FAILED | JOB_CANCELLED | PARTIALLY_FAILED

datatype NodeStatus = PENDING | QUEUED | RUNNING | SUCCEEDED | FAILED | SKIPPED | CANCELLED

record NodeExecution =
  ne_id :: uuid
  ne_job_id :: uuid
  ne_node_id :: string
  ne_node_type :: string
  ne_node_label :: string
  ne_node_config :: config
  ne_status :: NodeStatus
  ne_progress :: int
  ne_worker_id :: "string option"
  ne_queued_at :: "datetime option"
  ne_started_at :: "datetime option"
  ne_completed_at :: "datetime option"
  ne_error_message :: "string option"
  ne_error_trace :: "string option"
  ne_retry_count :: int
  ne_input_artifact_ids :: "uuid list"
  ne_output_artifact_id :: "uuid option"
  ne_worker_registration_id :: "uuid option"
  ne_worker_lease_epoch :: "int option"

record ExecutionPlan =
  topo_order :: "string list"
  dependencies :: "(string, string list) dict"

record Job =
  job_id :: uuid
  job_pipeline_id :: uuid
  pipeline_snapshot :: PipelineDefinition
  job_status :: JobStatus
  execution_plan :: "ExecutionPlan option"
  submitted_at :: datetime
  job_started_at :: "datetime option"
  job_completed_at :: "datetime option"
  job_error_message :: "string option"
  submitted_by :: string
  parent_job_id :: "uuid option"
  job_retry_count :: int
  orchestrator_owner :: string
  node_executions :: "NodeExecution list"

text \<open>A definition may be the JSON value \<open>null\<close>: the column is not nullable, its values are.\<close>

record Pipeline =
  pl_id :: uuid
  pl_name :: string
  pl_description :: string
  pl_definition :: "PipelineDefinition option"
  pl_is_template :: bool
  pl_template_tags :: "string list"
  pl_created_by :: string
  pl_version :: int
  pl_created_at :: datetime
  pl_updated_at :: datetime

datatype ArtifactKind = INTERMEDIATE | FINAL

record Artifact =
  art_id :: uuid
  art_job_id :: uuid
  art_node_execution_id :: uuid
  art_kind :: ArtifactKind
  art_filename :: string
  art_mime_type :: "string option"
  art_file_size :: "int option"
  art_storage_backend :: string
  art_storage_path :: string
  art_media_info :: "config option"

record Asset =
  asset_id :: uuid
  asset_filename :: string
  asset_original_name :: string
  asset_mime_type :: "string option"
  asset_file_size :: "int option"
  asset_storage_backend :: string
  asset_storage_path :: string
  asset_media_info :: "config option"

record RuntimeSchedule =
  service_name :: string
  sched_state :: string
  guarded_job_id :: "uuid option"
  sched_updated_by :: string

record ChannelProfile =
  channel_id :: uuid
  channel_enabled :: bool
  channel_halted_at :: "datetime option"

record ProductionTask =
  task_id :: uuid
  task_channel_profile_id :: uuid
  task_job_id :: "uuid option"
  task_state :: string

record IntermediateArtifactCache =
  ce_id :: uuid
  ce_cache_key :: string
  ce_node_type :: string
  ce_node_config_hash :: string
  ce_input_signature_hash :: string
  ce_output_artifact_id :: "uuid option"
  ce_storage_backend :: "string option"
  ce_storage_path :: "string option"
  ce_filename :: "string option"
  ce_mime_type :: "string option"
  ce_file_size :: "int option"
  ce_media_info :: "config option"
  ce_last_used_at :: datetime
  ce_hit_count :: int
  ce_metadata_json :: config

record WorkerTaskDispatch =
  wd_id :: uuid
  wd_origin_receipt_id :: "uuid option"
  wd_dispatch_key :: uuid
  wd_job_id :: uuid
  wd_node_execution_id :: uuid
  wd_redis_stream :: string
  wd_consumer_group :: string
  wd_payload_sha256 :: string
  wd_payload_json :: "(string, pyval) dict"
  wd_delivery_state :: string
  wd_delivery_attempted_at :: "datetime option"
  wd_delivery_error :: "string option"
  wd_resolution_state :: string
  wd_redis_message_id :: "string option"
  wd_created_at :: datetime
  wd_delivered_at :: "datetime option"
  wd_acknowledged_at :: "datetime option"
  wd_cancelled_at :: "datetime option"

record WorkerAdmissionGrant =
  gr_id :: uuid
  gr_redis_stream :: string
  gr_redis_group :: string

record WorkerRegistration =
  wr_id :: uuid
  wr_grant_id :: uuid
  wr_lease_epoch :: int
  wr_status :: string
  wr_lease_expires_at :: datetime
  wr_database_principal :: string

record WorkerTaskDeliveryAttestation =
  at_id :: uuid
  at_redis_stream :: string
  at_consumer_group :: string
  at_message_id :: string
  at_payload_sha256 :: string
  at_dispatch_key :: uuid
  at_job_id :: uuid
  at_node_execution_id :: uuid
  at_worker_registration_id :: uuid
  at_worker_lease_epoch :: int
  at_worker_id :: string
  at_worker_started_at :: datetime
  at_ack_state :: string
  at_acknowledged_at :: "datetime option"
  at_attested_at :: datetime

record WorkerEventEmission =
  em_source_task_attestation_id :: uuid
  em_redis_stream :: string
  em_consumer_group :: string
  em_message_id :: "string option"
  em_payload_sha256 :: string
  em_payload_json :: "(string, string) dict"
  em_event_type :: string
  em_job_id :: uuid
  em_node_execution_id :: uuid
  em_worker_registration_id :: uuid
  em_worker_lease_epoch :: int
  em_worker_id :: string
  em_worker_started_at :: datetime
  em_emission_state :: string
  em_emitted_at :: "datetime option"
  em_resolved_at :: "datetime option"

record RegisteredWorkerEventReceipt =
  rc_id :: uuid
  rc_source_task_attestation_id :: uuid
  rc_redis_stream :: string
  rc_consumer_group :: string
  rc_message_id :: string
  rc_payload_sha256 :: string
  rc_payload_json :: "(string, string) dict"
  rc_event_type :: string
  rc_job_id :: uuid
  rc_node_execution_id :: uuid
  rc_worker_registration_id :: uuid
  rc_worker_lease_epoch :: int
  rc_worker_id :: string
  rc_worker_started_at :: datetime
  rc_source_task_stream :: string
  rc_source_task_group :: string
  rc_source_task_message_id :: string
  rc_application_state :: string
  rc_ack_state :: string
  rc_source_task_ack_state :: string
  rc_accepted_at :: datetime
  rc_applied_at :: "datetime option"
  rc_acknowledged_at :: "datetime option"
  rc_source_task_acknowledged_at :: "datetime option"

record RegisteredWorkerEventDelivery =
  dl_id :: uuid
  dl_source_task_attestation_id :: uuid
  dl_receipt_id :: "uuid option"
  dl_redis_stream :: string
  dl_consumer_group :: string
  dl_message_id :: string
  dl_payload_sha256 :: string
  dl_resolution_state :: string
  dl_reason_code :: "string option"
  dl_ack_state :: string
  dl_accepted_at :: datetime
  dl_acknowledged_at :: "datetime option"

record world =
  channels :: "ChannelProfile list"
  schedules :: "RuntimeSchedule list"
  tasks :: "ProductionTask list"
  pipelines :: "Pipeline list"
  jobs :: "Job list"
  assets :: "Asset list"
  artifacts :: "Artifact list"
  cache_entries :: "IntermediateArtifactCache list"
  dispatches :: "WorkerTaskDispatch list"
  grants :: "WorkerAdmissionGrant list"
  registrations :: "WorkerRegistration list"
  attestations :: "WorkerTaskDeliveryAttestation list"
  emissions :: "WorkerEventEmission list"
  receipts :: "RegisteredWorkerEventReceipt list"
  deliveries :: "RegisteredWorkerEventDelivery list"
  task_streams :: "(string \<times> string \<times> (string, pyval) dict) list"
  redis_markers :: "(uuid, string) dict"
  redis_acks :: "(string \<times> string \<times> string) list"
  next_id :: uuid
  video_schedule_default_state :: string

section \<open>Tables\<close>

definition row_get :: "('r \<Rightarrow> 'k) \<Rightarrow> 'r list \<Rightarrow> 'k \<Rightarrow> 'r option" where
  "row_get key rows k = find (\<lambda>r. key r = k) rows"

definition row_put :: "('r \<Rightarrow> 'k) \<Rightarrow> 'r list \<Rightarrow> 'r \<Rightarrow> 'r list" where
  "row_put key rows r = map (\<lambda>r'. if key r' = key r then r else r') rows"

text \<open>
  A table with a primary key: writing a row back changes the row with that key, leaves every
  other one alone and adds none.
\<close>

locale row_table =
  fixes tab_key :: "'r \<Rightarrow> 'k" and tab_get :: "'t \<Rightarrow> 'k \<Rightarrow> 'r option" and tab_put :: "'t \<Rightarrow> 'r \<Rightarrow> 't"
  assumes get_key: "tab_get t k = Some r \<Longrightarrow> tab_key r = k"
    and get_put: "tab_get (tab_put t r) k =
      (if k = tab_key r then (if tab_get t k = None then None else Some r) else tab_get t k)"
begin

lemma get_put_same: "tab_get t (tab_key r) = Some r' \<Longrightarrow> tab_get (tab_put t r) (tab_key r) = Some r"
  by (simp add: get_put)

lemma get_put_other: "k \<noteq> tab_key r \<Longrightarrow> tab_get (tab_put t r) k = tab_get t k"
  by (simp add: get_put)

lemma put_put: "tab_key r = tab_key r' \<Longrightarrow> tab_get (tab_put (tab_put t r) r') k = tab_get (tab_put t r') k"
  by (simp add: get_put)

lemma get_put_Some:
  assumes "tab_get (tab_put t r) k = Some r'"
  shows "r' = r \<and> k = tab_key r \<or> tab_get t k = Some r'"
  using assms by (auto simp: get_put split: if_splits)

end

lemma row_get_put:
  "row_get key (row_put key rows r) k =
     (if k = key r then (if row_get key rows k = None then None else Some r) else row_get key rows k)"
  by (induction rows) (auto simp: row_get_def row_put_def)

lemma row_get_simps [simp]:
  "row_get key [] k = None"
  "row_get key (r # rows) k = (if key r = k then Some r else row_get key rows k)"
  by (simp_all add: row_get_def)

lemma row_get_None_iff: "row_get key rows k = None \<longleftrightarrow> k \<notin> key ` set rows"
  by (induction rows) auto

lemma row_get_append:
  "row_get key (rows @ rows') k = (case row_get key rows k of None \<Rightarrow> row_get key rows' k | Some r \<Rightarrow> Some r)"
  by (induction rows) (auto simp: row_get_def)

lemma row_get_key: "row_get key rows k = Some r \<Longrightarrow> key r = k"
  by (auto simp: row_get_def find_Some_iff)

lemma row_get_mem: "row_get key rows k = Some r \<Longrightarrow> r \<in> set rows"
  by (auto simp: row_get_def find_Some_iff)

lemma row_get_distinct: "distinct (map key rows) \<Longrightarrow> r \<in> set rows \<Longrightarrow> row_get key rows (key r) = Some r"
  by (induction rows) (auto simp: row_get_def image_iff)

lemma row_unique:
  assumes "distinct (map key rows)" and "r \<in> set rows" and "r' \<in> set rows" and "key r = key r'"
  shows "r = r'"
proof -
  have "inj_on key (set rows)" using assms(1) by (simp add: distinct_map)
  then show ?thesis using assms(4,2,3) by (rule inj_onD)
qed

lemma row_put_keys [simp]: "map key (row_put key rows r) = map key rows"
  by (auto simp: row_put_def)

lemma row_put_mem: "r' \<in> set (row_put key rows r) \<Longrightarrow> r' = r \<or> r' \<in> set rows \<and> key r' \<noteq> key r"
  by (auto simp: row_put_def split: if_splits)

definition get_job :: "world \<Rightarrow> uuid \<Rightarrow> Job option" where
  "get_job w jid = row_get job_id (jobs w) jid"

definition put_job :: "world \<Rightarrow> Job \<Rightarrow> world" where
  "put_job w job = w\<lparr>jobs := row_put job_id (jobs w) job\<rparr>"

definition get_pipeline :: "world \<Rightarrow> uuid \<Rightarrow> Pipeline option" where
  "get_pipeline w pid = row_get pl_id (pipelines w) pid"

definition put_pipeline :: "world \<Rightarrow> Pipeline \<Rightarrow> world" where
  "put_pipeline w p = w\<lparr>pipelines := row_put pl_id (pipelines w) p\<rparr>"

definition get_artifact :: "world \<Rightarrow> uuid \<Rightarrow> Artifact option" where
  "get_artifact w aid = row_get art_id (artifacts w) aid"

definition put_artifact :: "world \<Rightarrow> Artifact \<Rightarrow> world" where
  "put_artifact w a = w\<lparr>artifacts := row_put art_id (artifacts w) a\<rparr>"

definition get_execution :: "Job \<Rightarrow> uuid \<Rightarrow> NodeExecution option" where
  "get_execution job nid = row_get ne_id (node_executions job) nid"

definition put_execution :: "Job \<Rightarrow> NodeExecution \<Rightarrow> Job" where
  "put_execution job ne = job\<lparr>node_executions := row_put ne_id (node_executions job) ne\<rparr>"

lemma get_job_mem: "get_job w jid = Some job \<Longrightarrow> job \<in> set (jobs w)"
  unfolding get_job_def by (rule row_get_mem)

lemma get_job_id: "get_job w jid = Some job \<Longrightarrow> job_id job = jid"
  unfolding get_job_def by (rule row_get_key)

lemma get_execution_mem: "get_execution job nid = Some n \<Longrightarrow> n \<in> set (node_executions job)"
  unfolding get_execution_def by (rule row_get_mem)

lemma get_execution_id: "get_execution job nid = Some n \<Longrightarrow> ne_id n = nid"
  unfolding get_execution_def by (rule row_get_key)

interpretation job_rows: row_table job_id get_job put_job
  by unfold_locales (auto simp: get_job_def put_job_def row_get_put dest: row_get_key)

interpretation pipeline_rows: row_table pl_id get_pipeline put_pipeline
  by unfold_locales (auto simp: get_pipeline_def put_pipeline_def row_get_put dest: row_get_key)

interpretation artifact_rows: row_table art_id get_artifact put_artifact
  by unfold_locales (auto simp: get_artifact_def put_artifact_def row_get_put dest: row_get_key)

interpretation execution_rows: row_table ne_id get_execution put_execution
  by unfold_locales (auto simp: get_execution_def put_execution_def row_get_put dest: row_get_key)


definition all_executions :: "world \<Rightarrow> NodeExecution list" where
  "all_executions w = concat (map node_executions (jobs w))"

section \<open>Sample rows\<close>

text \<open>A two-step pipeline, its executions and a database with given jobs, for the witnesses.\<close>

definition sample_definition :: PipelineDefinition where
  "sample_definition = \<lparr>
     nodes = [\<lparr>node_id = ''a'', node_type = ''trim'', position = [], node_label = ''A'',
                node_config = [], node_asset_id = None\<rparr>,
              \<lparr>node_id = ''b'', node_type = ''trim'', position = [], node_label = ''B'',
                node_config = [], node_asset_id = None\<rparr>],
     edges = [\<lparr>edge_id = ''e'', edge_source = ''a'', edge_target = ''b'',
                sourceHandle = ''output'', targetHandle = ''input''\<rparr>],
     viewport = []\<rparr>"

definition sample_execution :: "uuid \<Rightarrow> string \<Rightarrow> NodeStatus \<Rightarrow> NodeExecution" where
  "sample_execution i nid st = \<lparr>ne_id = i, ne_job_id = 1, ne_node_id = nid, ne_node_type = ''trim'',
     ne_node_label = nid, ne_node_config = [], ne_status = st, ne_progress = 0, ne_worker_id = None,
     ne_queued_at = None, ne_started_at = None, ne_completed_at = None, ne_error_message = None,
     ne_error_trace = None, ne_retry_count = 0, ne_input_artifact_ids = [], ne_output_artifact_id = None,
     ne_worker_registration_id = None, ne_worker_lease_epoch = None\<rparr>"

definition sample_job :: "uuid \<Rightarrow> JobStatus \<Rightarrow> NodeExecution list \<Rightarrow> Job" where
  "sample_job i st ns = \<lparr>job_id = i, job_pipeline_id = 0, pipeline_snapshot = sample_definition,
     job_status = st, execution_plan = Some \<lparr>topo_order = [''a'', ''b''], dependencies = [(''a'', []), (''b'', [''a''])]\<rparr>,
     submitted_at = 0, job_started_at = None, job_completed_at = None, job_error_message = None,
     submitted_by = ''system'', parent_job_id = None, job_retry_count = 0, orchestrator_owner = ''python'',
     node_executions = ns\<rparr>"

definition sample_world :: "string \<Rightarrow> Job list \<Rightarrow> world" where
  "sample_world st js = \<lparr>channels = [],
     schedules = [\<lparr>service_name = ''videoprocess'', sched_state = st, guarded_job_id = None, sched_updated_by = ''system''\<rparr>],
     tasks = [], pipelines = [], jobs = js, assets = [], artifacts = [], cache_entries = [], dispatches = [],
     grants = [], registrations = [], attestations = [], emissions = [], receipts = [], deliveries = [],
     task_streams = [], redis_markers = [], redis_acks = [], next_id = 100, video_schedule_default_state = ''OPEN''\<rparr>"

lemmas sample_defs = sample_definition_def sample_execution_def sample_job_def sample_world_def

end
