(* ===== verification/Schedule.thy ===== *)
theory Schedule
  imports Jobs "HOL-Library.Multiset"
begin

text \<open>
  The video schedule of \<open>app/services/schedule_service.py\<close>: when a job may start, how jobs are
  parked until the next window and released, and the guarded opening of the schedule for one
  job. A function that commits returns the new world; one that raises leaves the old one.
\<close>

section \<open>States\<close>

datatype VideoScheduleState = OPEN | DRAINING | CLOSED

primrec state_value :: "VideoScheduleState \<Rightarrow> string" where
  "state_value OPEN = ''OPEN''"
| "state_value DRAINING = ''DRAINING''"
| "state_value CLOSED = ''CLOSED''"

text \<open>\<open>VideoScheduleState(value)\<close>; \<open>None\<close> is its \<open>ValueError\<close>.\<close>

definition parse_schedule_state :: "string \<Rightarrow> VideoScheduleState option" where
  "parse_schedule_state s =
     (if s = ''OPEN'' then Some OPEN else if s = ''DRAINING'' then Some DRAINING
      else if s = ''CLOSED'' then Some CLOSED else None)"

definition VIDEO_SCHEDULE_SERVICE :: string where
  "VIDEO_SCHEDULE_SERVICE = ''videoprocess''"

definition ACTIVE_JOB_STATUSES :: "JobStatus list" where
  "ACTIVE_JOB_STATUSES = [JOB_PENDING, VALIDATING, PLANNING, JOB_RUNNING]"

definition ACTIVE_NODE_STATUSES :: "NodeStatus list" where
  "ACTIVE_NODE_STATUSES = [PENDING, QUEUED, RUNNING]"

definition GUARDED_OPEN_JOB_STATUSES :: "JobStatus list" where
  "GUARDED_OPEN_JOB_STATUSES = ACTIVE_JOB_STATUSES @ [WAITING_WINDOW]"

definition GUARDED_OPEN_NODE_STATUSES :: "NodeStatus list" where
  "GUARDED_OPEN_NODE_STATUSES = [QUEUED, RUNNING]"

definition default_video_schedule_state :: "world \<Rightarrow> VideoScheduleState" where
  "default_video_schedule_state w =
     (let setting = video_schedule_default_state w;
          raw = py_upper (if setting = [] then state_value OPEN else setting)
      in case parse_schedule_state raw of None \<Rightarrow> OPEN | Some s \<Rightarrow> s)"

definition is_job_fresh_submission :: "Job \<Rightarrow> bool" where
  "is_job_fresh_submission job =
     (if job_started_at job \<noteq> None then False
      else list_all (\<lambda>n. ne_status n = PENDING) (node_executions job))"

definition should_defer_job_start :: "Job \<Rightarrow> VideoScheduleState \<Rightarrow> uuid option \<Rightarrow> bool" where
  "should_defer_job_start job st guarded =
     (if st = OPEN then guarded \<noteq> None \<and> Some (job_id job) \<noteq> guarded
      else if st = CLOSED then True
      else if job_status job = WAITING_WINDOW then True
      else is_job_fresh_submission job)"

section \<open>The schedule row\<close>

definition get_or_create_and_lock_runtime_schedule ::
  "world \<Rightarrow> string \<Rightarrow> VideoScheduleState option \<Rightarrow> world \<times> RuntimeSchedule \<times> bool" where
  "get_or_create_and_lock_runtime_schedule w service default_state =
     (case row_get service_name (schedules w) service of
        Some s \<Rightarrow> (w, s, False)
      | None \<Rightarrow>
          (let resolved = (case default_state of Some st \<Rightarrow> st | None \<Rightarrow> default_video_schedule_state w);
               s = \<lparr>service_name = service, sched_state = state_value resolved, guarded_job_id = None,
                    sched_updated_by = ''system''\<rparr>
           in (w\<lparr>schedules := schedules w @ [s]\<rparr>, s, True)))"

definition get_video_schedule_record :: "world \<Rightarrow> world \<times> RuntimeSchedule" where
  "get_video_schedule_record w =
     (let (w', s, _) = get_or_create_and_lock_runtime_schedule w VIDEO_SCHEDULE_SERVICE
        (Some (default_video_schedule_state w)) in (w', s))"

definition schedule_state_of :: "world \<Rightarrow> RuntimeSchedule \<Rightarrow> VideoScheduleState" where
  "schedule_state_of w s =
     (case parse_schedule_state (sched_state s) of Some st \<Rightarrow> st | None \<Rightarrow> default_video_schedule_state w)"

definition get_video_schedule_state :: "world \<Rightarrow> world \<times> VideoScheduleState" where
  "get_video_schedule_state w =
     (let (w', s) = get_video_schedule_record w in (w', schedule_state_of w' s))"

definition put_schedule :: "world \<Rightarrow> RuntimeSchedule \<Rightarrow> world" where
  "put_schedule w s = w\<lparr>schedules := row_put service_name (schedules w) s\<rparr>"

definition set_video_schedule_state :: "world \<Rightarrow> VideoScheduleState \<Rightarrow> string \<Rightarrow> world \<times> RuntimeSchedule" where
  "set_video_schedule_state w st updated_by =
     (let (w', s, _) = get_or_create_and_lock_runtime_schedule w VIDEO_SCHEDULE_SERVICE None;
          s' = s\<lparr>sched_state := state_value st, guarded_job_id := None, sched_updated_by := updated_by\<rparr>
      in (put_schedule w' s', s'))"

section \<open>Parking and releasing jobs\<close>

definition parked :: "Job \<Rightarrow> Job" where
  "parked job = job\<lparr>job_status := WAITING_WINDOW, job_error_message := None, job_completed_at := None\<rparr>"

definition park_job_for_window :: "world \<Rightarrow> Job \<Rightarrow> world \<times> Job" where
  "park_job_for_window w job = (put_job w (parked job), parked job)"

definition park_jobs_for_window :: "world \<Rightarrow> Job list \<Rightarrow> world \<times> Job list" where
  "park_jobs_for_window w js =
     (if js = [] then (w, []) else (foldl put_job w (map parked js), map parked js))"

definition reset_active_node :: "NodeExecution \<Rightarrow> NodeExecution" where
  "reset_active_node n =
     (if ne_status n \<in> set ACTIVE_NODE_STATUSES then
        n\<lparr>ne_status := PENDING, ne_worker_id := None, ne_queued_at := None, ne_started_at := None,
          ne_completed_at := None, ne_progress := 0, ne_error_message := None, ne_error_trace := None\<rparr>
      else n)"

definition deferred_job :: "Job \<Rightarrow> Job" where
  "deferred_job job = parked (job\<lparr>node_executions := map reset_active_node (node_executions job)\<rparr>)"

definition defer_job_until_next_window :: "world \<Rightarrow> Job \<Rightarrow> world \<times> Job" where
  "defer_job_until_next_window w job = (put_job w (deferred_job job), deferred_job job)"

definition list_waiting_video_jobs :: "world \<Rightarrow> Job list" where
  "list_waiting_video_jobs w =
     sort_key (\<lambda>j. (submitted_at j, job_id j))
       (filter (\<lambda>j. job_status j = WAITING_WINDOW \<and> orchestrator_owner j = ''python'') (jobs w))"

definition released :: "Job \<Rightarrow> Job" where
  "released job = job\<lparr>job_status := JOB_PENDING, job_error_message := None, job_completed_at := None\<rparr>"

definition release_waiting_video_jobs :: "world \<Rightarrow> world \<times> uuid list" where
  "release_waiting_video_jobs w =
     (let js = list_waiting_video_jobs w in
      if js = [] then (w, []) else (foldl put_job w (map released js), map job_id js))"

section \<open>Opening for one job\<close>

datatype guarded_open_error = GuardedScheduleOpenConflict

definition active_executions :: "world \<Rightarrow> NodeExecution list" where
  "active_executions w =
     filter (\<lambda>n. ne_status n \<in> set GUARDED_OPEN_NODE_STATUSES) (concat (map node_executions (jobs w)))"

definition open_video_schedule_for_job :: "world \<Rightarrow> uuid \<Rightarrow> guarded_open_error + world \<times> uuid list" where
  "open_video_schedule_for_job w expected =
     (let (w', s, _) = get_or_create_and_lock_runtime_schedule w VIDEO_SCHEDULE_SERVICE None in
      if sched_state s \<noteq> state_value CLOSED then Inl GuardedScheduleOpenConflict
      else
        (let js = filter (\<lambda>j. job_status j \<in> set GUARDED_OPEN_JOB_STATUSES) (sort_key job_id (jobs w'));
             expected_jobs = filter (\<lambda>j. job_id j = expected \<and> job_status j = WAITING_WINDOW
                                         \<and> orchestrator_owner j = ''python'') js
         in if length expected_jobs \<noteq> 1 \<or> length js \<noteq> 1 \<or> active_executions w' \<noteq> []
            then Inl GuardedScheduleOpenConflict
            else Inr (put_job
                   (put_schedule w' (s\<lparr>sched_state := state_value OPEN, guarded_job_id := Some expected,
                      sched_updated_by := ''internal_api_guarded''\<rparr>))
                   (released (hd expected_jobs)), [expected])))"

definition load_video_jobs_for_recovery :: "world \<Rightarrow> Job list" where
  "load_video_jobs_for_recovery w =
     filter (\<lambda>j. job_status j \<in> {JOB_PENDING, WAITING_WINDOW, JOB_RUNNING, PLANNING}
                 \<and> orchestrator_owner j = ''python'') (jobs w)"

record VideoScheduleStatus =
  vs_service_name :: string
  vs_state :: string
  vs_guarded_job_id :: "uuid option"
  vs_waiting_jobs :: nat
  vs_active_jobs :: nat
  vs_queued_nodes :: nat
  vs_running_nodes :: nat
  vs_updated_by :: string
  vs_released_jobs :: nat

definition count_jobs :: "world \<Rightarrow> (JobStatus \<Rightarrow> bool) \<Rightarrow> nat" where
  "count_jobs w P = length (filter (\<lambda>j. P (job_status j)) (jobs w))"

definition count_nodes :: "world \<Rightarrow> NodeStatus \<Rightarrow> nat" where
  "count_nodes w st = length (filter (\<lambda>n. ne_status n = st) (concat (map node_executions (jobs w))))"

definition build_video_schedule_status :: "world \<Rightarrow> nat \<Rightarrow> world \<times> VideoScheduleStatus" where
  "build_video_schedule_status w released_jobs =
     (let (w', s) = get_video_schedule_record w in
      (w', \<lparr>vs_service_name = service_name s, vs_state = sched_state s, vs_guarded_job_id = guarded_job_id s,
            vs_waiting_jobs = count_jobs w' (\<lambda>st. st = WAITING_WINDOW),
            vs_active_jobs = count_jobs w' (\<lambda>st. st \<in> set ACTIVE_JOB_STATUSES),
            vs_queued_nodes = count_nodes w' QUEUED, vs_running_nodes = count_nodes w' RUNNING,
            vs_updated_by = sched_updated_by s, vs_released_jobs = released_jobs\<rparr>))"


section \<open>Lemmas\<close>

lemma get_or_create_jobs [simp]:
  "get_or_create_and_lock_runtime_schedule w sv st = (w', s, c) \<Longrightarrow> jobs w' = jobs w"
  by (auto simp: get_or_create_and_lock_runtime_schedule_def Let_def split: option.splits)

lemma get_or_create_row:
  "get_or_create_and_lock_runtime_schedule w sv st = (w', s, c) \<Longrightarrow> row_get service_name (schedules w') sv = Some s"
  by (auto simp: get_or_create_and_lock_runtime_schedule_def Let_def row_get_append
      split: option.splits)

lemma put_schedule_jobs [simp]: "jobs (put_schedule w s) = jobs w"
  by (simp add: put_schedule_def)

lemma put_job_schedules [simp]: "schedules (put_job w j) = schedules w"
  by (simp add: put_job_def)

lemma foldl_put_job_jobs:
  "distinct (map job_id js) \<Longrightarrow>
   jobs (foldl put_job w js) =
     map (\<lambda>j. case row_get job_id js (job_id j) of None \<Rightarrow> j | Some j' \<Rightarrow> j') (jobs w)"
proof (induction js arbitrary: w)
  case Nil
  then show ?case by (simp add: row_get_def)
next
  case (Cons x js)
  have fresh: "row_get job_id js (job_id x) = None"
    using Cons.prems by (simp add: row_get_None_iff)
  show ?case
    using Cons.IH [of "put_job w x"] Cons.prems fresh
    by (auto simp: put_job_def row_put_def split: option.split)
qed

lemma job_id_updates [simp]:
  "job_id (released j) = job_id j" "job_id (parked j) = job_id j" "job_id (deferred_job j) = job_id j"
  by (simp_all add: released_def parked_def deferred_job_def)

lemma row_get_map_filter:
  assumes "distinct (map key rows)" and "\<And>r. key (f r) = key r" and "r \<in> set rows"
  shows "row_get key (map f (filter P rows)) (key r) = (if P r then Some (f r) else None)"
  using assms
proof (induction rows)
  case Nil
  then show ?case by simp
next
  case (Cons x rows)
  show ?case
  proof (cases "r = x")
    case True
    have "key x \<notin> key ` set rows" using Cons.prems(1) by simp
    then have "row_get key (map f (filter P rows)) (key x) = None"
      by (auto simp: row_get_None_iff Cons.prems(2))
    with True show ?thesis by (simp add: Cons.prems(2))
  next
    case False
    then have "r \<in> set rows" "key r \<noteq> key x" using Cons.prems by (auto simp: image_iff)
    with Cons.IH Cons.prems(1,2) show ?thesis by simp
  qed
qed

lemma row_get_perm:
  assumes "distinct (map key rows)" and "mset rows' = mset rows"
  shows "row_get key rows' k = row_get key rows k"
proof -
  have d: "distinct (map key rows')" using assms by (metis mset_eq_imp_distinct_iff mset_map)
  have s: "set rows' = set rows" using assms(2) by (rule mset_eq_setD)
  show ?thesis
  proof (cases "row_get key rows k")
    case None
    then have "row_get key rows' k = None" unfolding row_get_None_iff s .
    with None show ?thesis by simp
  next
    case (Some r)
    then have k: "key r = k" and "r \<in> set rows'"
      by (simp_all only: s row_get_key [OF Some] row_get_mem [OF Some])
    then show ?thesis using row_get_distinct [OF d, of r] Some by simp
  qed
qed

definition waiting_python :: "Job \<Rightarrow> bool" where
  "waiting_python j \<longleftrightarrow> job_status j = WAITING_WINDOW \<and> orchestrator_owner j = ''python''"

lemma map_update_iff: "(\<And>x. x \<in> set xs \<Longrightarrow> f x = g x) \<Longrightarrow> map f xs = map g xs"
  by simp

section \<open>Properties\<close>

text \<open>C27: Opening the schedule for one job succeeds only when that job is the single unfinished job and
  nothing is queued or running. Afterwards the schedule is open and guarded by the job, the job is
  pending, every other job is finished and would be deferred, and no node is queued or running.\<close>

theorem guarded_open_exclusive:
  assumes "open_video_schedule_for_job w j = Inr (w', ids)" and "distinct (map job_id (jobs w))"
  shows "ids = [j]
    \<and> (\<exists>s. row_get service_name (schedules w') VIDEO_SCHEDULE_SERVICE = Some s
         \<and> sched_state s = state_value OPEN \<and> guarded_job_id s = Some j)
    \<and> (\<exists>job. get_job w' j = Some job \<and> job_status job = JOB_PENDING)
    \<and> (\<forall>job\<in>set (jobs w'). job_id job \<noteq> j \<longrightarrow>
         job_status job \<notin> set GUARDED_OPEN_JOB_STATUSES \<and> should_defer_job_start job OPEN (Some j))
    \<and> active_executions w' = []"
proof -
  obtain w1 s c where g: "get_or_create_and_lock_runtime_schedule w VIDEO_SCHEDULE_SERVICE None = (w1, s, c)"
    by (metis prod_cases3)
  note jobs1 = get_or_create_jobs [OF g] and row1 = get_or_create_row [OF g]
  let ?js = "filter (\<lambda>j. job_status j \<in> set GUARDED_OPEN_JOB_STATUSES) (sort_key job_id (jobs w1))"
  let ?ex = "filter (\<lambda>x. job_id x = j \<and> job_status x = WAITING_WINDOW \<and> orchestrator_owner x = ''python'') ?js"
  have len: "length ?ex = 1" "length ?js = 1" and act: "active_executions w1 = []" and ids: "ids = [j]"
    and w': "w' = put_job (put_schedule w1 (s\<lparr>sched_state := state_value OPEN, guarded_job_id := Some j,
                  sched_updated_by := ''internal_api_guarded''\<rparr>)) (released (hd ?ex))"
    using assms(1) g by (auto simp: open_video_schedule_for_job_def Let_def split: if_splits)
  obtain e where e: "?js = [e]" using len(2) by (auto simp: length_Suc_conv)
  then have ex: "?ex = [e]" and ej: "job_id e = j" using len(1) by (auto split: if_splits)
  have mem: "e \<in> set (jobs w1)" using arg_cong [OF e, of set] by auto
  have w'': "jobs w' = row_put job_id (jobs w1) (released e)" using w' ex by (simp add: put_job_def)
  have other: "job_status x \<notin> set GUARDED_OPEN_JOB_STATUSES" if "x \<in> set (jobs w1)" "job_id x \<noteq> j" for x
  proof
    assume "job_status x \<in> set GUARDED_OPEN_JOB_STATUSES"
    with that(1) have "x \<in> set ?js" by simp
    then show False using e ej that(2) by simp
  qed
  have "get_job w1 j = Some e"
    using row_get_distinct [of job_id "jobs w1" e] mem ej assms(2) jobs1 by (simp add: get_job_def)
  then have j': "get_job w' j = Some (released e)"
    using ej by (simp add: get_job_def w'' row_get_put)
  have "service_name s = VIDEO_SCHEDULE_SERVICE" using row1 by (rule row_get_key)
  then have s': "\<exists>s. row_get service_name (schedules w') VIDEO_SCHEDULE_SERVICE = Some s
         \<and> sched_state s = state_value OPEN \<and> guarded_job_id s = Some j"
    using w' row1 by (simp add: put_schedule_def row_get_put)
  have "active_executions w' = []"
    using act ex mem unfolding active_executions_def w''
    by (auto simp: filter_empty_conv released_def row_put_def split: if_splits)
  moreover have "\<forall>job\<in>set (jobs w'). job_id job \<noteq> j \<longrightarrow>
         job_status job \<notin> set GUARDED_OPEN_JOB_STATUSES \<and> should_defer_job_start job OPEN (Some j)"
    using other ej by (auto simp: w'' should_defer_job_start_def dest: row_put_mem)
  ultimately show ?thesis using ids s' j' by (simp add: released_def)
qed

definition waiting_world :: world where
  "waiting_world = sample_world ''CLOSED'' [sample_job 1 WAITING_WINDOW [sample_execution 11 ''a'' PENDING]]"

theorem guarded_open_exclusive_witness:
  "\<exists>w' ids. open_video_schedule_for_job waiting_world 1 = Inr (w', ids) \<and> active_executions w' = []"
proof -
  have "\<exists>w' ids. open_video_schedule_for_job waiting_world 1 = Inr (w', ids)"
    by (simp add: open_video_schedule_for_job_def waiting_world_def sample_defs
        get_or_create_and_lock_runtime_schedule_def VIDEO_SCHEDULE_SERVICE_def active_executions_def
        GUARDED_OPEN_JOB_STATUSES_def GUARDED_OPEN_NODE_STATUSES_def)
  then obtain w' ids where o: "open_video_schedule_for_job waiting_world 1 = Inr (w', ids)" by blast
  moreover have "distinct (map job_id (jobs waiting_world))" by (simp add: waiting_world_def sample_defs)
  ultimately show ?thesis using guarded_open_exclusive [OF o] by blast
qed





end
