(* ===== verification/Authority.thy ===== *)
theory Authority
  imports Schedule
begin

text \<open>
  The execution authority of \<open>app/services/job_execution_authority.py\<close>: the rows a handler locks
  before it acts on a job, the conditions under which it may act, the claim of a worker on a node
  and the recovery of an expired claim. Claim and recovery are the branches the code takes on a
  database other than PostgreSQL, where the same steps are a stored function.

  Locking reads the production tasks of the job, then takes the locks and reads them again; the
  first reading may be older, so \<open>lock_job_execution_entries\<close> takes the world \<open>seen\<close> at that moment
  and the world \<open>w\<close> under the locks.
\<close>

section \<open>Locking\<close>

datatype authority_error = JobExecutionAuthorityBlocked string

record LockedJobExecutionAuthority =
  auth_channel :: "ChannelProfile option"
  auth_schedule :: RuntimeSchedule
  auth_task :: "ProductionTask option"
  auth_job :: Job
  auth_node :: "NodeExecution option"

record NodeExecutionClaim =
  claim_job_id :: uuid
  claim_node_execution_id :: uuid
  claim_worker_id :: string
  claim_started_at :: datetime
  claim_worker_registration_id :: "uuid option"
  claim_worker_lease_epoch :: "int option"

type_synonym task_ref = "uuid \<times> uuid \<times> uuid option"

definition task_references :: "world \<Rightarrow> uuid list \<Rightarrow> task_ref list" where
  "task_references w job_ids =
     take (2 * length job_ids + 1)
       (map (\<lambda>t. (task_id t, task_channel_profile_id t, task_job_id t))
         (sort_key task_id (filter (\<lambda>t. task_job_id t \<in> Some ` set job_ids) (tasks w))))"

primrec lock_channels :: "world \<Rightarrow> uuid list \<Rightarrow> authority_error + (uuid, ChannelProfile) dict" where
  "lock_channels w [] = Inr []"
| "lock_channels w (c # cs) =
     (case row_get channel_id (channels w) c of
        None \<Rightarrow> Inl (JobExecutionAuthorityBlocked ''production task channel was not found'')
      | Some ch \<Rightarrow> (case lock_channels w cs of Inl e \<Rightarrow> Inl e | Inr d \<Rightarrow> Inr ((c, ch) # d)))"

definition lock_job_execution_entries ::
  "world \<Rightarrow> world \<Rightarrow> uuid list \<Rightarrow> bool
   \<Rightarrow> authority_error + world \<times> (uuid, ChannelProfile) dict \<times> task_ref list \<times> RuntimeSchedule" where
  "lock_job_execution_entries seen w job_ids create_schedule =
     (let refs = task_references seen job_ids in
      if length refs \<noteq> length (remdups (map (\<lambda>(_, _, j). j) refs))
      then Inl (JobExecutionAuthorityBlocked ''job is linked to multiple production tasks'')
      else
        (case lock_channels w (sort (remdups (map (\<lambda>(_, c, _). c) refs))) of
           Inl e \<Rightarrow> Inl e
         | Inr chans \<Rightarrow>
             (case (if create_schedule
                    then (let (w', s, _) = get_or_create_and_lock_runtime_schedule w VIDEO_SCHEDULE_SERVICE None
                          in Some (w', s))
                    else map_option (\<lambda>s. (w, s)) (row_get service_name (schedules w) ''videoprocess'')) of
                None \<Rightarrow> Inl (JobExecutionAuthorityBlocked ''runtime schedule was not found'')
              | Some (w', s) \<Rightarrow>
                  if refs \<noteq> task_references w' job_ids
                  then Inl (JobExecutionAuthorityBlocked ''production task channel authority changed'')
                  else Inr (w', chans, refs, s))))"

definition lock_job_execution_entry ::
  "world \<Rightarrow> world \<Rightarrow> uuid \<Rightarrow> authority_error + world \<times> ChannelProfile option \<times> (uuid \<times> uuid) list \<times> RuntimeSchedule" where
  "lock_job_execution_entry seen w jid =
     (case lock_job_execution_entries seen w [jid] True of
        Inl e \<Rightarrow> Inl e
      | Inr (w', chans, refs, s) \<Rightarrow>
          (let rs = map (\<lambda>(t, c, _). (t, c)) refs
           in Inr (w', (if rs = [] then None else dict_get chans (snd (hd rs))), rs, s)))"

text \<open>The task of the first reference, when it is still the one that was found.\<close>

definition lock_task :: "world \<Rightarrow> uuid \<Rightarrow> ChannelProfile option \<Rightarrow> (uuid \<times> uuid) list \<Rightarrow> authority_error + ProductionTask option" where
  "lock_task w jid channel refs =
     (case refs of
        [] \<Rightarrow> Inr None
      | (tid, cid) # _ \<Rightarrow>
          (case (row_get task_id (tasks w) tid, channel) of
             (Some t, Some ch) \<Rightarrow>
               if task_job_id t \<noteq> Some jid \<or> task_channel_profile_id t \<noteq> cid
                  \<or> task_channel_profile_id t \<noteq> channel_id ch
               then Inl (JobExecutionAuthorityBlocked ''production task authority changed while locking'')
               else Inr (Some t)
           | _ \<Rightarrow> Inl (JobExecutionAuthorityBlocked ''production task authority changed while locking'')))"

definition lock_node :: "world \<Rightarrow> Job \<Rightarrow> uuid option \<Rightarrow> bool \<Rightarrow> authority_error + NodeExecution option" where
  "lock_node w job node lock_all_nodes =
     (case node of
        None \<Rightarrow> Inr None
      | Some nid \<Rightarrow>
          (case (if lock_all_nodes
                 then row_get ne_id (sort_key ne_id (filter (\<lambda>n. ne_job_id n = job_id job) (all_executions w))) nid
                 else row_get ne_id (all_executions w) nid) of
             None \<Rightarrow> Inl (JobExecutionAuthorityBlocked ''node execution authority changed while locking'')
           | Some n \<Rightarrow>
               if ne_job_id n \<noteq> job_id job
               then Inl (JobExecutionAuthorityBlocked ''node execution authority changed while locking'')
               else Inr (Some n)))"

definition lock_job_execution_authority ::
  "world \<Rightarrow> world \<Rightarrow> uuid \<Rightarrow> uuid option \<Rightarrow> bool \<Rightarrow> authority_error + world \<times> LockedJobExecutionAuthority" where
  "lock_job_execution_authority seen w jid node lock_all_nodes =
     (case lock_job_execution_entry seen w jid of
        Inl e \<Rightarrow> Inl e
      | Inr (w', channel, refs, s) \<Rightarrow>
     (case lock_task w' jid channel refs of
        Inl e \<Rightarrow> Inl e
      | Inr t \<Rightarrow>
     (case get_job w' jid of
        None \<Rightarrow> Inl (JobExecutionAuthorityBlocked ''job was not found'')
      | Some job \<Rightarrow>
     (case lock_node w' job node lock_all_nodes of
        Inl e \<Rightarrow> Inl e
      | Inr n \<Rightarrow> Inr (w', \<lparr>auth_channel = channel, auth_schedule = s, auth_task = t, auth_job = job, auth_node = n\<rparr>)))))"

section \<open>Permission\<close>

definition require_active_execution_authority ::
  "LockedJobExecutionAuthority \<Rightarrow> JobStatus set \<Rightarrow> NodeStatus set option \<Rightarrow> authority_error + unit" where
  "require_active_execution_authority a job_statuses node_statuses =
     (if (case auth_channel a of None \<Rightarrow> False | Some c \<Rightarrow> \<not> channel_enabled c \<or> channel_halted_at c \<noteq> None)
      then Inl (JobExecutionAuthorityBlocked ''channel execution is blocked'')
      else if (case auth_task a of None \<Rightarrow> False | Some t \<Rightarrow> task_state t \<noteq> ''producing'')
      then Inl (JobExecutionAuthorityBlocked ''production task is not producing'')
      else if sched_state (auth_schedule a) = state_value DRAINING \<and> job_status (auth_job a) \<noteq> JOB_RUNNING
      then Inl (JobExecutionAuthorityBlocked ''runtime schedule is draining'')
      else if sched_state (auth_schedule a) \<notin> {state_value OPEN, state_value DRAINING}
      then Inl (JobExecutionAuthorityBlocked ''runtime schedule is not open'')
      else if guarded_job_id (auth_schedule a) \<noteq> None
              \<and> Some (job_id (auth_job a)) \<noteq> guarded_job_id (auth_schedule a)
      then Inl (JobExecutionAuthorityBlocked ''job does not hold guarded schedule authority'')
      else if job_status (auth_job a) \<notin> job_statuses
      then Inl (JobExecutionAuthorityBlocked ''job status no longer permits execution'')
      else if (case node_statuses of None \<Rightarrow> False
               | Some sts \<Rightarrow> (case auth_node a of None \<Rightarrow> True | Some n \<Rightarrow> ne_status n \<notin> sts))
      then Inl (JobExecutionAuthorityBlocked ''node status no longer permits execution'')
      else Inr ())"

definition node_matches_claim :: "NodeExecution \<Rightarrow> NodeExecutionClaim \<Rightarrow> bool" where
  "node_matches_claim n c \<longleftrightarrow>
     ne_id n = claim_node_execution_id c \<and> ne_worker_id n = Some (claim_worker_id c)
     \<and> ne_started_at n = Some (claim_started_at c)
     \<and> ne_worker_registration_id n = claim_worker_registration_id c
     \<and> ne_worker_lease_epoch n = claim_worker_lease_epoch c"

definition require_matching_node_execution_claim ::
  "LockedJobExecutionAuthority \<Rightarrow> NodeExecutionClaim \<Rightarrow> authority_error + unit" where
  "require_matching_node_execution_claim a c =
     (if job_id (auth_job a) = claim_job_id c
         \<and> (case auth_node a of None \<Rightarrow> False | Some n \<Rightarrow> node_matches_claim n c)
      then Inr () else Inl (JobExecutionAuthorityBlocked ''node execution claim changed''))"


section \<open>Claims of registered workers\<close>

definition validated_registration_identity :: "uuid option \<Rightarrow> int option \<Rightarrow> authority_error + uuid \<times> int" where
  "validated_registration_identity registration_id lease_epoch =
     (case (registration_id, lease_epoch) of
        (Some r, Some e) \<Rightarrow>
          if e \<le> 0 then Inl (JobExecutionAuthorityBlocked ''node execution has no durable worker registration lease'')
          else Inr (r, e)
      | _ \<Rightarrow> Inl (JobExecutionAuthorityBlocked ''node execution has no durable worker registration lease''))"

definition is_payload_sha256 :: "string \<Rightarrow> bool" where
  "is_payload_sha256 s \<longleftrightarrow> length s = 64 \<and> list_all (\<lambda>c. c \<in> set ''0123456789abcdef'') s"

definition put_world_execution :: "world \<Rightarrow> NodeExecution \<Rightarrow> world" where
  "put_world_execution w n =
     w\<lparr>jobs := map (\<lambda>j. if job_id j = ne_job_id n then put_execution j n else j) (jobs w)\<rparr>"

definition find_delivered_dispatch ::
  "world \<Rightarrow> uuid \<Rightarrow> uuid \<Rightarrow> uuid \<Rightarrow> string \<Rightarrow> string \<Rightarrow> string \<Rightarrow> string \<Rightarrow> WorkerTaskDispatch option" where
  "find_delivered_dispatch w key jid nid stream grp msg sha =
     find (\<lambda>d. wd_dispatch_key d = key \<and> wd_job_id d = jid \<and> wd_node_execution_id d = nid
            \<and> wd_redis_stream d = stream \<and> wd_consumer_group d = grp
            \<and> wd_redis_message_id d = Some msg \<and> wd_payload_sha256 d = sha
            \<and> wd_delivery_state d = ''delivered'' \<and> wd_resolution_state d = ''unresolved'') (dispatches w)"

definition claimable :: "NodeExecution \<Rightarrow> bool" where
  "claimable n \<longleftrightarrow> ne_status n = QUEUED \<and> ne_worker_id n = None \<and> ne_worker_registration_id n = None
     \<and> ne_worker_lease_epoch n = None \<and> ne_started_at n = None"

definition claim_registered_worker_node ::
  "world \<Rightarrow> datetime \<Rightarrow> uuid \<Rightarrow> uuid \<Rightarrow> uuid option \<Rightarrow> int option \<Rightarrow> string \<Rightarrow> string \<Rightarrow> string \<Rightarrow> string
   \<Rightarrow> string \<Rightarrow> uuid \<Rightarrow> authority_error + world \<times> NodeExecutionClaim \<times> uuid" where
  "claim_registered_worker_node w now jid nid registration_id lease_epoch worker stream grp msg sha key =
     (case validated_registration_identity registration_id lease_epoch of
        Inl e \<Rightarrow> Inl e
      | Inr (rid, epoch) \<Rightarrow>
          if \<not> (list_all (\<lambda>v. py_strip v \<noteq> []) [worker, stream, grp, msg] \<and> is_payload_sha256 sha)
          then Inl (JobExecutionAuthorityBlocked ''registered worker node claim identity is invalid'')
          else
            (case (get_job w jid,
                   find (\<lambda>n. ne_id n = nid \<and> ne_job_id n = jid) (all_executions w),
                   row_get wr_id (registrations w) rid,
                   find_delivered_dispatch w key jid nid stream grp msg sha) of
               (Some job, Some n, Some r, Some d) \<Rightarrow>
                 if job_status job \<noteq> JOB_RUNNING \<or> \<not> claimable n \<or> wr_lease_epoch r \<noteq> epoch
                    \<or> wr_status r \<noteq> ''active'' \<or> wr_lease_expires_at r \<le> now
                 then Inl (JobExecutionAuthorityBlocked ''registered worker node claim is no longer authoritative'')
                 else
                   (let n' = n\<lparr>ne_status := RUNNING, ne_started_at := Some now, ne_worker_id := Some worker,
                               ne_worker_registration_id := Some rid, ne_worker_lease_epoch := Some epoch\<rparr>;
                        att = \<lparr>at_id = next_id w, at_redis_stream = stream, at_consumer_group = grp,
                              at_message_id = msg, at_payload_sha256 = sha, at_dispatch_key = key, at_job_id = jid,
                              at_node_execution_id = nid, at_worker_registration_id = rid,
                              at_worker_lease_epoch = epoch, at_worker_id = worker, at_worker_started_at = now,
                              at_ack_state = ''pending'', at_acknowledged_at = None, at_attested_at = now\<rparr>
                    in Inr ((put_world_execution w n')\<lparr>attestations := attestations w @ [att], next_id := next_id w + 1\<rparr>,
                            \<lparr>claim_job_id = jid, claim_node_execution_id = nid, claim_worker_id = worker,
                             claim_started_at = now, claim_worker_registration_id = Some rid,
                             claim_worker_lease_epoch = Some epoch\<rparr>,
                            next_id w))
             | _ \<Rightarrow> Inl (JobExecutionAuthorityBlocked ''registered worker node claim is no longer authoritative'')))"

datatype recovery = Live | Held_unresolved | Recovered | Not_registered

definition recover_registered_worker_node ::
  "world \<Rightarrow> datetime \<Rightarrow> uuid \<Rightarrow> uuid \<Rightarrow> authority_error + world \<times> recovery" where
  "recover_registered_worker_node w now jid nid =
     (case (get_job w jid, find (\<lambda>n. ne_id n = nid \<and> ne_job_id n = jid) (all_executions w)) of
        (Some job, Some n) \<Rightarrow>
          (case (ne_worker_registration_id n, ne_worker_lease_epoch n) of
             (Some rid, Some epoch) \<Rightarrow>
               if (case row_get wr_id (registrations w) rid of
                     None \<Rightarrow> False
                   | Some r \<Rightarrow> wr_lease_epoch r = epoch \<and> wr_status r = ''active'' \<and> wr_lease_expires_at r > now)
               then Inr (w, Live)
               else if list_ex (\<lambda>d. wd_node_execution_id d = nid
                        \<and> wd_resolution_state d \<in> {''unresolved'', ''cancel_authorized''}) (dispatches w)
               then Inr (w, Held_unresolved)
               else Inr (put_world_execution w
                 (n\<lparr>ne_status := PENDING, ne_worker_id := None, ne_worker_registration_id := None,
                    ne_worker_lease_epoch := None, ne_queued_at := None, ne_started_at := None,
                    ne_completed_at := None, ne_progress := 0, ne_error_message := None,
                    ne_input_artifact_ids := []\<rparr>), Recovered)
           | _ \<Rightarrow> Inr (w, Not_registered))
      | _ \<Rightarrow> Inl (JobExecutionAuthorityBlocked ''registered worker recovery authority is missing''))"

section \<open>Lemmas\<close>

text \<open>A database whose identifiers are unique and whose executions hang below their own job.\<close>

definition wf_world :: "world \<Rightarrow> bool" where
  "wf_world w \<longleftrightarrow> distinct (map job_id (jobs w)) \<and> distinct (map ne_id (all_executions w))
     \<and> (\<forall>j\<in>set (jobs w). \<forall>n\<in>set (node_executions j). ne_job_id n = job_id j)"

lemma wf_world_execution:
  assumes wf: "wf_world w" and j: "get_job w jid = Some job"
  shows "n \<in> set (node_executions job) \<longleftrightarrow> n \<in> set (all_executions w) \<and> ne_job_id n = jid"
proof -
  have mem: "job \<in> set (jobs w)" using j by (rule get_job_mem)
  have id: "job_id job = jid" using j by (rule get_job_id)
  have d: "distinct (map job_id (jobs w))" using wf by (simp add: wf_world_def)
  have own: "ne_job_id m = job_id j'" if "j' \<in> set (jobs w)" "m \<in> set (node_executions j')" for m j'
    using wf that by (simp add: wf_world_def)
  show ?thesis
  proof
    assume n: "n \<in> set (node_executions job)"
    then show "n \<in> set (all_executions w) \<and> ne_job_id n = jid"
      using mem id own [OF mem n] by (auto simp: all_executions_def)
  next
    assume n: "n \<in> set (all_executions w) \<and> ne_job_id n = jid"
    then obtain j' where j': "j' \<in> set (jobs w)" "n \<in> set (node_executions j')"
      by (auto simp: all_executions_def)
    then have "job_id j' = job_id job" using own n id by simp
    then have "j' = job" by (rule row_unique [OF d j'(1) mem])
    then show "n \<in> set (node_executions job)" using j' by simp
  qed
qed

lemma wf_distinct_executions:
  assumes wf: "wf_world w" and j: "get_job w jid = Some job"
  shows "distinct (map ne_id (node_executions job))"
proof -
  have "job \<in> set (jobs w)" using j by (rule get_job_mem)
  then obtain xs ys where "jobs w = xs @ job # ys" by (meson split_list)
  then show ?thesis using wf by (simp add: wf_world_def all_executions_def)
qed

lemma find_execution_wf:
  assumes wf: "wf_world w" and j: "get_job w jid = Some job"
  shows "find (\<lambda>n. ne_id n = nid \<and> ne_job_id n = jid) (all_executions w) = get_execution job nid"
proof (cases "get_execution job nid")
  case None
  then have "\<forall>n\<in>set (node_executions job). ne_id n \<noteq> nid"
    by (auto simp: get_execution_def row_get_None_iff)
  then have "\<not> (\<exists>n. n \<in> set (all_executions w) \<and> ne_id n = nid \<and> ne_job_id n = jid)"
    using wf_world_execution [OF wf j] by blast
  then show ?thesis using None by (simp add: find_None_iff)
next
  case (Some n)
  then have n: "n \<in> set (all_executions w)" "ne_id n = nid" "ne_job_id n = jid"
    using wf_world_execution [OF wf j] get_execution_mem [OF Some] get_execution_id [OF Some] by simp_all
  have d: "distinct (map ne_id (all_executions w))" using wf by (simp add: wf_world_def)
  have "find (\<lambda>m. ne_id m = nid \<and> ne_job_id m = jid) (all_executions w) = Some n"
  proof (cases "find (\<lambda>m. ne_id m = nid \<and> ne_job_id m = jid) (all_executions w)")
    case None
    then show ?thesis using n by (auto simp: find_None_iff)
  next
    case (Some m)
    then have "m \<in> set (all_executions w)" "ne_id m = nid" by (auto simp: find_Some_iff)
    then have "m = n" using row_unique [OF d, of m n] n by simp
    then show ?thesis using Some by simp
  qed
  then show ?thesis using Some by simp
qed


lemma get_job_put_world_execution:
  "get_job (put_world_execution w n) jid =
     map_option (\<lambda>j. if jid = ne_job_id n then put_execution j n else j) (get_job w jid)"
proof -
  have "row_get job_id (map (\<lambda>j. if job_id j = ne_job_id n then put_execution j n else j) js) jid =
      map_option (\<lambda>j. if jid = ne_job_id n then put_execution j n else j) (row_get job_id js jid)" for js
    by (induction js) (auto simp: put_execution_def)
  then show ?thesis by (simp add: get_job_def put_world_execution_def)
qed

lemma wf_put_world_execution:
  assumes wf: "wf_world w" and n: "\<exists>m\<in>set (all_executions w). ne_id m = ne_id n \<and> ne_job_id m = ne_job_id n"
  shows "wf_world (put_world_execution w n)"
proof -
  let ?f = "\<lambda>j. if job_id j = ne_job_id n then put_execution j n else j"
  have id: "job_id (?f j) = job_id j" and ids: "map ne_id (node_executions (?f j)) = map ne_id (node_executions j)" for j
    by (simp_all add: put_execution_def)
  have "map ne_id (concat (map node_executions (map ?f js))) = map ne_id (concat (map node_executions js))" for js
    by (induction js) (simp_all add: ids)
  then have a: "map ne_id (all_executions (put_world_execution w n)) = map ne_id (all_executions w)"
    by (simp add: all_executions_def put_world_execution_def)
  have b: "map job_id (jobs (put_world_execution w n)) = map job_id (jobs w)"
    by (simp add: put_world_execution_def comp_def id cong: if_cong)
  have c: "ne_job_id m = job_id (?f j)" if "j \<in> set (jobs w)" "m \<in> set (node_executions (?f j))" for j m
    using wf that by (auto simp: wf_world_def put_execution_def split: if_splits dest!: row_put_mem)
  have "\<forall>j\<in>set (jobs (put_world_execution w n)). \<forall>m\<in>set (node_executions j). ne_job_id m = job_id j"
  proof (intro ballI)
    fix j m assume "j \<in> set (jobs (put_world_execution w n))" and m: "m \<in> set (node_executions j)"
    then obtain j0 where "j0 \<in> set (jobs w)" "j = ?f j0" by (auto simp: put_world_execution_def)
    then show "ne_job_id m = job_id j" using c m by blast
  qed
  then show ?thesis using wf unfolding wf_world_def a b by blast
qed

section \<open>Properties\<close>

definition execution_permitted :: "LockedJobExecutionAuthority \<Rightarrow> JobStatus set \<Rightarrow> NodeStatus set option \<Rightarrow> bool" where
  "execution_permitted a job_statuses node_statuses \<longleftrightarrow>
     (\<forall>c. auth_channel a = Some c \<longrightarrow> channel_enabled c \<and> channel_halted_at c = None)
     \<and> (\<forall>t. auth_task a = Some t \<longrightarrow> task_state t = ''producing'')
     \<and> (sched_state (auth_schedule a) = state_value OPEN
        \<or> sched_state (auth_schedule a) = state_value DRAINING \<and> job_status (auth_job a) = JOB_RUNNING)
     \<and> (\<forall>g. guarded_job_id (auth_schedule a) = Some g \<longrightarrow> job_id (auth_job a) = g)
     \<and> job_status (auth_job a) \<in> job_statuses
     \<and> (\<forall>sts. node_statuses = Some sts \<longrightarrow> (\<exists>n. auth_node a = Some n \<and> ne_status n \<in> sts))"

text \<open>C26: Execution is permitted exactly when the channel is enabled and not halted, the production task
  is producing, the schedule is open (or draining for a job that already runs), a guarded schedule
  is guarded by this very job, and job and node have one of the required statuses.\<close>

theorem require_active_execution_authority_iff:
  "require_active_execution_authority a js ns = Inr () \<longleftrightarrow> execution_permitted a js ns"
proof -
  have c: "(case auth_channel a of None \<Rightarrow> False | Some c \<Rightarrow> \<not> channel_enabled c \<or> channel_halted_at c \<noteq> None)
      \<longleftrightarrow> \<not> (\<forall>c. auth_channel a = Some c \<longrightarrow> channel_enabled c \<and> channel_halted_at c = None)"
    by (cases "auth_channel a") auto
  have t: "(case auth_task a of None \<Rightarrow> False | Some t \<Rightarrow> task_state t \<noteq> ''producing'')
      \<longleftrightarrow> \<not> (\<forall>t. auth_task a = Some t \<longrightarrow> task_state t = ''producing'')"
    by (cases "auth_task a") auto
  have g: "(guarded_job_id (auth_schedule a) \<noteq> None \<and> Some (job_id (auth_job a)) \<noteq> guarded_job_id (auth_schedule a))
      \<longleftrightarrow> \<not> (\<forall>g. guarded_job_id (auth_schedule a) = Some g \<longrightarrow> job_id (auth_job a) = g)"
    by (cases "guarded_job_id (auth_schedule a)") auto
  have n: "(case ns of None \<Rightarrow> False
               | Some sts \<Rightarrow> (case auth_node a of None \<Rightarrow> True | Some n \<Rightarrow> ne_status n \<notin> sts))
      \<longleftrightarrow> \<not> (\<forall>sts. ns = Some sts \<longrightarrow> (\<exists>n. auth_node a = Some n \<and> ne_status n \<in> sts))"
    by (cases ns; cases "auth_node a") auto
  show ?thesis
    unfolding require_active_execution_authority_def execution_permitted_def c t g n by auto
qed

definition registered_claim_succeeds :: "world \<Rightarrow> uuid \<Rightarrow> uuid \<Rightarrow> bool" where
  "registered_claim_succeeds w jid nid \<longleftrightarrow>
     (\<exists>now rid epoch worker stream grp msg sha key r.
        claim_registered_worker_node w now jid nid rid epoch worker stream grp msg sha key = Inr r)"

text \<open>C24: A successful claim makes the node run under exactly the returned claim, which the completion
  handlers then accept, and excludes every other claim on that node; the job was running, the
  node queued and unowned, and the worker's lease active and unexpired.\<close>

theorem claim_exclusive:
  assumes wf: "wf_world w"
    and c: "claim_registered_worker_node w now jid nid rid epoch worker stream grp msg sha key = Inr (w', cl, aid)"
  shows "\<not> registered_claim_succeeds w' jid nid
    \<and> (\<exists>job n. get_job w' jid = Some job \<and> get_execution job nid = Some n
         \<and> ne_status n = RUNNING \<and> node_matches_claim n cl)
    \<and> (\<exists>job n r. get_job w jid = Some job \<and> job_status job = JOB_RUNNING \<and> get_execution job nid = Some n
         \<and> claimable n \<and> row_get wr_id (registrations w) (the rid) = Some r \<and> wr_status r = ''active''
         \<and> Some (wr_lease_epoch r) = epoch \<and> now < wr_lease_expires_at r)
    \<and> wf_world w'"
proof -
  from c obtain rid' epoch' job n r where
    v: "rid = Some rid'" "epoch = Some epoch'" and
    j: "get_job w jid = Some job" and f: "find (\<lambda>n. ne_id n = nid \<and> ne_job_id n = jid) (all_executions w) = Some n" and
    r: "row_get wr_id (registrations w) rid' = Some r" and
    ok: "job_status job = JOB_RUNNING" "claimable n" "wr_lease_epoch r = epoch'" "wr_status r = ''active''"
      "now < wr_lease_expires_at r" and
    w': "w' = (put_world_execution w (n\<lparr>ne_status := RUNNING, ne_started_at := Some now, ne_worker_id := Some worker,
             ne_worker_registration_id := Some rid', ne_worker_lease_epoch := Some epoch'\<rparr>))
             \<lparr>attestations := attestations w', next_id := next_id w'\<rparr>" and
    cl: "cl = \<lparr>claim_job_id = jid, claim_node_execution_id = nid, claim_worker_id = worker,
             claim_started_at = now, claim_worker_registration_id = Some rid', claim_worker_lease_epoch = Some epoch'\<rparr>"
    by (auto simp: claim_registered_worker_node_def validated_registration_identity_def Let_def
        split: sum.splits prod.splits option.splits if_splits)
  let ?n' = "n\<lparr>ne_status := RUNNING, ne_started_at := Some now, ne_worker_id := Some worker,
             ne_worker_registration_id := Some rid', ne_worker_lease_epoch := Some epoch'\<rparr>"
  have ids: "ne_id n = nid" "ne_job_id n = jid" and mem: "n \<in> set (all_executions w)"
    using f by (auto simp: find_Some_iff)
  have ex: "get_execution job nid = Some n" using find_execution_wf [OF wf j, of nid] f by simp
  have eq: "get_job w' x = get_job (put_world_execution w ?n') x" "all_executions w' = all_executions (put_world_execution w ?n')" for x
    by (subst w', simp add: get_job_def all_executions_def)+
  have j': "get_job w' jid = Some (put_execution job ?n')"
    using j ids by (simp add: eq get_job_put_world_execution)
  have ex': "get_execution (put_execution job ?n') nid = Some ?n'"
    using execution_rows.get_put_same [of job ?n' n] ex ids by simp
  have "wf_world (put_world_execution w ?n')"
    by (rule wf_put_world_execution [OF wf]) (use mem in auto)
  then have wf': "wf_world w'"
    by (subst w') (simp add: wf_world_def all_executions_def)
  have "\<not> registered_claim_succeeds w' jid nid"
    using find_execution_wf [OF wf' j', of nid] ex' j'
    by (auto simp: registered_claim_succeeds_def claim_registered_worker_node_def claimable_def
        split: sum.splits prod.splits option.splits if_splits)
  moreover have "node_matches_claim ?n' cl" using ids by (simp add: node_matches_claim_def cl)
  ultimately show ?thesis using j' ex' j ex ok r v wf' by auto
qed


definition claim_sha :: string where
  "claim_sha = replicate 64 CHR ''a''"

definition claim_world :: world where
  "claim_world = (sample_world ''OPEN'' [sample_job 1 JOB_RUNNING [sample_execution 11 ''a'' QUEUED]])
     \<lparr>registrations := [\<lparr>wr_id = 5, wr_grant_id = 0, wr_lease_epoch = 1, wr_status = ''active'', wr_lease_expires_at = 100,
        wr_database_principal = ''worker''\<rparr>],
      dispatches := [\<lparr>wd_id = 6, wd_origin_receipt_id = None, wd_dispatch_key = 7, wd_job_id = 1,
        wd_node_execution_id = 11, wd_redis_stream = ''s'', wd_consumer_group = ''g'', wd_payload_sha256 = claim_sha,
        wd_payload_json = [], wd_delivery_state = ''delivered'',
        wd_delivery_attempted_at = None, wd_delivery_error = None, wd_resolution_state = ''unresolved'',
        wd_redis_message_id = Some ''m'', wd_created_at = 0, wd_delivered_at = Some 0,
        wd_acknowledged_at = None, wd_cancelled_at = None\<rparr>]\<rparr>"

lemma wf_claim_world: "wf_world claim_world"
  by (simp add: wf_world_def claim_world_def sample_defs all_executions_def)

theorem claim_exclusive_witness:
  "\<exists>w' cl aid. claim_registered_worker_node claim_world 0 1 11 (Some 5) (Some 1) ''w'' ''s'' ''g'' ''m'' claim_sha 7
     = Inr (w', cl, aid) \<and> \<not> registered_claim_succeeds w' 1 11"
proof -
  have "py_strip ''w'' \<noteq> []" "py_strip ''s'' \<noteq> []" "py_strip ''g'' \<noteq> []" "py_strip ''m'' \<noteq> []" by code_simp+
  moreover have "is_payload_sha256 claim_sha" by code_simp
  ultimately obtain w' cl aid where
    c: "claim_registered_worker_node claim_world 0 1 11 (Some 5) (Some 1) ''w'' ''s'' ''g'' ''m'' claim_sha 7 = Inr (w', cl, aid)"
    by (simp add: claim_registered_worker_node_def validated_registration_identity_def claim_world_def sample_defs
        get_job_def all_executions_def find_delivered_dispatch_def claimable_def Let_def)
  from claim_exclusive [OF wf_claim_world c] c show ?thesis by blast
qed

definition lease_live :: "world \<Rightarrow> datetime \<Rightarrow> NodeExecution \<Rightarrow> bool" where
  "lease_live w now n \<longleftrightarrow>
     (\<exists>rid r. ne_worker_registration_id n = Some rid \<and> row_get wr_id (registrations w) rid = Some r
        \<and> Some (wr_lease_epoch r) = ne_worker_lease_epoch n \<and> wr_status r = ''active'' \<and> now < wr_lease_expires_at r)"

text \<open>C25: Recovery takes a node back only from a registered worker whose lease is no longer live and only
  when no dispatch of the node is unresolved; the node is then pending and unowned. In every
  other outcome nothing changes.\<close>

theorem recover_only_dead_claims:
  assumes wf: "wf_world w" and r: "recover_registered_worker_node w now jid nid = Inr (w', out)"
  shows "wf_world w' \<and>
    (if out = Recovered then
       (\<exists>job n. get_job w jid = Some job \<and> get_execution job nid = Some n
          \<and> ne_worker_registration_id n \<noteq> None \<and> \<not> lease_live w now n)
       \<and> list_all (\<lambda>d. wd_node_execution_id d = nid \<longrightarrow>
            wd_resolution_state d \<notin> {''unresolved'', ''cancel_authorized''}) (dispatches w)
       \<and> (\<exists>job n. get_job w' jid = Some job \<and> get_execution job nid = Some n \<and> ne_status n = PENDING
            \<and> ne_worker_id n = None \<and> ne_worker_registration_id n = None \<and> ne_started_at n = None)
     else w' = w)"
proof (cases "out = Recovered")
  case False
  with r wf show ?thesis
    by (auto simp: recover_registered_worker_node_def split: option.splits if_splits)
next
  case True
  from r True obtain job n rid epoch where
    j: "get_job w jid = Some job" and f: "find (\<lambda>n. ne_id n = nid \<and> ne_job_id n = jid) (all_executions w) = Some n" and
    own: "ne_worker_registration_id n = Some rid" "ne_worker_lease_epoch n = Some epoch" and
    dead: "\<not> (case row_get wr_id (registrations w) rid of None \<Rightarrow> False
          | Some r \<Rightarrow> wr_lease_epoch r = epoch \<and> wr_status r = ''active'' \<and> wr_lease_expires_at r > now)" and
    res: "\<not> list_ex (\<lambda>d. wd_node_execution_id d = nid
                        \<and> wd_resolution_state d \<in> {''unresolved'', ''cancel_authorized''}) (dispatches w)" and
    w': "w' = put_world_execution w (n\<lparr>ne_status := PENDING, ne_worker_id := None, ne_worker_registration_id := None,
                    ne_worker_lease_epoch := None, ne_queued_at := None, ne_started_at := None,
                    ne_completed_at := None, ne_progress := 0, ne_error_message := None,
                    ne_input_artifact_ids := []\<rparr>)" (is "_ = put_world_execution w ?n'")
    unfolding recover_registered_worker_node_def
    by (simp split: option.splits prod.splits if_split_asm)
  have ids: "ne_id n = nid" "ne_job_id n = jid" and mem: "n \<in> set (all_executions w)"
    using f by (auto simp: find_Some_iff)
  have ex: "get_execution job nid = Some n" using find_execution_wf [OF wf j, of nid] f by simp
  have "\<not> lease_live w now n" using dead own by (auto simp: lease_live_def split: option.splits)
  moreover have "wf_world w'" unfolding w' by (rule wf_put_world_execution [OF wf]) (use mem in auto)
  moreover have "get_job w' jid = Some (put_execution job ?n')"
    using j ids by (simp add: w' get_job_put_world_execution)
  moreover have "get_execution (put_execution job ?n') nid = Some ?n'"
    using execution_rows.get_put_same [of job ?n' n] ex ids by simp
  ultimately show ?thesis
    using True j ex own res by (auto simp: list_all_iff list_ex_iff)
qed

definition dead_claim_world :: world where
  "dead_claim_world = sample_world ''OPEN''
     [sample_job 1 JOB_RUNNING [(sample_execution 11 ''a'' RUNNING)\<lparr>ne_worker_id := Some ''w'',
        ne_worker_registration_id := Some 5, ne_worker_lease_epoch := Some 1, ne_started_at := Some 0\<rparr>]]"

theorem recover_only_dead_claims_witness:
  "\<exists>w' job n. recover_registered_worker_node dead_claim_world 50 1 11 = Inr (w', Recovered)
     \<and> get_job w' 1 = Some job \<and> get_execution job 11 = Some n \<and> ne_status n = PENDING"
proof -
  have wf: "wf_world dead_claim_world"
    by (simp add: wf_world_def dead_claim_world_def sample_defs all_executions_def)
  obtain w' where r: "recover_registered_worker_node dead_claim_world 50 1 11 = Inr (w', Recovered)"
    by (simp add: recover_registered_worker_node_def dead_claim_world_def sample_defs get_job_def all_executions_def)
  from recover_only_dead_claims [OF wf r] r show ?thesis by auto
qed

end
