(* ===== verification/Artifact_Cache.thy ===== *)
theory Artifact_Cache
  imports Authority
begin

text \<open>
  The cache of intermediate artifacts, \<open>app/orchestrator/artifact_cache.py\<close>. Two functions are
  arguments, gathered in the record \<open>cache_env\<close>: \<open>sha256_json\<close>, the hexadecimal SHA-256 of the JSON
  text of a value, and \<open>normalize_url\<close>, the canonical form of an external media URL
  (\<open>app/services/external_url_identity.py\<close>). No property assumes anything about them.

  Input handles are sorted by a natural key, a tuple of texts and numbers; comparing a text with a
  number raises \<open>TypeError\<close>. The type of key parts is given a linear order that agrees with
  Python's wherever Python has one, so that the library's sorting applies.
\<close>

section \<open>Natural order of handles\<close>

datatype key_part = KInt int | KStr string

instantiation key_part :: linorder
begin

fun less_eq_key_part :: "key_part \<Rightarrow> key_part \<Rightarrow> bool" where
  "less_eq_key_part (KInt a) (KInt b) = (a \<le> b)"
| "less_eq_key_part (KInt _) (KStr _) = True"
| "less_eq_key_part (KStr _) (KInt _) = False"
| "less_eq_key_part (KStr a) (KStr b) = (a \<le> b)"

definition less_key_part :: "key_part \<Rightarrow> key_part \<Rightarrow> bool" where
  "less_key_part x y \<longleftrightarrow> x \<le> y \<and> \<not> y \<le> x"

instance
proof
  fix x y z :: key_part
  show "x < y \<longleftrightarrow> x \<le> y \<and> \<not> y \<le> x" by (rule less_key_part_def)
  show "x \<le> x" by (cases x) simp_all
  show "x \<le> y \<Longrightarrow> y \<le> z \<Longrightarrow> x \<le> z" by (cases x; cases y; cases z) simp_all
  show "x \<le> y \<Longrightarrow> y \<le> x \<Longrightarrow> x = y" by (cases x; cases y) simp_all
  show "x \<le> y \<or> y \<le> x" by (cases x; cases y) (simp_all add: linear)
qed

end

function natural_key :: "string \<Rightarrow> py_exn + key_part list" where
  "natural_key s =
     (if s = [] then Inr []
      else if is_digit (hd s) then
        (case int_of_digits (takeWhile is_digit s) of
           Inl e \<Rightarrow> Inl e
         | Inr n \<Rightarrow> map_sum id (\<lambda>ks. KInt n # ks) (natural_key (dropWhile is_digit s)))
      else map_sum id (\<lambda>ks. KStr (takeWhile (\<lambda>c. \<not> is_digit c) s) # ks)
             (natural_key (dropWhile (\<lambda>c. \<not> is_digit c) s)))"
  by pat_completeness auto
termination
proof (relation "measure length")
  have shorter: "length (dropWhile P s) < length s" if "s \<noteq> []" "P (hd s)" for P and s :: string
    using that by (cases s) (auto simp: length_dropWhile_le le_imp_less_Suc)
  show "wf (measure length)" by simp
  show "(dropWhile is_digit s, s) \<in> measure length" if "s \<noteq> []" "is_digit (hd s)" for s x2
    using shorter that by simp
  show "(dropWhile (\<lambda>c. \<not> is_digit c) s, s) \<in> measure length" if "s \<noteq> []" "\<not> is_digit (hd s)" for s
    using shorter [of s "\<lambda>c. \<not> is_digit c"] that by simp
qed

declare natural_key.simps [simp del]

fun comparable :: "key_part list \<Rightarrow> key_part list \<Rightarrow> bool" where
  "comparable (x # xs) (y # ys) =
     (if x = y then comparable xs ys
      else (case (x, y) of (KInt _, KInt _) \<Rightarrow> True | (KStr _, KStr _) \<Rightarrow> True | _ \<Rightarrow> False))"
| "comparable _ _ = True"

text \<open>The keys of the handles; the first handle whose key raises ends the evaluation.\<close>

primrec keyed :: "('a \<Rightarrow> string) \<Rightarrow> 'a list \<Rightarrow> py_exn + (key_part list \<times> 'a) list" where
  "keyed h [] = Inr []"
| "keyed h (x # xs) =
     (case natural_key (h x) of
        Inl e \<Rightarrow> Inl e
      | Inr k \<Rightarrow> (case keyed h xs of Inl e \<Rightarrow> Inl e | Inr ks \<Rightarrow> Inr ((k, x) # ks)))"

text \<open>
  \<open>sorted(items, key=...)\<close>: a sort compares every two neighbours of its result, so it raises as
  soon as two keys cannot be compared, and is otherwise the stable sort.
\<close>

definition ordered_inputs :: "(string, Artifact) dict \<Rightarrow> py_exn + (string, Artifact) dict" where
  "ordered_inputs inp =
     (case keyed fst inp of
        Inl e \<Rightarrow> Inl e
      | Inr ks \<Rightarrow>
          if list_all (\<lambda>x. list_all (\<lambda>y. comparable (fst x) (fst y)) ks) ks
          then Inr (map snd (sort_key fst ks)) else Inl TypeError)"

section \<open>Keys\<close>

record cache_env =
  sha256_json :: "pyval \<Rightarrow> string"
  normalize_url :: "string \<Rightarrow> string"

definition uuid_str :: "uuid \<Rightarrow> string" where
  "uuid_str = string_of_nat"

definition CACHE_SCHEMA_VERSION :: int where
  "CACHE_SCHEMA_VERSION = 1"

definition DETERMINISTIC_NODE_TYPES :: "string list" where
  "DETERMINISTIC_NODE_TYPES =
     [''trim'', ''transcode'', ''vertical_crop'', ''concat_many'', ''montage_assembler'', ''subtitle'',
      ''title_overlay'', ''bgm'', ''watermark'', ''concat_timeline'', ''concat_vertical_timeline'', ''url_download'']"

definition TRANSIENT_CONFIG_KEYS :: "string list" where
  "TRANSIENT_CONFIG_KEYS =
     [''disable_cache'', ''cache_key'', ''retry_count'', ''worker_id'', ''queued_at'', ''started_at'',
      ''completed_at'', ''debug'']"

fun cache_truthy :: "pyval \<Rightarrow> bool" where
  "cache_truthy (PBool b) = b"
| "cache_truthy (PStr s) = (py_lower (py_strip s) \<in> {''1'', ''true'', ''yes'', ''on''})"
| "cache_truthy v = py_truthy v"

definition is_cache_eligible :: "string \<Rightarrow> config \<Rightarrow> string list \<Rightarrow> bool" where
  "is_cache_eligible ntype cfg input_handles =
     (if ntype \<notin> set DETERMINISTIC_NODE_TYPES then False
      else if cache_truthy (dict_get_or cfg ''disable_cache'' PNone) then False
      else if ntype = ''url_download'' then
        (case dict_get cfg ''url'' of Some (PStr u) \<Rightarrow> py_strip u \<noteq> [] \<and> input_handles = [] | _ \<Rightarrow> False)
      else input_handles \<noteq> [])"

definition transient_key :: "string \<Rightarrow> bool" where
  "transient_key k \<longleftrightarrow> startswith k ''_'' \<or> k \<in> set TRANSIENT_CONFIG_KEYS"

definition stable_config :: "config \<Rightarrow> config" where
  "stable_config cfg = filter (\<lambda>(k, _). \<not> transient_key k) cfg"

definition stable_config_for_node :: "cache_env \<Rightarrow> string \<Rightarrow> config \<Rightarrow> config" where
  "stable_config_for_node env ntype cfg =
     (let result = stable_config cfg in
      case dict_get result ''url'' of
        Some (PStr u) \<Rightarrow> if ntype = ''url_download'' then dict_set result ''url'' (PStr (normalize_url env u)) else result
      | _ \<Rightarrow> result)"

definition opt_val :: "('a \<Rightarrow> pyval) \<Rightarrow> 'a option \<Rightarrow> pyval" where
  "opt_val f v = (case v of None \<Rightarrow> PNone | Some x \<Rightarrow> f x)"

definition signature_entry :: "cache_env \<Rightarrow> string \<times> Artifact \<Rightarrow> pyval" where
  "signature_entry env = (\<lambda>(handle, a). PDict
     [(''handle'', PStr handle), (''artifact_id'', PStr (uuid_str (art_id a))),
      (''storage_backend'', PStr (art_storage_backend a)), (''storage_path'', PStr (art_storage_path a)),
      (''file_size'', opt_val PInt (art_file_size a)),
      (''media_info_hash'', PStr (sha256_json env (PDict (case art_media_info a of None \<Rightarrow> [] | Some m \<Rightarrow> m))))])"

definition input_signature :: "cache_env \<Rightarrow> (string, Artifact) dict \<Rightarrow> py_exn + pyval list" where
  "input_signature env inp = map_sum id (map (signature_entry env)) (ordered_inputs inp)"

definition cache_key :: "cache_env \<Rightarrow> string \<Rightarrow> config \<Rightarrow> (string, Artifact) dict \<Rightarrow> py_exn + string" where
  "cache_key env ntype cfg inp =
     map_sum id (\<lambda>sig. sha256_json env (PDict
       [(''schema_version'', PInt CACHE_SCHEMA_VERSION), (''node_type'', PStr ntype),
        (''node_config'', PDict (stable_config_for_node env ntype cfg)), (''inputs'', PList sig)]))
       (input_signature env inp)"

definition node_config_hash :: "cache_env \<Rightarrow> config \<Rightarrow> string \<Rightarrow> string" where
  "node_config_hash env cfg ntype = sha256_json env (PDict (stable_config_for_node env ntype cfg))"

definition input_signature_hash :: "cache_env \<Rightarrow> (string, Artifact) dict \<Rightarrow> py_exn + string" where
  "input_signature_hash env inp = map_sum id (\<lambda>sig. sha256_json env (PList sig)) (input_signature env inp)"


section \<open>Operations\<close>

definition get_entry :: "world \<Rightarrow> string \<Rightarrow> IntermediateArtifactCache option" where
  "get_entry w k = row_get ce_cache_key (cache_entries w) k"

definition put_entry :: "world \<Rightarrow> IntermediateArtifactCache \<Rightarrow> world" where
  "put_entry w e = w\<lparr>cache_entries := row_put ce_cache_key (cache_entries w) e\<rparr>"

definition delete_entry :: "world \<Rightarrow> IntermediateArtifactCache \<Rightarrow> world" where
  "delete_entry w e = w\<lparr>cache_entries := filter (\<lambda>x. ce_cache_key x \<noteq> ce_cache_key e) (cache_entries w)\<rparr>"

text \<open>\<open>not entry.storage_backend or not entry.storage_path or not entry.filename\<close>\<close>

definition missing_text :: "string option \<Rightarrow> bool" where
  "missing_text v \<longleftrightarrow> v = None \<or> v = Some []"

definition incomplete_entry :: "IntermediateArtifactCache \<Rightarrow> bool" where
  "incomplete_entry e \<longleftrightarrow>
     missing_text (ce_storage_backend e) \<or> missing_text (ce_storage_path e) \<or> missing_text (ce_filename e)"

definition cache_lookup ::
  "cache_env \<Rightarrow> world \<Rightarrow> string \<Rightarrow> config \<Rightarrow> (string, Artifact) dict \<Rightarrow> bool
   \<Rightarrow> py_exn + world \<times> IntermediateArtifactCache option" where
  "cache_lookup env w ntype cfg inp registered =
     (if \<not> is_cache_eligible ntype cfg (dict_keys inp) then Inr (w, None)
      else
        (case cache_key env ntype cfg inp of
           Inl e \<Rightarrow> Inl e
         | Inr k \<Rightarrow>
             (case get_entry w k of
                None \<Rightarrow> Inr (w, None)
              | Some entry \<Rightarrow>
                  if registered \<and> incomplete_entry entry then Inr (w, None)
                  else
                    (let entry' =
                       (case ce_output_artifact_id entry of
                          None \<Rightarrow> entry
                        | Some aid \<Rightarrow> if get_artifact w aid = None then entry\<lparr>ce_output_artifact_id := None\<rparr> else entry);
                         w' = put_entry w entry'
                     in if incomplete_entry entry' then Inr (delete_entry w' entry', None)
                        else Inr (w', Some entry')))))"

definition record_hit :: "world \<Rightarrow> datetime \<Rightarrow> IntermediateArtifactCache \<Rightarrow> world" where
  "record_hit w now entry =
     put_entry w (entry\<lparr>ce_hit_count := ce_hit_count entry + 1, ce_last_used_at := now\<rparr>)"

definition cache_metadata ::
  "cache_env \<Rightarrow> string \<Rightarrow> config \<Rightarrow> (string, Artifact) dict \<Rightarrow> string \<Rightarrow> uuid \<Rightarrow> config" where
  "cache_metadata env ntype cfg ordered nid jid =
     [(''cache_schema_version'', PInt CACHE_SCHEMA_VERSION), (''node_id'', PStr nid),
      (''input_artifact_ids'', PList (map (\<lambda>(_, a). PStr (uuid_str (art_id a))) ordered)),
      (''config_keys'', PList (map PStr (sort (dict_keys (stable_config_for_node env ntype cfg))))),
      (''created_by_job_id'', PStr (uuid_str jid))]"

text \<open>The columns \<open>store\<close> writes, in a new row or an existing one.\<close>

definition fill_entry ::
  "cache_env \<Rightarrow> string \<Rightarrow> config \<Rightarrow> string \<Rightarrow> Artifact \<Rightarrow> config \<Rightarrow> IntermediateArtifactCache \<Rightarrow> IntermediateArtifactCache" where
  "fill_entry env ntype cfg sig_hash out meta e =
     e\<lparr>ce_node_type := ntype, ce_node_config_hash := node_config_hash env cfg ntype,
       ce_input_signature_hash := sig_hash, ce_output_artifact_id := Some (art_id out),
       ce_storage_backend := Some (art_storage_backend out), ce_storage_path := Some (art_storage_path out),
       ce_filename := Some (art_filename out), ce_mime_type := art_mime_type out,
       ce_file_size := art_file_size out, ce_media_info := art_media_info out, ce_metadata_json := meta\<rparr>"

definition new_entry :: "uuid \<Rightarrow> string \<Rightarrow> datetime \<Rightarrow> IntermediateArtifactCache" where
  "new_entry i k now = \<lparr>ce_id = i, ce_cache_key = k, ce_node_type = [], ce_node_config_hash = [],
     ce_input_signature_hash = [], ce_output_artifact_id = None, ce_storage_backend = None,
     ce_storage_path = None, ce_filename = None, ce_mime_type = None, ce_file_size = None,
     ce_media_info = None, ce_last_used_at = now, ce_hit_count = 0, ce_metadata_json = []\<rparr>"

definition cache_store ::
  "cache_env \<Rightarrow> world \<Rightarrow> datetime \<Rightarrow> string \<Rightarrow> config \<Rightarrow> (string, Artifact) dict \<Rightarrow> Artifact \<Rightarrow> string \<Rightarrow> uuid
   \<Rightarrow> py_exn + world" where
  "cache_store env w now ntype cfg inp out nid jid =
     (if \<not> is_cache_eligible ntype cfg (dict_keys inp) then Inr w
      else
        (case (cache_key env ntype cfg inp, ordered_inputs inp, input_signature_hash env inp) of
           (Inr k, Inr ordered, Inr sig_hash) \<Rightarrow>
             (let fill = fill_entry env ntype cfg sig_hash out (cache_metadata env ntype cfg ordered nid jid)
              in case get_entry w k of
                   None \<Rightarrow> Inr (w\<lparr>cache_entries := cache_entries w @ [fill (new_entry (next_id w) k now)],
                                  next_id := next_id w + 1\<rparr>)
                 | Some e \<Rightarrow> Inr (put_entry w (fill e)))
         | (Inl e, _, _) \<Rightarrow> Inl e
         | (_, Inl e, _) \<Rightarrow> Inl e
         | (_, _, Inl e) \<Rightarrow> Inl e))"

definition snapshot_artifact :: "uuid \<Rightarrow> IntermediateArtifactCache \<Rightarrow> uuid \<Rightarrow> uuid \<Rightarrow> Artifact" where
  "snapshot_artifact i entry jid nid =
     \<lparr>art_id = i, art_job_id = jid, art_node_execution_id = nid, art_kind = INTERMEDIATE,
      art_filename = the (ce_filename entry), art_mime_type = ce_mime_type entry,
      art_file_size = ce_file_size entry, art_storage_backend = the (ce_storage_backend entry),
      art_storage_path = the (ce_storage_path entry), art_media_info = ce_media_info entry\<rparr>"

definition materialize_hit ::
  "world \<Rightarrow> IntermediateArtifactCache \<Rightarrow> uuid \<Rightarrow> uuid \<Rightarrow> py_exn + world \<times> Artifact" where
  "materialize_hit w entry jid nid =
     (if incomplete_entry entry then Inl ValueError
      else
        (let a = snapshot_artifact (next_id w) entry jid nid;
             created = (w\<lparr>artifacts := artifacts w @ [a], next_id := next_id w + 1\<rparr>, a)
         in case Option.bind (ce_output_artifact_id entry) (get_artifact w) of
              None \<Rightarrow> Inr created
            | Some existing \<Rightarrow> Inr (if art_job_id existing = jid then (w, existing) else created)))"

section \<open>Lemmas\<close>

interpretation cache_rows: row_table ce_cache_key get_entry put_entry
  by unfold_locales (auto simp: get_entry_def put_entry_def row_get_put dest: row_get_key)

definition unique_keys :: "world \<Rightarrow> bool" where
  "unique_keys w \<longleftrightarrow> distinct (map ce_cache_key (cache_entries w))"

lemma unique_keys_put [simp]: "unique_keys (put_entry w e) = unique_keys w"
  by (simp add: unique_keys_def put_entry_def)

lemma row_put_same:
  assumes "distinct (map key rows)" and "row_get key rows k = Some r"
  shows "row_put key rows r = rows"
  unfolding row_put_def
proof (rule map_idI)
  fix x assume x: "x \<in> set rows"
  show "(if key x = key r then r else x) = x"
    using row_unique [OF assms(1) x row_get_mem [OF assms(2)]] by auto
qed

lemma put_entry_same: "unique_keys w \<Longrightarrow> get_entry w k = Some e \<Longrightarrow> put_entry w e = w"
  by (simp add: put_entry_def unique_keys_def get_entry_def row_put_same)

lemma keyed_perm:
  assumes "mset xs = mset ys" and "keyed h xs = Inr ks"
  shows "\<exists>ks'. keyed h ys = Inr ks' \<and> mset ks' = mset ks"
proof -
  have all: "keyed h zs = Inr rs \<longleftrightarrow> (\<forall>z\<in>set zs. \<exists>k. natural_key (h z) = Inr k) \<and> rs = map (\<lambda>z. (projr (natural_key (h z)), z)) zs"
    for zs rs
  proof (induction zs arbitrary: rs)
    case Nil
    then show ?case by auto
  next
    case (Cons z zs)
    show ?case
    proof (cases "keyed h zs")
      case (Inl e)
      then have "\<not> (\<forall>z\<in>set zs. \<exists>k. natural_key (h z) = Inr k)" using Cons.IH by auto
      with Inl show ?thesis by (auto split: sum.split)
    next
      case (Inr r)
      then have "(\<forall>z\<in>set zs. \<exists>k. natural_key (h z) = Inr k) \<and> r = map (\<lambda>z. (projr (natural_key (h z)), z)) zs"
        using Cons.IH by blast
      with Inr show ?thesis by (auto split: sum.split)
    qed
  qed
  have "set xs = set ys" using assms(1) by (rule mset_eq_setD)
  then have "keyed h ys = Inr (map (\<lambda>z. (projr (natural_key (h z)), z)) ys)" using assms(2) all by auto
  moreover have "ks = map (\<lambda>z. (projr (natural_key (h z)), z)) xs" using assms(2) all by auto
  ultimately show ?thesis using assms(1) by simp
qed

lemma ordered_inputs_perm:
  assumes m: "mset inp = mset inp'" and k: "keyed fst inp = Inr ks" and d: "distinct (map fst ks)"
  shows "ordered_inputs inp' = ordered_inputs inp"
proof -
  obtain ks' where k': "keyed fst inp' = Inr ks'" and m': "mset ks' = mset ks"
    using keyed_perm [OF m k] by blast
  have s: "set ks' = set ks" using m' by (rule mset_eq_setD)
  have "inj_on fst (set ks')" using d s by (simp add: distinct_map)
  then have "sort_key fst ks' = sort_key fst ks"
    using m' by (intro sort_key_inj_key_eq) simp_all
  then show ?thesis by (simp add: ordered_inputs_def k k' list_all_iff s)
qed

section \<open>Properties\<close>


definition sample_artifact :: "uuid \<Rightarrow> Artifact" where
  "sample_artifact i = \<lparr>art_id = i, art_job_id = 1, art_node_execution_id = 11, art_kind = INTERMEDIATE,
     art_filename = ''f'', art_mime_type = None, art_file_size = Some 3, art_storage_backend = ''local'',
     art_storage_path = ''p'', art_media_info = None\<rparr>"

definition sample_inputs :: "(string, Artifact) dict" where
  "sample_inputs = [(''video_1'', sample_artifact 21), (''video_2'', sample_artifact 22)]"

lemma sample_inputs_keys:
  "keyed fst sample_inputs =
     Inr [([KStr ''video_'', KInt 1], ''video_1'', sample_artifact 21), ([KStr ''video_'', KInt 2], ''video_2'', sample_artifact 22)]"
proof -
  have "natural_key ''video_1'' = Inr [KStr ''video_'', KInt 1]" "natural_key ''video_2'' = Inr [KStr ''video_'', KInt 2]"
    by code_simp+
  then show ?thesis by (simp add: sample_inputs_def)
qed

definition plain_env :: cache_env where
  "plain_env = \<lparr>sha256_json = (\<lambda>_. ''k''), normalize_url = (\<lambda>u. u)\<rparr>"


text \<open>C30: What is stored is found: after \<open>store\<close> of an eligible node, \<open>lookup\<close> with the same node returns
  an entry with the storage location of the stored artifact, changes nothing further, and
  materializing it for another job gives a new artifact of that job at the same location. Keys
  of cache entries stay unique.\<close>

theorem cache_store_lookup:
  assumes u: "unique_keys w" and el: "is_cache_eligible ntype cfg (dict_keys inp)"
    and st: "cache_store env w now ntype cfg inp out nid jid = Inr w'"
    and out: "get_artifact w (art_id out) = Some out"
    and ne: "art_storage_backend out \<noteq> []" "art_storage_path out \<noteq> []" "art_filename out \<noteq> []"
    and jid': "jid' \<noteq> art_job_id out"
  shows "\<exists>e w'' a. cache_lookup env w' ntype cfg inp r = Inr (w', Some e)
    \<and> materialize_hit w' e jid' nid' = Inr (w'', a) \<and> art_job_id a = jid' \<and> art_id a = next_id w'
    \<and> art_storage_backend a = art_storage_backend out \<and> art_storage_path a = art_storage_path out
    \<and> art_filename a = art_filename out \<and> unique_keys w'"
proof -
  obtain k ordered sh where k: "cache_key env ntype cfg inp = Inr k"
    and o: "ordered_inputs inp = Inr ordered" and sh: "input_signature_hash env inp = Inr sh"
    using st el by (auto simp: cache_store_def split: sum.splits)
  let ?fill = "fill_entry env ntype cfg sh out (cache_metadata env ntype cfg ordered nid jid)"
  define e where "e = (case get_entry w k of None \<Rightarrow> ?fill (new_entry (next_id w) k now) | Some e0 \<Rightarrow> ?fill e0)"
  have key: "ce_cache_key e = k"
    by (auto simp: e_def fill_entry_def new_entry_def split: option.split dest: cache_rows.get_key)
  have ent: "get_entry w' k = Some e" and arts: "artifacts w' = artifacts w" and u': "unique_keys w'"
  proof -
    have "get_entry w' k = Some e \<and> artifacts w' = artifacts w \<and> unique_keys w'"
    proof (cases "get_entry w k")
      case None
      then have "k \<notin> ce_cache_key ` set (cache_entries w)" by (simp add: get_entry_def row_get_None_iff)
      with None st el k o sh key u show ?thesis
        by (auto simp: cache_store_def Let_def get_entry_def row_get_append e_def unique_keys_def)
    next
      case (Some e0)
      with st el k o sh have w': "w' = put_entry w e" by (simp add: cache_store_def Let_def e_def)
      then show ?thesis using cache_rows.get_put_same [of w e e0] Some key u by (simp add: put_entry_def unique_keys_def)
    qed
    then show "get_entry w' k = Some e" "artifacts w' = artifacts w" "unique_keys w'" by simp_all
  qed
  have cols: "ce_output_artifact_id e = Some (art_id out)" "ce_storage_backend e = Some (art_storage_backend out)"
    "ce_storage_path e = Some (art_storage_path out)" "ce_filename e = Some (art_filename out)"
    by (simp_all add: e_def fill_entry_def split: option.split)
  then have comp: "\<not> incomplete_entry e" using ne by (simp add: incomplete_entry_def missing_text_def)
  have out': "get_artifact w' (art_id out) = Some out" using out arts by (simp add: get_artifact_def)
  have "cache_lookup env w' ntype cfg inp r = Inr (w', Some e)"
    using el k ent comp cols out' put_entry_same [OF u' ent] by (simp add: cache_lookup_def Let_def)
  moreover have "\<exists>w'' a. materialize_hit w' e jid' nid' = Inr (w'', a) \<and> art_job_id a = jid' \<and> art_id a = next_id w'
    \<and> art_storage_backend a = art_storage_backend out \<and> art_storage_path a = art_storage_path out
    \<and> art_filename a = art_filename out"
    using comp cols out' jid' by (simp add: materialize_hit_def snapshot_artifact_def Let_def)
  ultimately show ?thesis using u' by blast
qed


definition cache_world :: world where
  "cache_world = (sample_world ''OPEN'' [])\<lparr>artifacts := [sample_artifact 21, sample_artifact 22, sample_artifact 23]\<rparr>"

theorem cache_store_lookup_witness:
  "\<exists>w' e. cache_store plain_env cache_world 0 ''trim'' [] sample_inputs (sample_artifact 23) ''a'' 1 = Inr w'
     \<and> cache_lookup plain_env w' ''trim'' [] sample_inputs False = Inr (w', Some e)"
proof -
  have u: "unique_keys cache_world" by (simp add: unique_keys_def cache_world_def sample_defs)
  have el: "is_cache_eligible ''trim'' [] (dict_keys sample_inputs)"
    by (simp add: is_cache_eligible_def DETERMINISTIC_NODE_TYPES_def dict_get_or_def sample_inputs_def)
  have o: "ordered_inputs sample_inputs = Inr sample_inputs"
    unfolding ordered_inputs_def sample_inputs_keys by (simp add: sample_inputs_def less_key_part_def)
  then have "\<exists>w'. cache_store plain_env cache_world 0 ''trim'' [] sample_inputs (sample_artifact 23) ''a'' 1 = Inr w'"
    using el by (simp add: cache_store_def cache_key_def input_signature_hash_def input_signature_def Let_def split: option.split)
  then obtain w' where st: "cache_store plain_env cache_world 0 ''trim'' [] sample_inputs (sample_artifact 23) ''a'' 1 = Inr w'"
    by blast
  have "get_artifact cache_world (art_id (sample_artifact 23)) = Some (sample_artifact 23)"
    by (simp add: get_artifact_def cache_world_def sample_artifact_def)
  from cache_store_lookup [OF u el st this, of 2 False] st show ?thesis by (auto simp: sample_artifact_def)
qed

end
