(* ===== verification/Engine_Core.thy ===== *)
theory Engine_Core
  imports Artifact_Cache
begin

text \<open>
  The parts of \<open>app/orchestrator/engine.py\<close> that work on a loaded job: leaf nodes, finalization,
  skipping what depends on a failed node, the hosts a node prefers and the artifacts it reads.
  A job is a value; the functions return the changed one.
\<close>

section \<open>Helpers\<close>

text \<open>\<open>s.split(marker, 1)[1]\<close> when the marker occurs.\<close>

fun after_marker :: "string \<Rightarrow> string \<Rightarrow> string option" where
  "after_marker m [] = (if m = [] then Some [] else None)"
| "after_marker m (c # cs) =
     (if startswith (c # cs) m then Some (drop (length m) (c # cs)) else after_marker m cs)"

definition extract_worker_host :: "string option \<Rightarrow> string option" where
  "extract_worker_host worker_id =
     (case worker_id of
        None \<Rightarrow> None
      | Some s \<Rightarrow>
          (case after_marker ''worker@'' s of
             None \<Rightarrow> None
           | Some suffix \<Rightarrow>
               (let host = py_strip (takeWhile (\<lambda>c. c \<noteq> CHR '':'') suffix)
                in if host = [] then None else Some host)))"

definition leaf_node_ids :: "PipelineDefinition \<Rightarrow> string list" where
  "leaf_node_ids d = map node_id (filter (\<lambda>n. node_id n \<notin> edge_source ` set (edges d)) (nodes d))"

definition executions_by_node_id :: "Job \<Rightarrow> (string, NodeExecution) dict" where
  "executions_by_node_id job = dict_of ne_node_id (\<lambda>n. n) (node_executions job)"

fun join_names :: "string list \<Rightarrow> string" where
  "join_names [] = []"
| "join_names [x] = x"
| "join_names (x # xs) = x @ '', '' @ join_names xs"

section \<open>Finalization\<close>

definition failed_statuses :: "NodeStatus list" where
  "failed_statuses = [FAILED, SKIPPED, CANCELLED]"

definition mark_final_artifacts_uncommitted :: "world \<Rightarrow> Job \<Rightarrow> world" where
  "mark_final_artifacts_uncommitted w job =
     foldl (\<lambda>w n. if ne_node_id n \<in> set (leaf_node_ids (pipeline_snapshot job)) \<and> ne_status n = SUCCEEDED then
                    (case Option.bind (ne_output_artifact_id n) (get_artifact w) of
                       None \<Rightarrow> w
                     | Some a \<Rightarrow> put_artifact w (a\<lparr>art_kind := FINAL\<rparr>))
                  else w) w (node_executions job)"

definition failed_node_message :: "Job \<Rightarrow> string option" where
  "failed_node_message job =
     (case job_error_message job of
        Some (c # cs) \<Rightarrow> Some (c # cs)
      | old \<Rightarrow>
          (let names = map (\<lambda>n. if ne_node_label n = [] then ne_node_id n else ne_node_label n)
                         (filter (\<lambda>n. ne_status n \<in> set failed_statuses) (node_executions job))
           in if names = [] then old else Some (''Failed nodes: '' @ join_names names)))"

definition apply_job_finalization :: "world \<Rightarrow> datetime \<Rightarrow> Job \<Rightarrow> bool \<times> world \<times> Job" where
  "apply_job_finalization w now job =
     (let statuses = map ne_status (node_executions job) in
      if list_ex (\<lambda>s. s \<in> {PENDING, QUEUED, RUNNING}) statuses then (False, w, job)
      else
        (let has_fail = list_ex (\<lambda>s. s \<in> set failed_statuses) statuses;
             leaves = filter (\<lambda>n. ne_node_id n \<in> set (leaf_node_ids (pipeline_snapshot job))) (node_executions job);
             has_successful_leaf = list_ex (\<lambda>n. ne_status n = SUCCEEDED) leaves;
             has_failed_leaf = list_ex (\<lambda>n. ne_status n \<in> set failed_statuses) leaves
         in if list_all (\<lambda>s. s = SUCCEEDED) statuses then
              (let job' = job\<lparr>job_status := JOB_SUCCEEDED, job_completed_at := Some now\<rparr>
               in (True, mark_final_artifacts_uncommitted w job', job'))
            else if has_fail then
              (let job' = job\<lparr>job_status := (if has_failed_leaf \<or> \<not> has_successful_leaf then JOB_FAILED else PARTIALLY_FAILED),
                              job_error_message := failed_node_message job, job_completed_at := Some now\<rparr>
               in (True, (if job_status job' \<noteq> JOB_FAILED then mark_final_artifacts_uncommitted w job' else w), job'))
            else (False, w, job)))"

section \<open>Skipping what depends on a failed node\<close>

definition downstream_map :: "(string, string list) dict \<Rightarrow> adjacency" where
  "downstream_map dep_map =
     foldl (\<lambda>ds (nid, deps). foldl (\<lambda>ds dep. dict_append ds dep nid) ds deps) [] dep_map"

function skip_bfs :: "adjacency \<Rightarrow> string list \<Rightarrow> string list \<Rightarrow> string list" where
  "skip_bfs ds [] to_skip = to_skip"
| "skip_bfs ds (nid # queue) to_skip =
     (if nid \<in> set to_skip then skip_bfs ds queue to_skip
      else skip_bfs ds (queue @ dict_get_or ds nid []) (nid # to_skip))"
  by pat_completeness auto
termination
proof (relation "measures [\<lambda>(ds, queue, to_skip). card ((set queue \<union> (\<Union>p\<in>set ds. set (snd p))) - set to_skip),
                           \<lambda>(ds, queue, to_skip). length queue]")
  show "wf (measures [\<lambda>(ds :: adjacency, queue :: string list, to_skip :: string list).
      card ((set queue \<union> (\<Union>p\<in>set ds. set (snd p))) - set to_skip), \<lambda>(ds, queue, to_skip). length queue])" by simp
next
  fix ds :: adjacency and nid :: string and queue to_skip :: "string list"
  assume "nid \<in> set to_skip"
  then have "(set queue \<union> (\<Union>p\<in>set ds. set (snd p))) - set to_skip
      = (set (nid # queue) \<union> (\<Union>p\<in>set ds. set (snd p))) - set to_skip" by auto
  then show "((ds, queue, to_skip), ds, nid # queue, to_skip) \<in> measures
      [\<lambda>(ds, queue, to_skip). card ((set queue \<union> (\<Union>p\<in>set ds. set (snd p))) - set to_skip),
       \<lambda>(ds, queue, to_skip). length queue]" by simp
next
  fix ds :: adjacency and nid :: string and queue to_skip :: "string list"
  assume n: "nid \<notin> set to_skip"
  let ?V = "\<Union>p\<in>set ds. set (snd p)"
  have "set (dict_get_or ds nid []) \<subseteq> ?V"
    by (cases "dict_get ds nid") (force simp: dict_get_or_def dest: map_of_SomeD)+
  then have "(set (queue @ dict_get_or ds nid []) \<union> ?V) - set (nid # to_skip)
      \<subset> (set (nid # queue) \<union> ?V) - set to_skip" using n by auto
  then have "card ((set (queue @ dict_get_or ds nid []) \<union> ?V) - set (nid # to_skip))
      < card ((set (nid # queue) \<union> ?V) - set to_skip)" by (rule psubset_card_mono [rotated]) simp
  then show "((ds, queue @ dict_get_or ds nid [], nid # to_skip), ds, nid # queue, to_skip) \<in> measures
      [\<lambda>(ds, queue, to_skip). card ((set queue \<union> (\<Union>p\<in>set ds. set (snd p))) - set to_skip),
       \<lambda>(ds, queue, to_skip). length queue]" by simp
qed

definition skip_one :: "datetime \<Rightarrow> Job \<Rightarrow> string \<Rightarrow> Job" where
  "skip_one now job nid =
     (case dict_get (executions_by_node_id job) nid of
        None \<Rightarrow> job
      | Some n \<Rightarrow>
          if ne_status n = PENDING
          then put_execution job (n\<lparr>ne_status := SKIPPED, ne_completed_at := Some now\<rparr>) else job)"

definition skip_downstream :: "datetime \<Rightarrow> Job \<Rightarrow> string \<Rightarrow> (string, string list) dict \<Rightarrow> Job" where
  "skip_downstream now job failed_node_id dep_map =
     (let ds = downstream_map dep_map;
          to_skip = skip_bfs ds (dict_get_or ds failed_node_id []) []
      in foldl (skip_one now) job to_skip)"

section \<open>Hosts and inputs\<close>

definition count_hosts :: "(string, NodeExecution) dict \<Rightarrow> string list \<Rightarrow> (string, nat) dict" where
  "count_hosts by_id deps =
     foldl (\<lambda>counts dep. case extract_worker_host (Option.bind (dict_get by_id dep) ne_worker_id) of
                           None \<Rightarrow> counts
                         | Some host \<Rightarrow> dict_set counts host (dict_get_or counts host 0 + 1)) [] deps"

definition preferred_hosts_for_node :: "(string, NodeExecution) dict \<Rightarrow> string list \<Rightarrow> string list" where
  "preferred_hosts_for_node by_id deps =
     (let counts = count_hosts by_id deps in
      if counts = [] then []
      else (let ranked = sort_key (\<lambda>(host, count). (- int count, host)) counts; top_count = snd (hd ranked)
            in map fst (filter (\<lambda>(host, count). count = top_count) ranked)))"

text \<open>The loop over the edges into a node, in four places of the source.\<close>

definition receipt_input_artifacts :: "Job \<Rightarrow> string \<Rightarrow> (string, uuid) dict" where
  "receipt_input_artifacts job nid =
     foldl (\<lambda>d e. if edge_target e \<noteq> nid then d
                  else (case Option.bind (dict_get (executions_by_node_id job) (edge_source e)) ne_output_artifact_id of
                          None \<Rightarrow> d
                        | Some a \<Rightarrow> dict_set d (targetHandle e) a)) [] (edges (pipeline_snapshot job))"

definition input_artifacts_by_handle :: "world \<Rightarrow> (string, uuid) dict \<Rightarrow> (string, Artifact) dict" where
  "input_artifacts_by_handle w ids =
     foldl (\<lambda>d (handle, aid). case get_artifact w aid of None \<Rightarrow> d | Some a \<Rightarrow> dict_set d handle a) [] ids"

definition fallback_handles :: "uuid list \<Rightarrow> (string, uuid) dict" where
  "fallback_handles ids =
     map (\<lambda>(i, a). (if i = 0 then ''input'' else ''input_'' @ string_of_nat (i + 1), a)) (enumerate 0 ids)"

definition input_artifacts_for_node :: "world \<Rightarrow> Job \<Rightarrow> NodeExecution \<Rightarrow> (string, Artifact) dict" where
  "input_artifacts_for_node w job ne =
     (let ids = receipt_input_artifacts job (ne_node_id ne) in
      if ids \<noteq> [] then input_artifacts_by_handle w ids
      else if ne_input_artifact_ids ne = [] then []
      else input_artifacts_by_handle w (fallback_handles (ne_input_artifact_ids ne)))"

definition write_artifact_cache_for_node ::
  "cache_env \<Rightarrow> world \<Rightarrow> datetime \<Rightarrow> Job \<Rightarrow> NodeExecution \<Rightarrow> py_exn + world" where
  "write_artifact_cache_for_node env w now job ne =
     (case Option.bind (ne_output_artifact_id ne) (get_artifact w) of
        None \<Rightarrow> Inr w
      | Some out \<Rightarrow>
          cache_store env w now (ne_node_type ne) (ne_node_config ne) (input_artifacts_for_node w job ne)
            out (ne_node_id ne) (job_id job))"


section \<open>Lemmas on finalization\<close>

definition final_outputs :: "Job \<Rightarrow> NodeExecution list \<Rightarrow> uuid set" where
  "final_outputs job ns =
     {a. \<exists>n\<in>set ns. ne_node_id n \<in> set (leaf_node_ids (pipeline_snapshot job)) \<and> ne_status n = SUCCEEDED
         \<and> ne_output_artifact_id n = Some a}"

lemma mark_final_get:
  "get_artifact (mark_final_artifacts_uncommitted w job) a =
     map_option (\<lambda>x. if a \<in> final_outputs job (node_executions job) then x\<lparr>art_kind := FINAL\<rparr> else x) (get_artifact w a)"
proof -
  have idem: "(\<lambda>x::Artifact. x\<lparr>art_kind := FINAL\<rparr>\<lparr>art_kind := FINAL\<rparr>) = (\<lambda>x. x\<lparr>art_kind := FINAL\<rparr>)" by simp
  let ?f = "\<lambda>w n. if ne_node_id n \<in> set (leaf_node_ids (pipeline_snapshot job)) \<and> ne_status n = SUCCEEDED then
                    (case Option.bind (ne_output_artifact_id n) (get_artifact w) of
                       None \<Rightarrow> w
                     | Some a \<Rightarrow> put_artifact w (a\<lparr>art_kind := FINAL\<rparr>))
                  else w"
  have step: "get_artifact (?f w n) a =
      map_option (\<lambda>x. if a \<in> final_outputs job [n] then x\<lparr>art_kind := FINAL\<rparr> else x) (get_artifact w a)" for w n
  proof (cases "ne_output_artifact_id n")
    case None
    then show ?thesis by (simp add: final_outputs_def option.map_ident)
  next
    case (Some b)
    show ?thesis
    proof (cases "get_artifact w b")
      case None
      then show ?thesis using Some by (cases "b = a") (auto simp: final_outputs_def option.map_ident)
    next
      case (Some x)
      then have "art_id x = b" by (rule artifact_rows.get_key)
      then show ?thesis using Some \<open>ne_output_artifact_id n = Some b\<close>
        by (cases "b = a") (auto simp: final_outputs_def option.map_ident artifact_rows.get_put)
    qed
  qed
  have "get_artifact (foldl ?f w ns) a =
      map_option (\<lambda>x. if a \<in> final_outputs job ns then x\<lparr>art_kind := FINAL\<rparr> else x) (get_artifact w a)" for w ns
  proof (induction ns arbitrary: w)
    case Nil
    then show ?case by (simp add: final_outputs_def option.map_ident)
  next
    case (Cons n ns)
    have "a \<in> final_outputs job (n # ns) \<longleftrightarrow> a \<in> final_outputs job [n] \<or> a \<in> final_outputs job ns"
      by (auto simp: final_outputs_def)
    then show ?case by (simp only: foldl.simps Cons.IH step option.map_comp comp_def) (auto intro: map_option_cong)
  qed
  then show ?thesis by (simp only: mark_final_artifacts_uncommitted_def)
qed

lemma mark_final_jobs [simp]: "jobs (mark_final_artifacts_uncommitted w job) = jobs w"
proof -
  have "jobs (foldl f w ns) = jobs w" if "\<And>w n. jobs (f w n) = jobs w" for f :: "world \<Rightarrow> NodeExecution \<Rightarrow> world" and w ns
    using that by (induction ns arbitrary: w) simp_all
  then show ?thesis
    by (auto simp: mark_final_artifacts_uncommitted_def put_artifact_def split: option.split)
qed

definition final_status :: "Job \<Rightarrow> JobStatus" where
  "final_status job =
     (let leaf = (\<lambda>n. ne_node_id n \<in> set (leaf_node_ids (pipeline_snapshot job))) in
      if (\<forall>n\<in>set (node_executions job). ne_status n = SUCCEEDED) then JOB_SUCCEEDED
      else if (\<exists>n\<in>set (node_executions job). leaf n \<and> ne_status n \<noteq> SUCCEEDED)
           \<or> \<not> (\<exists>n\<in>set (node_executions job). leaf n \<and> ne_status n = SUCCEEDED) then JOB_FAILED
      else PARTIALLY_FAILED)"

definition node_active :: "NodeExecution \<Rightarrow> bool" where
  "node_active n \<longleftrightarrow> ne_status n \<in> {PENDING, QUEUED, RUNNING}"

lemma not_active_iff: "\<not> node_active n \<longleftrightarrow> ne_status n = SUCCEEDED \<or> ne_status n \<in> set failed_statuses"
  by (cases "ne_status n") (simp_all add: node_active_def failed_statuses_def)

lemma finalization_active:
  "\<exists>n\<in>set (node_executions job). node_active n \<Longrightarrow> apply_job_finalization w now job = (False, w, job)"
  by (auto simp: apply_job_finalization_def list_ex_iff node_active_def)

lemma finalization_done:
  assumes "\<not> (\<exists>n\<in>set (node_executions job). node_active n)"
  shows "\<exists>msg. apply_job_finalization w now job =
    (let job' = job\<lparr>job_status := final_status job, job_error_message := msg, job_completed_at := Some now\<rparr>
     in (True, (if final_status job \<noteq> JOB_FAILED then mark_final_artifacts_uncommitted w job' else w), job'))"
proof -
  have na: "\<forall>n\<in>set (node_executions job). ne_status n = SUCCEEDED \<or> ne_status n \<in> set failed_statuses"
    using assms not_active_iff by blast
  then have nf: "\<forall>n\<in>set (node_executions job). ne_status n \<in> set failed_statuses \<longleftrightarrow> ne_status n \<noteq> SUCCEEDED"
    by (auto simp: failed_statuses_def)
  have act: "\<not> list_ex (\<lambda>s. s \<in> {PENDING, QUEUED, RUNNING}) (map ne_status (node_executions job))"
    using assms by (auto simp: list_ex_iff node_active_def)
  show ?thesis
  proof (cases "\<forall>n\<in>set (node_executions job). ne_status n = SUCCEEDED")
    case True
    then have "apply_job_finalization w now job =
        (let job' = job\<lparr>job_status := JOB_SUCCEEDED, job_completed_at := Some now\<rparr>
         in (True, mark_final_artifacts_uncommitted w job', job'))"
      using act by (simp add: apply_job_finalization_def list_all_iff)
    moreover have "final_status job = JOB_SUCCEEDED" using True by (simp add: final_status_def)
    ultimately show ?thesis by (intro exI [of _ "job_error_message job"]) (simp add: Let_def)
  next
    case False
    let ?leaves = "filter (\<lambda>n. ne_node_id n \<in> set (leaf_node_ids (pipeline_snapshot job))) (node_executions job)"
    have fail: "list_ex (\<lambda>s. s \<in> set failed_statuses) (map ne_status (node_executions job))"
      using False nf by (auto simp: list_ex_iff)
    have fs: "final_status job =
        (if list_ex (\<lambda>n. ne_status n \<in> set failed_statuses) ?leaves \<or> \<not> list_ex (\<lambda>n. ne_status n = SUCCEEDED) ?leaves
         then JOB_FAILED else PARTIALLY_FAILED)"
      using False nf by (auto simp: final_status_def list_ex_iff)
    have notall: "\<not> list_all (\<lambda>s. s = SUCCEEDED) (map ne_status (node_executions job))"
      using False by (auto simp: list_all_iff)
    have "apply_job_finalization w now job =
        (let job' = job\<lparr>job_status := final_status job, job_error_message := failed_node_message job, job_completed_at := Some now\<rparr>
         in (True, (if job_status job' \<noteq> JOB_FAILED then mark_final_artifacts_uncommitted w job' else w), job'))"
      unfolding apply_job_finalization_def Let_def fs if_not_P [OF act] if_not_P [OF notall] if_P [OF fail] by simp
    then show ?thesis by (intro exI [of _ "failed_node_message job"]) (simp add: Let_def)
  qed
qed


section \<open>Lemmas on skipping\<close>

text \<open>\<open>(u, v)\<close> when \<open>v\<close> depends on \<open>u\<close>.\<close>

definition dep_rel :: "(string, string list) dict \<Rightarrow> (string \<times> string) set" where
  "dep_rel dep_map = {(u, v). \<exists>deps. (v, deps) \<in> set dep_map \<and> u \<in> set deps}"

definition adj_rel :: "adjacency \<Rightarrow> (string \<times> string) set" where
  "adj_rel ds = {(u, v). v \<in> set (dict_get_or ds u [])}"

lemma downstream_map_rel: "adj_rel (downstream_map dep_map) = dep_rel dep_map"
proof -
  have inner: "set (dict_get_or (foldl (\<lambda>ds dep. dict_append ds dep nid) ds deps) u []) =
      set (dict_get_or ds u []) \<union> (if u \<in> set deps then {nid} else {})" for ds :: adjacency and deps and nid u :: string
    by (induction deps arbitrary: ds) (auto simp: dict_get_or_append)
  have "set (dict_get_or (foldl (\<lambda>ds (nid, deps). foldl (\<lambda>ds dep. dict_append ds dep nid) ds deps) ds dm) u []) =
      set (dict_get_or ds u []) \<union> {v. (u, v) \<in> dep_rel dm}" for ds dm u
  proof (induction dm arbitrary: ds)
    case Nil
    then show ?case by (simp add: dep_rel_def)
  next
    case (Cons p dm)
    obtain nid deps where p: "p = (nid, deps)" by force
    have "{v. (u, v) \<in> dep_rel (p # dm)} = (if u \<in> set deps then {nid} else {}) \<union> {v. (u, v) \<in> dep_rel dm}"
      by (auto simp: p dep_rel_def)
    then show ?case using Cons.IH [of "foldl (\<lambda>ds dep. dict_append ds dep nid) ds deps"]
      by (simp add: p inner Un_assoc)
  qed
  from this [of "[]" dep_map] show ?thesis
    by (auto simp: adj_rel_def downstream_map_def dict_get_or_def)
qed

lemma skip_bfs_reach:
  assumes "\<forall>x\<in>set to_skip. \<forall>y. (x, y) \<in> adj_rel ds \<longrightarrow> y \<in> set to_skip \<union> set queue"
  shows "set (skip_bfs ds queue to_skip) = set to_skip \<union> (adj_rel ds)\<^sup>* `` set queue"
  using assms
proof (induction ds queue to_skip rule: skip_bfs.induct)
  case (1 ds to_skip)
  then show ?case by simp
next
  case (2 ds nid queue to_skip)
  show ?case
  proof (cases "nid \<in> set to_skip")
    case True
    have closed: "\<forall>x\<in>set to_skip. \<forall>y. (x, y) \<in> adj_rel ds \<longrightarrow> y \<in> set to_skip \<union> set queue"
      using 2(3) True by auto
    have "y \<in> set to_skip \<union> (adj_rel ds)\<^sup>* `` set queue" if "(x, y) \<in> (adj_rel ds)\<^sup>*" "x \<in> set to_skip" for x y
      using that
    proof (induction rule: rtrancl_induct)
      case base
      then show ?case by simp
    next
      case (step y z)
      then show ?case using closed by (auto intro: rtrancl_into_rtrancl)
    qed
    then have "set to_skip \<union> (adj_rel ds)\<^sup>* `` set (nid # queue) = set to_skip \<union> (adj_rel ds)\<^sup>* `` set queue"
      using True by auto
    then show ?thesis using 2(1) [OF True closed] True by simp
  next
    case False
    let ?succ = "dict_get_or ds nid []"
    have succ: "set ?succ = adj_rel ds `` {nid}" by (auto simp: adj_rel_def)
    have closed: "\<forall>x\<in>set (nid # to_skip). \<forall>y. (x, y) \<in> adj_rel ds \<longrightarrow> y \<in> set (nid # to_skip) \<union> set (queue @ ?succ)"
      using 2(3) succ by auto
    have "(adj_rel ds)\<^sup>* `` {nid} = {nid} \<union> (adj_rel ds)\<^sup>* `` (adj_rel ds `` {nid})"
      by (auto intro: converse_rtrancl_into_rtrancl elim: converse_rtranclE)
    then have "set (nid # to_skip) \<union> (adj_rel ds)\<^sup>* `` set (queue @ ?succ) = set to_skip \<union> (adj_rel ds)\<^sup>* `` set (nid # queue)"
      using succ by auto
    then show ?thesis using 2(2) [OF False closed] False by simp
  qed
qed

lemma skip_set:
  "set (skip_bfs (downstream_map dep_map) (dict_get_or (downstream_map dep_map) f []) []) =
     {v. (f, v) \<in> (dep_rel dep_map)\<^sup>+}"
proof -
  have "set (dict_get_or (downstream_map dep_map) f []) = dep_rel dep_map `` {f}"
    by (auto simp: adj_rel_def simp flip: downstream_map_rel)
  then show ?thesis
    by (simp add: skip_bfs_reach downstream_map_rel Image_def trancl_unfold_left relcomp_unfold Bex_def)
qed

definition skipped :: "datetime \<Rightarrow> NodeExecution \<Rightarrow> NodeExecution" where
  "skipped now n = n\<lparr>ne_status := SKIPPED, ne_completed_at := Some now\<rparr>"

definition wf_executions :: "Job \<Rightarrow> bool" where
  "wf_executions job \<longleftrightarrow>
     distinct (map ne_id (node_executions job)) \<and> distinct (map ne_node_id (node_executions job))"

lemma executions_by_node_id_get:
  assumes "wf_executions job"
  shows "dict_get (executions_by_node_id job) nid = Some n \<longleftrightarrow> n \<in> set (node_executions job) \<and> ne_node_id n = nid"
proof
  assume "dict_get (executions_by_node_id job) nid = Some n"
  then have "\<exists>x\<in>set (node_executions job). ne_node_id x = nid \<and> x = n"
    unfolding executions_by_node_id_def by (rule dict_of_get_imp)
  then show "n \<in> set (node_executions job) \<and> ne_node_id n = nid" by blast
next
  assume n: "n \<in> set (node_executions job) \<and> ne_node_id n = nid"
  have "distinct (map ne_node_id (node_executions job))" using assms by (simp add: wf_executions_def)
  from dict_of_get_distinct [OF this, of n "\<lambda>n. n"] n
  show "dict_get (executions_by_node_id job) nid = Some n" unfolding executions_by_node_id_def by blast
qed

lemma skip_one_executions:
  assumes wf: "wf_executions job"
  shows "node_executions (skip_one now job nid) =
    map (\<lambda>n. if ne_status n = PENDING \<and> ne_node_id n = nid then skipped now n else n) (node_executions job)"
proof (cases "dict_get (executions_by_node_id job) nid")
  case None
  then have "\<And>n. n \<in> set (node_executions job) \<Longrightarrow> ne_node_id n \<noteq> nid"
    using executions_by_node_id_get [OF wf] by (metis option.distinct(1))
  then show ?thesis using None by (auto simp: skip_one_def intro!: map_idI [symmetric])
next
  case (Some m)
  then have m: "m \<in> set (node_executions job)" "ne_node_id m = nid"
    using executions_by_node_id_get [OF wf] by blast+
  have d: "distinct (map ne_id (node_executions job))" "distinct (map ne_node_id (node_executions job))"
    using wf by (simp_all add: wf_executions_def)
  have uniq: "n = m" if n: "n \<in> set (node_executions job)" and e: "ne_node_id n = nid" for n
    by (rule row_unique [OF d(2) n m(1)]) (simp only: e m(2))
  have uniq': "n = m" if n: "n \<in> set (node_executions job)" and e: "ne_id n = ne_id m" for n
    using e by (rule row_unique [OF d(1) n m(1)])
  show ?thesis
  proof (cases "ne_status m = PENDING")
    case True
    have "(if ne_id n = ne_id m then skipped now m else n) =
        (if ne_status n = PENDING \<and> ne_node_id n = nid then skipped now n else n)"
      if "n \<in> set (node_executions job)" for n
      using uniq [OF that] uniq' [OF that] True m(2) by metis
    moreover have "node_executions (skip_one now job nid) =
        map (\<lambda>n. if ne_id n = ne_id m then skipped now m else n) (node_executions job)"
      using Some True by (simp add: skip_one_def put_execution_def row_put_def skipped_def)
    ultimately show ?thesis by (simp only: map_eq_conv) blast
  next
    case False
    have "(if ne_status n = PENDING \<and> ne_node_id n = nid then skipped now n else n) = n"
      if "n \<in> set (node_executions job)" for n
      using uniq [OF that] False by metis
    then show ?thesis using Some False by (simp add: skip_one_def map_idI)
  qed
qed

lemma wf_executions_map:
  assumes "wf_executions job" and "node_executions job' = map f (node_executions job)"
    and "\<And>n. ne_id (f n) = ne_id n" and "\<And>n. ne_node_id (f n) = ne_node_id n"
  shows "wf_executions job'"
  using assms(1) by (simp add: wf_executions_def assms(2-4) comp_def)

lemma skip_one_wf: "wf_executions job \<Longrightarrow> wf_executions (skip_one now job nid)"
  by (rule wf_executions_map, assumption, erule skip_one_executions) (simp_all add: skipped_def)

lemma skip_fold_executions:
  "wf_executions job \<Longrightarrow> node_executions (foldl (skip_one now) job nids) =
     map (\<lambda>n. if ne_status n = PENDING \<and> ne_node_id n \<in> set nids then skipped now n else n) (node_executions job)"
proof (induction nids arbitrary: job)
  case Nil
  then show ?case by simp
next
  case (Cons nid nids)
  then show ?case
    by (auto simp: skip_one_wf skip_one_executions comp_def skipped_def)
qed

lemma skip_downstream_executions:
  "wf_executions job \<Longrightarrow> node_executions (skip_downstream now job f dep_map) =
     map (\<lambda>n. if ne_status n = PENDING \<and> (f, ne_node_id n) \<in> (dep_rel dep_map)\<^sup>+ then skipped now n else n)
       (node_executions job)"
  by (simp add: skip_downstream_def Let_def skip_fold_executions skip_set)


section \<open>Lemmas on hosts\<close>

definition host_count :: "(string, NodeExecution) dict \<Rightarrow> string list \<Rightarrow> string \<Rightarrow> nat" where
  "host_count by_id deps h =
     length (filter (\<lambda>dep. extract_worker_host (Option.bind (dict_get by_id dep) ne_worker_id) = Some h) deps)"

lemma count_hosts_get:
  "dict_get (count_hosts by_id deps) h =
     (if host_count by_id deps h = 0 then None else Some (host_count by_id deps h))"
  by (induction deps rule: rev_induct)
    (auto simp: count_hosts_def host_count_def dict_get_set dict_get_or_def split: option.split if_splits)

lemma distinct_count_hosts: "distinct (dict_keys (count_hosts by_id deps))"
  by (induction deps rule: rev_induct) (auto simp: count_hosts_def distinct_update split: option.split)

lemma count_hosts_mem:
  "(h, c) \<in> set (count_hosts by_id deps) \<longleftrightarrow> c = host_count by_id deps h \<and> 0 < c"
proof -
  have "(h, c) \<in> set (count_hosts by_id deps) \<longleftrightarrow> dict_get (count_hosts by_id deps) h = Some c"
    using distinct_count_hosts by simp
  then show ?thesis by (auto simp: count_hosts_get)
qed

lemma preferred_hosts_filter:
  assumes "count_hosts by_id deps = c0 # cs"
  defines "ranked \<equiv> sort_key (\<lambda>(host, count). (- int count, host)) (count_hosts by_id deps)"
  shows "preferred_hosts_for_node by_id deps = map fst (filter (\<lambda>(h, c). \<forall>(h', c')\<in>set ranked. c' \<le> c) ranked)"
    and "sorted (map (\<lambda>(host, count). (- int count, host)) ranked)" and "ranked \<noteq> []"
proof -
  let ?key = "\<lambda>(host, count). (- int count, host) :: int \<times> string"
  show so: "sorted (map ?key ranked)" unfolding ranked_def by (rule sorted_sort_key)
  have "length ranked = length (count_hosts by_id deps)" by (simp add: ranked_def)
  then show ne: "ranked \<noteq> []" using assms(1) by auto
  then obtain h0 t rest where r: "ranked = (h0, t) # rest" by (cases ranked) auto
  have le: "c \<le> t" if "(h, c) \<in> set ranked" for h c
    using so that r by (auto simp: less_eq_prod_def)
  have "count = t \<longleftrightarrow> (\<forall>(h', c')\<in>set ranked. c' \<le> count)" if "(host, count) \<in> set ranked" for host count
    using le that r by (auto intro: antisym)
  then have "filter (\<lambda>(host, count). count = t) ranked = filter (\<lambda>(h, c). \<forall>(h', c')\<in>set ranked. c' \<le> c) ranked"
    by (intro filter_cong [OF refl]) (simp only: split_paired_all prod.case)
  then show "preferred_hosts_for_node by_id deps = map fst (filter (\<lambda>(h, c). \<forall>(h', c')\<in>set ranked. c' \<le> c) ranked)"
    using assms(1) r by (simp add: preferred_hosts_for_node_def Let_def ranked_def)
qed

section \<open>Properties\<close>



text \<open>C23: After a node failed, \<open>_skip_downstream\<close> marks as skipped exactly the pending nodes that depend on it
  directly or transitively; every other execution is unchanged.\<close>

theorem skip_downstream_correct:
  assumes "wf_executions job"
  shows "node_executions (skip_downstream now job f dep_map) =
    map (\<lambda>n. if ne_status n = PENDING \<and> (f, ne_node_id n) \<in> (dep_rel dep_map)\<^sup>+
             then n\<lparr>ne_status := SKIPPED, ne_completed_at := Some now\<rparr> else n) (node_executions job)"
  using skip_downstream_executions [OF assms] by (simp only: skipped_def)

theorem skip_downstream_correct_witness:
  "map ne_status (node_executions (skip_downstream 9
     (sample_job 1 JOB_RUNNING [sample_execution 11 ''a'' FAILED, sample_execution 12 ''b'' PENDING]) ''a''
     [(''a'', []), (''b'', [''a''])])) = [FAILED, SKIPPED]"
proof -
  let ?job = "sample_job 1 JOB_RUNNING [sample_execution 11 ''a'' FAILED, sample_execution 12 ''b'' PENDING]"
  have wf: "wf_executions ?job" by (simp add: wf_executions_def sample_defs)
  have "(''a'', ''b'') \<in> dep_rel [(''a'', []), (''b'', [''a''])]" by (auto simp: dep_rel_def)
  then have "(''a'', ''b'') \<in> (dep_rel [(''a'', []), (''b'', [''a''])])\<^sup>+" by (rule r_into_trancl)
  with skip_downstream_correct [OF wf, of 9 "''a''" "[(''a'', []), (''b'', [''a''])]"] show ?thesis
    by (simp add: sample_defs)
qed


end
