(* ===== verification/Dispatch.thy ===== *)
theory Dispatch
  imports Artifact_Cache
begin

text \<open>
  Task dispatch of \<open>app/services/registered_worker_event_receipt.py\<close>: a dispatch row is staged with
  the change of its node, then delivered to the broker in three separate steps (mark the attempt,
  append to the stream under a marker, mark the delivery), each of which may be the last one a
  process performs. Redis is the pair of \<open>task_streams\<close> and \<open>redis_markers\<close>; its message ids are
  taken from the same supply as the other identifiers. An operation that commits part of its work
  before it raises returns the world it leaves together with the error.
\<close>

section \<open>Staging\<close>

datatype receipt_error =
    RegisteredWorkerEventError string | AuthorityBlocked string | LimitValueError | MultipleResultsFound
  | IntegrityError | PyError py_exn

definition get_dispatch :: "world \<Rightarrow> uuid \<Rightarrow> WorkerTaskDispatch option" where
  "get_dispatch w i = row_get wd_id (dispatches w) i"

definition put_dispatch :: "world \<Rightarrow> WorkerTaskDispatch \<Rightarrow> world" where
  "put_dispatch w d = w\<lparr>dispatches := row_put wd_id (dispatches w) d\<rparr>"

interpretation dispatch_rows: row_table wd_id get_dispatch put_dispatch
  by unfold_locales (auto simp: get_dispatch_def put_dispatch_def row_get_put dest: row_get_key)

text \<open>
  The payload is a dictionary of texts in the source; here the texts are kept as the values they print.
  An insertion that a unique constraint of the table refuses raises \<open>IntegrityError\<close>.
\<close>

definition canonical_redis_payload_sha256 :: "cache_env \<Rightarrow> (string, pyval) dict \<Rightarrow> string" where
  "canonical_redis_payload_sha256 env payload = sha256_json env (PDict payload)"

definition unresolved_initial :: "world \<Rightarrow> uuid \<Rightarrow> WorkerTaskDispatch list" where
  "unresolved_initial w nid =
     filter (\<lambda>d. wd_node_execution_id d = nid \<and> wd_origin_receipt_id d = None
            \<and> wd_resolution_state d \<in> {''unresolved'', ''cancel_authorized''}) (dispatches w)"

definition stage_worker_task_dispatch ::
  "cache_env \<Rightarrow> world \<Rightarrow> datetime \<Rightarrow> uuid option \<Rightarrow> uuid \<Rightarrow> uuid \<Rightarrow> string \<Rightarrow> string \<Rightarrow> (string, pyval) dict
   \<Rightarrow> receipt_error + world" where
  "stage_worker_task_dispatch env w now origin jid nid stream grp payload =
     (if ''dispatch_key'' \<in> set (dict_keys payload)
      then Inl (RegisteredWorkerEventError ''worker task payload already has a dispatch key'')
      else if py_strip stream = [] \<or> py_strip grp = []
      then Inl (RegisteredWorkerEventError ''worker task dispatch Redis identity is invalid'')
      else if origin = None \<and> length (unresolved_initial w nid) > 1
      then Inl MultipleResultsFound
      else if origin = None \<and> unresolved_initial w nid \<noteq> []
      then Inl (RegisteredWorkerEventError ''node already has an unresolved initial dispatch'')
      else if origin \<noteq> None \<and> list_ex (\<lambda>d. wd_origin_receipt_id d = origin \<and> wd_node_execution_id d = nid) (dispatches w)
      then Inl IntegrityError
      else
        (let key = next_id w;
             dispatched = payload @ [(''dispatch_key'', PStr (uuid_str key))];
             d = \<lparr>wd_id = next_id w + 1, wd_origin_receipt_id = origin, wd_dispatch_key = key, wd_job_id = jid,
                  wd_node_execution_id = nid, wd_redis_stream = py_strip stream, wd_consumer_group = py_strip grp,
                  wd_payload_sha256 = canonical_redis_payload_sha256 env dispatched, wd_payload_json = dispatched,
                  wd_delivery_state = ''pending'', wd_delivery_attempted_at = None, wd_delivery_error = None,
                  wd_resolution_state = ''unresolved'', wd_redis_message_id = None, wd_created_at = now,
                  wd_delivered_at = None, wd_acknowledged_at = None, wd_cancelled_at = None\<rparr>
         in Inr (w\<lparr>dispatches := dispatches w @ [d], next_id := next_id w + 2\<rparr>)))"

section \<open>Delivery\<close>

text \<open>\<open>_locked_dispatch_batch\<close>: lock the entries of the jobs, then read the rows again.\<close>

definition lock_batch :: "world \<Rightarrow> WorkerTaskDispatch list \<Rightarrow> receipt_error + world" where
  "lock_batch w observed =
     (if observed = [] then Inr w
      else (case lock_job_execution_entries w w (sort (remdups (map wd_job_id observed))) True of
              Inl (JobExecutionAuthorityBlocked m) \<Rightarrow> Inl (AuthorityBlocked m)
            | Inr (w', _) \<Rightarrow> Inr w'))"

definition attempted :: "datetime \<Rightarrow> WorkerTaskDispatch \<Rightarrow> WorkerTaskDispatch" where
  "attempted now d = d\<lparr>wd_delivery_state := ''attempting'', wd_delivery_attempted_at := Some now, wd_delivery_error := None\<rparr>"

definition pending_batch :: "world \<Rightarrow> uuid option \<Rightarrow> nat \<Rightarrow> WorkerTaskDispatch list" where
  "pending_batch w receipt limit =
     take limit (filter (\<lambda>d. wd_delivery_state d = ''pending'' \<and> wd_resolution_state d = ''unresolved''
                        \<and> (receipt = None \<or> wd_origin_receipt_id d = receipt)) (dispatches w))"

definition begin_dispatch_attempts ::
  "world \<Rightarrow> datetime \<Rightarrow> uuid option \<Rightarrow> nat \<Rightarrow> receipt_error + world \<times> WorkerTaskDispatch list" where
  "begin_dispatch_attempts w now receipt limit =
     (if (case receipt of
            None \<Rightarrow> False
          | Some rid \<Rightarrow> (case row_get rc_id (receipts w) rid of
                           None \<Rightarrow> True | Some r \<Rightarrow> rc_application_state r \<noteq> ''applied''))
      then Inl (RegisteredWorkerEventError ''dispatch has no applied event receipt'')
      else
        (case lock_batch w (pending_batch w receipt limit) of
           Inl e \<Rightarrow> Inl e
         | Inr w' \<Rightarrow>
             (let batch = map (attempted now) (pending_batch w receipt limit)
              in Inr (foldl put_dispatch w' batch, batch))))"

definition validated_dispatch_payload ::
  "cache_env \<Rightarrow> WorkerTaskDispatch \<Rightarrow> receipt_error + (string, pyval) dict" where
  "validated_dispatch_payload env d =
     (if dict_get (wd_payload_json d) ''dispatch_key'' \<noteq> Some (PStr (uuid_str (wd_dispatch_key d)))
      then Inl (RegisteredWorkerEventError ''worker task dispatch key mismatch'')
      else if canonical_redis_payload_sha256 env (wd_payload_json d) \<noteq> wd_payload_sha256 d
      then Inl (RegisteredWorkerEventError ''worker task dispatch payload hash mismatch'')
      else Inr (wd_payload_json d))"

text \<open>The script \<open>_IDEMPOTENT_XADD_SCRIPT\<close>, atomic on the broker, with the sorted fields of the payload.\<close>

definition idempotent_xadd :: "world \<Rightarrow> string \<Rightarrow> uuid \<Rightarrow> (string, pyval) dict \<Rightarrow> world \<times> string" where
  "idempotent_xadd w stream key payload =
     (case dict_get (redis_markers w) key of
        Some msg \<Rightarrow> (w, msg)
      | None \<Rightarrow>
          (let msg = string_of_nat (next_id w)
           in (w\<lparr>task_streams := task_streams w @ [(stream, msg, sort_key fst payload)],
                 redis_markers := dict_set (redis_markers w) key msg, next_id := next_id w + 1\<rparr>, msg)))"

definition mark_dispatch_delivered :: "world \<Rightarrow> datetime \<Rightarrow> uuid \<Rightarrow> string \<Rightarrow> receipt_error + world" where
  "mark_dispatch_delivered w now i msg =
     (case get_dispatch w i of
        None \<Rightarrow> Inl (RegisteredWorkerEventError ''worker task dispatch is missing'')
      | Some d0 \<Rightarrow>
     (case lock_batch w [d0] of
        Inl e \<Rightarrow> Inl e
      | Inr w' \<Rightarrow>
     (case get_dispatch w' i of
        None \<Rightarrow> Inl (RegisteredWorkerEventError ''worker task dispatch is missing'')
      | Some d \<Rightarrow>
          if wd_delivery_state d = ''delivered'' then
            (if wd_redis_message_id d \<noteq> Some msg
             then Inl (RegisteredWorkerEventError ''worker task dispatch message mismatch'') else Inr w')
          else if wd_delivery_state d \<noteq> ''attempting''
          then Inl (RegisteredWorkerEventError ''worker task dispatch is not attempting delivery'')
          else Inr (put_dispatch w' (d\<lparr>wd_delivery_state := ''delivered'', wd_redis_message_id := Some msg, wd_delivered_at := Some now\<rparr>)))))"

definition mark_dispatch_uncertain :: "world \<Rightarrow> uuid \<Rightarrow> string \<Rightarrow> receipt_error + world" where
  "mark_dispatch_uncertain w i reason =
     (case get_dispatch w i of
        None \<Rightarrow> Inl (RegisteredWorkerEventError ''worker task dispatch is missing'')
      | Some d0 \<Rightarrow>
     (case lock_batch w [d0] of
        Inl e \<Rightarrow> Inl e
      | Inr w' \<Rightarrow>
     (case get_dispatch w' i of
        None \<Rightarrow> Inl (RegisteredWorkerEventError ''worker task dispatch is missing'')
      | Some d \<Rightarrow>
          if wd_delivery_state d = ''delivered'' then Inr w'
          else if wd_delivery_state d \<noteq> ''attempting''
          then Inl (RegisteredWorkerEventError ''worker task dispatch is not attempting delivery'')
          else Inr (put_dispatch w' (d\<lparr>wd_delivery_state := ''uncertain'', wd_delivery_error := Some reason\<rparr>)))))"

text \<open>A stale attempt is settled by the marker: delivered when it is there, uncertain otherwise.\<close>

definition settle_attempt :: "world \<Rightarrow> datetime \<Rightarrow> WorkerTaskDispatch \<Rightarrow> receipt_error + world" where
  "settle_attempt w now d =
     (case dict_get (redis_markers w) (wd_dispatch_key d) of
        Some msg \<Rightarrow>
          if py_strip msg \<noteq> [] then mark_dispatch_delivered w now (wd_id d) (py_strip msg)
          else mark_dispatch_uncertain w (wd_id d) ''dispatch_marker_missing_after_attempt''
      | None \<Rightarrow> mark_dispatch_uncertain w (wd_id d) ''dispatch_marker_missing_after_attempt'')"

primrec settle_attempts :: "datetime \<Rightarrow> world \<Rightarrow> WorkerTaskDispatch list \<Rightarrow> world \<times> (receipt_error + unit)" where
  "settle_attempts now w [] = (w, Inr ())"
| "settle_attempts now w (d # ds) =
     (case settle_attempt w now d of Inl e \<Rightarrow> (w, Inl e) | Inr w' \<Rightarrow> settle_attempts now w' ds)"

definition recover_stale_dispatch_attempts ::
  "world \<Rightarrow> datetime \<Rightarrow> int \<Rightarrow> uuid option \<Rightarrow> nat \<Rightarrow> world \<times> (receipt_error + unit)" where
  "recover_stale_dispatch_attempts w now recovery_seconds receipt limit =
     settle_attempts now w
       (take limit (sort_key (\<lambda>d. the (wd_delivery_attempted_at d))
         (filter (\<lambda>d. wd_delivery_state d = ''attempting''
            \<and> (case wd_delivery_attempted_at d of None \<Rightarrow> False | Some t \<Rightarrow> t \<le> now - recovery_seconds)
            \<and> (receipt = None \<or> wd_origin_receipt_id d = receipt)) (dispatches w))))"

definition deliver_dispatch :: "cache_env \<Rightarrow> datetime \<Rightarrow> world \<Rightarrow> WorkerTaskDispatch \<Rightarrow> world \<times> (receipt_error + unit)" where
  "deliver_dispatch env now w d =
     (case validated_dispatch_payload env d of
        Inl e \<Rightarrow> (w, Inl e)
      | Inr payload \<Rightarrow>
          (let (w', msg) = idempotent_xadd w (wd_redis_stream d) (wd_dispatch_key d) payload in
           if py_strip msg = [] then (w', Inl (RegisteredWorkerEventError ''Redis dispatch message id is invalid''))
           else (case mark_dispatch_delivered w' now (wd_id d) (py_strip msg) of
                   Inl e \<Rightarrow> (w', Inl e) | Inr w'' \<Rightarrow> (w'', Inr ()))))"

primrec deliver_all :: "cache_env \<Rightarrow> datetime \<Rightarrow> world \<Rightarrow> WorkerTaskDispatch list \<Rightarrow> world \<times> (receipt_error + unit)" where
  "deliver_all env now w [] = (w, Inr ())"
| "deliver_all env now w (d # ds) =
     (case deliver_dispatch env now w d of (w', Inl e) \<Rightarrow> (w', Inl e) | (w', Inr _) \<Rightarrow> deliver_all env now w' ds)"

definition deliver_pending_dispatches ::
  "cache_env \<Rightarrow> world \<Rightarrow> datetime \<Rightarrow> int \<Rightarrow> uuid option \<Rightarrow> nat \<Rightarrow> world \<times> (receipt_error + unit)" where
  "deliver_pending_dispatches env w now recovery_seconds receipt limit =
     (if limit = 0 then (w, Inl LimitValueError)
      else
        (case recover_stale_dispatch_attempts w now recovery_seconds receipt limit of
           (w1, Inl e) \<Rightarrow> (w1, Inl e)
         | (w1, Inr _) \<Rightarrow>
             (case begin_dispatch_attempts w1 now receipt limit of
                Inl e \<Rightarrow> (w1, Inl e)
              | Inr (w2, batch) \<Rightarrow> deliver_all env now w2 batch)))"


section \<open>Delivery as a state machine\<close>

text \<open>
  The atomic actions of any number of processes that stage, deliver and settle dispatches: each
  transaction and each script is one step, in any order, so a crash is a run that stops between
  two of them. The appending process works on its own copy of the row. \<open>sd_stream\<close> is the direct append of a retry without a dispatch, \<open>sd_resolve\<close> an
  acknowledgement or a cancellation, \<open>sd_other\<close> any change of the remaining tables.
\<close>

definition dispatch_ident :: "WorkerTaskDispatch \<Rightarrow> uuid \<times> uuid \<times> string \<times> (string, pyval) dict" where
  "dispatch_ident d = (wd_id d, wd_dispatch_key d, wd_redis_stream d, wd_payload_json d)"

inductive delivery_step :: "cache_env \<Rightarrow> world \<Rightarrow> world \<Rightarrow> bool" for env where
  sd_stage: "stage_worker_task_dispatch env w now origin jid nid stream grp payload = Inr w' \<Longrightarrow> delivery_step env w w'"
| sd_begin: "begin_dispatch_attempts w now receipt limit = Inr (w', batch) \<Longrightarrow> delivery_step env w w'"
| sd_xadd: "dispatch_ident d \<in> set (map dispatch_ident (dispatches w)) \<Longrightarrow> validated_dispatch_payload env d = Inr payload
    \<Longrightarrow> idempotent_xadd w (wd_redis_stream d) (wd_dispatch_key d) payload = (w', msg) \<Longrightarrow> delivery_step env w w'"
| sd_delivered: "get_dispatch w i = Some d \<Longrightarrow> dict_get (redis_markers w) (wd_dispatch_key d) = Some msg
    \<Longrightarrow> mark_dispatch_delivered w now i (py_strip msg) = Inr w' \<Longrightarrow> delivery_step env w w'"
| sd_uncertain: "mark_dispatch_uncertain w i reason = Inr w' \<Longrightarrow> delivery_step env w w'"
| sd_resolve: "get_dispatch w i = Some d \<Longrightarrow> delivery_step env w (put_dispatch w (d\<lparr>wd_resolution_state := st\<rparr>))"
| sd_stream: "''dispatch_key'' \<notin> set (dict_keys payload) \<Longrightarrow> delivery_step env w
    (w\<lparr>task_streams := task_streams w @ [(stream, string_of_nat (next_id w), payload)], next_id := next_id w + 1\<rparr>)"
| sd_other: "dispatches w' = dispatches w \<Longrightarrow> task_streams w' = task_streams w \<Longrightarrow> redis_markers w' = redis_markers w
    \<Longrightarrow> next_id w \<le> next_id w' \<Longrightarrow> delivery_step env w w'"

definition message_key :: "uuid \<Rightarrow> string \<times> string \<times> (string, pyval) dict \<Rightarrow> bool" where
  "message_key k = (\<lambda>(_, _, p). dict_get p ''dispatch_key'' = Some (PStr (uuid_str k)))"

definition messages_of :: "world \<Rightarrow> uuid \<Rightarrow> (string \<times> string \<times> (string, pyval) dict) list" where
  "messages_of w k = filter (message_key k) (task_streams w)"

definition identities_ok :: "(uuid \<times> uuid \<times> string \<times> (string, pyval) dict) list \<Rightarrow> uuid \<Rightarrow> bool" where
  "identities_ok ids n \<longleftrightarrow>
     distinct (map fst ids) \<and> distinct (map (\<lambda>(_, k, _). k) ids)
     \<and> (\<forall>(i, k, s, p)\<in>set ids. i < n \<and> k < n \<and> dict_get p ''dispatch_key'' = Some (PStr (uuid_str k)))"

definition broker_ok :: "(uuid \<times> uuid \<times> string \<times> (string, pyval) dict) list \<Rightarrow> world \<Rightarrow> bool" where
  "broker_ok ids w \<longleftrightarrow>
     (\<forall>k. dict_get (redis_markers w) k = None \<longrightarrow> messages_of w k = [])
     \<and> (\<forall>k m. dict_get (redis_markers w) k = Some m \<longrightarrow>
          (\<exists>i s p n. (i, k, s, p) \<in> set ids \<and> m = string_of_nat n \<and> messages_of w k = [(s, m, sort_key fst p)]))"

definition delivered_ok :: "(uuid, string) dict \<Rightarrow> WorkerTaskDispatch \<Rightarrow> bool" where
  "delivered_ok markers d \<longleftrightarrow> (wd_delivery_state d = ''delivered'' \<longrightarrow>
     (\<exists>m. wd_redis_message_id d = Some m \<and> dict_get markers (wd_dispatch_key d) = Some m))"

definition delivery_inv :: "world \<Rightarrow> bool" where
  "delivery_inv w \<longleftrightarrow>
     identities_ok (map dispatch_ident (dispatches w)) (next_id w)
     \<and> broker_ok (map dispatch_ident (dispatches w)) w
     \<and> (\<forall>d\<in>set (dispatches w). delivered_ok (redis_markers w) d)"

section \<open>Lemmas on delivery\<close>

lemma schedules_self: "\<exists>s. w = w\<lparr>schedules := s\<rparr>"
  by (rule exI [of _ "schedules w"]) simp

lemma get_or_create_frame:
  assumes "get_or_create_and_lock_runtime_schedule w sv st = (w1, s1, b)"
  shows "\<exists>s. w1 = w\<lparr>schedules := s\<rparr>"
proof (cases "row_get service_name (schedules w) sv")
  case None
  then show ?thesis using assms by (auto simp: get_or_create_and_lock_runtime_schedule_def Let_def)
next
  case (Some s)
  then have "w1 = w" using assms by (simp add: get_or_create_and_lock_runtime_schedule_def)
  then show ?thesis using schedules_self by simp
qed

lemma lock_entries_frame:
  assumes "lock_job_execution_entries seen w ids c = Inr (w', x)"
  shows "\<exists>s. w' = w\<lparr>schedules := s\<rparr>"
proof -
  obtain w1 s1 b where g: "get_or_create_and_lock_runtime_schedule w VIDEO_SCHEDULE_SERVICE None = (w1, s1, b)"
    by (metis prod_cases3)
  have "w' = w1 \<or> w' = w"
    using assms g unfolding lock_job_execution_entries_def Let_def
    by (auto split: if_splits sum.splits option.splits prod.splits)
  then show ?thesis using get_or_create_frame [OF g] schedules_self by blast
qed

lemma lock_batch_frame: "lock_batch w ds = Inr w' \<Longrightarrow> \<exists>s. w' = w\<lparr>schedules := s\<rparr>"
proof (cases "ds = []")
  case True
  assume "lock_batch w ds = Inr w'"
  then have "w' = w\<lparr>schedules := schedules w\<rparr>" using True by (simp add: lock_batch_def)
  then show ?thesis by blast
next
  case False
  assume "lock_batch w ds = Inr w'"
  then show ?thesis using False
    by (auto simp: lock_batch_def split: sum.splits prod.splits authority_error.splits dest!: lock_entries_frame)
qed

lemma delivery_inv_cong:
  "dispatches w' = dispatches w \<Longrightarrow> task_streams w' = task_streams w \<Longrightarrow> redis_markers w' = redis_markers w
   \<Longrightarrow> next_id w \<le> next_id w' \<Longrightarrow> delivery_inv w \<Longrightarrow> delivery_inv w'"
  unfolding delivery_inv_def identities_ok_def broker_ok_def messages_of_def by fastforce

lemma delivery_inv_schedules: "delivery_inv (w\<lparr>schedules := s\<rparr>) = delivery_inv w"
  unfolding delivery_inv_def broker_ok_def messages_of_def by simp

lemma dict_get_sort: "dict_get (sort_key fst p) k = dict_get p k" for p :: "(string, pyval) dict"
proof -
  have hd: "dict_get xs k = (case filter (\<lambda>x. fst x = k) xs of [] \<Rightarrow> None | x # _ \<Rightarrow> Some (snd x))"
    for xs :: "(string, pyval) dict"
    by (induction xs) auto
  show ?thesis unfolding hd by (simp add: sort_key_stable)
qed

lemma get_dispatch_mem: "get_dispatch w i = Some d \<Longrightarrow> d \<in> set (dispatches w)"
  unfolding get_dispatch_def by (rule row_get_mem)

lemma get_dispatch_id: "get_dispatch w i = Some d \<Longrightarrow> wd_id d = i"
  unfolding get_dispatch_def by (rule row_get_key)

lemma put_dispatch_idents:
  assumes "delivery_inv w" and "d \<in> set (dispatches w)" and "dispatch_ident d' = dispatch_ident d"
  shows "map dispatch_ident (dispatches (put_dispatch w d')) = map dispatch_ident (dispatches w)"
proof -
  have dist: "distinct (map wd_id (dispatches w))"
    using assms(1) by (simp add: delivery_inv_def identities_ok_def dispatch_ident_def comp_def)
  have i: "wd_id d' = wd_id d" using assms(3) by (simp add: dispatch_ident_def)
  have "dispatch_ident (if wd_id x = wd_id d' then d' else x) = dispatch_ident x" if "x \<in> set (dispatches w)" for x
  proof (cases "wd_id x = wd_id d'")
    case True
    then have "x = d" using row_unique [OF dist that assms(2)] i by simp
    then show ?thesis using assms(3) True by simp
  qed simp
  then show ?thesis by (simp add: put_dispatch_def row_put_def)
qed

lemma delivery_inv_put:
  assumes inv: "delivery_inv w" and d: "d \<in> set (dispatches w)" and i: "dispatch_ident d' = dispatch_ident d"
    and del: "delivered_ok (redis_markers w) d'"
  shows "delivery_inv (put_dispatch w d')"
proof -
  have f: "redis_markers (put_dispatch w d') = redis_markers w" "next_id (put_dispatch w d') = next_id w"
    "task_streams (put_dispatch w d') = task_streams w" by (simp_all add: put_dispatch_def)
  have "x = d' \<or> x \<in> set (dispatches w)" if "x \<in> set (dispatches (put_dispatch w d'))" for x
    using that by (auto simp: put_dispatch_def dest: row_put_mem)
  then show ?thesis
    using inv del unfolding delivery_inv_def put_dispatch_idents [OF inv d i] f broker_ok_def messages_of_def
    by blast
qed

lemma delivery_inv_puts:
  assumes "delivery_inv w"
    and "\<forall>b\<in>set bs. dispatch_ident b \<in> set (map dispatch_ident (dispatches w)) \<and> wd_delivery_state b \<noteq> ''delivered''"
  shows "delivery_inv (foldl put_dispatch w bs)
    \<and> map dispatch_ident (dispatches (foldl put_dispatch w bs)) = map dispatch_ident (dispatches w)"
  using assms
proof (induction bs arbitrary: w)
  case (Cons b bs)
  then obtain d where d: "d \<in> set (dispatches w)" "dispatch_ident b = dispatch_ident d" by auto
  have same: "map dispatch_ident (dispatches (put_dispatch w b)) = map dispatch_ident (dispatches w)"
    by (rule put_dispatch_idents [OF Cons.prems(1) d])
  have "delivery_inv (put_dispatch w b)" using delivery_inv_put [OF Cons.prems(1) d] Cons.prems(2) by (simp add: delivered_ok_def)
  then show ?case using Cons.IH [of "put_dispatch w b"] Cons.prems(2) unfolding same by simp
qed simp

lemma begin_dispatch_attempts_Inr:
  assumes "begin_dispatch_attempts w now receipt limit = Inr (w', batch)"
  shows "batch = map (attempted now) (pending_batch w receipt limit)
    \<and> (\<exists>s. w' = foldl put_dispatch (w\<lparr>schedules := s\<rparr>) batch)"
proof -
  let ?guard = "case receipt of None \<Rightarrow> False | Some rid \<Rightarrow> (case row_get rc_id (receipts w) rid of
      None \<Rightarrow> True | Some r \<Rightarrow> rc_application_state r \<noteq> ''applied'')"
  have guard: "\<not> ?guard" using assms by (cases ?guard) (simp_all add: begin_dispatch_attempts_def)
  show ?thesis
  proof (cases "lock_batch w (pending_batch w receipt limit)")
    case (Inl e)
    then show ?thesis using assms guard by (simp add: begin_dispatch_attempts_def)
  next
    case (Inr w1)
    then have "w' = foldl put_dispatch w1 batch \<and> batch = map (attempted now) (pending_batch w receipt limit)"
      using assms guard by (auto simp: begin_dispatch_attempts_def Let_def)
    then show ?thesis using lock_batch_frame [OF Inr] by blast
  qed
qed

lemma begin_inv:
  assumes inv: "delivery_inv w" and b: "begin_dispatch_attempts w now receipt limit = Inr (w', batch)"
  shows "delivery_inv w' \<and> map dispatch_ident (dispatches w') = map dispatch_ident (dispatches w)"
proof -
  obtain s where w': "w' = foldl put_dispatch (w\<lparr>schedules := s\<rparr>) batch"
    and batch: "batch = map (attempted now) (pending_batch w receipt limit)"
    using begin_dispatch_attempts_Inr [OF b] by blast
  have "dispatch_ident (attempted now d) = dispatch_ident d \<and> wd_delivery_state (attempted now d) \<noteq> ''delivered''" for d
    by (simp add: attempted_def dispatch_ident_def)
  moreover have "set (pending_batch w receipt limit) \<subseteq> set (dispatches w)"
    unfolding pending_batch_def by (meson filter_is_subset order_trans set_take_subset)
  ultimately have "\<forall>b\<in>set batch. dispatch_ident b \<in> set (map dispatch_ident (dispatches (w\<lparr>schedules := s\<rparr>)))
      \<and> wd_delivery_state b \<noteq> ''delivered''" unfolding batch by auto
  then show ?thesis
    using delivery_inv_puts [of "w\<lparr>schedules := s\<rparr>" batch] inv delivery_inv_schedules w' by simp
qed


lemma uuid_str_inject [simp]: "uuid_str a = uuid_str b \<longleftrightarrow> a = b"
  by (simp add: uuid_str_def)

lemma strip_string_of_nat [simp]: "py_strip (string_of_nat n) = string_of_nat n"
  by (rule py_strip_digits) (simp_all add: string_of_nat_digits)

lemma marker_id:
  assumes "delivery_inv w" and "dict_get (redis_markers w) k = Some m"
  shows "py_strip m = m \<and> m \<noteq> []"
proof -
  obtain n where "m = string_of_nat n" using assms unfolding delivery_inv_def broker_ok_def by blast
  then show ?thesis by simp
qed

lemma stage_Inr:
  assumes "stage_worker_task_dispatch env w now origin jid nid stream grp payload = Inr w'"
  shows "\<exists>d. w' = w\<lparr>dispatches := dispatches w @ [d], next_id := next_id w + 2\<rparr>
     \<and> dispatch_ident d = (next_id w + 1, next_id w, py_strip stream, payload @ [(''dispatch_key'', PStr (uuid_str (next_id w)))])
     \<and> wd_delivery_state d = ''pending'' \<and> wd_resolution_state d = ''unresolved'' \<and> wd_node_execution_id d = nid
     \<and> wd_job_id d = jid \<and> wd_origin_receipt_id d = origin
     \<and> wd_payload_sha256 d = canonical_redis_payload_sha256 env (wd_payload_json d)
     \<and> ''dispatch_key'' \<notin> set (dict_keys payload)"
  using assms by (auto simp: stage_worker_task_dispatch_def Let_def dispatch_ident_def split: if_splits)

lemma broker_ok_mono:
  assumes "broker_ok ids w" and "set ids \<subseteq> set ids'" and "redis_markers w' = redis_markers w" and "task_streams w' = task_streams w"
  shows "broker_ok ids' w'"
proof -
  have "messages_of w' k = messages_of w k" for k using assms(4) by (simp add: messages_of_def)
  then show ?thesis using assms(1,2,3) unfolding broker_ok_def by (simp only:) (meson subsetD)
qed

lemma stage_inv:
  assumes inv: "delivery_inv w"
    and st: "stage_worker_task_dispatch env w now origin jid nid stream grp payload = Inr w'"
  shows "delivery_inv w'"
proof -
  obtain d where w': "w' = w\<lparr>dispatches := dispatches w @ [d], next_id := next_id w + 2\<rparr>"
    and i: "dispatch_ident d = (next_id w + 1, next_id w, py_strip stream, payload @ [(''dispatch_key'', PStr (uuid_str (next_id w)))])"
    and pend: "wd_delivery_state d = ''pending''" and fresh: "''dispatch_key'' \<notin> set (dict_keys payload)"
    using stage_Inr [OF st] by blast
  have get: "dict_get (payload @ [(''dispatch_key'', PStr (uuid_str (next_id w)))]) ''dispatch_key'' = Some (PStr (uuid_str (next_id w)))"
    using fresh by (auto simp: map_add_def dest: dict_get_Some_key split: option.split)
  have "identities_ok (map dispatch_ident (dispatches w)) (next_id w)" using inv by (simp add: delivery_inv_def)
  then have "identities_ok (map dispatch_ident (dispatches w')) (next_id w')"
    unfolding w' identities_ok_def using get by (auto simp: i)
  moreover have "broker_ok (map dispatch_ident (dispatches w')) w'"
    by (rule broker_ok_mono [where w = w and ids = "map dispatch_ident (dispatches w)"])
      (use inv in \<open>auto simp: delivery_inv_def w'\<close>)
  moreover have "\<forall>d\<in>set (dispatches w'). delivered_ok (redis_markers w') d"
    using inv pend by (simp add: delivery_inv_def w' delivered_ok_def)
  ultimately show ?thesis unfolding delivery_inv_def by blast
qed

lemma mark_delivered_Inr:
  assumes "mark_dispatch_delivered w now i msg = Inr w'"
  shows "\<exists>s d. get_dispatch w i = Some d \<and> (w' = w\<lparr>schedules := s\<rparr> \<and> wd_redis_message_id d = Some msg \<and> wd_delivery_state d = ''delivered''
     \<or> wd_delivery_state d = ''attempting''
       \<and> w' = put_dispatch (w\<lparr>schedules := s\<rparr>) (d\<lparr>wd_delivery_state := ''delivered'', wd_redis_message_id := Some msg, wd_delivered_at := Some now\<rparr>))"
proof -
  obtain d where d: "get_dispatch w i = Some d"
    using assms by (cases "get_dispatch w i") (simp_all add: mark_dispatch_delivered_def)
  obtain w1 where l: "lock_batch w [d] = Inr w1"
    using assms d by (cases "lock_batch w [d]") (simp_all add: mark_dispatch_delivered_def)
  obtain s where w1: "w1 = w\<lparr>schedules := s\<rparr>" using lock_batch_frame [OF l] by blast
  have d1: "get_dispatch w1 i = Some d" using d by (simp add: w1 get_dispatch_def)
  show ?thesis using assms d d1 l w1
    by (intro exI [of _ s] exI [of _ d]) (auto simp: mark_dispatch_delivered_def split: if_splits)
qed

lemma mark_uncertain_Inr:
  assumes "mark_dispatch_uncertain w i reason = Inr w'"
  shows "\<exists>s d. get_dispatch w i = Some d \<and> (w' = w\<lparr>schedules := s\<rparr> \<and> wd_delivery_state d = ''delivered''
     \<or> wd_delivery_state d = ''attempting''
       \<and> w' = put_dispatch (w\<lparr>schedules := s\<rparr>) (d\<lparr>wd_delivery_state := ''uncertain'', wd_delivery_error := Some reason\<rparr>))"
proof -
  obtain d where d: "get_dispatch w i = Some d"
    using assms by (cases "get_dispatch w i") (simp_all add: mark_dispatch_uncertain_def)
  obtain w1 where l: "lock_batch w [d] = Inr w1"
    using assms d by (cases "lock_batch w [d]") (simp_all add: mark_dispatch_uncertain_def)
  obtain s where w1: "w1 = w\<lparr>schedules := s\<rparr>" using lock_batch_frame [OF l] by blast
  have d1: "get_dispatch w1 i = Some d" using d by (simp add: w1 get_dispatch_def)
  show ?thesis using assms d d1 l w1
    by (intro exI [of _ s] exI [of _ d]) (auto simp: mark_dispatch_uncertain_def split: if_splits)
qed


lemma xadd_inv:
  assumes inv: "delivery_inv w" and mem: "dispatch_ident d \<in> set (map dispatch_ident (dispatches w))"
    and p: "validated_dispatch_payload env d = Inr payload"
    and x: "idempotent_xadd w (wd_redis_stream d) (wd_dispatch_key d) payload = (w', msg)"
  shows "delivery_inv w' \<and> dispatches w' = dispatches w \<and> dict_get (redis_markers w') (wd_dispatch_key d) = Some msg
    \<and> (\<forall>k m. dict_get (redis_markers w) k = Some m \<longrightarrow> dict_get (redis_markers w') k = Some m)"
proof (cases "dict_get (redis_markers w) (wd_dispatch_key d)")
  case (Some m)
  then have "w' = w" "msg = m" using x by (simp_all add: idempotent_xadd_def)
  then show ?thesis using inv Some by simp
next
  case None
  let ?k = "wd_dispatch_key d"
  have pl: "payload = wd_payload_json d" using p by (simp add: validated_dispatch_payload_def split: if_splits)
  have key: "dict_get payload ''dispatch_key'' = Some (PStr (uuid_str ?k))"
    using inv mem unfolding delivery_inv_def identities_ok_def pl dispatch_ident_def by fastforce
  have w': "w' = w\<lparr>task_streams := task_streams w @ [(wd_redis_stream d, msg, sort_key fst payload)],
      redis_markers := dict_set (redis_markers w) ?k msg, next_id := next_id w + 1\<rparr>" and msg: "msg = string_of_nat (next_id w)"
    using x None by (auto simp: idempotent_xadd_def Let_def)
  have ms: "messages_of w' k = messages_of w k @ (if k = ?k then [(wd_redis_stream d, msg, sort_key fst payload)] else [])" for k
    using key by (simp add: messages_of_def w' message_key_def dict_get_sort)
  have b: "broker_ok (map dispatch_ident (dispatches w)) w" using inv by (simp add: delivery_inv_def)
  have nil: "messages_of w ?k = []" using b None by (simp add: broker_ok_def)
  have mk: "dict_get (redis_markers w') k = (if k = ?k then Some msg else dict_get (redis_markers w) k)" for k
    by (simp add: w' dict_simps)
  have m1: "messages_of w' ?k = [(wd_redis_stream d, msg, sort_key fst payload)]" by (simp add: ms nil)
  have m2: "messages_of w' k = messages_of w k" if "k \<noteq> ?k" for k using that by (simp add: ms)
  have mem': "(wd_id d, ?k, wd_redis_stream d, payload) \<in> set (map dispatch_ident (dispatches w))"
    using mem unfolding pl dispatch_ident_def .
  have "broker_ok (map dispatch_ident (dispatches w)) w'"
    unfolding broker_ok_def
  proof (intro conjI allI impI)
    fix k assume "dict_get (redis_markers w') k = None"
    then have "k \<noteq> ?k" "dict_get (redis_markers w) k = None" by (auto simp: mk split: if_splits)
    then show "messages_of w' k = []" using b m2 by (simp add: broker_ok_def)
  next
    fix k m assume m: "dict_get (redis_markers w') k = Some m"
    show "\<exists>i s p n. (i, k, s, p) \<in> set (map dispatch_ident (dispatches w)) \<and> m = string_of_nat n
        \<and> messages_of w' k = [(s, m, sort_key fst p)]"
    proof (cases "k = ?k")
      case True
      then have "m = msg" using m by (simp add: mk)
      then show ?thesis using mem' m1 msg unfolding True by blast
    next
      case False
      then show ?thesis using b m m2 [OF False] by (simp add: mk broker_ok_def)
    qed
  qed
  moreover have "identities_ok (map dispatch_ident (dispatches w)) (next_id w + 1)"
    using inv unfolding delivery_inv_def identities_ok_def by fastforce
  moreover have "delivered_ok (redis_markers w') x" if "x \<in> set (dispatches w)" for x
  proof -
    have "delivered_ok (redis_markers w) x" using inv that by (simp add: delivery_inv_def)
    then show ?thesis using None unfolding delivered_ok_def mk by auto
  qed
  ultimately have "delivery_inv w'"
    unfolding delivery_inv_def by (simp add: w')
  then show ?thesis using mk None by (simp add: w')
qed

lemma delivered_inv:
  assumes inv: "delivery_inv w" and d: "get_dispatch w i = Some d" and m: "dict_get (redis_markers w) (wd_dispatch_key d) = Some msg"
    and mark: "mark_dispatch_delivered w now i (py_strip msg) = Inr w'"
  shows "delivery_inv w'"
proof -
  have strip: "py_strip msg = msg" using marker_id [OF inv m] by simp
  obtain s where "w' = w\<lparr>schedules := s\<rparr>
      \<or> w' = put_dispatch (w\<lparr>schedules := s\<rparr>) (d\<lparr>wd_delivery_state := ''delivered'', wd_redis_message_id := Some msg, wd_delivered_at := Some now\<rparr>)"
    using mark_delivered_Inr [OF mark] d unfolding strip by auto
  then show ?thesis
  proof
    assume "w' = w\<lparr>schedules := s\<rparr>"
    then show ?thesis using inv by (simp add: delivery_inv_schedules)
  next
    assume w': "w' = put_dispatch (w\<lparr>schedules := s\<rparr>) (d\<lparr>wd_delivery_state := ''delivered'', wd_redis_message_id := Some msg, wd_delivered_at := Some now\<rparr>)"
    show ?thesis unfolding w'
      by (rule delivery_inv_put [where d = d])
        (use inv m get_dispatch_mem [OF d] in \<open>simp_all add: delivery_inv_schedules dispatch_ident_def delivered_ok_def\<close>)
  qed
qed

lemma uncertain_inv:
  assumes inv: "delivery_inv w" and mark: "mark_dispatch_uncertain w i reason = Inr w'"
  shows "delivery_inv w'"
proof -
  obtain s d where d: "get_dispatch w i = Some d" and "w' = w\<lparr>schedules := s\<rparr>
      \<or> w' = put_dispatch (w\<lparr>schedules := s\<rparr>) (d\<lparr>wd_delivery_state := ''uncertain'', wd_delivery_error := Some reason\<rparr>)"
    using mark_uncertain_Inr [OF mark] by blast
  then show ?thesis
  proof (elim disjE)
    assume "w' = w\<lparr>schedules := s\<rparr>"
    then show ?thesis using inv by (simp add: delivery_inv_schedules)
  next
    assume w': "w' = put_dispatch (w\<lparr>schedules := s\<rparr>) (d\<lparr>wd_delivery_state := ''uncertain'', wd_delivery_error := Some reason\<rparr>)"
    show ?thesis unfolding w'
      by (rule delivery_inv_put [where d = d])
        (use inv get_dispatch_mem [OF d] in \<open>simp_all add: delivery_inv_schedules dispatch_ident_def delivered_ok_def\<close>)
  qed
qed

lemma resolve_inv:
  assumes inv: "delivery_inv w" and d: "get_dispatch w i = Some d"
  shows "delivery_inv (put_dispatch w (d\<lparr>wd_resolution_state := st\<rparr>))"
  by (rule delivery_inv_put [OF inv get_dispatch_mem [OF d]])
    (use inv get_dispatch_mem [OF d] in \<open>simp_all add: delivery_inv_def delivered_ok_def dispatch_ident_def\<close>)

lemma stream_inv:
  assumes inv: "delivery_inv w" and p: "''dispatch_key'' \<notin> set (dict_keys payload)"
  shows "delivery_inv (w\<lparr>task_streams := task_streams w @ [(stream, m, payload)], next_id := next_id w + 1\<rparr>)"
proof -
  have "dict_get payload ''dispatch_key'' = None" using p by (simp add: dict_simps)
  then have ms: "messages_of (w\<lparr>task_streams := task_streams w @ [(stream, m, payload)], next_id := next_id w + 1\<rparr>) k = messages_of w k" for k
    by (simp add: messages_of_def message_key_def)
  show ?thesis using inv unfolding delivery_inv_def broker_ok_def ms identities_ok_def by fastforce
qed

interpretation delivery: step_invariant "delivery_step env" delivery_inv for env
proof
  fix w w' :: world assume inv: "delivery_inv w" and step: "delivery_step env w w'"
  from step show "delivery_inv w'"
  proof cases
    case sd_begin
    then show ?thesis using begin_inv [OF inv] by blast
  next
    case sd_xadd
    then show ?thesis using xadd_inv [OF inv] by blast
  next
    case sd_stream
    then show ?thesis using stream_inv [OF inv] by simp
  next
    case sd_other
    then show ?thesis using delivery_inv_cong inv by blast
  qed (use inv in \<open>auto intro: stage_inv delivered_inv uncertain_inv resolve_inv\<close>)
qed

end
