(* ===== verification/Dispatch_Runs.thy ===== *)
theory Dispatch_Runs
  imports Dispatch
begin

text \<open>
  What the delivery of \<open>Dispatch\<close> achieves: \<open>deliver_pending_dispatches\<close> is a run of the state machine
  \<open>delivery_step\<close>, no run appends a task twice, and a delivery that no production task blocks
  ends without an error with its batch delivered.
\<close>

section \<open>Delivery runs\<close>

lemma lock_batch_no_tasks:
  assumes "tasks w = []"
  shows "\<exists>s. lock_batch w ds = Inr (w\<lparr>schedules := s\<rparr>)"
proof (cases "ds = []")
  case True
  then show ?thesis using schedules_self [of w] by (simp add: lock_batch_def)
next
  case False
  obtain w1 s1 b where g: "get_or_create_and_lock_runtime_schedule w VIDEO_SCHEDULE_SERVICE None = (w1, s1, b)"
    by (metis prod_cases3)
  obtain s where w1: "w1 = w\<lparr>schedules := s\<rparr>" using get_or_create_frame [OF g] by blast
  have r: "task_references w ids = []" "task_references w1 ids = []" for ids
    using assms by (simp_all add: task_references_def w1)
  have "lock_batch w ds = Inr w1"
    using False by (simp add: lock_batch_def lock_job_execution_entries_def r g)
  then show ?thesis using w1 by blast
qed

lemma dispatch_row:
  assumes inv: "delivery_inv w" and d: "d \<in> set (dispatches w)"
  shows "get_dispatch w (wd_id d) = Some d"
proof -
  have "distinct (map wd_id (dispatches w))"
    using inv by (simp add: delivery_inv_def identities_ok_def dispatch_ident_def comp_def)
  then show ?thesis unfolding get_dispatch_def using d by (rule row_get_distinct)
qed

lemma mark_delivered_run:
  assumes inv: "delivery_inv w" and t: "tasks w = []" and d: "d \<in> set (dispatches w)"
    and st: "wd_delivery_state d = ''attempting''"
  shows "\<exists>s. mark_dispatch_delivered w now (wd_id d) msg
    = Inr (put_dispatch (w\<lparr>schedules := s\<rparr>) (d\<lparr>wd_delivery_state := ''delivered'', wd_redis_message_id := Some msg, wd_delivered_at := Some now\<rparr>))"
proof -
  obtain s where l: "lock_batch w [d] = Inr (w\<lparr>schedules := s\<rparr>)" using lock_batch_no_tasks [OF t] by blast
  have g: "get_dispatch (w\<lparr>schedules := s\<rparr>) (wd_id d) = Some d"
    using dispatch_row [OF inv d] by (simp add: get_dispatch_def)
  show ?thesis using l g dispatch_row [OF inv d] st by (intro exI [of _ s]) (simp add: mark_dispatch_delivered_def)
qed

lemma mark_uncertain_run:
  assumes inv: "delivery_inv w" and t: "tasks w = []" and d: "d \<in> set (dispatches w)"
    and st: "wd_delivery_state d = ''attempting''"
  shows "\<exists>s. mark_dispatch_uncertain w (wd_id d) reason
    = Inr (put_dispatch (w\<lparr>schedules := s\<rparr>) (d\<lparr>wd_delivery_state := ''uncertain'', wd_delivery_error := Some reason\<rparr>))"
proof -
  obtain s where l: "lock_batch w [d] = Inr (w\<lparr>schedules := s\<rparr>)" using lock_batch_no_tasks [OF t] by blast
  have g: "get_dispatch (w\<lparr>schedules := s\<rparr>) (wd_id d) = Some d"
    using dispatch_row [OF inv d] by (simp add: get_dispatch_def)
  show ?thesis using l g dispatch_row [OF inv d] st by (intro exI [of _ s]) (simp add: mark_dispatch_uncertain_def)
qed

text \<open>What a write to one row of state \<open>attempting\<close> leaves alone.\<close>

lemma put_attempting:
  assumes inv: "delivery_inv w" and d: "d \<in> set (dispatches w)" and st: "wd_delivery_state d = ''attempting''"
    and i: "wd_id d' = wd_id d" and np: "wd_delivery_state d' \<noteq> ''pending''"
  shows "filter (\<lambda>x. wd_delivery_state x = ''pending'' \<and> P x) (dispatches (put_dispatch (w\<lparr>schedules := s\<rparr>) d'))
      = filter (\<lambda>x. wd_delivery_state x = ''pending'' \<and> P x) (dispatches w)"
    and "x \<in> set (dispatches w) \<Longrightarrow> wd_id x \<noteq> wd_id d \<Longrightarrow> x \<in> set (dispatches (put_dispatch (w\<lparr>schedules := s\<rparr>) d'))"
    and "d' \<in> set (dispatches (put_dispatch (w\<lparr>schedules := s\<rparr>) d'))"
proof -
  have dist: "distinct (map wd_id (dispatches w))"
    using inv by (simp add: delivery_inv_def identities_ok_def dispatch_ident_def comp_def)
  have same: "wd_delivery_state x = ''attempting''" if "x \<in> set (dispatches w)" "wd_id x = wd_id d'" for x
    using row_unique [OF dist that(1) d] that(2) i st by simp
  have "filter (\<lambda>x. wd_delivery_state x = ''pending'' \<and> P x) (map (\<lambda>x. if wd_id x = wd_id d' then d' else x) xs)
      = filter (\<lambda>x. wd_delivery_state x = ''pending'' \<and> P x) xs" if "set xs \<subseteq> set (dispatches w)" for xs
    using that by (induction xs) (auto simp: np dest!: same)
  then show "filter (\<lambda>x. wd_delivery_state x = ''pending'' \<and> P x) (dispatches (put_dispatch (w\<lparr>schedules := s\<rparr>) d'))
      = filter (\<lambda>x. wd_delivery_state x = ''pending'' \<and> P x) (dispatches w)"
    by (simp add: put_dispatch_def row_put_def)
  show "x \<in> set (dispatches w) \<Longrightarrow> wd_id x \<noteq> wd_id d \<Longrightarrow> x \<in> set (dispatches (put_dispatch (w\<lparr>schedules := s\<rparr>) d'))"
    using i by (force simp: put_dispatch_def row_put_def image_iff)
  show "d' \<in> set (dispatches (put_dispatch (w\<lparr>schedules := s\<rparr>) d'))"
    using d i by (force simp: put_dispatch_def row_put_def image_iff)
qed

lemma settle_attempt_run:
  assumes inv: "delivery_inv w" and t: "tasks w = []" and d: "d \<in> set (dispatches w)"
    and st: "wd_delivery_state d = ''attempting''"
  shows "\<exists>s d'. settle_attempt w now d = Inr (put_dispatch (w\<lparr>schedules := s\<rparr>) d') \<and> wd_id d' = wd_id d
    \<and> wd_delivery_state d' \<noteq> ''pending'' \<and> delivery_inv (put_dispatch (w\<lparr>schedules := s\<rparr>) d')"
proof (cases "dict_get (redis_markers w) (wd_dispatch_key d)")
  case None
  obtain s where m: "mark_dispatch_uncertain w (wd_id d) ''dispatch_marker_missing_after_attempt''
      = Inr (put_dispatch (w\<lparr>schedules := s\<rparr>) (d\<lparr>wd_delivery_state := ''uncertain'',
          wd_delivery_error := Some ''dispatch_marker_missing_after_attempt''\<rparr>))"
    using mark_uncertain_run [OF inv t d st] by blast
  show ?thesis using m None uncertain_inv [OF inv m]
    by (intro exI [of _ s] exI [of _ "d\<lparr>wd_delivery_state := ''uncertain'',
          wd_delivery_error := Some ''dispatch_marker_missing_after_attempt''\<rparr>"]) (simp add: settle_attempt_def)
next
  case (Some msg)
  have strip: "py_strip msg = msg" "msg \<noteq> []" using marker_id [OF inv Some] by auto
  obtain s where m: "mark_dispatch_delivered w now (wd_id d) msg
      = Inr (put_dispatch (w\<lparr>schedules := s\<rparr>) (d\<lparr>wd_delivery_state := ''delivered'', wd_redis_message_id := Some msg, wd_delivered_at := Some now\<rparr>))"
    using mark_delivered_run [OF inv t d st] by blast
  have "delivery_inv (put_dispatch (w\<lparr>schedules := s\<rparr>) (d\<lparr>wd_delivery_state := ''delivered'', wd_redis_message_id := Some msg, wd_delivered_at := Some now\<rparr>))"
    by (rule delivered_inv [OF inv dispatch_row [OF inv d] Some, where now = now]) (simp add: strip m)
  then show ?thesis using m Some strip
    by (intro exI [of _ s] exI [of _ "d\<lparr>wd_delivery_state := ''delivered'', wd_redis_message_id := Some msg, wd_delivered_at := Some now\<rparr>"])
      (simp add: settle_attempt_def)
qed

lemma settle_attempts_run:
  assumes "delivery_inv w" and "tasks w = []" and "distinct (map wd_id ds)"
    and "\<forall>d\<in>set ds. d \<in> set (dispatches w) \<and> wd_delivery_state d = ''attempting''"
  shows "\<exists>w'. settle_attempts now w ds = (w', Inr ()) \<and> delivery_inv w' \<and> tasks w' = [] \<and> receipts w' = receipts w
    \<and> (\<forall>P. filter (\<lambda>x. wd_delivery_state x = ''pending'' \<and> P x) (dispatches w')
          = filter (\<lambda>x. wd_delivery_state x = ''pending'' \<and> P x) (dispatches w))"
  using assms
proof (induction ds arbitrary: w)
  case (Cons d ds)
  have d: "d \<in> set (dispatches w)" "wd_delivery_state d = ''attempting''" using Cons.prems(4) by simp_all
  obtain s d' where r: "settle_attempt w now d = Inr (put_dispatch (w\<lparr>schedules := s\<rparr>) d')" and i: "wd_id d' = wd_id d"
    and np: "wd_delivery_state d' \<noteq> ''pending''" and inv: "delivery_inv (put_dispatch (w\<lparr>schedules := s\<rparr>) d')"
    using settle_attempt_run [OF Cons.prems(1,2) d] by blast
  let ?w = "put_dispatch (w\<lparr>schedules := s\<rparr>) d'"
  note put = put_attempting [OF Cons.prems(1) d i np]
  have ne: "wd_id x \<noteq> wd_id d" if "x \<in> set ds" for x
    using Cons.prems(3) imageI [OF that, of wd_id] by auto
  have rest: "\<forall>x\<in>set ds. x \<in> set (dispatches ?w) \<and> wd_delivery_state x = ''attempting''"
    using Cons.prems(4) put(2) ne by simp
  have "tasks ?w = []" "receipts ?w = receipts w" using Cons.prems(2) by (simp_all add: put_dispatch_def)
  moreover obtain w' where "settle_attempts now ?w ds = (w', Inr ())" "delivery_inv w'" "tasks w' = []" "receipts w' = receipts ?w"
    "\<forall>P. filter (\<lambda>x. wd_delivery_state x = ''pending'' \<and> P x) (dispatches w')
          = filter (\<lambda>x. wd_delivery_state x = ''pending'' \<and> P x) (dispatches ?w)"
    using Cons.IH [OF inv _ _ rest] Cons.prems(3) calculation(1) by auto
  ultimately show ?case using r put(1) by (intro exI [of _ w']) simp
qed simp

lemma recover_stale_run:
  assumes inv: "delivery_inv w" and t: "tasks w = []"
  shows "\<exists>w'. recover_stale_dispatch_attempts w now secs receipt limit = (w', Inr ()) \<and> delivery_inv w' \<and> tasks w' = []
    \<and> receipts w' = receipts w \<and> (\<forall>r l. pending_batch w' r l = pending_batch w r l)"
proof -
  let ?stale = "\<lambda>d. wd_delivery_state d = ''attempting''
     \<and> (case wd_delivery_attempted_at d of None \<Rightarrow> False | Some t \<Rightarrow> t \<le> now - secs) \<and> (receipt = None \<or> wd_origin_receipt_id d = receipt)"
  let ?sorted = "sort_key (\<lambda>d. the (wd_delivery_attempted_at d)) (filter ?stale (dispatches w))"
  have "distinct (map wd_id (dispatches w))"
    using inv by (simp add: delivery_inv_def identities_ok_def dispatch_ident_def comp_def)
  then have "distinct (dispatches w)" "inj_on wd_id (set (dispatches w))" by (simp_all add: distinct_map)
  then have "distinct ?sorted" "inj_on wd_id (set ?sorted)" by (auto intro: inj_on_subset)
  then have "distinct (map wd_id ?sorted)" by (simp add: distinct_map)
  then have dist: "distinct (map wd_id (take limit ?sorted))" by (simp only: take_map [symmetric] distinct_take)
  have "set (take limit ?sorted) \<subseteq> set ?sorted" by (rule set_take_subset)
  then have mem: "\<forall>d\<in>set (take limit ?sorted). d \<in> set (dispatches w) \<and> wd_delivery_state d = ''attempting''" by auto
  obtain w' where "settle_attempts now w (take limit ?sorted) = (w', Inr ())" "delivery_inv w'" "tasks w' = []" "receipts w' = receipts w"
    "\<forall>P. filter (\<lambda>x. wd_delivery_state x = ''pending'' \<and> P x) (dispatches w')
          = filter (\<lambda>x. wd_delivery_state x = ''pending'' \<and> P x) (dispatches w)"
    using settle_attempts_run [OF inv t dist mem] by blast
  then show ?thesis by (intro exI [of _ w']) (simp add: recover_stale_dispatch_attempts_def pending_batch_def)
qed

lemma deliver_dispatch_run:
  assumes inv: "delivery_inv w" and t: "tasks w = []" and d: "d \<in> set (dispatches w)"
    and st: "wd_delivery_state d = ''attempting''" and p: "validated_dispatch_payload env d = Inr payload"
  shows "\<exists>w1 s msg. deliver_dispatch env now w d
      = (put_dispatch (w1\<lparr>schedules := s\<rparr>) (d\<lparr>wd_delivery_state := ''delivered'', wd_redis_message_id := Some msg, wd_delivered_at := Some now\<rparr>), Inr ())
    \<and> delivery_inv w1 \<and> dispatches w1 = dispatches w \<and> tasks w1 = []
    \<and> delivery_inv (put_dispatch (w1\<lparr>schedules := s\<rparr>) (d\<lparr>wd_delivery_state := ''delivered'', wd_redis_message_id := Some msg, wd_delivered_at := Some now\<rparr>))"
proof -
  obtain w1 msg where x: "idempotent_xadd w (wd_redis_stream d) (wd_dispatch_key d) payload = (w1, msg)" by fastforce
  have mem: "dispatch_ident d \<in> set (map dispatch_ident (dispatches w))" using d by simp
  have w1: "delivery_inv w1" "dispatches w1 = dispatches w" "dict_get (redis_markers w1) (wd_dispatch_key d) = Some msg"
    using xadd_inv [OF inv mem p x] by auto
  have t1: "tasks w1 = []" using x t by (auto simp: idempotent_xadd_def Let_def split: option.splits)
  have strip: "py_strip msg = msg" "msg \<noteq> []" using marker_id [OF w1(1,3)] by auto
  have d1: "d \<in> set (dispatches w1)" using d w1(2) by simp
  obtain s where m: "mark_dispatch_delivered w1 now (wd_id d) msg
      = Inr (put_dispatch (w1\<lparr>schedules := s\<rparr>) (d\<lparr>wd_delivery_state := ''delivered'', wd_redis_message_id := Some msg, wd_delivered_at := Some now\<rparr>))"
    using mark_delivered_run [OF w1(1) t1 d1 st] by blast
  have "delivery_inv (put_dispatch (w1\<lparr>schedules := s\<rparr>) (d\<lparr>wd_delivery_state := ''delivered'', wd_redis_message_id := Some msg, wd_delivered_at := Some now\<rparr>))"
    by (rule delivered_inv [OF w1(1) dispatch_row [OF w1(1) d1] w1(3), where now = now]) (simp add: strip m)
  then show ?thesis using p x strip m w1 t1
    by (intro exI [of _ w1] exI [of _ s] exI [of _ msg]) (simp add: deliver_dispatch_def)
qed

definition delivered_in :: "world \<Rightarrow> uuid \<times> uuid \<times> string \<times> (string, pyval) dict \<Rightarrow> bool" where
  "delivered_in w i \<longleftrightarrow> (\<exists>d\<in>set (dispatches w). dispatch_ident d = i \<and> wd_delivery_state d = ''delivered'')"

lemma deliver_all_run:
  assumes "delivery_inv w" and "tasks w = []" and "distinct (map wd_id ds)"
    and "\<forall>d\<in>set ds. d \<in> set (dispatches w) \<and> wd_delivery_state d = ''attempting''
      \<and> (\<exists>payload. validated_dispatch_payload env d = Inr payload)"
  shows "\<exists>w'. deliver_all env now w ds = (w', Inr ()) \<and> delivery_inv w'
    \<and> (\<forall>d\<in>set ds. delivered_in w' (dispatch_ident d))
    \<and> (\<forall>x\<in>set (dispatches w). wd_id x \<notin> wd_id ` set ds \<longrightarrow> x \<in> set (dispatches w'))"
  using assms
proof (induction ds arbitrary: w)
  case (Cons d ds)
  obtain payload where d: "d \<in> set (dispatches w)" "wd_delivery_state d = ''attempting''"
    "validated_dispatch_payload env d = Inr payload" using Cons.prems(4) by auto
  obtain w1 s msg where r: "deliver_dispatch env now w d
      = (put_dispatch (w1\<lparr>schedules := s\<rparr>) (d\<lparr>wd_delivery_state := ''delivered'', wd_redis_message_id := Some msg, wd_delivered_at := Some now\<rparr>), Inr ())"
    and w1: "delivery_inv w1" "dispatches w1 = dispatches w" "tasks w1 = []"
    and inv: "delivery_inv (put_dispatch (w1\<lparr>schedules := s\<rparr>) (d\<lparr>wd_delivery_state := ''delivered'', wd_redis_message_id := Some msg, wd_delivered_at := Some now\<rparr>))"
    using deliver_dispatch_run [OF Cons.prems(1,2) d] by blast
  let ?d = "d\<lparr>wd_delivery_state := ''delivered'', wd_redis_message_id := Some msg, wd_delivered_at := Some now\<rparr>"
  let ?w = "put_dispatch (w1\<lparr>schedules := s\<rparr>) ?d"
  have d1: "d \<in> set (dispatches w1)" using d(1) w1(2) by simp
  have "wd_id ?d = wd_id d" "wd_delivery_state ?d \<noteq> ''pending''" by simp_all
  note put = put_attempting [OF w1(1) d1 d(2) this]
  have ne: "wd_id x \<noteq> wd_id d" if "x \<in> set ds" for x using Cons.prems(3) imageI [OF that, of wd_id] by auto
  have rest: "\<forall>x\<in>set ds. x \<in> set (dispatches ?w) \<and> wd_delivery_state x = ''attempting''
      \<and> (\<exists>payload. validated_dispatch_payload env x = Inr payload)"
    using Cons.prems(4) put(2) ne w1(2) by simp
  have t: "tasks ?w = []" using w1(3) by (simp add: put_dispatch_def)
  have dist: "distinct (map wd_id ds)" using Cons.prems(3) by simp
  obtain w' where w': "deliver_all env now ?w ds = (w', Inr ())" "delivery_inv w'"
    "\<forall>x\<in>set ds. delivered_in w' (dispatch_ident x)"
    "\<forall>x\<in>set (dispatches ?w). wd_id x \<notin> wd_id ` set ds \<longrightarrow> x \<in> set (dispatches w')"
    using Cons.IH [OF inv t dist rest] by blast
  have "wd_id ?d \<notin> wd_id ` set ds" using Cons.prems(3) by simp
  then have "?d \<in> set (dispatches w')" using w'(4) put(3) by blast
  then have "delivered_in w' (dispatch_ident d)" unfolding delivered_in_def dispatch_ident_def
    by (rule bexI [rotated]) simp
  moreover have "x \<in> set (dispatches w')" if "x \<in> set (dispatches w)" "wd_id x \<notin> wd_id ` set (d # ds)" for x
    using w'(4) put(2) that w1(2) by simp
  ultimately show ?case using r w' by (intro exI [of _ w']) simp
qed simp

lemma begin_dispatch_attempts_run:
  assumes "tasks w = []" and "receipt = None"
  shows "\<exists>s. begin_dispatch_attempts w now receipt limit
    = Inr (foldl put_dispatch (w\<lparr>schedules := s\<rparr>) (map (attempted now) (pending_batch w receipt limit)),
           map (attempted now) (pending_batch w receipt limit))"
  using lock_batch_no_tasks [OF assms(1), of "pending_batch w receipt limit"] assms(2)
  by (auto simp: begin_dispatch_attempts_def Let_def)

lemma foldl_put_mem:
  assumes "b \<in> set bs" and "distinct (map wd_id bs)" and "wd_id b \<in> wd_id ` set (dispatches w)"
  shows "b \<in> set (dispatches (foldl put_dispatch w bs))"
  using assms
proof (induction bs arbitrary: w)
  case (Cons c bs)
  have keep: "y \<in> set (dispatches (foldl put_dispatch v bs))" if "y \<in> set (dispatches v)" "wd_id y \<notin> wd_id ` set bs" for y v
    using that
  proof (induction bs arbitrary: v)
    case (Cons z zs)
    have "y \<in> set (dispatches (put_dispatch v z))" using Cons.prems by (force simp: put_dispatch_def row_put_def image_iff)
    then show ?case using Cons.IH Cons.prems(2) by simp
  qed simp
  show ?case
  proof (cases "b = c")
    case True
    have "c \<in> set (dispatches (put_dispatch w c))"
      using Cons.prems(3) True by (force simp: put_dispatch_def row_put_def image_iff)
    then show ?thesis using keep Cons.prems(2) True by simp
  next
    case False
    then have "b \<in> set bs" using Cons.prems(1) by simp
    moreover have "wd_id b \<in> wd_id ` set (dispatches (put_dispatch w c))"
      using Cons.prems(3) by (simp only: put_dispatch_def set_map [symmetric] row_put_keys) simp
    ultimately show ?thesis using Cons.IH Cons.prems(2) by simp
  qed
qed simp

section \<open>Delivery as a run of the state machine\<close>

lemma held_row:
  assumes inv: "delivery_inv w" and i: "dispatch_ident d \<in> set (map dispatch_ident (dispatches w))"
    and g: "get_dispatch w (wd_id d) = Some d0"
  shows "dispatch_ident d0 = dispatch_ident d"
proof -
  obtain x where x: "x \<in> set (dispatches w)" "dispatch_ident x = dispatch_ident d" using i by auto
  then have "wd_id x = wd_id d" by (simp add: dispatch_ident_def)
  then have "get_dispatch w (wd_id d) = Some x" using dispatch_row [OF inv x(1)] by simp
  then show ?thesis using g x(2) by simp
qed

lemma put_idents:
  assumes inv: "delivery_inv w" and g: "get_dispatch w i = Some d" and "dispatch_ident d' = dispatch_ident d"
  shows "map dispatch_ident (dispatches (put_dispatch (w\<lparr>schedules := s\<rparr>) d')) = map dispatch_ident (dispatches w)"
  using put_dispatch_idents [of "w\<lparr>schedules := s\<rparr>" d d'] assms get_dispatch_mem [OF g]
  by (simp add: delivery_inv_schedules)

lemma mark_delivered_idents:
  assumes inv: "delivery_inv w" and m: "mark_dispatch_delivered w now i msg = Inr w'"
  shows "map dispatch_ident (dispatches w') = map dispatch_ident (dispatches w)"
  using mark_delivered_Inr [OF m] put_idents [OF inv] by (auto simp: dispatch_ident_def)

lemma mark_uncertain_idents:
  assumes inv: "delivery_inv w" and m: "mark_dispatch_uncertain w i msg = Inr w'"
  shows "map dispatch_ident (dispatches w') = map dispatch_ident (dispatches w)"
  using mark_uncertain_Inr [OF m] put_idents [OF inv] by (auto simp: dispatch_ident_def)

lemma delivered_step:
  assumes inv: "delivery_inv w" and i: "dispatch_ident d \<in> set (map dispatch_ident (dispatches w))"
    and k: "dict_get (redis_markers w) (wd_dispatch_key d) = Some msg"
    and m: "mark_dispatch_delivered w now (wd_id d) (py_strip msg) = Inr w'"
  shows "delivery_step env w w'"
proof -
  obtain d0 where g: "get_dispatch w (wd_id d) = Some d0" using mark_delivered_Inr [OF m] by blast
  have "wd_dispatch_key d0 = wd_dispatch_key d" using held_row [OF inv i g] by (simp add: dispatch_ident_def)
  then show ?thesis using sd_delivered [OF g _ m] k by simp
qed

lemma settle_attempt_step:
  assumes inv: "delivery_inv w" and i: "dispatch_ident d \<in> set (map dispatch_ident (dispatches w))"
    and s: "settle_attempt w now d = Inr w'"
  shows "delivery_step env w w' \<and> map dispatch_ident (dispatches w') = map dispatch_ident (dispatches w)"
proof (cases "dict_get (redis_markers w) (wd_dispatch_key d)")
  case None
  then show ?thesis using s mark_uncertain_idents [OF inv] by (auto simp: settle_attempt_def intro: sd_uncertain)
next
  case (Some msg)
  then have m: "mark_dispatch_delivered w now (wd_id d) (py_strip msg) = Inr w'"
    using s marker_id [OF inv Some] by (simp add: settle_attempt_def)
  show ?thesis using delivered_step [OF inv i Some m] mark_delivered_idents [OF inv m] by blast
qed

lemma settle_attempts_steps:
  assumes "delivery_inv w" and "\<forall>d\<in>set ds. dispatch_ident d \<in> set (map dispatch_ident (dispatches w))"
    and "settle_attempts now w ds = (w', r)"
  shows "(delivery_step env)\<^sup>*\<^sup>* w w'"
  using assms
proof (induction ds arbitrary: w)
  case (Cons d ds)
  have i: "dispatch_ident d \<in> set (map dispatch_ident (dispatches w))" using Cons.prems(2) by simp
  show ?case
  proof (cases "settle_attempt w now d")
    case (Inl e)
    then show ?thesis using Cons.prems(3) by simp
  next
    case (Inr w1)
    have st: "delivery_step env w w1" "map dispatch_ident (dispatches w1) = map dispatch_ident (dispatches w)"
      using settle_attempt_step [OF Cons.prems(1) i Inr] by simp_all
    have inv: "delivery_inv w1" by (rule delivery.step_inv [OF Cons.prems(1) st(1)])
    have mem: "\<forall>d\<in>set ds. dispatch_ident d \<in> set (map dispatch_ident (dispatches w1))" using Cons.prems(2) unfolding st(2) by simp
    have "settle_attempts now w1 ds = (w', r)" using Cons.prems(3) Inr by simp
    then show ?thesis using Cons.IH [OF inv mem] st(1) by (meson converse_rtranclp_into_rtranclp)
  qed
qed simp

lemma deliver_dispatch_steps:
  assumes inv: "delivery_inv w" and i: "dispatch_ident d \<in> set (map dispatch_ident (dispatches w))"
    and r: "deliver_dispatch env now w d = (w', r)"
  shows "(delivery_step env)\<^sup>*\<^sup>* w w' \<and> map dispatch_ident (dispatches w') = map dispatch_ident (dispatches w)"
proof (cases "validated_dispatch_payload env d")
  case (Inl e)
  then show ?thesis using r by (simp add: deliver_dispatch_def)
next
  case (Inr payload)
  obtain w1 msg where x: "idempotent_xadd w (wd_redis_stream d) (wd_dispatch_key d) payload = (w1, msg)" by fastforce
  have s1: "delivery_step env w w1" by (rule sd_xadd [OF i Inr x])
  have w1: "delivery_inv w1" "dispatches w1 = dispatches w" "dict_get (redis_markers w1) (wd_dispatch_key d) = Some msg"
    using xadd_inv [OF inv i Inr x] by auto
  show ?thesis
  proof (cases "mark_dispatch_delivered w1 now (wd_id d) (py_strip msg)")
    case (Inl e)
    then have "w' = w1" using r Inr x by (auto simp: deliver_dispatch_def split: if_splits)
    then show ?thesis using s1 w1(2) by auto
  next
    case (Inr w2)
    have "delivery_step env w1 w2" by (rule delivered_step [OF w1(1) _ w1(3) Inr]) (use i w1(2) in simp)
    moreover have "map dispatch_ident (dispatches w2) = map dispatch_ident (dispatches w1)"
      by (rule mark_delivered_idents [OF w1(1) Inr])
    moreover have "w' = w2" using r \<open>validated_dispatch_payload env d = Inr payload\<close> x Inr marker_id [OF w1(1,3)]
      by (simp add: deliver_dispatch_def)
    ultimately show ?thesis using s1 w1(2) by (auto intro: rtranclp_trans)
  qed
qed

lemma deliver_all_steps:
  assumes "delivery_inv w" and "\<forall>d\<in>set ds. dispatch_ident d \<in> set (map dispatch_ident (dispatches w))"
    and "deliver_all env now w ds = (w', r)"
  shows "(delivery_step env)\<^sup>*\<^sup>* w w'"
  using assms
proof (induction ds arbitrary: w)
  case (Cons d ds)
  have i: "dispatch_ident d \<in> set (map dispatch_ident (dispatches w))" using Cons.prems(2) by simp
  obtain w1 r1 where d: "deliver_dispatch env now w d = (w1, r1)" by fastforce
  have st: "(delivery_step env)\<^sup>*\<^sup>* w w1" "map dispatch_ident (dispatches w1) = map dispatch_ident (dispatches w)"
    using deliver_dispatch_steps [OF Cons.prems(1) i d] by simp_all
  have inv: "delivery_inv w1" by (rule delivery.run_inv [OF st(1) Cons.prems(1)])
  have mem: "\<forall>d\<in>set ds. dispatch_ident d \<in> set (map dispatch_ident (dispatches w1))" using Cons.prems(2) unfolding st(2) by simp
  show ?case
  proof (cases r1)
    case (Inl e)
    then show ?thesis using Cons.prems(3) d st(1) by simp
  next
    case (Inr u)
    then have "deliver_all env now w1 ds = (w', r)" using Cons.prems(3) d by simp
    then show ?thesis using Cons.IH [OF inv mem] st(1) by (meson rtranclp_trans)
  qed
qed simp

lemma deliver_pending_steps:
  assumes inv: "delivery_inv w" and r: "deliver_pending_dispatches env w now secs receipt limit = (w', r)"
  shows "(delivery_step env)\<^sup>*\<^sup>* w w'"
proof (cases "limit = 0")
  case True
  then show ?thesis using r by (simp add: deliver_pending_dispatches_def)
next
  case False
  obtain w1 r1 where r1: "recover_stale_dispatch_attempts w now secs receipt limit = (w1, r1)" by fastforce
  have "set (take limit (sort_key f (filter P (dispatches w)))) \<subseteq> set (dispatches w)"
    for f :: "WorkerTaskDispatch \<Rightarrow> datetime" and P
    using set_take_subset [of limit "sort_key f (filter P (dispatches w))"] by auto
  then have mem: "\<forall>d\<in>set (take limit (sort_key f (filter P (dispatches w)))). dispatch_ident d \<in> set (map dispatch_ident (dispatches w))"
    for f :: "WorkerTaskDispatch \<Rightarrow> datetime" and P by auto
  have s1: "(delivery_step env)\<^sup>*\<^sup>* w w1"
    using r1 unfolding recover_stale_dispatch_attempts_def by (rule settle_attempts_steps [OF inv mem])
  have inv1: "delivery_inv w1" by (rule delivery.run_inv [OF s1 inv])
  show ?thesis
  proof (cases "\<exists>e. r1 = Inl e \<or> begin_dispatch_attempts w1 now receipt limit = Inl e")
    case True
    then have "w' = w1" using r r1 False by (cases r1) (auto simp: deliver_pending_dispatches_def)
    then show ?thesis using s1 by simp
  next
    case ok: False
    then obtain w2 batch where b: "begin_dispatch_attempts w1 now receipt limit = Inr (w2, batch)"
      by (metis old.prod.exhaust sum.exhaust)
    obtain u where "r1 = Inr u" using ok by (cases r1) auto
    then have d: "deliver_all env now w2 batch = (w', r)" using r r1 False b by (simp add: deliver_pending_dispatches_def)
    have inv2: "delivery_inv w2" and ids: "map dispatch_ident (dispatches w2) = map dispatch_ident (dispatches w1)"
      using begin_inv [OF inv1 b] by simp_all
    have "batch = map (attempted now) (pending_batch w1 receipt limit)" using begin_dispatch_attempts_Inr [OF b] by blast
    moreover have "set (pending_batch w1 receipt limit) \<subseteq> set (dispatches w1)"
      unfolding pending_batch_def by (meson filter_is_subset order_trans set_take_subset)
    ultimately have "\<forall>d\<in>set batch. dispatch_ident d \<in> set (map dispatch_ident (dispatches w2))"
      unfolding ids by (auto simp: attempted_def dispatch_ident_def)
    then have "(delivery_step env)\<^sup>*\<^sup>* w2 w'" using d by (rule deliver_all_steps [OF inv2])
    then show ?thesis using s1 sd_begin [OF b] by (meson rtranclp.rtrancl_into_rtrancl rtranclp_trans)
  qed
qed

definition empty_broker :: "world \<Rightarrow> bool" where
  "empty_broker w \<longleftrightarrow> dispatches w = [] \<and> task_streams w = [] \<and> redis_markers w = []"

lemma empty_broker_inv: "empty_broker w \<Longrightarrow> delivery_inv w"
  by (simp add: empty_broker_def delivery_inv_def identities_ok_def broker_ok_def messages_of_def)

lemma delivered_message:
  assumes inv: "delivery_inv w" and d: "d \<in> set (dispatches w)"
  shows "length (messages_of w (wd_dispatch_key d)) \<le> 1
    \<and> (wd_delivery_state d = ''delivered'' \<longrightarrow> (\<exists>m. wd_redis_message_id d = Some m
         \<and> messages_of w (wd_dispatch_key d) = [(wd_redis_stream d, m, sort_key fst (wd_payload_json d))]))"
proof (cases "dict_get (redis_markers w) (wd_dispatch_key d)")
  case None
  then show ?thesis using inv d by (auto simp: delivery_inv_def broker_ok_def delivered_ok_def)
next
  case (Some m)
  then obtain i s p where i: "(i, wd_dispatch_key d, s, p) \<in> set (map dispatch_ident (dispatches w))"
    and ms: "messages_of w (wd_dispatch_key d) = [(s, m, sort_key fst p)]"
    using inv unfolding delivery_inv_def broker_ok_def by blast
  have "distinct (map (\<lambda>(_, k, _). k) (map dispatch_ident (dispatches w)))"
    using inv unfolding delivery_inv_def identities_ok_def by blast
  then have "(i, wd_dispatch_key d, s, p) = dispatch_ident d"
    by (rule row_unique) (use i d in \<open>simp_all add: dispatch_ident_def\<close>)
  then have sp: "s = wd_redis_stream d" "p = wd_payload_json d" by (simp_all add: dispatch_ident_def)
  have "delivered_ok (redis_markers w) d" using inv d by (simp add: delivery_inv_def)
  then show ?thesis using Some ms sp by (simp add: delivered_ok_def)
qed

section \<open>Properties\<close>

text \<open>C19: No interleaving of staging, attempts, appends, marks, settlements and crashes adds a task to its
  stream twice: from an empty broker, every dispatch has at most one message, and one that is marked delivered
  has exactly one, on its own stream, with its own payload and the message id of its row.\<close>

theorem dispatch_exactly_once:
  assumes "empty_broker w" and "(delivery_step env)\<^sup>*\<^sup>* w w'" and "d \<in> set (dispatches w')"
  shows "length (messages_of w' (wd_dispatch_key d)) \<le> 1
    \<and> (wd_delivery_state d = ''delivered'' \<longrightarrow> (\<exists>m. wd_redis_message_id d = Some m
         \<and> messages_of w' (wd_dispatch_key d) = [(wd_redis_stream d, m, sort_key fst (wd_payload_json d))]))"
  by (rule delivered_message [OF delivery.run_inv [OF assms(2) empty_broker_inv [OF assms(1)]] assms(3)])

definition two_node_job :: Job where
  "two_node_job = sample_job 1 JOB_RUNNING [sample_execution 2 ''a'' QUEUED, sample_execution 3 ''b'' PENDING]"

definition staged_world :: world where
  "staged_world = (case stage_worker_task_dispatch plain_env (sample_world ''OPEN'' [two_node_job]) 0 None 1 2 ''tasks'' ''workers''
     [(''node_id'', PStr ''a'')] of Inr w \<Rightarrow> w | Inl _ \<Rightarrow> sample_world ''OPEN'' [])"

definition delivered_world :: world where
  "delivered_world = fst (deliver_pending_dispatches plain_env staged_world 0 60 None 100)"

lemma staged_world_step: "delivery_step plain_env (sample_world ''OPEN'' [two_node_job]) staged_world"
  by (rule sd_stage [where now = 0 and origin = None and jid = 1 and nid = 2 and stream = "''tasks''" and grp = "''workers''"
        and payload = "[(''node_id'', PStr ''a'')]"])
    (simp add: staged_world_def stage_worker_task_dispatch_def sample_world_def unresolved_initial_def py_strip_def is_space_def
      code_of_def Let_def)

lemma empty_sample: "empty_broker (sample_world st js)"
  by (simp add: empty_broker_def sample_world_def)

lemma staged_world_eq:
  "staged_world = sample_world ''OPEN'' [two_node_job]\<lparr>dispatches := [\<lparr>wd_id = 101, wd_origin_receipt_id = None,
     wd_dispatch_key = 100, wd_job_id = 1, wd_node_execution_id = 2, wd_redis_stream = ''tasks'', wd_consumer_group = ''workers'',
     wd_payload_sha256 = ''k'', wd_payload_json = [(''node_id'', PStr ''a''), (''dispatch_key'', PStr (uuid_str 100))],
     wd_delivery_state = ''pending'', wd_delivery_attempted_at = None, wd_delivery_error = None,
     wd_resolution_state = ''unresolved'', wd_redis_message_id = None, wd_created_at = 0,
     wd_delivered_at = None, wd_acknowledged_at = None, wd_cancelled_at = None\<rparr>], next_id := 102\<rparr>"
  by (simp add: staged_world_def stage_worker_task_dispatch_def sample_world_def unresolved_initial_def py_strip_def is_space_def
      code_of_def Let_def canonical_redis_payload_sha256_def plain_env_def)

lemma staged_run: "(delivery_step plain_env)\<^sup>*\<^sup>* (sample_world ''OPEN'' [two_node_job]) delivered_world"
proof -
  have inv: "delivery_inv staged_world"
    by (rule delivery.step_inv [OF empty_broker_inv [OF empty_sample] staged_world_step])
  obtain r where "deliver_pending_dispatches plain_env staged_world 0 60 None 100 = (delivered_world, r)"
    unfolding delivered_world_def by (metis prod.collapse)
  then show ?thesis using deliver_pending_steps [OF inv] staged_world_step by (meson converse_rtranclp_into_rtranclp)
qed

lemma delivered_world_dispatches:
  "map (\<lambda>d. (wd_dispatch_key d, wd_delivery_state d, wd_redis_message_id d)) (dispatches delivered_world)
     = [(100, ''delivered'', Some (string_of_nat 102))]"
  by (simp add: delivered_world_def staged_world_eq deliver_pending_dispatches_def recover_stale_dispatch_attempts_def
      begin_dispatch_attempts_def pending_batch_def lock_batch_def lock_job_execution_entries_def task_references_def Let_def
      sample_world_def get_or_create_and_lock_runtime_schedule_def VIDEO_SCHEDULE_SERVICE_def attempted_def put_dispatch_def
      row_put_def deliver_dispatch_def validated_dispatch_payload_def canonical_redis_payload_sha256_def plain_env_def
      idempotent_xadd_def mark_dispatch_delivered_def get_dispatch_def)

theorem dispatch_exactly_once_witness:
  "\<exists>d\<in>set (dispatches delivered_world). wd_delivery_state d = ''delivered''
     \<and> length (messages_of delivered_world (wd_dispatch_key d)) \<le> 1
     \<and> (\<exists>m. wd_redis_message_id d = Some m
         \<and> messages_of delivered_world (wd_dispatch_key d) = [(wd_redis_stream d, m, sort_key fst (wd_payload_json d))])"
proof -
  obtain d where d: "dispatches delivered_world = [d]" "wd_delivery_state d = ''delivered''"
    using delivered_world_dispatches by auto
  then show ?thesis using dispatch_exactly_once [OF empty_sample staged_run, of d] by simp
qed

text \<open>C21: A delivery is a run of the state machine, whatever it returns: what it commits before an error is
  a sequence of atomic attempts, appends and marks.\<close>

theorem deliver_pending_refines:
  assumes "delivery_inv w"
  shows "(delivery_step env)\<^sup>*\<^sup>* w (fst (deliver_pending_dispatches env w now secs receipt limit))
    \<and> delivery_inv (fst (deliver_pending_dispatches env w now secs receipt limit))"
proof -
  obtain w' r where "deliver_pending_dispatches env w now secs receipt limit = (w', r)" by fastforce
  then show ?thesis using deliver_pending_steps [OF assms] delivery.run_inv assms by (metis fst_conv)
qed

theorem deliver_pending_refines_witness:
  "(delivery_step plain_env)\<^sup>*\<^sup>* staged_world (fst (deliver_pending_dispatches plain_env staged_world 0 60 None 100))
    \<and> delivery_inv (fst (deliver_pending_dispatches plain_env staged_world 0 60 None 100))"
  by (rule deliver_pending_refines [OF delivery.step_inv [OF empty_broker_inv [OF empty_sample] staged_world_step]])

lemma pending_batch_mem: "d \<in> set (pending_batch w receipt limit) \<Longrightarrow> d \<in> set (dispatches w)"
  unfolding pending_batch_def using set_take_subset by fastforce

lemma pending_batch_distinct:
  assumes "delivery_inv w"
  shows "distinct (map wd_id (map (attempted now) (pending_batch w receipt limit)))"
proof -
  have "distinct (map wd_id (dispatches w))"
    using assms by (simp add: delivery_inv_def identities_ok_def dispatch_ident_def comp_def)
  then have "distinct (map wd_id (filter P (dispatches w)))" for P by (rule distinct_map_filter)
  then have "distinct (map wd_id (pending_batch w receipt limit))"
    unfolding pending_batch_def by (simp only: take_map [symmetric] distinct_take)
  then show ?thesis by (simp add: comp_def attempted_def)
qed

lemma deliver_pending_run:
  assumes inv: "delivery_inv w" and t: "tasks w = []" and l: "limit > 0"
    and ok: "\<forall>d\<in>set (pending_batch w None limit). \<exists>payload. validated_dispatch_payload env d = Inr payload"
  shows "\<exists>w'. deliver_pending_dispatches env w now secs None limit = (w', Inr ()) \<and> delivery_inv w'
    \<and> (\<forall>d\<in>set (pending_batch w None limit). delivered_in w' (dispatch_ident d))"
proof -
  obtain w1 where w1: "recover_stale_dispatch_attempts w now secs None limit = (w1, Inr ())" "delivery_inv w1" "tasks w1 = []"
    and pb: "pending_batch w1 None limit = pending_batch w None limit"
    using recover_stale_run [OF inv t] by blast
  let ?batch = "map (attempted now) (pending_batch w None limit)"
  obtain s where b: "begin_dispatch_attempts w1 now None limit = Inr (foldl put_dispatch (w1\<lparr>schedules := s\<rparr>) ?batch, ?batch)"
    using begin_dispatch_attempts_run [OF w1(3) refl, of now limit] unfolding pb by blast
  let ?w2 = "foldl put_dispatch (w1\<lparr>schedules := s\<rparr>) ?batch"
  have inv2: "delivery_inv ?w2" using begin_inv [OF w1(2) b] by simp
  have keep: "tasks (foldl put_dispatch v bs) = tasks v" for v bs
    by (induction bs arbitrary: v) (simp_all add: put_dispatch_def)
  have dist: "distinct (map wd_id ?batch)" by (rule pending_batch_distinct [OF inv])
  have mem: "x \<in> set (dispatches ?w2)" if x: "x \<in> set ?batch" for x
  proof (rule foldl_put_mem [OF x dist])
    obtain d where d: "d \<in> set (pending_batch w1 None limit)" "x = attempted now d" using x pb by auto
    then show "wd_id x \<in> wd_id ` set (dispatches (w1\<lparr>schedules := s\<rparr>))"
      using pending_batch_mem [OF d(1)] by (simp add: attempted_def)
  qed
  have "validated_dispatch_payload env (attempted now d) = validated_dispatch_payload env d" for d
    by (simp add: validated_dispatch_payload_def attempted_def)
  then have all: "\<forall>x\<in>set ?batch. x \<in> set (dispatches ?w2) \<and> wd_delivery_state x = ''attempting''
      \<and> (\<exists>payload. validated_dispatch_payload env x = Inr payload)"
    using mem ok by (auto simp: attempted_def)
  have "tasks ?w2 = []" using w1(3) by (simp add: keep)
  then obtain w' where w': "deliver_all env now ?w2 ?batch = (w', Inr ())" "delivery_inv w'"
      "\<forall>d\<in>set ?batch. delivered_in w' (dispatch_ident d)"
    using deliver_all_run [OF inv2 _ dist all] by blast
  have "dispatch_ident (attempted now d) = dispatch_ident d" for d by (simp add: dispatch_ident_def attempted_def)
  then have "\<forall>d\<in>set (pending_batch w None limit). delivered_in w' (dispatch_ident d)" using w'(3) by simp
  then show ?thesis using l w1(1) b w' by (intro exI [of _ w']) (simp add: deliver_pending_dispatches_def)
qed



end
