(* ===== verification/Engine.thy ===== *)
theory Engine
  imports Engine_Core Dispatch_Runs Registry
begin

text \<open>
  The handlers of \<open>app/orchestrator/engine.py\<close>: \<open>start_job\<close>, the dispatch of ready nodes,
  \<open>on_node_completed\<close> and \<open>on_node_failed\<close>. A handler is a sequence of transactions; each begins by
  locking the authority of the job. What other sessions commit before a lock is granted is the function
  \<open>others\<close> of the environment, applied to the world at that point and named by a \<open>gap\<close>, so the handlers
  are functions of every interference. A rollback returns the world before the transaction.

  A handler that raises returns the world it has committed and the text of the exception. The clock
  of a handler is its argument \<open>now\<close>. The texts of a task payload are kept as the values they print.
\<close>

section \<open>Environment\<close>

datatype gap =
    Launch | Before_launch_recheck | Before_dispatch | Launch_failed
  | Before_node_launch string | Before_node_dispatch string | Before_finalize
  | Node_event | After_completion | After_cache | After_retry

record engine_env =
  cache_of :: cache_env
  registry_of :: registry
  others :: "gap \<Rightarrow> world \<Rightarrow> world"

type_synonym outcome = "world \<times> (string + unit)"

fun py_exn_text :: "py_exn \<Rightarrow> string" where
  "py_exn_text ValueError = ''ValueError''"
| "py_exn_text TypeError = ''TypeError''"
| "py_exn_text KeyError = ''KeyError''"
| "py_exn_text OverflowError = ''OverflowError''"

fun receipt_error_text :: "receipt_error \<Rightarrow> string" where
  "receipt_error_text (RegisteredWorkerEventError m) = m"
| "receipt_error_text (AuthorityBlocked m) = m"
| "receipt_error_text LimitValueError = ''limit must be positive''"
| "receipt_error_text MultipleResultsFound = ''Multiple rows were found when one or none was required''"
| "receipt_error_text IntegrityError = ''IntegrityError''"
| "receipt_error_text (PyError e) = py_exn_text e"

definition worker_type_of :: "engine_env \<Rightarrow> string \<Rightarrow> string" where
  "worker_type_of env ntype =
     (case get_type (registry_of env) ntype of None \<Rightarrow> ''ffmpeg'' | Some d \<Rightarrow> worker_type d)"

definition TASK_STREAM :: "string \<Rightarrow> string" where
  "TASK_STREAM wt = ''vp:tasks:'' @ wt"

definition task_payload ::
  "datetime \<Rightarrow> Job \<Rightarrow> NodeExecution \<Rightarrow> (string, uuid) dict \<Rightarrow> string list \<Rightarrow> (string, pyval) dict" where
  "task_payload now job ne input_artifacts preferred_hosts =
     [(''job_id'', PStr (uuid_str (job_id job))), (''node_execution_id'', PStr (uuid_str (ne_id ne))),
      (''node_id'', PStr (ne_node_id ne)), (''node_type'', PStr (ne_node_type ne)),
      (''config'', PDict (ne_node_config ne)),
      (''input_artifacts'', PDict (map (\<lambda>(h, a). (h, PStr (uuid_str a))) input_artifacts)),
      (''preferred_hosts'', PList (map PStr preferred_hosts)), (''affinity_enqueued_at'', PInt now),
      (''affinity_bounces'', PStr ''0'')]"

definition deps_done :: "Job \<Rightarrow> string list \<Rightarrow> bool" where
  "deps_done job deps \<longleftrightarrow>
     list_all (\<lambda>dep. case dict_get (executions_by_node_id job) dep of
                       None \<Rightarrow> False | Some n \<Rightarrow> ne_status n = SUCCEEDED) deps"

definition plan_dependencies :: "Job \<Rightarrow> (string, string list) dict" where
  "plan_dependencies job = (case execution_plan job of None \<Rightarrow> [] | Some p \<Rightarrow> dependencies p)"

section \<open>Locks\<close>

definition lock_initial_launch_authority :: "engine_env \<Rightarrow> gap \<Rightarrow> world \<Rightarrow> uuid \<Rightarrow> world \<times> Job option" where
  "lock_initial_launch_authority env g w jid =
     (let w0 = others env g w in
      case lock_job_execution_authority w w0 jid None True of
        Inl _ \<Rightarrow> (w0, None)
      | Inr (w1, a) \<Rightarrow>
          (let job = auth_job a in
           if (case auth_channel a of None \<Rightarrow> False | Some c \<Rightarrow> \<not> channel_enabled c \<or> channel_halted_at c \<noteq> None)
           then (w0, None)
           else if (case auth_task a of None \<Rightarrow> False | Some t \<Rightarrow> task_state t \<noteq> ''producing'') then (w0, None)
           else if job_status job \<in> {JOB_SUCCEEDED, JOB_FAILED, JOB_CANCELLED, PARTIALLY_FAILED} then (w0, None)
           else if should_defer_job_start job (schedule_state_of w1 (auth_schedule a)) (guarded_job_id (auth_schedule a))
           then (put_job w1 (deferred_job job), None)
           else (w1, Some job)))"

definition lock_dispatch_authority ::
  "engine_env \<Rightarrow> gap \<Rightarrow> world \<Rightarrow> uuid \<Rightarrow> uuid \<Rightarrow> world \<times> (world \<times> Job \<times> NodeExecution) option" where
  "lock_dispatch_authority env g w jid nid =
     (let w0 = others env g w in
      case lock_job_execution_authority w w0 jid (Some nid) False of
        Inl _ \<Rightarrow> (w0, None)
      | Inr (w1, a) \<Rightarrow>
          (case require_active_execution_authority a {JOB_RUNNING} (Some {PENDING}) of
             Inl _ \<Rightarrow> (w0, None)
           | Inr _ \<Rightarrow> (case auth_node a of None \<Rightarrow> (w0, None) | Some n \<Rightarrow> (w0, Some (w1, auth_job a, n)))))"

text \<open>The lock, the permission and the claim an event of a worker has to pass.\<close>

definition lock_claim_authority ::
  "engine_env \<Rightarrow> gap \<Rightarrow> world \<Rightarrow> uuid \<Rightarrow> uuid \<Rightarrow> NodeStatus \<Rightarrow> bool \<Rightarrow> NodeExecutionClaim
   \<Rightarrow> world \<times> (world \<times> Job \<times> NodeExecution) option" where
  "lock_claim_authority env g w jid nid st lock_all_nodes claim =
     (let w0 = others env g w in
      case lock_job_execution_authority w w0 jid (Some nid) lock_all_nodes of
        Inl _ \<Rightarrow> (w0, None)
      | Inr (w1, a) \<Rightarrow>
          (case (require_active_execution_authority a {JOB_RUNNING} (Some {st}),
                 require_matching_node_execution_claim a claim, auth_node a) of
             (Inr _, Inr _, Some n) \<Rightarrow> (w0, Some (w1, auth_job a, n))
           | _ \<Rightarrow> (w0, None)))"

section \<open>Source nodes\<close>

text \<open>An identifier is read back from its one text.\<close>

definition parse_uuid :: "pyval \<Rightarrow> uuid option" where
  "parse_uuid v = (case v of
       PStr s \<Rightarrow> if uuid_str (nat_of_digits s) = s then Some (nat_of_digits s) else None
     | _ \<Rightarrow> None)"

definition source_artifact :: "uuid \<Rightarrow> Job \<Rightarrow> NodeExecution \<Rightarrow> Asset \<Rightarrow> Artifact" where
  "source_artifact i job ne asset =
     \<lparr>art_id = i, art_job_id = job_id job, art_node_execution_id = ne_id ne, art_kind = INTERMEDIATE,
      art_filename = asset_filename asset, art_mime_type = asset_mime_type asset, art_file_size = asset_file_size asset,
      art_storage_backend = asset_storage_backend asset, art_storage_path = asset_storage_path asset,
      art_media_info = Some (dict_set (dict_set (dict_set (case asset_media_info asset of None \<Rightarrow> [] | Some m \<Rightarrow> m)
        ''source_asset_id'' (PStr (uuid_str (asset_id asset)))) ''asset_id'' (PStr (uuid_str (asset_id asset))))
        ''original_name'' (PStr (asset_original_name asset)))\<rparr>"

fun asset_text :: "pyval \<Rightarrow> string" where
  "asset_text (PStr s) = s"
| "asset_text _ = ''?''"

definition source_failed :: "datetime \<Rightarrow> string \<Rightarrow> NodeExecution \<Rightarrow> NodeExecution" where
  "source_failed now msg ne = ne\<lparr>ne_status := FAILED, ne_error_message := Some msg, ne_completed_at := Some now\<rparr>"

definition resolve_source_node :: "datetime \<Rightarrow> world \<Rightarrow> Job \<Rightarrow> NodeExecution \<Rightarrow> string + world \<times> NodeExecution" where
  "resolve_source_node now w job ne =
     (if ne_node_type ne \<noteq> ''source'' then Inr (w, ne)
      else if ne_status ne = SUCCEEDED \<and> ne_output_artifact_id ne \<noteq> None then Inr (w, ne)
      else if ne_status ne \<in> {CANCELLED, FAILED, SKIPPED} then Inr (w, ne)
      else
        (case dict_get (ne_node_config ne) ''asset_id'' of
           None \<Rightarrow> Inr (w, source_failed now ''No asset_id configured'' ne)
         | Some v \<Rightarrow>
             if \<not> py_truthy v then Inr (w, source_failed now ''No asset_id configured'' ne)
             else
               (case parse_uuid v of
                  None \<Rightarrow> Inl ''badly formed hexadecimal UUID string''
                | Some aid \<Rightarrow>
                    (case row_get asset_id (assets w) aid of
                       None \<Rightarrow> Inr (w, source_failed now (''Asset '' @ asset_text v @ '' not found'') ne)
                     | Some asset \<Rightarrow>
                         Inr (w\<lparr>artifacts := artifacts w @ [source_artifact (next_id w) job ne asset], next_id := next_id w + 1\<rparr>,
                              ne\<lparr>ne_status := SUCCEEDED, ne_output_artifact_id := Some (next_id w), ne_started_at := Some now,
                                ne_completed_at := Some now, ne_progress := 100\<rparr>)))))"

primrec resolve_nodes :: "datetime \<Rightarrow> world \<Rightarrow> Job \<Rightarrow> NodeExecution list \<Rightarrow> string + world \<times> NodeExecution list" where
  "resolve_nodes now w job [] = Inr (w, [])"
| "resolve_nodes now w job (n # ns) =
     (case resolve_source_node now w job n of
        Inl e \<Rightarrow> Inl e
      | Inr (w', n') \<Rightarrow>
          (case resolve_nodes now w' job ns of Inl e \<Rightarrow> Inl e | Inr (w'', ns') \<Rightarrow> Inr (w'', n' # ns')))"

definition resolve_source_nodes :: "datetime \<Rightarrow> world \<Rightarrow> Job \<Rightarrow> string + world" where
  "resolve_source_nodes now w job =
     (case resolve_nodes now w job (node_executions job) of
        Inl e \<Rightarrow> Inl e
      | Inr (w', ns) \<Rightarrow> Inr (put_job w' (job\<lparr>node_executions := ns\<rparr>)))"

section \<open>Dispatch of ready nodes\<close>

text \<open>The node as the cache hit leaves it, or None when there is no hit.\<close>

definition apply_cached_artifact_uncommitted ::
  "engine_env \<Rightarrow> world \<Rightarrow> datetime \<Rightarrow> Job \<Rightarrow> NodeExecution \<Rightarrow> (string, Artifact) dict \<Rightarrow> bool
   \<Rightarrow> receipt_error + world \<times> NodeExecution option" where
  "apply_cached_artifact_uncommitted env w now job ne inp registered =
     (if registered \<and> (ne_status ne \<noteq> PENDING \<or> ne_worker_id ne \<noteq> None \<or> ne_worker_registration_id ne \<noteq> None
                        \<or> ne_worker_lease_epoch ne \<noteq> None \<or> ne_started_at ne \<noteq> None)
      then Inl (RegisteredWorkerEventError ''registered cache node authority changed'')
      else
        (case cache_lookup (cache_of env) w (ne_node_type ne) (ne_node_config ne) inp registered of
           Inl e \<Rightarrow> if registered then Inl (PyError e) else Inr (w, None)
         | Inr (w1, None) \<Rightarrow> Inr (w1, None)
         | Inr (w1, Some entry) \<Rightarrow>
             (case materialize_hit w1 entry (job_id job) (ne_id ne) of
                Inl e \<Rightarrow> Inl (PyError e)
              | Inr (w2, cached) \<Rightarrow>
                  (let ne' = ne\<lparr>ne_status := SUCCEEDED,
                                ne_started_at := (if registered then ne_started_at ne
                                  else (case ne_started_at ne of None \<Rightarrow> Some now | Some t \<Rightarrow> Some t)),
                                ne_completed_at := Some now, ne_progress := 100, ne_output_artifact_id := Some (art_id cached),
                                ne_input_artifact_ids := map (\<lambda>(_, a). art_id a) inp\<rparr>
                   in Inr (record_hit w2 now entry, Some ne')))))"

definition queued :: "datetime \<Rightarrow> (string, uuid) dict \<Rightarrow> NodeExecution \<Rightarrow> NodeExecution" where
  "queued now input_artifacts ne =
     ne\<lparr>ne_status := QUEUED, ne_queued_at := Some now, ne_input_artifact_ids := map snd input_artifacts\<rparr>"

text \<open>How an iteration of the loop ends: with the next node, with a return, or with an exception.\<close>

datatype node_end = Continue | Return | Raise string

definition dispatch_locked_node ::
  "engine_env \<Rightarrow> datetime \<Rightarrow> world \<Rightarrow> world \<Rightarrow> Job \<Rightarrow> NodeExecution \<Rightarrow> world \<times> Job \<times> node_end" where
  "dispatch_locked_node env now w0 w1 job ne =
     (let deps = dict_get_or (plan_dependencies job) (ne_node_id ne) [] in
      if \<not> deps_done job deps then (w0, job, Continue)
      else
        (let input_artifacts = receipt_input_artifacts job (ne_node_id ne);
             input_objects = input_artifacts_by_handle w1 input_artifacts
         in case apply_cached_artifact_uncommitted env w1 now job ne input_objects False of
              Inl e \<Rightarrow> (w0, job, Raise (receipt_error_text e))
            | Inr (w2, Some ne') \<Rightarrow>
                (let job' = put_execution job ne' in (put_job w2 job', job', Continue))
            | Inr (w2, None) \<Rightarrow>
                (let preferred_hosts = preferred_hosts_for_node (executions_by_node_id job) deps;
                     wt = worker_type_of env (ne_node_type ne);
                     ne' = queued now input_artifacts ne;
                     job' = put_execution job ne'
                 in case stage_worker_task_dispatch (cache_of env) (put_job w2 job') now None (job_id job) (ne_id ne)
                           (TASK_STREAM wt) (wt @ ''-workers'') (task_payload now job ne input_artifacts preferred_hosts) of
                      Inl e \<Rightarrow> (w0, job, Raise (receipt_error_text e))
                    | Inr w3 \<Rightarrow>
                        (case deliver_pending_dispatches (cache_of env) w3 now 60 None 100 of
                           (w4, Inl e) \<Rightarrow> (w4, job', Raise (receipt_error_text e))
                         | (w4, Inr _) \<Rightarrow> (w4, job', Continue)))))"

definition dispatch_node ::
  "engine_env \<Rightarrow> datetime \<Rightarrow> (string, string list) dict \<Rightarrow> world \<Rightarrow> Job \<Rightarrow> string \<Rightarrow> world \<times> Job \<times> node_end" where
  "dispatch_node env now current_dep_map w job nid =
     (case dict_get current_dep_map nid of
        None \<Rightarrow> (w, job, Continue)
      | Some deps \<Rightarrow>
          (case dict_get (executions_by_node_id job) nid of
             None \<Rightarrow> (w, job, Continue)
           | Some ne \<Rightarrow>
               if ne_status ne \<noteq> PENDING then (w, job, Continue)
               else if \<not> deps_done job deps then (w, job, Continue)
               else
                 (case lock_dispatch_authority env (Before_node_dispatch nid) w (job_id job) (ne_id ne) of
                    (w0, None) \<Rightarrow> (w0, job, Return)
                  | (w0, Some (w1, job1, ne1)) \<Rightarrow> dispatch_locked_node env now w0 w1 job1 ne1)))"

definition observed_ready :: "(string, string list) dict \<Rightarrow> Job \<Rightarrow> string \<Rightarrow> bool" where
  "observed_ready dep_map job nid \<longleftrightarrow>
     (case dict_get (executions_by_node_id job) nid of
        None \<Rightarrow> False
      | Some n \<Rightarrow> ne_status n = PENDING \<and> deps_done job (dict_get_or dep_map nid []))"

primrec dispatch_loop ::
  "engine_env \<Rightarrow> datetime \<Rightarrow> bool \<Rightarrow> (string, string list) dict \<Rightarrow> string list \<Rightarrow> world \<Rightarrow> Job \<Rightarrow> world \<times> Job \<times> node_end" where
  "dispatch_loop env now guarded dep_map [] w job = (w, job, Continue)"
| "dispatch_loop env now guarded dep_map (nid # nids) w job =
     (let (w', job', end') =
        (if guarded then
           (if \<not> observed_ready dep_map job nid then (w, job, Continue)
            else
              (case lock_initial_launch_authority env (Before_node_launch nid) w (job_id job) of
                 (w1, None) \<Rightarrow> (w1, job, Return)
               | (w1, Some job1) \<Rightarrow> dispatch_node env now (build_dependency_map (pipeline_snapshot job1)) w1 job1 nid))
         else dispatch_node env now dep_map w job nid)
      in case end' of Continue \<Rightarrow> dispatch_loop env now guarded dep_map nids w' job' | _ \<Rightarrow> (w', job', end'))"

text \<open>
  \<open>_maybe_finalize_job\<close> on the loaded job: the columns it changes are written over the row as it is then,
  which no lock protects after the last commit of the loop.
\<close>

definition maybe_finalize_job :: "engine_env \<Rightarrow> world \<Rightarrow> datetime \<Rightarrow> Job \<Rightarrow> world" where
  "maybe_finalize_job env w now job =
     (let w0 = others env Before_finalize w in
      case apply_job_finalization w0 now job of
        (False, _, _) \<Rightarrow> w0
      | (True, w1, job') \<Rightarrow>
          (case get_job w1 (job_id job) of
             None \<Rightarrow> w1
           | Some row \<Rightarrow> put_job w1 (row\<lparr>job_status := job_status job', job_error_message :=
               (if job_error_message job' = job_error_message job then job_error_message row else job_error_message job'),
               job_completed_at := job_completed_at job'\<rparr>)))"

definition dispatch_ready_nodes ::
  "engine_env \<Rightarrow> datetime \<Rightarrow> bool \<Rightarrow> (string, string list) dict \<Rightarrow> world \<Rightarrow> Job \<Rightarrow> outcome" where
  "dispatch_ready_nodes env now guarded dep_map w job =
     (if job_status job = JOB_CANCELLED then (w, Inr ())
      else
        (case dispatch_loop env now guarded dep_map (dict_keys dep_map) w job of
           (w', _, Raise e) \<Rightarrow> (w', Inl e)
         | (w', _, Return) \<Rightarrow> (w', Inr ())
         | (w', job', Continue) \<Rightarrow> (maybe_finalize_job env w' now job', Inr ())))"

section \<open>Starting a job\<close>

definition reset_unclaimed :: "NodeExecution \<Rightarrow> NodeExecution" where
  "reset_unclaimed n =
     (if ne_status n = QUEUED \<and> ne_worker_id n = None \<and> ne_started_at n = None
      then n\<lparr>ne_status := PENDING, ne_queued_at := None\<rparr> else n)"

definition planned_job :: "datetime \<Rightarrow> Job \<Rightarrow> py_exn + Job" where
  "planned_job now job =
     (case topological_sort (pipeline_snapshot job) of
        Inl e \<Rightarrow> Inl e
      | Inr order \<Rightarrow>
          Inr (job\<lparr>node_executions := map reset_unclaimed (node_executions job), job_started_at := Some now,
                   execution_plan := Some \<lparr>topo_order = order, dependencies = build_dependency_map (pipeline_snapshot job)\<rparr>,
                   job_status := JOB_RUNNING\<rparr>))"

text \<open>The body of the \<open>try\<close>: the world it has committed, and the exception that ends it.\<close>

definition launch_job :: "engine_env \<Rightarrow> datetime \<Rightarrow> world \<Rightarrow> Job \<Rightarrow> outcome" where
  "launch_job env now w1 job =
     (case planned_job now job of
        Inl e \<Rightarrow> (w1, Inl (py_exn_text e))
      | Inr job1 \<Rightarrow>
          (case lock_initial_launch_authority env Before_launch_recheck (put_job w1 job1) (job_id job) of
             (w2, None) \<Rightarrow> (w2, Inr ())
           | (w2, Some job2) \<Rightarrow>
               (case resolve_source_nodes now w2 job2 of
                  Inl e \<Rightarrow> (w2, Inl e)
                | Inr w3 \<Rightarrow>
                    (case lock_initial_launch_authority env Before_dispatch w3 (job_id job) of
                       (w4, None) \<Rightarrow> (w4, Inr ())
                     | (w4, Some job4) \<Rightarrow>
                         dispatch_ready_nodes env now True (build_dependency_map (pipeline_snapshot job)) w4 job4))))"

definition start_job :: "engine_env \<Rightarrow> datetime \<Rightarrow> world \<Rightarrow> uuid \<Rightarrow> world" where
  "start_job env now w jid =
     (case lock_initial_launch_authority env Launch w jid of
        (w1, None) \<Rightarrow> w1
      | (w1, Some job) \<Rightarrow>
          (case launch_job env now w1 job of
             (w2, Inr _) \<Rightarrow> w2
           | (w2, Inl e) \<Rightarrow>
               (case lock_initial_launch_authority env Launch_failed w2 jid of
                  (w3, None) \<Rightarrow> w3
                | (w3, Some fresh) \<Rightarrow>
                    put_job w3 (fresh\<lparr>job_status := JOB_FAILED, job_error_message := Some e, job_completed_at := Some now\<rparr>))))"

section \<open>Events of workers\<close>

definition completed :: "datetime \<Rightarrow> uuid \<Rightarrow> NodeExecution \<Rightarrow> NodeExecution" where
  "completed now out ne =
     ne\<lparr>ne_status := SUCCEEDED, ne_output_artifact_id := Some out, ne_completed_at := Some now, ne_progress := 100\<rparr>"

definition finalize_locked :: "world \<Rightarrow> datetime \<Rightarrow> Job \<Rightarrow> bool \<times> world" where
  "finalize_locked w now job =
     (case apply_job_finalization w now job of
        (False, _, _) \<Rightarrow> (False, w) | (True, w1, job') \<Rightarrow> (True, put_job w1 job'))"

definition on_node_completed ::
  "engine_env \<Rightarrow> datetime \<Rightarrow> world \<Rightarrow> uuid \<Rightarrow> uuid \<Rightarrow> uuid \<Rightarrow> NodeExecutionClaim \<Rightarrow> outcome" where
  "on_node_completed env now w jid nid out claim =
     (if claim_worker_registration_id claim \<noteq> None
      then (w, Inl ''registered worker events require a durable receipt'')
      else
        (case lock_claim_authority env Node_event w jid nid RUNNING False claim of
           (w0, None) \<Rightarrow> (w0, Inr ())
         | (w0, Some (w1, job, ne)) \<Rightarrow>
             (let ne1 = completed now out ne;
                  job1 = put_execution job ne1;
                  w2 = others env After_completion (put_job w1 job1);
                  w3 = (case write_artifact_cache_for_node (cache_of env) w2 now job1 ne1 of Inl _ \<Rightarrow> w2 | Inr w' \<Rightarrow> w')
              in case lock_claim_authority env After_cache w3 jid nid SUCCEEDED True claim of
                   (w4, None) \<Rightarrow> (w4, Inr ())
                 | (w4, Some (w5, job5, ne5)) \<Rightarrow>
                     (case finalize_locked w5 now job5 of
                        (True, w6) \<Rightarrow> (w6, Inr ())
                      | (False, w6) \<Rightarrow> dispatch_ready_nodes env now False (plan_dependencies job5) w6 job5))))"

definition retried :: "datetime \<Rightarrow> NodeExecution \<Rightarrow> NodeExecution" where
  "retried now ne =
     ne\<lparr>ne_retry_count := ne_retry_count ne + 1, ne_status := QUEUED, ne_error_message := None, ne_queued_at := Some now\<rparr>"

definition node_failed :: "datetime \<Rightarrow> string \<Rightarrow> NodeExecution \<Rightarrow> NodeExecution" where
  "node_failed now err ne = ne\<lparr>ne_status := FAILED, ne_error_message := Some err, ne_completed_at := Some now\<rparr>"

text \<open>The second transaction of a retry: the task goes straight to the stream, without a dispatch row.\<close>

definition redispatch_node :: "engine_env \<Rightarrow> datetime \<Rightarrow> world \<Rightarrow> Job \<Rightarrow> NodeExecution \<Rightarrow> world" where
  "redispatch_node env now w job ne =
     (let deps = dict_get_or (plan_dependencies job) (ne_node_id ne) [];
          hosts = preferred_hosts_for_node (executions_by_node_id job) deps;
          input_artifacts = receipt_input_artifacts job (ne_node_id ne)
      in w\<lparr>task_streams := task_streams w @ [(TASK_STREAM (worker_type_of env (ne_node_type ne)),
             string_of_nat (next_id w), task_payload now job ne input_artifacts hosts)], next_id := next_id w + 1\<rparr>)"

definition fail_node :: "datetime \<Rightarrow> string \<Rightarrow> Job \<Rightarrow> NodeExecution \<Rightarrow> Job" where
  "fail_node now err job ne =
     (skip_downstream now (put_execution job (node_failed now err ne)) (ne_node_id ne) (plan_dependencies job))
       \<lparr>job_error_message := Some (''Node '' @ [CHR 0x27] @ ne_node_label ne @ [CHR 0x27] @ '' failed: '' @ err)\<rparr>"

definition on_node_failed ::
  "engine_env \<Rightarrow> datetime \<Rightarrow> world \<Rightarrow> uuid \<Rightarrow> uuid \<Rightarrow> string \<Rightarrow> NodeExecutionClaim \<Rightarrow> outcome" where
  "on_node_failed env now w jid nid err claim =
     (if claim_worker_registration_id claim \<noteq> None
      then (w, Inl ''registered worker events require a durable receipt'')
      else
        (case lock_claim_authority env Node_event w jid nid RUNNING True claim of
           (w0, None) \<Rightarrow> (w0, Inr ())
         | (w0, Some (w1, job, ne)) \<Rightarrow>
             if ne_retry_count ne < 1 then
               (case lock_claim_authority env After_retry (put_job w1 (put_execution job (retried now ne))) jid nid QUEUED False claim of
                  (w2, None) \<Rightarrow> (w2, Inr ())
                | (w2, Some (w3, job3, ne3)) \<Rightarrow> (redispatch_node env now w3 job3 ne3, Inr ()))
             else
               (let job' = fail_node now err job ne in
                case finalize_locked w1 now job' of
                  (True, w2) \<Rightarrow> (w2, Inr ())
                | (False, _) \<Rightarrow> (put_job w1 job', Inr ()))))"

end
