(* ===== verification/Receipts.thy ===== *)
theory Receipts
  imports Dispatch_Runs
begin

text \<open>
  Receipts of registered worker events: \<open>RegisteredWorkerEventReceiptService\<close> of
  \<open>app/services/registered_worker_event_receipt.py\<close>, on a database other than PostgreSQL, where the
  acknowledgement functions are Python code and no event emission row is locked. An event is parsed,
  accepted and applied in one transaction, and acknowledged to the broker in a later one.

  The observer of the task delivery and the function that applies an event are arguments, as they
  are in the source. The acknowledgements the broker has seen are the field \<open>redis_acks\<close>: they are not
  undone when the transaction around them is, so an operation returns the world it leaves together
  with its error. An instant is read back from its one text, as an identifier is.
\<close>

section \<open>Events\<close>

record RegisteredWorkerEvent =
  ev_redis_stream :: string
  ev_consumer_group :: string
  ev_message_id :: string
  ev_payload :: "(string, string) dict"
  ev_payload_sha256 :: string
  ev_event_type :: string
  ev_job_id :: uuid
  ev_node_execution_id :: uuid
  ev_claim :: NodeExecutionClaim
  ev_source_task_stream :: string
  ev_source_task_group :: string
  ev_source_task_message_id :: string
  ev_source_task_payload_sha256 :: string
  ev_source_task_dispatch_key :: uuid

definition event_sha256 :: "cache_env \<Rightarrow> (string, string) dict \<Rightarrow> string" where
  "event_sha256 env payload = canonical_redis_payload_sha256 env (map (\<lambda>(k, v). (k, PStr v)) payload)"

definition read_uuid :: "string \<Rightarrow> uuid option" where
  "read_uuid s = (if uuid_str (nat_of_digits s) = s then Some (nat_of_digits s) else None)"

definition string_of_int :: "int \<Rightarrow> string" where
  "string_of_int i = (if i < 0 then ''-'' @ string_of_nat (nat (- i)) else string_of_nat (nat i))"

definition instant_str :: "datetime \<Rightarrow> string" where
  "instant_str t = string_of_int t"

definition read_instant :: "string \<Rightarrow> datetime option" where
  "read_instant s =
     (let t = (case s of CHR ''-'' # ds \<Rightarrow> - int (nat_of_digits ds) | _ \<Rightarrow> int (nat_of_digits s))
      in if instant_str t = s then Some t else None)"

definition text_field :: "(string, string) dict \<Rightarrow> string \<Rightarrow> string option" where
  "text_field payload k =
     (case dict_get payload k of None \<Rightarrow> None | Some v \<Rightarrow> if py_strip v = [] then None else Some v)"

definition parse_registered_worker_event ::
  "cache_env \<Rightarrow> string \<Rightarrow> string \<Rightarrow> string \<Rightarrow> (string, string) dict \<Rightarrow> receipt_error + RegisteredWorkerEvent" where
  "parse_registered_worker_event env stream grp msg payload =
     (if py_strip stream = [] then Inl (RegisteredWorkerEventError ''redis stream is invalid'')
      else if py_strip grp = [] then Inl (RegisteredWorkerEventError ''consumer group is invalid'')
      else if py_strip msg = [] then Inl (RegisteredWorkerEventError ''message id is invalid'')
      else if dict_get payload ''event'' \<notin> {Some ''node_completed'', Some ''node_failed''}
      then Inl (RegisteredWorkerEventError ''registered event type is invalid'')
      else
     (case (Option.bind (dict_get payload ''job_id'') read_uuid, Option.bind (dict_get payload ''node_execution_id'') read_uuid,
            Option.bind (dict_get payload ''worker_registration_id'') read_uuid) of
        (Some jid, Some nid, Some rid) \<Rightarrow>
     (case (text_field payload ''worker_id'', text_field payload ''started_at'', text_field payload ''worker_lease_epoch'',
            text_field payload ''task_stream'', text_field payload ''task_group'', text_field payload ''task_message_id'',
            text_field payload ''task_payload_sha256'') of
        (Some worker, Some started, Some epoch, Some tstream, Some tgroup, Some tmsg, Some tsha) \<Rightarrow>
          if \<not> is_payload_sha256 tsha then Inl (RegisteredWorkerEventError ''registered event task payload hash is invalid'')
          else
     (case Option.bind (text_field payload ''task_dispatch_key'') read_uuid of
        None \<Rightarrow> Inl (RegisteredWorkerEventError ''registered event task dispatch key is invalid'')
      | Some key \<Rightarrow>
          if \<not> list_all is_digit epoch then Inl (RegisteredWorkerEventError ''registered event lease epoch is invalid'')
          else
     (case py_int_of_string epoch of
        Inl e \<Rightarrow> Inl (PyError e)
      | Inr ep \<Rightarrow>
          if ep \<le> 0 then Inl (RegisteredWorkerEventError ''registered event lease epoch is invalid'')
          else
     (case read_instant started of
        None \<Rightarrow> Inl (RegisteredWorkerEventError ''registered event worker start time is invalid'')
      | Some t \<Rightarrow>
          Inr \<lparr>ev_redis_stream = py_strip stream, ev_consumer_group = py_strip grp, ev_message_id = py_strip msg,
               ev_payload = payload, ev_payload_sha256 = event_sha256 env payload,
               ev_event_type = the (dict_get payload ''event''), ev_job_id = jid, ev_node_execution_id = nid,
               ev_claim = \<lparr>claim_job_id = jid, claim_node_execution_id = nid, claim_worker_id = py_strip worker,
                 claim_started_at = t, claim_worker_registration_id = Some rid, claim_worker_lease_epoch = Some ep\<rparr>,
               ev_source_task_stream = py_strip tstream, ev_source_task_group = py_strip tgroup,
               ev_source_task_message_id = py_strip tmsg, ev_source_task_payload_sha256 = tsha,
               ev_source_task_dispatch_key = key\<rparr>)))
      | _ \<Rightarrow> Inl (RegisteredWorkerEventError ''registered event claim or task delivery is invalid''))
      | _ \<Rightarrow> Inl (RegisteredWorkerEventError ''registered event identifiers are invalid'')))"

section \<open>Rows of an event\<close>

definition locked_event_delivery :: "world \<Rightarrow> RegisteredWorkerEvent \<Rightarrow> RegisteredWorkerEventDelivery option" where
  "locked_event_delivery w ev =
     find (\<lambda>d. dl_redis_stream d = ev_redis_stream ev \<and> dl_consumer_group d = ev_consumer_group ev
             \<and> dl_message_id d = ev_message_id ev) (deliveries w)"

definition locked_task_attestation :: "world \<Rightarrow> RegisteredWorkerEvent \<Rightarrow> WorkerTaskDeliveryAttestation option" where
  "locked_task_attestation w ev =
     find (\<lambda>a. at_redis_stream a = ev_source_task_stream ev \<and> at_consumer_group a = ev_source_task_group ev
             \<and> at_message_id a = ev_source_task_message_id ev \<and> at_dispatch_key a = ev_source_task_dispatch_key ev)
       (attestations w)"

definition locked_receipt_for_attestation :: "world \<Rightarrow> uuid \<Rightarrow> RegisteredWorkerEventReceipt option" where
  "locked_receipt_for_attestation w att = row_get rc_source_task_attestation_id (receipts w) att"

definition attestation_mismatch_reason :: "WorkerTaskDeliveryAttestation \<Rightarrow> RegisteredWorkerEvent \<Rightarrow> string option" where
  "attestation_mismatch_reason a ev =
     (let c = ev_claim ev in
      if at_payload_sha256 a \<noteq> ev_source_task_payload_sha256 ev then Some ''source_task_payload_mismatch''
      else if at_job_id a \<noteq> ev_job_id ev \<or> at_node_execution_id a \<noteq> ev_node_execution_id ev
      then Some ''source_task_authority_mismatch''
      else if Some (at_worker_registration_id a) \<noteq> claim_worker_registration_id c
              \<or> Some (at_worker_lease_epoch a) \<noteq> claim_worker_lease_epoch c
              \<or> at_worker_id a \<noteq> claim_worker_id c \<or> at_worker_started_at a \<noteq> claim_started_at c
      then Some ''worker_claim_mismatch'' else None)"

text \<open>\<open>receipt_facts\<close> raises without a registration claim; the facts are compared in their order.\<close>

definition registration_claim :: "RegisteredWorkerEvent \<Rightarrow> receipt_error + uuid \<times> int" where
  "registration_claim ev =
     (case (claim_worker_registration_id (ev_claim ev), claim_worker_lease_epoch (ev_claim ev)) of
        (Some r, Some e) \<Rightarrow> Inr (r, e)
      | _ \<Rightarrow> Inl (RegisteredWorkerEventError ''registered event has no worker registration claim''))"

definition source_receipt_mismatch_reason ::
  "cache_env \<Rightarrow> RegisteredWorkerEventReceipt \<Rightarrow> RegisteredWorkerEvent \<Rightarrow> uuid \<Rightarrow> receipt_error + string option" where
  "source_receipt_mismatch_reason env r ev att =
     (case registration_claim ev of
        Inl e \<Rightarrow> Inl e
      | Inr (reg, epoch) \<Rightarrow>
          (let c = ev_claim ev in
           Inr (if rc_source_task_attestation_id r \<noteq> att then Some ''worker_claim_mismatch''
                else if rc_payload_sha256 r \<noteq> ev_payload_sha256 ev
                        \<or> event_sha256 env (rc_payload_json r) \<noteq> ev_payload_sha256 ev
                        \<or> rc_event_type r \<noteq> ev_event_type ev then Some ''event_payload_mismatch''
                else if rc_job_id r \<noteq> ev_job_id ev \<or> rc_node_execution_id r \<noteq> ev_node_execution_id ev
                        \<or> rc_worker_registration_id r \<noteq> reg \<or> rc_worker_lease_epoch r \<noteq> epoch
                        \<or> rc_worker_id r \<noteq> claim_worker_id c \<or> rc_worker_started_at r \<noteq> claim_started_at c
                        \<or> rc_source_task_stream r \<noteq> ev_source_task_stream ev
                        \<or> rc_source_task_group r \<noteq> ev_source_task_group ev
                        \<or> rc_source_task_message_id r \<noteq> ev_source_task_message_id ev
                then Some ''worker_claim_mismatch'' else None)))"

definition new_receipt ::
  "uuid \<Rightarrow> datetime \<Rightarrow> uuid \<Rightarrow> RegisteredWorkerEvent \<Rightarrow> uuid \<times> int \<Rightarrow> RegisteredWorkerEventReceipt" where
  "new_receipt i now att ev = (\<lambda>(reg, epoch).
     \<lparr>rc_id = i, rc_source_task_attestation_id = att, rc_redis_stream = ev_redis_stream ev,
      rc_consumer_group = ev_consumer_group ev, rc_message_id = ev_message_id ev,
      rc_payload_sha256 = ev_payload_sha256 ev, rc_payload_json = ev_payload ev, rc_event_type = ev_event_type ev,
      rc_job_id = ev_job_id ev, rc_node_execution_id = ev_node_execution_id ev, rc_worker_registration_id = reg,
      rc_worker_lease_epoch = epoch, rc_worker_id = claim_worker_id (ev_claim ev),
      rc_worker_started_at = claim_started_at (ev_claim ev), rc_source_task_stream = ev_source_task_stream ev,
      rc_source_task_group = ev_source_task_group ev, rc_source_task_message_id = ev_source_task_message_id ev,
      rc_application_state = ''accepted'', rc_ack_state = ''pending'', rc_source_task_ack_state = ''pending'',
      rc_accepted_at = now, rc_applied_at = None, rc_acknowledged_at = None, rc_source_task_acknowledged_at = None\<rparr>)"

definition add_event_delivery ::
  "world \<Rightarrow> datetime \<Rightarrow> uuid option \<Rightarrow> uuid \<Rightarrow> RegisteredWorkerEvent \<Rightarrow> string \<Rightarrow> string option \<Rightarrow> world" where
  "add_event_delivery w now rid att ev st reason =
     w\<lparr>deliveries := deliveries w @ [\<lparr>dl_id = next_id w, dl_source_task_attestation_id = att, dl_receipt_id = rid,
         dl_redis_stream = ev_redis_stream ev, dl_consumer_group = ev_consumer_group ev, dl_message_id = ev_message_id ev,
         dl_payload_sha256 = ev_payload_sha256 ev, dl_resolution_state = st, dl_reason_code = reason,
         dl_ack_state = ''pending'', dl_accepted_at = now, dl_acknowledged_at = None\<rparr>], next_id := next_id w + 1\<rparr>"

definition get_receipt :: "world \<Rightarrow> uuid \<Rightarrow> RegisteredWorkerEventReceipt option" where
  "get_receipt w i = row_get rc_id (receipts w) i"

definition put_receipt :: "world \<Rightarrow> RegisteredWorkerEventReceipt \<Rightarrow> world" where
  "put_receipt w r = w\<lparr>receipts := row_put rc_id (receipts w) r\<rparr>"

interpretation receipt_rows: row_table rc_id get_receipt put_receipt
  by unfold_locales (auto simp: get_receipt_def put_receipt_def row_get_put dest: row_get_key)

section \<open>Accepting an event\<close>

type_synonym observer = "world \<Rightarrow> RegisteredWorkerEvent \<Rightarrow> receipt_error + uuid"
type_synonym applier = "world \<Rightarrow> RegisteredWorkerEventReceipt \<Rightarrow> RegisteredWorkerEvent \<Rightarrow> receipt_error + world"

definition require_matching_event_delivery_identity ::
  "RegisteredWorkerEventDelivery \<Rightarrow> RegisteredWorkerEvent \<Rightarrow> receipt_error + unit" where
  "require_matching_event_delivery_identity d ev =
     (if dl_redis_stream d \<noteq> ev_redis_stream ev \<or> dl_consumer_group d \<noteq> ev_consumer_group ev
         \<or> dl_message_id d \<noteq> ev_message_id ev \<or> dl_payload_sha256 d \<noteq> ev_payload_sha256 ev
      then Inl (RegisteredWorkerEventError ''registered event delivery fact or payload hash mismatch'') else Inr ())"

definition require_matching_delivery ::
  "cache_env \<Rightarrow> RegisteredWorkerEventDelivery \<Rightarrow> RegisteredWorkerEventReceipt \<Rightarrow> RegisteredWorkerEvent \<Rightarrow> receipt_error + unit" where
  "require_matching_delivery env d r ev =
     (case require_matching_event_delivery_identity d ev of
        Inl e \<Rightarrow> Inl e
      | Inr _ \<Rightarrow>
          (case source_receipt_mismatch_reason env r ev (rc_source_task_attestation_id r) of
             Inl e \<Rightarrow> Inl e
           | Inr None \<Rightarrow> Inr ()
           | Inr (Some _) \<Rightarrow> Inl (RegisteredWorkerEventError ''registered event receipt fact or payload hash mismatch'')))"

definition receipt_for_delivery :: "world \<Rightarrow> RegisteredWorkerEventDelivery \<Rightarrow> receipt_error + RegisteredWorkerEventReceipt" where
  "receipt_for_delivery w d =
     (case dl_receipt_id d of
        None \<Rightarrow> Inl (RegisteredWorkerEventError ''accepted registered event delivery has no receipt'')
      | Some rid \<Rightarrow>
          (case get_receipt w rid of
             None \<Rightarrow> Inl (RegisteredWorkerEventError ''registered event receipt is missing'') | Some r \<Rightarrow> Inr r))"

text \<open>An event message that has been seen: the receipt it led to, or None when it is quarantined.\<close>

definition redelivered_event ::
  "cache_env \<Rightarrow> world \<Rightarrow> RegisteredWorkerEventDelivery \<Rightarrow> RegisteredWorkerEvent \<Rightarrow> receipt_error + uuid option" where
  "redelivered_event env w d ev =
     (case require_matching_event_delivery_identity d ev of
        Inl e \<Rightarrow> Inl e
      | Inr _ \<Rightarrow>
          if dl_resolution_state d = ''quarantined'' then Inr None
          else
            (case receipt_for_delivery w d of
               Inl e \<Rightarrow> Inl e
             | Inr r \<Rightarrow>
                 (case require_matching_delivery env d r ev of
                    Inl e \<Rightarrow> Inl e
                  | Inr _ \<Rightarrow>
                      if rc_application_state r \<noteq> ''applied''
                      then Inl (RegisteredWorkerEventError ''registered event receipt is not durably applied'')
                      else Inr (Some (rc_id r)))))"

text \<open>A new message for a task that has a receipt.\<close>

definition resume_receipt ::
  "cache_env \<Rightarrow> world \<Rightarrow> datetime \<Rightarrow> RegisteredWorkerEventReceipt \<Rightarrow> RegisteredWorkerEvent \<Rightarrow> uuid
   \<Rightarrow> receipt_error + world \<times> uuid option" where
  "resume_receipt env w now r ev att =
     (case source_receipt_mismatch_reason env r ev att of
        Inl e \<Rightarrow> Inl e
      | Inr (Some reason) \<Rightarrow> Inr (add_event_delivery w now (Some (rc_id r)) att ev ''quarantined'' (Some reason), None)
      | Inr None \<Rightarrow>
          if rc_application_state r \<noteq> ''applied''
          then Inl (RegisteredWorkerEventError ''registered event receipt is not durably applied'')
          else Inr (add_event_delivery w now (Some (rc_id r)) att ev ''accepted'' None, Some (rc_id r)))"

definition receipt_conflict :: "world \<Rightarrow> RegisteredWorkerEvent \<Rightarrow> bool" where
  "receipt_conflict w ev \<longleftrightarrow>
     list_ex (\<lambda>r. rc_redis_stream r = ev_redis_stream ev \<and> rc_consumer_group r = ev_consumer_group ev
                \<and> rc_message_id r = ev_message_id ev
              \<or> rc_source_task_stream r = ev_source_task_stream ev \<and> rc_source_task_group r = ev_source_task_group ev
                \<and> rc_source_task_message_id r = ev_source_task_message_id ev) (receipts w)"

definition apply_new_receipt ::
  "applier \<Rightarrow> world \<Rightarrow> datetime \<Rightarrow> RegisteredWorkerEvent \<Rightarrow> uuid \<Rightarrow> receipt_error + world \<times> uuid option" where
  "apply_new_receipt apply_event w now ev att =
     (case registration_claim ev of
        Inl e \<Rightarrow> Inl e
      | Inr claim \<Rightarrow>
          if receipt_conflict w ev then Inl IntegrityError
          else
            (let r = new_receipt (next_id w) now att ev claim;
                 w1 = w\<lparr>receipts := receipts w @ [r], next_id := next_id w + 1\<rparr>;
                 w2 = add_event_delivery w1 now (Some (rc_id r)) att ev ''accepted'' None
             in case apply_event w2 r ev of
                  Inl e \<Rightarrow> Inl e
                | Inr w3 \<Rightarrow>
                    Inr (put_receipt w3 (r\<lparr>rc_application_state := ''applied'', rc_applied_at := Some now\<rparr>), Some (rc_id r))))"

definition accept_fresh_event ::
  "cache_env \<Rightarrow> observer \<Rightarrow> applier \<Rightarrow> world \<Rightarrow> datetime \<Rightarrow> LockedJobExecutionAuthority \<Rightarrow> RegisteredWorkerEvent
   \<Rightarrow> uuid option \<Rightarrow> uuid \<Rightarrow> receipt_error + world \<times> uuid option" where
  "accept_fresh_event env observe apply_event w now a ev observed att =
     (case locked_receipt_for_attestation w att of
        Some r \<Rightarrow> resume_receipt env w now r ev att
      | None \<Rightarrow>
          (case (case observed of Some i \<Rightarrow> Inr i | None \<Rightarrow> observe w ev) of
             Inl e \<Rightarrow> Inl e
           | Inr observed' \<Rightarrow>
               if observed' \<noteq> att
               then Inl (RegisteredWorkerEventError ''registered event task delivery attestation mismatch'')
               else
                 (case require_active_execution_authority a {JOB_RUNNING} (Some {RUNNING}) of
                    Inl (JobExecutionAuthorityBlocked m) \<Rightarrow> Inl (AuthorityBlocked m)
                  | Inr _ \<Rightarrow>
                 (case require_matching_node_execution_claim a (ev_claim ev) of
                    Inl (JobExecutionAuthorityBlocked m) \<Rightarrow> Inl (AuthorityBlocked m)
                  | Inr _ \<Rightarrow>
                 (case locked_receipt_for_attestation w att of
                    Some r \<Rightarrow> resume_receipt env w now r ev att
                  | None \<Rightarrow> apply_new_receipt apply_event w now ev att)))))"

definition accept_and_apply ::
  "cache_env \<Rightarrow> observer \<Rightarrow> applier \<Rightarrow> world \<Rightarrow> datetime \<Rightarrow> RegisteredWorkerEvent \<Rightarrow> receipt_error + world \<times> uuid option" where
  "accept_and_apply env observe apply_event w now ev =
     (case lock_job_execution_authority w w (ev_job_id ev) (Some (ev_node_execution_id ev)) True of
        Inl (JobExecutionAuthorityBlocked m) \<Rightarrow> Inl (AuthorityBlocked m)
      | Inr (w1, a) \<Rightarrow>
          if claim_worker_registration_id (ev_claim ev) = None
          then Inl (RegisteredWorkerEventError ''registered event worker registration is invalid'')
          else
            (let attestation = locked_task_attestation w1 ev in
             case (case attestation of
                     None \<Rightarrow> map_sum id (\<lambda>i. (Some i, i)) (observe w1 ev)
                   | Some t \<Rightarrow> Inr (None, at_id t)) of
               Inl e \<Rightarrow> Inl e
             | Inr (observed, att) \<Rightarrow>
                 (case locked_event_delivery w1 ev of
                    Some d \<Rightarrow> map_sum id (\<lambda>r. (w1, r)) (redelivered_event env w1 d ev)
                  | None \<Rightarrow>
                      (case Option.bind attestation (\<lambda>t. attestation_mismatch_reason t ev) of
                         Some reason \<Rightarrow>
                           Inr (add_event_delivery w1 now (map_option rc_id (locked_receipt_for_attestation w1 att)) att ev
                                  ''quarantined'' (Some reason), None)
                       | None \<Rightarrow> accept_fresh_event env observe apply_event w1 now a ev observed att))))"

section \<open>Acknowledgements\<close>

type_synonym ack_outcome = "world \<times> (receipt_error + unit)"

definition xack :: "world \<Rightarrow> string \<Rightarrow> string \<Rightarrow> string \<Rightarrow> world" where
  "xack w stream grp msg = w\<lparr>redis_acks := redis_acks w @ [(stream, grp, msg)]\<rparr>"

text \<open>A transaction that raises undoes the tables, not the acknowledgements the broker has received.\<close>

definition rolled_back :: "world \<Rightarrow> world \<Rightarrow> world" where
  "rolled_back w w' = w\<lparr>redis_acks := redis_acks w'\<rparr>"

definition put_attestation :: "world \<Rightarrow> WorkerTaskDeliveryAttestation \<Rightarrow> world" where
  "put_attestation w a = w\<lparr>attestations := row_put at_id (attestations w) a\<rparr>"

definition put_delivery :: "world \<Rightarrow> RegisteredWorkerEventDelivery \<Rightarrow> world" where
  "put_delivery w d = w\<lparr>deliveries := row_put dl_id (deliveries w) d\<rparr>"

definition attested_dispatch :: "world \<Rightarrow> WorkerTaskDeliveryAttestation \<Rightarrow> WorkerTaskDispatch option" where
  "attested_dispatch w a =
     find (\<lambda>d. wd_dispatch_key d = at_dispatch_key a \<and> wd_redis_stream d = at_redis_stream a
             \<and> wd_consumer_group d = at_consumer_group a \<and> wd_redis_message_id d = Some (at_message_id a)
             \<and> wd_payload_sha256 d = at_payload_sha256 a \<and> wd_job_id d = at_job_id a
             \<and> wd_node_execution_id d = at_node_execution_id a) (dispatches w)"

definition mark_proven_task_acknowledged ::
  "world \<Rightarrow> datetime \<Rightarrow> WorkerTaskDeliveryAttestation \<Rightarrow> receipt_error + world" where
  "mark_proven_task_acknowledged w now a =
     (let w1 = put_attestation w (a\<lparr>at_ack_state := ''acknowledged'', at_acknowledged_at := Some now\<rparr>) in
      case attested_dispatch w1 a of
        None \<Rightarrow> Inl (RegisteredWorkerEventError ''worker task dispatch acknowledgement identity mismatch'')
      | Some d \<Rightarrow>
          if wd_delivery_state d \<noteq> ''delivered''
          then Inl (RegisteredWorkerEventError ''worker task dispatch acknowledgement identity mismatch'')
          else if wd_resolution_state d = ''cancelled''
          then Inl (RegisteredWorkerEventError ''cancelled-undelivered dispatch cannot be acknowledged'')
          else if wd_resolution_state d \<noteq> ''acknowledged''
          then Inr (put_dispatch w1 (d\<lparr>wd_resolution_state := ''acknowledged'', wd_acknowledged_at := Some now\<rparr>))
          else Inr w1)"

text \<open>\<open>_lock_delivery_ack_authority\<close>: the rows of a delivery, under the locks of its job.\<close>

definition lock_delivery_ack_authority ::
  "world \<Rightarrow> uuid \<Rightarrow> receipt_error + world \<times> WorkerTaskDeliveryAttestation
     \<times> RegisteredWorkerEventReceipt option \<times> RegisteredWorkerEventDelivery" where
  "lock_delivery_ack_authority w did =
     (case row_get dl_id (deliveries w) did of
        None \<Rightarrow> Inl (RegisteredWorkerEventError ''registered event delivery is missing'')
      | Some d \<Rightarrow>
     (case row_get at_id (attestations w) (dl_source_task_attestation_id d) of
        None \<Rightarrow> Inl (RegisteredWorkerEventError ''registered event delivery is missing'')
      | Some a \<Rightarrow>
     (case lock_job_execution_entry w w (at_job_id a) of
        Inl (JobExecutionAuthorityBlocked m) \<Rightarrow> Inl (AuthorityBlocked m)
      | Inr (w1, _) \<Rightarrow>
     (let receipt = Option.bind (dl_receipt_id d) (row_get rc_id (filter (\<lambda>r. rc_source_task_attestation_id r = at_id a) (receipts w1)))
      in if dl_receipt_id d \<noteq> None \<and> receipt = None
         then Inl (RegisteredWorkerEventError ''registered event receipt is missing'')
         else Inr (w1, a, receipt, d)))))"

definition acknowledged_receipt ::
  "datetime \<Rightarrow> datetime option \<Rightarrow> bool \<Rightarrow> RegisteredWorkerEventReceipt \<Rightarrow> RegisteredWorkerEventReceipt" where
  "acknowledged_receipt now task_at own r =
     r\<lparr>rc_source_task_ack_state := ''acknowledged'', rc_source_task_acknowledged_at := task_at,
       rc_ack_state := (if own then ''acknowledged'' else rc_ack_state r),
       rc_acknowledged_at := (if own then Some now else rc_acknowledged_at r)\<rparr>"

definition acknowledge_locked_delivery ::
  "world \<Rightarrow> datetime \<Rightarrow> WorkerTaskDeliveryAttestation \<Rightarrow> RegisteredWorkerEventReceipt option
   \<Rightarrow> RegisteredWorkerEventDelivery \<Rightarrow> ack_outcome" where
  "acknowledge_locked_delivery w now a receipt d =
     (if (case receipt of None \<Rightarrow> False | Some r \<Rightarrow> rc_source_task_attestation_id r \<noteq> dl_source_task_attestation_id d)
      then (w, Inl (RegisteredWorkerEventError ''registered event task attestation mismatch''))
      else
        (let task = receipt \<noteq> None \<and> at_ack_state a \<noteq> ''acknowledged'';
             event = dl_ack_state d \<noteq> ''acknowledged'';
             w1 = (if task then xack w (at_redis_stream a) (at_consumer_group a) (at_message_id a) else w);
             w2 = (if event then xack w1 (dl_redis_stream d) (dl_consumer_group d) (dl_message_id d) else w1)
         in case (if task then mark_proven_task_acknowledged w2 now a else Inr w2) of
              Inl e \<Rightarrow> (rolled_back w w2, Inl e)
            | Inr w3 \<Rightarrow>
                (let task_at = (if task then Some now
                       else (case at_acknowledged_at a of None \<Rightarrow> Some now | Some t \<Rightarrow> Some t));
                     own = (case receipt of None \<Rightarrow> False | Some r \<Rightarrow> event \<and> rc_redis_stream r = dl_redis_stream d
                              \<and> rc_consumer_group r = dl_consumer_group d \<and> rc_message_id r = dl_message_id d);
                     w4 = (case receipt of
                             None \<Rightarrow> w3
                           | Some r \<Rightarrow> put_receipt w3 (acknowledged_receipt now task_at own r));
                     w5 = (if event then put_delivery w4 (d\<lparr>dl_ack_state := ''acknowledged'', dl_acknowledged_at := Some now\<rparr>)
                           else w4)
                 in (w5, Inr ()))))"

definition acknowledge_delivery_id :: "world \<Rightarrow> datetime \<Rightarrow> uuid \<Rightarrow> ack_outcome" where
  "acknowledge_delivery_id w now did =
     (case lock_delivery_ack_authority w did of
        Inl e \<Rightarrow> (w, Inl e)
      | Inr (w1, a, receipt, d) \<Rightarrow>
          (let receipt' = (if dl_resolution_state d \<noteq> ''accepted'' then None else receipt) in
           if (case receipt' of None \<Rightarrow> False | Some r \<Rightarrow> rc_application_state r \<noteq> ''applied'')
           then (w, Inl (RegisteredWorkerEventError ''registered event receipt is not durably applied''))
           else (case acknowledge_locked_delivery w1 now a receipt' d of
                   (w2, Inl e) \<Rightarrow> (rolled_back w w2, Inl e) | (w2, Inr _) \<Rightarrow> (w2, Inr ()))))"

definition acknowledge_applied :: "cache_env \<Rightarrow> world \<Rightarrow> datetime \<Rightarrow> RegisteredWorkerEvent \<Rightarrow> ack_outcome" where
  "acknowledge_applied env w now ev =
     (case locked_event_delivery w ev of
        None \<Rightarrow> (w, Inl (RegisteredWorkerEventError ''registered event delivery is missing''))
      | Some d0 \<Rightarrow>
     (case lock_delivery_ack_authority w (dl_id d0) of
        Inl e \<Rightarrow> (w, Inl e)
      | Inr (w1, a, receipt, d) \<Rightarrow>
     (case require_matching_event_delivery_identity d ev of
        Inl e \<Rightarrow> (w, Inl e)
      | Inr _ \<Rightarrow>
          (let receipt' = (if dl_resolution_state d \<noteq> ''accepted'' then None else receipt) in
           if dl_resolution_state d = ''accepted'' \<and> receipt = None
           then (w, Inl (RegisteredWorkerEventError ''accepted registered event delivery has no receipt''))
           else
             (case (case receipt' of None \<Rightarrow> Inr () | Some r \<Rightarrow> require_matching_delivery env d r ev) of
                Inl e \<Rightarrow> (w, Inl e)
              | Inr _ \<Rightarrow>
                  if (case receipt' of None \<Rightarrow> False | Some r \<Rightarrow> rc_application_state r \<noteq> ''applied'')
                  then (w, Inl (RegisteredWorkerEventError ''registered event receipt is not durably applied''))
                  else (case acknowledge_locked_delivery w1 now a receipt' d of
                          (w2, Inl e) \<Rightarrow> (rolled_back w w2, Inl e) | (w2, Inr _) \<Rightarrow> (w2, Inr ())))))))"

primrec run_each :: "('a \<Rightarrow> world \<Rightarrow> ack_outcome) \<Rightarrow> 'a list \<Rightarrow> world \<Rightarrow> ack_outcome" where
  "run_each f [] w = (w, Inr ())"
| "run_each f (x # xs) w = (case f x w of (w', Inl e) \<Rightarrow> (w', Inl e) | (w', Inr _) \<Rightarrow> run_each f xs w')"

definition reconcile_pending_acknowledgements :: "world \<Rightarrow> datetime \<Rightarrow> nat \<Rightarrow> ack_outcome" where
  "reconcile_pending_acknowledgements w now limit =
     (if limit = 0 then (w, Inl LimitValueError)
      else run_each (\<lambda>did w. acknowledge_delivery_id w now did)
        (map dl_id (take limit (sort_key dl_accepted_at
          (filter (\<lambda>d. dl_ack_state d \<noteq> ''acknowledged''
             \<and> (dl_resolution_state d = ''quarantined''
                \<or> (case Option.bind (dl_receipt_id d) (get_receipt w) of
                     None \<Rightarrow> False | Some r \<Rightarrow> rc_application_state r = ''applied''))) (deliveries w))))) w)"

definition acknowledge_authorized_task :: "world \<Rightarrow> datetime \<Rightarrow> uuid \<Rightarrow> ack_outcome" where
  "acknowledge_authorized_task w now aid =
     (case row_get at_id (attestations w) aid of
        None \<Rightarrow> (w, Inr ())
      | Some a \<Rightarrow>
     (case lock_job_execution_entry w w (at_job_id a) of
        Inl (JobExecutionAuthorityBlocked m) \<Rightarrow> (w, Inl (AuthorityBlocked m))
      | Inr (w1, _) \<Rightarrow>
          if at_ack_state a = ''acknowledged'' then (w1, Inr ())
          else if at_ack_state a \<noteq> ''authorized''
          then (w, Inl (RegisteredWorkerEventError ''worker task acknowledgement is not authorized''))
          else
            (let w2 = xack w1 (at_redis_stream a) (at_consumer_group a) (at_message_id a) in
             case mark_proven_task_acknowledged w2 now a of
               Inl e \<Rightarrow> (rolled_back w w2, Inl e) | Inr w3 \<Rightarrow> (w3, Inr ()))))"

definition reconcile_authorized_task_acknowledgements :: "world \<Rightarrow> datetime \<Rightarrow> nat \<Rightarrow> ack_outcome" where
  "reconcile_authorized_task_acknowledgements w now limit =
     (if limit = 0 then (w, Inl LimitValueError)
      else run_each (\<lambda>aid w. acknowledge_authorized_task w now aid)
        (map at_id (take limit (sort_key at_attested_at (filter (\<lambda>a. at_ack_state a = ''authorized'') (attestations w))))) w)"

section \<open>Tasks of cancelled jobs\<close>

definition cancelled_authority :: "world \<Rightarrow> WorkerTaskDispatch \<Rightarrow> bool" where
  "cancelled_authority w d \<longleftrightarrow>
     (case get_job w (wd_job_id d) of None \<Rightarrow> False | Some job \<Rightarrow> job_status job = JOB_CANCELLED)
     \<and> (case row_get ne_id (all_executions w) (wd_node_execution_id d) of None \<Rightarrow> False | Some n \<Rightarrow> ne_status n = CANCELLED)"

definition cancel_pending_dispatches :: "world \<Rightarrow> datetime \<Rightarrow> nat \<Rightarrow> receipt_error + world" where
  "cancel_pending_dispatches w now limit =
     (let batch = take limit (filter (\<lambda>d. wd_delivery_state d = ''pending'' \<and> wd_resolution_state d = ''unresolved''
                    \<and> cancelled_authority w d) (dispatches w))
      in case lock_batch w batch of
           Inl e \<Rightarrow> Inl e
         | Inr w1 \<Rightarrow> Inr (foldl put_dispatch w1 (map (\<lambda>d. d\<lparr>wd_delivery_state := ''cancelled'',
             wd_resolution_state := ''cancelled'', wd_cancelled_at := Some now\<rparr>) batch)))"

definition authorize_cancelled_dispatches :: "world \<Rightarrow> nat \<Rightarrow> receipt_error + world \<times> uuid list" where
  "authorize_cancelled_dispatches w limit =
     (let batch = take limit (filter (\<lambda>d. wd_delivery_state d = ''delivered''
                    \<and> wd_resolution_state d \<in> {''unresolved'', ''cancel_authorized''} \<and> cancelled_authority w d) (dispatches w))
      in case lock_batch w batch of
           Inl e \<Rightarrow> Inl e
         | Inr w1 \<Rightarrow> Inr (foldl put_dispatch w1 (map (\<lambda>d. d\<lparr>wd_resolution_state := ''cancel_authorized''\<rparr>)
             (filter (\<lambda>d. wd_resolution_state d = ''unresolved'') batch)), map wd_id batch))"

definition acknowledge_cancelled_dispatch :: "world \<Rightarrow> datetime \<Rightarrow> uuid \<Rightarrow> ack_outcome" where
  "acknowledge_cancelled_dispatch w now i =
     (case get_dispatch w i of
        None \<Rightarrow> (w, Inr ())
      | Some d \<Rightarrow>
     (case lock_batch w [d] of
        Inl e \<Rightarrow> (w, Inl e)
      | Inr w1 \<Rightarrow>
          if wd_resolution_state d = ''acknowledged'' then (w1, Inr ())
          else
            (case wd_redis_message_id d of
               None \<Rightarrow> (w, Inl (RegisteredWorkerEventError ''cancelled worker task acknowledgement is not authorized''))
             | Some msg \<Rightarrow>
                 if wd_delivery_state d \<noteq> ''delivered'' \<or> wd_resolution_state d \<noteq> ''cancel_authorized''
                 then (w, Inl (RegisteredWorkerEventError ''cancelled worker task acknowledgement is not authorized''))
                 else if \<not> cancelled_authority w1 d
                 then (w, Inl (RegisteredWorkerEventError ''worker task cancellation authority changed''))
                 else
                   (let atts = filter (\<lambda>a. at_dispatch_key a = wd_dispatch_key d \<and> at_ack_state a \<noteq> ''acknowledged'') (attestations w1);
                        w2 = xack w1 (wd_redis_stream d) (wd_consumer_group d) msg;
                        w3 = put_dispatch w2 (d\<lparr>wd_resolution_state := ''acknowledged'', wd_acknowledged_at := Some now\<rparr>)
                    in (foldl put_attestation w3 (map (\<lambda>a. a\<lparr>at_ack_state := ''acknowledged'', at_acknowledged_at := Some now\<rparr>) atts),
                        Inr ())))))"

definition reconcile_cancelled_dispatches :: "world \<Rightarrow> datetime \<Rightarrow> int \<Rightarrow> nat \<Rightarrow> ack_outcome" where
  "reconcile_cancelled_dispatches w now recovery_seconds limit =
     (if limit = 0 then (w, Inl LimitValueError)
      else
        (case recover_stale_dispatch_attempts w now recovery_seconds None limit of
           (w1, Inl e) \<Rightarrow> (w1, Inl e)
         | (w1, Inr _) \<Rightarrow>
        (case cancel_pending_dispatches w1 now limit of
           Inl e \<Rightarrow> (w1, Inl e)
         | Inr w2 \<Rightarrow>
        (case authorize_cancelled_dispatches w2 limit of
           Inl e \<Rightarrow> (w2, Inl e)
         | Inr (w3, ids) \<Rightarrow> run_each (\<lambda>i w. acknowledge_cancelled_dispatch w now i) ids w3))))"

section \<open>The receipt invariant\<close>

definition dl_ident :: "RegisteredWorkerEventDelivery \<Rightarrow> string \<times> string \<times> string" where
  "dl_ident d = (dl_redis_stream d, dl_consumer_group d, dl_message_id d)"

definition at_ident :: "WorkerTaskDeliveryAttestation \<Rightarrow> string \<times> string \<times> string" where
  "at_ident a = (at_redis_stream a, at_consumer_group a, at_message_id a)"

definition ev_ident :: "RegisteredWorkerEvent \<Rightarrow> string \<times> string \<times> string" where
  "ev_ident ev = (ev_redis_stream ev, ev_consumer_group ev, ev_message_id ev)"

text \<open>Every receipt is applied, there is one per task delivery, and an accepted message has its receipt.\<close>

definition receipts_ok :: "RegisteredWorkerEventReceipt list \<Rightarrow> RegisteredWorkerEventDelivery list \<Rightarrow> uuid \<Rightarrow> bool" where
  "receipts_ok rs ds n \<longleftrightarrow>
     distinct (map rc_id rs) \<and> distinct (map rc_source_task_attestation_id rs)
     \<and> (\<forall>r\<in>set rs. rc_id r < n \<and> rc_application_state r = ''applied'')
     \<and> distinct (map dl_id ds) \<and> distinct (map dl_ident ds) \<and> (\<forall>d\<in>set ds. dl_id d < n)
     \<and> (\<forall>d\<in>set ds. dl_resolution_state d = ''accepted'' \<longrightarrow>
          (\<exists>r\<in>set rs. dl_receipt_id d = Some (rc_id r) \<and> rc_source_task_attestation_id r = dl_source_task_attestation_id d))"

definition receipt_inv :: "world \<Rightarrow> bool" where
  "receipt_inv w \<longleftrightarrow> receipts_ok (receipts w) (deliveries w) (next_id w)"

lemma receipts_ok_add_delivery:
  assumes ok: "receipts_ok rs ds n" and new: "dl_id d = n" "dl_ident d \<notin> dl_ident ` set ds"
    and acc: "dl_resolution_state d = ''accepted'' \<Longrightarrow>
      \<exists>r\<in>set rs. dl_receipt_id d = Some (rc_id r) \<and> rc_source_task_attestation_id r = dl_source_task_attestation_id d"
  shows "receipts_ok rs (ds @ [d]) (n + 1)"
proof -
  have "n \<notin> dl_id ` set ds" using ok by (auto simp: receipts_ok_def)
  then show ?thesis using ok new acc unfolding receipts_ok_def by (auto simp: less_Suc_eq)
qed

lemma receipts_ok_add_receipt:
  assumes ok: "receipts_ok rs ds n" and new: "rc_id r = n" "rc_application_state r = ''applied''"
    "rc_source_task_attestation_id r \<notin> rc_source_task_attestation_id ` set rs"
  shows "receipts_ok (rs @ [r]) ds (n + 1)"
proof -
  have "n \<notin> rc_id ` set rs" using ok by (auto simp: receipts_ok_def)
  then show ?thesis using ok new unfolding receipts_ok_def by (auto simp: less_Suc_eq)
qed

lemma receipts_ok_mono: "receipts_ok rs ds n \<Longrightarrow> n \<le> m \<Longrightarrow> receipts_ok rs ds m"
  unfolding receipts_ok_def by fastforce

lemma locked_event_delivery_None:
  "locked_event_delivery w ev = None \<longleftrightarrow> ev_ident ev \<notin> dl_ident ` set (deliveries w)"
  by (auto simp: locked_event_delivery_def find_None_iff ev_ident_def dl_ident_def image_iff)

lemma locked_event_delivery_Some:
  "locked_event_delivery w ev = Some d \<Longrightarrow> d \<in> set (deliveries w) \<and> dl_ident d = ev_ident ev"
  by (auto simp: locked_event_delivery_def find_Some_iff ev_ident_def dl_ident_def)

lemma add_event_delivery_fields [simp]:
  "receipts (add_event_delivery w now rid att ev st reason) = receipts w"
  "attestations (add_event_delivery w now rid att ev st reason) = attestations w"
  "jobs (add_event_delivery w now rid att ev st reason) = jobs w"
  "dispatches (add_event_delivery w now rid att ev st reason) = dispatches w"
  "redis_acks (add_event_delivery w now rid att ev st reason) = redis_acks w"
  "next_id (add_event_delivery w now rid att ev st reason) = next_id w + 1"
  by (simp_all add: add_event_delivery_def)

lemma add_event_delivery_inv:
  assumes inv: "receipt_inv w" and new: "locked_event_delivery w ev = None"
    and acc: "st = ''accepted'' \<Longrightarrow> \<exists>r\<in>set (receipts w). rid = Some (rc_id r) \<and> rc_source_task_attestation_id r = att"
  shows "receipt_inv (add_event_delivery w now rid att ev st reason)"
proof -
  let ?d = "\<lparr>dl_id = next_id w, dl_source_task_attestation_id = att, dl_receipt_id = rid,
         dl_redis_stream = ev_redis_stream ev, dl_consumer_group = ev_consumer_group ev, dl_message_id = ev_message_id ev,
         dl_payload_sha256 = ev_payload_sha256 ev, dl_resolution_state = st, dl_reason_code = reason,
         dl_ack_state = ''pending'', dl_accepted_at = now, dl_acknowledged_at = None\<rparr>"
  have "receipts_ok (receipts w) (deliveries w @ [?d]) (next_id w + 1)"
  proof (rule receipts_ok_add_delivery)
    show "receipts_ok (receipts w) (deliveries w) (next_id w)" using inv by (simp add: receipt_inv_def)
    show "dl_ident ?d \<notin> dl_ident ` set (deliveries w)" using new by (simp add: locked_event_delivery_None dl_ident_def ev_ident_def)
  qed (use acc in simp_all)
  then show ?thesis by (simp add: receipt_inv_def add_event_delivery_def)
qed

lemma lock_entry_frame:
  assumes "lock_job_execution_entry seen w jid = Inr (w', x)"
  shows "\<exists>s. w' = w\<lparr>schedules := s\<rparr>"
proof -
  obtain w1 y where "lock_job_execution_entries seen w [jid] True = Inr (w1, y)" and "w' = w1"
    using assms by (auto simp: lock_job_execution_entry_def Let_def split: sum.splits prod.splits)
  then show ?thesis using lock_entries_frame by blast
qed

lemma lock_authority_frame:
  assumes "lock_job_execution_authority seen w jid n b = Inr (w', a)"
  shows "\<exists>s. w' = w\<lparr>schedules := s\<rparr>"
proof -
  obtain w1 c refs s where e: "lock_job_execution_entry seen w jid = Inr (w1, c, refs, s)" and "w' = w1"
    using assms by (auto simp: lock_job_execution_authority_def split: sum.splits prod.splits option.splits)
  then show ?thesis using lock_entry_frame by blast
qed

section \<open>Acceptance\<close>

definition ids_ok :: "uuid list \<Rightarrow> uuid \<Rightarrow> bool" where
  "ids_ok ids n \<longleftrightarrow> distinct ids \<and> (\<forall>i\<in>set ids. i < n)"

text \<open>What the service relies on of the function that applies an event: it leaves the receipt tables alone.\<close>

locale event_applier =
  fixes apply_event :: applier
  assumes keeps: "apply_event w r ev = Inr w' \<Longrightarrow>
    receipts w' = receipts w \<and> deliveries w' = deliveries w \<and> attestations w' = attestations w
    \<and> redis_acks w' = redis_acks w \<and> next_id w \<le> next_id w' \<and> (\<exists>ds. dispatches w' = dispatches w @ ds)
    \<and> (ids_ok (map wd_id (dispatches w)) (next_id w) \<longrightarrow> ids_ok (map wd_id (dispatches w')) (next_id w'))"

text \<open>The message of \<open>ev\<close> is on record as accepted with receipt \<open>rid\<close>.\<close>

definition accepted_with :: "world \<Rightarrow> RegisteredWorkerEvent \<Rightarrow> uuid \<Rightarrow> bool" where
  "accepted_with w ev rid \<longleftrightarrow>
     (\<exists>d r. locked_event_delivery w ev = Some d \<and> dl_resolution_state d \<noteq> ''quarantined'' \<and> dl_receipt_id d = Some rid
        \<and> get_receipt w rid = Some r \<and> rc_application_state r = ''applied'')"

lemma find_append: "find P (xs @ ys) = (case find P xs of None \<Rightarrow> find P ys | Some x \<Rightarrow> Some x)"
  by (induction xs) auto

lemma accepted_add_delivery:
  assumes "locked_event_delivery w ev = None" and "get_receipt w rid = Some r" and "rc_application_state r = ''applied''"
  shows "accepted_with (add_event_delivery w now (Some rid) att ev ''accepted'' None) ev rid"
  using assms unfolding accepted_with_def
  by (auto simp: locked_event_delivery_def add_event_delivery_def find_append get_receipt_def)

lemma receipt_row:
  assumes "receipt_inv w" and "r \<in> set (receipts w)"
  shows "get_receipt w (rc_id r) = Some r"
  unfolding get_receipt_def
  by (rule row_get_distinct) (use assms in \<open>simp_all add: receipt_inv_def receipts_ok_def\<close>)

lemma attested_receipt:
  assumes "locked_receipt_for_attestation w att = Some r"
  shows "r \<in> set (receipts w) \<and> rc_source_task_attestation_id r = att"
  using assms unfolding locked_receipt_for_attestation_def using row_get_mem row_get_key by fast

lemma resume_receipt_Inr:
  assumes res: "resume_receipt env w now r ev att = Inr (w', x)"
  shows "(\<exists>reason. w' = add_event_delivery w now (Some (rc_id r)) att ev ''quarantined'' (Some reason) \<and> x = None)
    \<or> w' = add_event_delivery w now (Some (rc_id r)) att ev ''accepted'' None \<and> x = Some (rc_id r) \<and> rc_application_state r = ''applied''"
proof (cases "source_receipt_mismatch_reason env r ev att")
  case (Inl e)
  then show ?thesis using res by (simp add: resume_receipt_def)
next
  case (Inr m)
  show ?thesis
  proof (cases m)
    case None
    then show ?thesis using res Inr by (cases "rc_application_state r = ''applied''") (auto simp: resume_receipt_def)
  next
    case (Some reason)
    then show ?thesis using res Inr by (auto simp: resume_receipt_def)
  qed
qed

lemma resume_receipt_inv:
  assumes inv: "receipt_inv w" and r: "locked_receipt_for_attestation w att = Some r"
    and new: "locked_event_delivery w ev = None" and res: "resume_receipt env w now r ev att = Inr (w', x)"
  shows "receipt_inv w' \<and> (\<forall>rid. x = Some rid \<longrightarrow> accepted_with w' ev rid)"
proof -
  have mem: "r \<in> set (receipts w)" "rc_source_task_attestation_id r = att" using attested_receipt [OF r] by simp_all
  have g: "get_receipt w (rc_id r) = Some r" by (rule receipt_row [OF inv mem(1)])
  consider reason where "w' = add_event_delivery w now (Some (rc_id r)) att ev ''quarantined'' (Some reason)" "x = None"
    | "w' = add_event_delivery w now (Some (rc_id r)) att ev ''accepted'' None" "x = Some (rc_id r)" "rc_application_state r = ''applied''"
    using resume_receipt_Inr [OF res] by blast
  then show ?thesis
  proof cases
    case 1
    have "receipt_inv w'" unfolding 1(1) by (rule add_event_delivery_inv [OF inv new]) simp
    then show ?thesis using 1(2) by simp
  next
    case 2
    have "receipt_inv w'" unfolding 2(1) by (rule add_event_delivery_inv [OF inv new]) (use mem in blast)
    moreover have "accepted_with w' ev (rc_id r)" unfolding 2(1) by (rule accepted_add_delivery [OF new g 2(3)])
    ultimately show ?thesis using 2(2) by simp
  qed
qed

lemma row_put_append_last:
  assumes "key r' = key r" and "key r \<notin> key ` set rows"
  shows "row_put key (rows @ [r]) r' = rows @ [r']"
proof -
  have "map (\<lambda>x. if key x = key r' then r' else x) rows = rows"
    by (rule map_idI) (use assms in \<open>auto simp: image_iff\<close>)
  then show ?thesis using assms(1) by (simp add: row_put_def)
qed

lemma schedules_fields [simp]:
  "receipt_inv (w\<lparr>schedules := s\<rparr>) = receipt_inv w"
  "locked_event_delivery (w\<lparr>schedules := s\<rparr>) ev = locked_event_delivery w ev"
  "locked_task_attestation (w\<lparr>schedules := s\<rparr>) ev = locked_task_attestation w ev"
  "locked_receipt_for_attestation (w\<lparr>schedules := s\<rparr>) att = locked_receipt_for_attestation w att"
  "get_receipt (w\<lparr>schedules := s\<rparr>) rid = get_receipt w rid"
  "accepted_with (w\<lparr>schedules := s\<rparr>) ev rid = accepted_with w ev rid"
  by (simp_all add: receipt_inv_def locked_event_delivery_def locked_task_attestation_def
      locked_receipt_for_attestation_def get_receipt_def accepted_with_def)

context event_applier
begin

lemma apply_new_receipt_inv:
  assumes inv: "receipt_inv w" and new: "locked_event_delivery w ev = None"
    and free: "locked_receipt_for_attestation w att = None"
    and res: "apply_new_receipt apply_event w now ev att = Inr (w', x)"
  shows "receipt_inv w' \<and> (\<forall>rid. x = Some rid \<longrightarrow> accepted_with w' ev rid)"
proof -
  obtain claim where c: "registration_claim ev = Inr claim"
    using res by (cases "registration_claim ev") (simp_all add: apply_new_receipt_def)
  let ?r = "new_receipt (next_id w) now att ev claim"
  let ?r' = "?r\<lparr>rc_application_state := ''applied'', rc_applied_at := Some now\<rparr>"
  let ?w1 = "w\<lparr>receipts := receipts w @ [?r], next_id := next_id w + 1\<rparr>"
  let ?w2 = "add_event_delivery ?w1 now (Some (rc_id ?r)) att ev ''accepted'' None"
  have r: "rc_id ?r = next_id w" "rc_source_task_attestation_id ?r = att"
    by (simp_all add: new_receipt_def split: prod.splits)
  obtain w3 where w3: "apply_event ?w2 ?r ev = Inr w3" and x: "x = Some (rc_id ?r)" and w': "w' = put_receipt w3 ?r'"
    using res c by (auto simp: apply_new_receipt_def Let_def split: if_splits sum.splits)
  have k: "receipts w3 = receipts w @ [?r]" "deliveries w3 = deliveries ?w2" "next_id w + 2 \<le> next_id w3"
    using keeps [OF w3] by simp_all
  have ok: "receipts_ok (receipts w) (deliveries w) (next_id w)" using inv by (simp add: receipt_inv_def)
  have fresh: "rc_id ?r \<notin> rc_id ` set (receipts w)" using ok r(1) by (auto simp: receipts_ok_def)
  have rs: "receipts w' = receipts w @ [?r']"
    unfolding w' put_receipt_def using k(1) fresh by (simp add: row_put_append_last)
  have "receipts_ok (receipts w @ [?r']) (deliveries w) (next_id w + 1)"
    by (rule receipts_ok_add_receipt [OF ok])
      (use r free in \<open>simp_all add: locked_receipt_for_attestation_def row_get_None_iff\<close>)
  then have inv1: "receipt_inv (?w1\<lparr>receipts := receipts w @ [?r']\<rparr>)" by (simp add: receipt_inv_def)
  have "receipt_inv (add_event_delivery (?w1\<lparr>receipts := receipts w @ [?r']\<rparr>) now (Some (rc_id ?r)) att ev ''accepted'' None)"
    by (rule add_event_delivery_inv [OF inv1]) (use new r(2) in \<open>auto simp: locked_event_delivery_def\<close>)
  then have "receipts_ok (receipts w @ [?r']) (deliveries ?w2) (next_id w + 2)"
    by (simp add: receipt_inv_def add_event_delivery_def)
  then have "receipts_ok (receipts w') (deliveries w') (next_id w')"
    unfolding rs using k by (auto simp: w' put_receipt_def intro: receipts_ok_mono)
  then have i: "receipt_inv w'" by (simp add: receipt_inv_def)
  have "get_receipt w' (rc_id ?r) = Some ?r'" using receipt_row [OF i, of ?r'] rs by simp
  moreover have "locked_event_delivery ?w2 ev = Some (last (deliveries ?w2)) \<and> dl_resolution_state (last (deliveries ?w2)) = ''accepted''
      \<and> dl_receipt_id (last (deliveries ?w2)) = Some (rc_id ?r)"
    using new by (simp add: locked_event_delivery_def add_event_delivery_def find_append)
  moreover have "locked_event_delivery w' ev = locked_event_delivery ?w2 ev"
    using k(2) by (simp add: w' put_receipt_def locked_event_delivery_def)
  ultimately have "accepted_with w' ev (rc_id ?r)" unfolding accepted_with_def by simp
  then show ?thesis using i x by simp
qed

lemma accept_fresh_inv:
  assumes inv: "receipt_inv w" and new: "locked_event_delivery w ev = None"
    and res: "accept_fresh_event env observe apply_event w now a ev observed att = Inr (w', x)"
  shows "receipt_inv w' \<and> (\<forall>rid. x = Some rid \<longrightarrow> accepted_with w' ev rid)"
proof (cases "locked_receipt_for_attestation w att")
  case (Some r)
  then have "resume_receipt env w now r ev att = Inr (w', x)" using res by (simp add: accept_fresh_event_def)
  then show ?thesis by (rule resume_receipt_inv [OF inv Some new])
next
  case None
  then have "apply_new_receipt apply_event w now ev att = Inr (w', x)"
    using res by (auto simp: accept_fresh_event_def split: sum.splits if_splits authority_error.splits)
  then show ?thesis by (rule apply_new_receipt_inv [OF inv new None])
qed

end

lemma redelivered_accepted:
  assumes inv: "receipt_inv w" and d: "locked_event_delivery w ev = Some d" and res: "redelivered_event env w d ev = Inr (Some rid)"
  shows "accepted_with w ev rid"
proof -
  obtain r where r: "receipt_for_delivery w d = Inr r" and q: "dl_resolution_state d \<noteq> ''quarantined''"
    using res by (cases "receipt_for_delivery w d") (auto simp: redelivered_event_def split: sum.splits if_splits)
  have "rc_application_state r = ''applied'' \<and> rc_id r = rid"
    using res r q by (auto simp: redelivered_event_def split: sum.splits if_splits)
  moreover have "dl_receipt_id d = Some (rc_id r) \<and> get_receipt w (rc_id r) = Some r"
    using r by (auto simp: receipt_for_delivery_def dest: receipt_rows.get_key split: option.splits)
  ultimately show ?thesis using d q unfolding accepted_with_def by blast
qed

end
