(* ===== verification/Receipt_Runs.thy ===== *)
theory Receipt_Runs
  imports Receipts
begin

text \<open>
  Runs of the receipt service: accepting, acknowledging and cancelling in any order, with redelivered
  messages and transactions that raise half way. A message is applied once, and nothing is acknowledged
  to the broker before the rows that make it durable are committed.
\<close>

section \<open>Acceptance\<close>

context event_applier
begin

lemma accept_inv:
  assumes inv: "receipt_inv w" and res: "accept_and_apply env observe apply_event w now ev = Inr (w', x)"
  shows "receipt_inv w' \<and> (\<forall>rid. x = Some rid \<longrightarrow> accepted_with w' ev rid)"
proof -
  obtain w1 a where l: "lock_job_execution_authority w w (ev_job_id ev) (Some (ev_node_execution_id ev)) True = Inr (w1, a)"
    using res by (auto simp: accept_and_apply_def split: sum.splits prod.splits authority_error.splits)
  obtain s where w1: "w1 = w\<lparr>schedules := s\<rparr>" using lock_authority_frame [OF l] by blast
  have inv1: "receipt_inv w1" using inv by (simp add: w1)
  let ?att = "locked_task_attestation w1 ev"
  obtain observed att where o: "(case ?att of None \<Rightarrow> map_sum id (\<lambda>i. (Some i, i)) (observe w1 ev) | Some t \<Rightarrow> Inr (None, at_id t)) = Inr (observed, att)"
    using res l by (auto simp: accept_and_apply_def Let_def split: if_splits sum.splits prod.splits)
  note res1 = res [unfolded accept_and_apply_def l sum.case prod.case Let_def o]
  show ?thesis
  proof (cases "locked_event_delivery w1 ev")
    case (Some d)
    then obtain y where "redelivered_event env w1 d ev = Inr y" "w' = w1" "x = y"
      using res1 by (cases "redelivered_event env w1 d ev") (auto split: if_splits)
    then show ?thesis using inv1 redelivered_accepted [OF inv1 Some] by blast
  next
    case None
    show ?thesis
    proof (cases "Option.bind ?att (\<lambda>t. attestation_mismatch_reason t ev)")
      case (Some reason)
      then have "w' = add_event_delivery w1 now (map_option rc_id (locked_receipt_for_attestation w1 att)) att ev ''quarantined'' (Some reason)"
        "x = None" using res1 None by (auto split: if_splits)
      moreover have "receipt_inv (add_event_delivery w1 now rid att ev ''quarantined'' (Some reason))" for rid
        by (rule add_event_delivery_inv [OF inv1 None]) simp
      ultimately show ?thesis by simp
    next
      case ok: None
      then have "accept_fresh_event env observe apply_event w1 now a ev observed att = Inr (w', x)"
        using res1 None by (auto split: if_splits)
      then show ?thesis by (rule accept_fresh_inv [OF inv1 None])
    qed
  qed
qed

end

lemma accept_again:
  assumes acc: "accepted_with w ev rid" and res: "accept_and_apply env observe apply_event w now ev = Inr (w', x)"
  shows "x = Some rid \<and> (\<exists>s. w' = w\<lparr>schedules := s\<rparr>)"
proof -
  obtain w1 a where l: "lock_job_execution_authority w w (ev_job_id ev) (Some (ev_node_execution_id ev)) True = Inr (w1, a)"
    using res by (auto simp: accept_and_apply_def split: sum.splits prod.splits authority_error.splits)
  obtain s where w1: "w1 = w\<lparr>schedules := s\<rparr>" using lock_authority_frame [OF l] by blast
  let ?att = "locked_task_attestation w1 ev"
  obtain observed att where o: "(case ?att of None \<Rightarrow> map_sum id (\<lambda>i. (Some i, i)) (observe w1 ev) | Some t \<Rightarrow> Inr (None, at_id t)) = Inr (observed, att)"
    using res l by (auto simp: accept_and_apply_def Let_def split: if_splits sum.splits prod.splits)
  note res1 = res [unfolded accept_and_apply_def l sum.case prod.case Let_def o]
  obtain d r where d: "locked_event_delivery w1 ev = Some d" "dl_resolution_state d \<noteq> ''quarantined''" "dl_receipt_id d = Some rid"
    and r: "get_receipt w1 rid = Some r" using acc unfolding accepted_with_def w1 by auto
  obtain y where y: "redelivered_event env w1 d ev = Inr y" "w' = w1" "x = y"
    using res1 d(1) by (cases "redelivered_event env w1 d ev") (auto split: if_splits)
  have "receipt_for_delivery w1 d = Inr r" using d(3) r by (simp add: receipt_for_delivery_def)
  then have "y = Some (rc_id r)" using y(1) d(2) by (auto simp: redelivered_event_def split: sum.splits if_splits)
  moreover have "rc_id r = rid" using receipt_rows.get_key [OF r] .
  ultimately show ?thesis using y(2,3) w1 by blast
qed

section \<open>What is durable\<close>

definition settled :: "WorkerTaskDeliveryAttestation \<Rightarrow> bool" where
  "settled a \<longleftrightarrow> at_ack_state a \<in> {''authorized'', ''acknowledged''}"

definition wd_message :: "WorkerTaskDispatch \<Rightarrow> string \<times> string \<times> string option" where
  "wd_message d = (wd_redis_stream d, wd_consumer_group d, wd_redis_message_id d)"

definition dismissed :: "WorkerTaskDispatch \<Rightarrow> bool" where
  "dismissed d \<longleftrightarrow> wd_delivery_state d = ''delivered'' \<and> wd_resolution_state d \<in> {''cancel_authorized'', ''acknowledged''}"

text \<open>
  A message may be acknowledged when it is an event message on record, the message of a task whose
  event has a receipt or whose acknowledgement is authorized, or the message of a cancelled task.
\<close>

definition durable :: "world \<Rightarrow> string \<times> string \<times> string \<Rightarrow> bool" where
  "durable w m \<longleftrightarrow>
     (\<exists>d\<in>set (deliveries w). dl_ident d = m)
     \<or> (\<exists>a\<in>set (attestations w). at_ident a = m
          \<and> (settled a \<or> (\<exists>r\<in>set (receipts w). rc_source_task_attestation_id r = at_id a)))
     \<or> (\<exists>d\<in>set (dispatches w). wd_message d = (fst m, fst (snd m), Some (snd (snd m))) \<and> dismissed d)"

definition rc_key :: "RegisteredWorkerEventReceipt \<Rightarrow> uuid \<times> uuid \<times> string" where
  "rc_key r = (rc_id r, rc_source_task_attestation_id r, rc_application_state r)"

definition dl_key :: "RegisteredWorkerEventDelivery \<Rightarrow> uuid \<times> (string \<times> string \<times> string) \<times> string \<times> uuid option \<times> uuid" where
  "dl_key d = (dl_id d, dl_ident d, dl_resolution_state d, dl_receipt_id d, dl_source_task_attestation_id d)"

definition rows_kept :: "('r \<Rightarrow> 'r \<Rightarrow> bool) \<Rightarrow> 'r list \<Rightarrow> 'r list \<Rightarrow> bool" where
  "rows_kept R rows rows' \<longleftrightarrow> (\<forall>x\<in>set rows. \<exists>x'\<in>set rows'. R x x')"

definition at_kept :: "WorkerTaskDeliveryAttestation \<Rightarrow> WorkerTaskDeliveryAttestation \<Rightarrow> bool" where
  "at_kept a a' \<longleftrightarrow> at_id a' = at_id a \<and> at_ident a' = at_ident a \<and> (settled a \<longrightarrow> settled a')"

definition wd_kept :: "WorkerTaskDispatch \<Rightarrow> WorkerTaskDispatch \<Rightarrow> bool" where
  "wd_kept d d' \<longleftrightarrow> (dismissed d \<longrightarrow> wd_message d' = wd_message d \<and> dismissed d')"

definition dl_kept :: "RegisteredWorkerEventDelivery \<Rightarrow> RegisteredWorkerEventDelivery \<Rightarrow> bool" where
  "dl_kept d d' \<longleftrightarrow> dl_key d' = dl_key d"

definition rc_kept :: "RegisteredWorkerEventReceipt \<Rightarrow> RegisteredWorkerEventReceipt \<Rightarrow> bool" where
  "rc_kept r r' \<longleftrightarrow> rc_key r' = rc_key r"

definition records_kept :: "world \<Rightarrow> world \<Rightarrow> bool" where
  "records_kept w w' \<longleftrightarrow>
     rows_kept at_kept (attestations w) (attestations w') \<and> rows_kept wd_kept (dispatches w) (dispatches w')
     \<and> rows_kept dl_kept (deliveries w) (deliveries w') \<and> rows_kept rc_kept (receipts w) (receipts w')"

lemma rows_kept_refl: "(\<And>x. R x x) \<Longrightarrow> rows_kept R rows rows"
  by (auto simp: rows_kept_def)

lemma rows_kept_append: "(\<And>x. R x x) \<Longrightarrow> rows_kept R rows (rows @ rest)"
  by (fastforce simp: rows_kept_def)

lemma rows_kept_trans:
  "(\<And>x y z. R x y \<Longrightarrow> R y z \<Longrightarrow> R x z) \<Longrightarrow> rows_kept R a b \<Longrightarrow> rows_kept R b c \<Longrightarrow> rows_kept R a c"
  unfolding rows_kept_def by meson

lemma rows_kept_put:
  assumes "\<And>x. R x x" and "distinct (map key rows)" and "r \<in> set rows" and "key r' = key r" and "R r r'"
  shows "rows_kept R rows (row_put key rows r')"
  unfolding rows_kept_def
proof
  fix x assume x: "x \<in> set rows"
  show "\<exists>x'\<in>set (row_put key rows r'). R x x'"
  proof (cases "key x = key r'")
    case True
    then have "x = r" using row_unique [OF assms(2) x assms(3)] assms(4) by simp
    moreover have "r' \<in> set (row_put key rows r')" using x True by (force simp: row_put_def image_iff)
    ultimately show ?thesis using assms(5) by blast
  next
    case False
    then have "x \<in> set (row_put key rows r')" using x by (force simp: row_put_def image_iff)
    then show ?thesis using assms(1) by blast
  qed
qed

lemma kept_refl [simp]: "at_kept a a" "wd_kept d d" "dl_kept x x" "rc_kept r r"
  by (simp_all add: at_kept_def wd_kept_def dl_kept_def rc_kept_def)

lemma kept_trans:
  "at_kept a b \<Longrightarrow> at_kept b c \<Longrightarrow> at_kept a c" "wd_kept d e \<Longrightarrow> wd_kept e f \<Longrightarrow> wd_kept d f"
  "dl_kept x y \<Longrightarrow> dl_kept y z \<Longrightarrow> dl_kept x z" "rc_kept p q \<Longrightarrow> rc_kept q r \<Longrightarrow> rc_kept p r"
  by (simp_all add: at_kept_def wd_kept_def dl_kept_def rc_kept_def)

lemma records_kept_refl [simp]: "records_kept w w"
  by (simp add: records_kept_def rows_kept_refl)

lemma records_kept_trans [trans]:
  assumes "records_kept a b" and "records_kept b c"
  shows "records_kept a c"
proof -
  note ab = assms(1) [unfolded records_kept_def] and bc = assms(2) [unfolded records_kept_def]
  have "rows_kept at_kept (attestations a) (attestations c)"
    by (rule rows_kept_trans [of at_kept _ "attestations b"]) (use ab bc kept_trans(1) in blast)+
  moreover have "rows_kept wd_kept (dispatches a) (dispatches c)"
    by (rule rows_kept_trans [of wd_kept _ "dispatches b"]) (use ab bc kept_trans(2) in blast)+
  moreover have "rows_kept dl_kept (deliveries a) (deliveries c)"
    by (rule rows_kept_trans [of dl_kept _ "deliveries b"]) (use ab bc kept_trans(3) in blast)+
  moreover have "rows_kept rc_kept (receipts a) (receipts c)"
    by (rule rows_kept_trans [of rc_kept _ "receipts b"]) (use ab bc kept_trans(4) in blast)+
  ultimately show ?thesis unfolding records_kept_def by blast
qed

lemma kept_ident:
  "dl_kept d d' \<Longrightarrow> dl_ident d' = dl_ident d"
  "rc_kept r r' \<Longrightarrow> rc_source_task_attestation_id r' = rc_source_task_attestation_id r"
  by (simp_all add: dl_kept_def dl_key_def rc_kept_def rc_key_def)

lemma durable_kept:
  assumes k: "records_kept w w'" and d: "durable w m"
  shows "durable w' m"
proof -
  consider (delivery) d where "d \<in> set (deliveries w)" "dl_ident d = m"
    | (task) a where "a \<in> set (attestations w)" "at_ident a = m"
        "settled a \<or> (\<exists>r\<in>set (receipts w). rc_source_task_attestation_id r = at_id a)"
    | (dispatch) d where "d \<in> set (dispatches w)" "wd_message d = (fst m, fst (snd m), Some (snd (snd m)))" "dismissed d"
    using d unfolding durable_def by blast
  then show ?thesis
  proof cases
    case delivery
    then show ?thesis using k kept_ident(1) unfolding records_kept_def rows_kept_def durable_def by metis
  next
    case task
    obtain a' where a': "a' \<in> set (attestations w')" "at_kept a a'" using k task(1) unfolding records_kept_def rows_kept_def by blast
    have "\<exists>r\<in>set (receipts w'). rc_source_task_attestation_id r = at_id a'"
      if r: "\<exists>r\<in>set (receipts w). rc_source_task_attestation_id r = at_id a"
      using k a'(2) r kept_ident(2) unfolding records_kept_def rows_kept_def at_kept_def by metis
    then show ?thesis using a' task(2,3) unfolding durable_def at_kept_def by metis
  next
    case dispatch
    then show ?thesis using k unfolding records_kept_def rows_kept_def wd_kept_def durable_def by metis
  qed
qed

section \<open>Writes that keep the records\<close>

lemma receipts_ok_keys:
  "receipts_ok rs ds n \<longleftrightarrow>
     distinct (map fst (map rc_key rs)) \<and> distinct (map (\<lambda>(_, a, _). a) (map rc_key rs))
     \<and> (\<forall>(i, a, st)\<in>set (map rc_key rs). i < n \<and> st = ''applied'')
     \<and> distinct (map fst (map dl_key ds)) \<and> distinct (map (\<lambda>(_, m, _). m) (map dl_key ds))
     \<and> (\<forall>(i, _)\<in>set (map dl_key ds). i < n)
     \<and> (\<forall>(_, _, st, r, a)\<in>set (map dl_key ds). st = ''accepted'' \<longrightarrow>
          (\<exists>(i, a', _)\<in>set (map rc_key rs). r = Some i \<and> a' = a))"
  unfolding receipts_ok_def by (simp add: rc_key_def dl_key_def comp_def case_prod_beta)

lemma row_put_map:
  assumes "distinct (map key rows)" and "r \<in> set rows" and "key r' = key r" and "f r' = f r"
  shows "map f (row_put key rows r') = map f rows"
proof -
  have "f (if key x = key r' then r' else x) = f x" if "x \<in> set rows" for x
    using row_unique [OF assms(1) that assms(2)] assms(3,4) by auto
  then show ?thesis by (simp add: row_put_def)
qed

definition base_inv :: "world \<Rightarrow> bool" where
  "base_inv w \<longleftrightarrow> receipt_inv w \<and> distinct (map at_id (attestations w))
     \<and> ids_ok (map wd_id (dispatches w)) (next_id w)"

text \<open>From \<open>w\<close> to \<open>w'\<close> the tables stay well formed, no record is lost and nothing is acknowledged.\<close>

definition calm :: "world \<Rightarrow> world \<Rightarrow> bool" where
  "calm w w' \<longleftrightarrow> base_inv w' \<and> records_kept w w' \<and> redis_acks w' = redis_acks w"

lemma calm_refl: "base_inv w \<Longrightarrow> calm w w"
  by (simp add: calm_def)

lemma calm_trans: "calm a b \<Longrightarrow> calm b c \<Longrightarrow> calm a c"
  unfolding calm_def using records_kept_trans by auto

lemma put_receipt_calm:
  assumes b: "base_inv w" and r: "r \<in> set (receipts w)" and k: "rc_key r' = rc_key r"
  shows "calm w (put_receipt w r')"
proof -
  have d: "distinct (map rc_id (receipts w))" using b by (simp add: base_inv_def receipt_inv_def receipts_ok_def)
  have i: "rc_id r' = rc_id r" "rc_kept r r'" using k by (simp_all add: rc_key_def rc_kept_def)
  have "map rc_key (receipts (put_receipt w r')) = map rc_key (receipts w)"
    using row_put_map [OF d r i(1) k] by (simp add: put_receipt_def)
  then have "receipt_inv (put_receipt w r')"
    using b unfolding base_inv_def receipt_inv_def receipts_ok_keys by (simp add: put_receipt_def)
  moreover have "rows_kept rc_kept (receipts w) (receipts (put_receipt w r'))"
    using rows_kept_put [of rc_kept rc_id, OF _ d r i] by (simp add: put_receipt_def)
  ultimately show ?thesis using b
    by (simp add: calm_def base_inv_def records_kept_def rows_kept_refl put_receipt_def)
qed

lemma put_delivery_calm:
  assumes b: "base_inv w" and r: "d \<in> set (deliveries w)" and k: "dl_key d' = dl_key d"
  shows "calm w (put_delivery w d')"
proof -
  have d: "distinct (map dl_id (deliveries w))" using b by (simp add: base_inv_def receipt_inv_def receipts_ok_def)
  have i: "dl_id d' = dl_id d" "dl_kept d d'" using k by (simp_all add: dl_key_def dl_kept_def)
  have "map dl_key (deliveries (put_delivery w d')) = map dl_key (deliveries w)"
    using row_put_map [OF d r i(1) k] by (simp add: put_delivery_def)
  then have "receipt_inv (put_delivery w d')"
    using b unfolding base_inv_def receipt_inv_def receipts_ok_keys by (simp add: put_delivery_def)
  moreover have "rows_kept dl_kept (deliveries w) (deliveries (put_delivery w d'))"
    using rows_kept_put [of dl_kept dl_id, OF _ d r i] by (simp add: put_delivery_def)
  ultimately show ?thesis using b
    by (simp add: calm_def base_inv_def records_kept_def rows_kept_refl put_delivery_def)
qed

lemma put_attestation_calm:
  assumes b: "base_inv w" and r: "a \<in> set (attestations w)" and k: "at_kept a a'"
  shows "calm w (put_attestation w a')"
proof -
  have d: "distinct (map at_id (attestations w))" using b by (simp add: base_inv_def)
  have i: "at_id a' = at_id a" using k by (simp add: at_kept_def)
  have "rows_kept at_kept (attestations w) (attestations (put_attestation w a'))"
    using rows_kept_put [of at_kept at_id, OF _ d r i k] by (simp add: put_attestation_def)
  then show ?thesis using b
    by (simp add: calm_def base_inv_def receipt_inv_def records_kept_def rows_kept_refl put_attestation_def)
qed

lemma put_dispatch_calm:
  assumes b: "base_inv w" and r: "d \<in> set (dispatches w)" and k: "wd_kept d d'" and i: "wd_id d' = wd_id d"
  shows "calm w (put_dispatch w d')"
proof -
  have d: "distinct (map wd_id (dispatches w))" using b by (simp add: base_inv_def ids_ok_def)
  have "rows_kept wd_kept (dispatches w) (dispatches (put_dispatch w d'))"
    using rows_kept_put [of wd_kept wd_id, OF _ d r i k] by (simp add: put_dispatch_def)
  then show ?thesis using b
    by (simp add: calm_def base_inv_def receipt_inv_def records_kept_def rows_kept_refl put_dispatch_def)
qed

lemma schedules_calm: "base_inv w \<Longrightarrow> calm w (w\<lparr>schedules := s\<rparr>)"
  by (simp add: calm_def base_inv_def records_kept_def rows_kept_refl)

lemma mark_proven_calm:
  assumes b: "base_inv w" and a: "a \<in> set (attestations w)" and m: "mark_proven_task_acknowledged w now a = Inr w'"
  shows "calm w w' \<and> receipts w' = receipts w \<and> deliveries w' = deliveries w"
proof -
  let ?a = "a\<lparr>at_ack_state := ''acknowledged'', at_acknowledged_at := Some now\<rparr>"
  let ?w1 = "put_attestation w ?a"
  have c1: "calm w ?w1"
    by (rule put_attestation_calm [OF b a]) (simp add: at_kept_def at_ident_def settled_def)
  obtain d where d: "attested_dispatch ?w1 a = Some d"
    using m by (cases "attested_dispatch ?w1 a") (simp_all add: mark_proven_task_acknowledged_def)
  have mem: "d \<in> set (dispatches ?w1)" using d by (auto simp: attested_dispatch_def find_Some_iff)
  let ?d = "d\<lparr>wd_resolution_state := ''acknowledged'', wd_acknowledged_at := Some now\<rparr>"
  have c2: "calm ?w1 (put_dispatch ?w1 ?d)"
    by (rule put_dispatch_calm [OF _ mem]) (use c1 in \<open>simp_all add: calm_def wd_kept_def dismissed_def wd_message_def\<close>)
  have "w' = ?w1 \<or> w' = put_dispatch ?w1 ?d"
    using m d by (auto simp: mark_proven_task_acknowledged_def Let_def split: if_splits)
  then show ?thesis using c1 calm_trans [OF c1 c2] by (auto simp: put_attestation_def put_dispatch_def)
qed

section \<open>Acknowledgements\<close>

text \<open>As \<open>calm\<close>, but messages durable in \<open>w\<close> may be acknowledged.\<close>

definition safe :: "world \<Rightarrow> world \<Rightarrow> bool" where
  "safe w w' \<longleftrightarrow> base_inv w' \<and> records_kept w w' \<and> (\<forall>m\<in>set (redis_acks w'). m \<in> set (redis_acks w) \<or> durable w m)"

lemma calm_safe: "calm w w' \<Longrightarrow> safe w w'"
  by (simp add: calm_def safe_def)

lemma safe_calm: "safe w w1 \<Longrightarrow> calm w1 w2 \<Longrightarrow> safe w w2"
  unfolding calm_def safe_def using records_kept_trans by auto

lemma calm_safe_trans: "calm w w1 \<Longrightarrow> safe w1 w2 \<Longrightarrow> \<forall>m. durable w1 m \<longrightarrow> durable w m \<Longrightarrow> safe w w2"
  unfolding calm_def safe_def using records_kept_trans by auto

lemma acks_kept [simp]:
  "base_inv (w\<lparr>redis_acks := l\<rparr>) = base_inv w" "records_kept w (w\<lparr>redis_acks := l\<rparr>)"
  "durable (w\<lparr>redis_acks := l\<rparr>) m = durable w m" "durable (w\<lparr>schedules := s\<rparr>) m = durable w m"
  by (simp_all add: base_inv_def receipt_inv_def records_kept_def rows_kept_refl durable_def)

lemma xack_safe: "base_inv w \<Longrightarrow> durable w (stream, grp, msg) \<Longrightarrow> safe w (xack w stream grp msg)"
  by (auto simp: safe_def xack_def)

lemma rolled_back_safe:
  assumes "base_inv w" and "safe w w'"
  shows "safe w (rolled_back w w')"
  using assms by (simp add: safe_def rolled_back_def)

lemma xack_durable [simp]: "durable (xack w s g m) = durable w" "attestations (xack w s g m) = attestations w"
  "receipts (xack w s g m) = receipts w" "deliveries (xack w s g m) = deliveries w" "dispatches (xack w s g m) = dispatches w"
  by (simp_all add: xack_def fun_eq_iff)

lemma safe_xack:
  assumes "safe w w1" and "durable w (stream, grp, msg)"
  shows "safe w (xack w1 stream grp msg)"
proof -
  have "records_kept w1 (xack w1 stream grp msg)" by (simp add: xack_def)
  then show ?thesis using assms records_kept_trans unfolding safe_def by (auto simp: xack_def)
qed

lemma acknowledge_locked_delivery_safe:
  assumes b: "base_inv w" and a: "a \<in> set (attestations w)" and d: "d \<in> set (deliveries w)"
    and rc: "\<And>r. receipt = Some r \<Longrightarrow> r \<in> set (receipts w) \<and> rc_source_task_attestation_id r = at_id a"
    and res: "acknowledge_locked_delivery w now a receipt d = (w', x)"
  shows "safe w w'"
proof -
  let ?task = "receipt \<noteq> None \<and> at_ack_state a \<noteq> ''acknowledged''"
  let ?event = "dl_ack_state d \<noteq> ''acknowledged''"
  let ?w1 = "if ?task then xack w (at_redis_stream a) (at_consumer_group a) (at_message_id a) else w"
  let ?w2 = "if ?event then xack ?w1 (dl_redis_stream d) (dl_consumer_group d) (dl_message_id d) else ?w1"
  have self: "safe w w" by (rule calm_safe [OF calm_refl [OF b]])
  have "durable w (at_redis_stream a, at_consumer_group a, at_message_id a)" if "receipt \<noteq> None"
    using that rc a unfolding durable_def at_ident_def by blast
  then have s1: "safe w ?w1" using safe_xack [OF self] self by simp
  have "durable w (dl_redis_stream d, dl_consumer_group d, dl_message_id d)"
    using d unfolding durable_def dl_ident_def by blast
  then have s2: "safe w ?w2" using safe_xack [OF s1] s1 by simp
  have f2: "receipts ?w2 = receipts w" "deliveries ?w2 = deliveries w" "attestations ?w2 = attestations w" by simp_all
  show ?thesis
  proof (cases "(case receipt of None \<Rightarrow> False | Some r \<Rightarrow> rc_source_task_attestation_id r \<noteq> dl_source_task_attestation_id d)")
    case True
    then show ?thesis using res self by (simp add: acknowledge_locked_delivery_def)
  next
    case ok: False
    note res1 = res [unfolded acknowledge_locked_delivery_def if_not_P [OF ok] Let_def]
    show ?thesis
    proof (cases "if ?task then mark_proven_task_acknowledged ?w2 now a else Inr ?w2")
      case (Inl e)
      then have "w' = rolled_back w ?w2" using res1 by simp
      then show ?thesis using rolled_back_safe [OF b s2] by simp
    next
      case (Inr w3)
      have b2: "base_inv ?w2" using s2 by (simp add: safe_def)
      have a2: "a \<in> set (attestations ?w2)" using a f2(3) by simp
      have c3: "calm ?w2 w3 \<and> receipts w3 = receipts w \<and> deliveries w3 = deliveries w"
      proof (cases ?task)
        case True
        then have "mark_proven_task_acknowledged ?w2 now a = Inr w3" using Inr by simp
        then show ?thesis using mark_proven_calm [OF b2 a2] f2 by simp
      next
        case False
        then have "w3 = ?w2" using Inr by auto
        then show ?thesis using calm_refl [OF b2] f2 by simp
      qed
      then have b3: "base_inv w3" by (simp add: calm_def)
      let ?at = "if ?task then Some now else (case at_acknowledged_at a of None \<Rightarrow> Some now | Some t \<Rightarrow> Some t)"
      let ?own = "case receipt of None \<Rightarrow> False | Some r \<Rightarrow> ?event \<and> rc_redis_stream r = dl_redis_stream d
          \<and> rc_consumer_group r = dl_consumer_group d \<and> rc_message_id r = dl_message_id d"
      obtain w4 where w4: "w4 = (case receipt of None \<Rightarrow> w3 | Some r \<Rightarrow> put_receipt w3 (acknowledged_receipt now ?at ?own r))"
        by blast
      have w5: "w' = (if ?event then put_delivery w4 (d\<lparr>dl_ack_state := ''acknowledged'', dl_acknowledged_at := Some now\<rparr>) else w4)"
        using res1 unfolding Inr sum.case w4 prod.inject by (rule conjunct1 [THEN sym])
      have key: "rc_key (acknowledged_receipt now t own r) = rc_key r" for t own r
        by (simp add: rc_key_def acknowledged_receipt_def)
      have c4: "calm w3 w4 \<and> deliveries w4 = deliveries w"
      proof (cases receipt)
        case None
        then show ?thesis using w4 calm_refl [OF b3] c3 by simp
      next
        case (Some r)
        have "r \<in> set (receipts w3)" using rc [OF Some] c3 by simp
        from put_receipt_calm [OF b3 this key] show ?thesis using w4 Some c3 by (simp add: put_receipt_def)
      qed
      have b4: "base_inv w4" using c4 by (simp add: calm_def)
      have "calm w4 w'"
        using w5 calm_refl put_delivery_calm [of w4 d "d\<lparr>dl_ack_state := ''acknowledged'', dl_acknowledged_at := Some now\<rparr>"] d
        b4 c4 by (simp add: dl_key_def dl_ident_def)
      then show ?thesis using safe_calm [OF s2] c3 c4 calm_trans by blast
    qed
  qed
qed

lemma lock_delivery_rows:
  assumes l: "lock_delivery_ack_authority w did = Inr (w1, a, receipt, d)"
  shows "(\<exists>s. w1 = w\<lparr>schedules := s\<rparr>) \<and> a \<in> set (attestations w) \<and> d \<in> set (deliveries w)
    \<and> (\<forall>r. receipt = Some r \<longrightarrow> r \<in> set (receipts w) \<and> rc_source_task_attestation_id r = at_id a)"
proof -
  obtain d0 where d0: "row_get dl_id (deliveries w) did = Some d0"
    using l by (cases "row_get dl_id (deliveries w) did") (simp_all add: lock_delivery_ack_authority_def)
  obtain a0 where a0: "row_get at_id (attestations w) (dl_source_task_attestation_id d0) = Some a0"
    using l d0 by (cases "row_get at_id (attestations w) (dl_source_task_attestation_id d0)") (simp_all add: lock_delivery_ack_authority_def)
  obtain v y where e: "lock_job_execution_entry w w (at_job_id a0) = Inr (v, y)"
    using l d0 a0 by (auto simp: lock_delivery_ack_authority_def split: sum.splits authority_error.splits)
  obtain s where v: "v = w\<lparr>schedules := s\<rparr>" using lock_entry_frame [OF e] by blast
  let ?r = "Option.bind (dl_receipt_id d0) (row_get rc_id (filter (\<lambda>r. rc_source_task_attestation_id r = at_id a0) (receipts v)))"
  have eq: "w1 = v" "a = a0" "receipt = ?r" "d = d0"
    using l d0 a0 e by (auto simp: lock_delivery_ack_authority_def Let_def split: if_splits)
  have rows: "r \<in> set (receipts w) \<and> rc_source_task_attestation_id r = at_id a0" if r: "?r = Some r" for r
  proof -
    obtain rid where "row_get rc_id (filter (\<lambda>r. rc_source_task_attestation_id r = at_id a0) (receipts v)) rid = Some r"
      using r by (cases "dl_receipt_id d0") auto
    then have "r \<in> set (filter (\<lambda>r. rc_source_task_attestation_id r = at_id a0) (receipts v))" by (rule row_get_mem)
    then show ?thesis by (simp add: v)
  qed
  have "\<exists>s. w1 = w\<lparr>schedules := s\<rparr>" unfolding eq(1) using v by blast
  moreover have "a \<in> set (attestations w)" unfolding eq(2) by (rule row_get_mem [OF a0])
  moreover have "d \<in> set (deliveries w)" unfolding eq(4) by (rule row_get_mem [OF d0])
  moreover have "\<forall>r. receipt = Some r \<longrightarrow> r \<in> set (receipts w) \<and> rc_source_task_attestation_id r = at_id a"
    unfolding eq(2,3) using rows by blast
  ultimately show ?thesis by blast
qed

text \<open>An acknowledgement inside a transaction that began with the locks of \<open>w1\<close>.\<close>

lemma locked_ack_safe:
  assumes b: "base_inv w" and l: "lock_delivery_ack_authority w did = Inr (w1, a, receipt, d)"
    and sub: "receipt' = None \<or> receipt' = receipt"
    and res: "(case acknowledge_locked_delivery w1 now a receipt' d of
      (w2, Inl e) \<Rightarrow> (rolled_back w w2, Inl e) | (w2, Inr _) \<Rightarrow> (w2, Inr ())) = (w', x)"
  shows "safe w w'"
proof -
  obtain s where w1: "w1 = w\<lparr>schedules := s\<rparr>" and mem: "a \<in> set (attestations w)" "d \<in> set (deliveries w)"
    and rc: "\<And>r. receipt = Some r \<Longrightarrow> r \<in> set (receipts w) \<and> rc_source_task_attestation_id r = at_id a"
    using lock_delivery_rows [OF l] by blast
  obtain w2 r2 where r2: "acknowledge_locked_delivery w1 now a receipt' d = (w2, r2)" by fastforce
  have c: "calm w w1" unfolding w1 by (rule schedules_calm [OF b])
  have "safe w1 w2"
    by (rule acknowledge_locked_delivery_safe [OF _ _ _ _ r2]) (use c mem rc sub in \<open>auto simp: calm_def w1\<close>)
  then have "safe w w2" by (rule calm_safe_trans [OF c]) (simp add: w1)
  then show ?thesis using res r2 rolled_back_safe [OF b] by (auto split: sum.splits)
qed

lemma self_safe: "base_inv w \<Longrightarrow> safe w w"
  by (rule calm_safe [OF calm_refl])

lemma acknowledge_delivery_id_safe:
  assumes b: "base_inv w" and res: "acknowledge_delivery_id w now did = (w', x)"
  shows "safe w w'"
proof (cases "lock_delivery_ack_authority w did")
  case (Inl e)
  then show ?thesis using res self_safe [OF b] by (simp add: acknowledge_delivery_id_def)
next
  case (Inr y)
  obtain w1 a receipt d where y: "y = (w1, a, receipt, d)" by (rule prod_cases4)
  let ?r = "if dl_resolution_state d \<noteq> ''accepted'' then None else receipt"
  show ?thesis
  proof (cases "case ?r of None \<Rightarrow> False | Some r \<Rightarrow> rc_application_state r \<noteq> ''applied''")
    case True
    then show ?thesis using res Inr y self_safe [OF b] by (simp add: acknowledge_delivery_id_def Let_def)
  next
    case False
    then show ?thesis
      using locked_ack_safe [OF b Inr [unfolded y], of ?r now w' x] res Inr y by (auto simp: acknowledge_delivery_id_def Let_def)
  qed
qed

lemma acknowledge_applied_safe:
  assumes b: "base_inv w" and res: "acknowledge_applied env w now ev = (w', x)"
  shows "safe w w'"
proof (cases "locked_event_delivery w ev")
  case None
  then show ?thesis using res self_safe [OF b] by (simp add: acknowledge_applied_def)
next
  case (Some d0)
  show ?thesis
  proof (cases "lock_delivery_ack_authority w (dl_id d0)")
    case (Inl e)
    then show ?thesis using res Some self_safe [OF b] by (simp add: acknowledge_applied_def)
  next
    case (Inr y)
    obtain w1 a receipt d where y: "y = (w1, a, receipt, d)" by (rule prod_cases4)
    let ?r = "if dl_resolution_state d \<noteq> ''accepted'' then None else receipt"
    have sub: "?r = None \<or> ?r = receipt" by simp
    have "w' = w \<or> (case acknowledge_locked_delivery w1 now a ?r d of
       (w2, Inl e) \<Rightarrow> (rolled_back w w2, Inl e) | (w2, Inr _) \<Rightarrow> (w2, Inr ())) = (w', x)"
      using res unfolding acknowledge_applied_def Some option.case Inr sum.case y prod.case Let_def
      by (simp split: sum.splits if_splits del: split_paired_All split_paired_Ex)
    then show ?thesis using self_safe [OF b] locked_ack_safe [OF b Inr [unfolded y] sub] by blast
  qed
qed

lemma acknowledge_authorized_task_safe:
  assumes b: "base_inv w" and res: "acknowledge_authorized_task w now aid = (w', x)"
  shows "safe w w'"
proof (cases "row_get at_id (attestations w) aid")
  case None
  then show ?thesis using res self_safe [OF b] by (simp add: acknowledge_authorized_task_def)
next
  case (Some a)
  have a: "a \<in> set (attestations w)" by (rule row_get_mem [OF Some])
  show ?thesis
  proof (cases "lock_job_execution_entry w w (at_job_id a)")
    case (Inl e)
    then show ?thesis using res Some self_safe [OF b] by (cases e) (simp add: acknowledge_authorized_task_def)
  next
    case (Inr y)
    obtain w1 z where y: "y = (w1, z)" by (rule prod.exhaust)
    obtain s where w1: "w1 = w\<lparr>schedules := s\<rparr>" using lock_entry_frame [OF Inr [unfolded y]] by blast
    have c: "calm w w1" unfolding w1 by (rule schedules_calm [OF b])
    let ?w2 = "xack w1 (at_redis_stream a) (at_consumer_group a) (at_message_id a)"
    show ?thesis
    proof (cases "at_ack_state a = ''authorized''")
      case True
      have "durable w (at_redis_stream a, at_consumer_group a, at_message_id a)"
        using a True unfolding durable_def at_ident_def settled_def by blast
      then have s2: "safe w ?w2" by (rule safe_xack [OF calm_safe [OF c]])
      have a2: "a \<in> set (attestations ?w2)" using a by (simp add: w1)
      show ?thesis
      proof (cases "mark_proven_task_acknowledged ?w2 now a")
        case (Inl e)
        then show ?thesis using res Some Inr y True rolled_back_safe [OF b s2] by (simp add: acknowledge_authorized_task_def)
      next
        case m: (Inr w3)
        have "calm ?w2 w3" using mark_proven_calm [OF _ a2 m] s2 by (simp add: safe_def)
        then show ?thesis using res Some Inr y True m safe_calm [OF s2] by (simp add: acknowledge_authorized_task_def)
      qed
    next
      case False
      then show ?thesis using res Some Inr y self_safe [OF b] calm_safe [OF c]
        by (auto simp: acknowledge_authorized_task_def split: if_splits)
    qed
  qed
qed

lemma foldl_row_put_mem:
  assumes "x \<in> set rows" and "distinct (map key bs)"
  shows "\<exists>x'\<in>set (foldl (row_put key) rows bs). x' = x \<or> x' \<in> set bs \<and> key x' = key x"
  using assms
proof (induction bs arbitrary: rows x)
  case (Cons b bs)
  show ?case
  proof (cases "key x = key b")
    case True
    then have "b \<in> set (row_put key rows b)" using Cons.prems(1) by (force simp: row_put_def image_iff)
    then obtain x' where "x' \<in> set (foldl (row_put key) (row_put key rows b) bs)" "x' = b \<or> x' \<in> set bs \<and> key x' = key b"
      using Cons.IH Cons.prems(2) by (metis distinct.simps(2) list.simps(9))
    then show ?thesis using True by auto
  next
    case False
    then have "x \<in> set (row_put key rows b)" using Cons.prems(1) by (force simp: row_put_def image_iff)
    then obtain x' where "x' \<in> set (foldl (row_put key) (row_put key rows b) bs)" "x' = x \<or> x' \<in> set bs \<and> key x' = key x"
      using Cons.IH Cons.prems(2) by (metis distinct.simps(2) list.simps(9))
    then show ?thesis by auto
  qed
qed simp

lemma rows_kept_puts:
  assumes "\<And>x. R x x" and "distinct (map key bs)" and "\<And>x b. x \<in> set rows \<Longrightarrow> b \<in> set bs \<Longrightarrow> key b = key x \<Longrightarrow> R x b"
  shows "rows_kept R rows (foldl (row_put key) rows bs)"
  unfolding rows_kept_def using foldl_row_put_mem [OF _ assms(2)] assms(1,3) by metis

lemma foldl_row_put_keys [simp]: "map key (foldl (row_put key) rows bs) = map key rows"
  by (induction bs arbitrary: rows) simp_all

lemma foldl_put_dispatch: "foldl put_dispatch w bs = w\<lparr>dispatches := foldl (row_put wd_id) (dispatches w) bs\<rparr>"
  by (induction bs arbitrary: w) (simp_all add: put_dispatch_def)

lemma foldl_put_attestation: "foldl put_attestation w bs = w\<lparr>attestations := foldl (row_put at_id) (attestations w) bs\<rparr>"
  by (induction bs arbitrary: w) (simp_all add: put_attestation_def)

text \<open>Writing back rows of the table, each changed by \<open>f\<close>.\<close>

lemma puts_dispatch_calm:
  assumes b: "base_inv w" and sub: "set batch \<subseteq> set (dispatches w)" and dist: "distinct (map wd_id batch)"
    and f: "\<And>d. d \<in> set batch \<Longrightarrow> wd_id (f d) = wd_id d \<and> wd_kept d (f d)"
  shows "calm w (foldl put_dispatch w (map f batch))"
proof -
  have d: "distinct (map wd_id (dispatches w))" using b by (simp add: base_inv_def ids_ok_def)
  have ids: "map wd_id (map f batch) = map wd_id batch" using f by simp
  have "rows_kept wd_kept (dispatches w) (foldl (row_put wd_id) (dispatches w) (map f batch))"
  proof (rule rows_kept_puts)
    show "distinct (map wd_id (map f batch))" unfolding ids by (rule dist)
    fix x y assume x: "x \<in> set (dispatches w)" and y: "y \<in> set (map f batch)" "wd_id y = wd_id x"
    then obtain z where z: "z \<in> set batch" "y = f z" by auto
    then have "z = x" using row_unique [OF d _ x, of z] sub y f [OF z(1)] by auto
    then show "wd_kept x y" using f z by auto
  qed simp
  then show ?thesis using b unfolding foldl_put_dispatch
    by (simp add: calm_def base_inv_def receipt_inv_def records_kept_def rows_kept_refl)
qed

lemma puts_attestation_calm:
  assumes b: "base_inv w" and sub: "set batch \<subseteq> set (attestations w)" and dist: "distinct (map at_id batch)"
    and f: "\<And>a. a \<in> set batch \<Longrightarrow> at_kept a (f a)"
  shows "calm w (foldl put_attestation w (map f batch))"
proof -
  have d: "distinct (map at_id (attestations w))" using b by (simp add: base_inv_def)
  have ids: "map at_id (map f batch) = map at_id batch" using f by (simp add: at_kept_def)
  have "rows_kept at_kept (attestations w) (foldl (row_put at_id) (attestations w) (map f batch))"
  proof (rule rows_kept_puts)
    show "distinct (map at_id (map f batch))" unfolding ids by (rule dist)
    fix x y assume x: "x \<in> set (attestations w)" and y: "y \<in> set (map f batch)" "at_id y = at_id x"
    then obtain z where z: "z \<in> set batch" "y = f z" by auto
    then have "z = x" using row_unique [OF d _ x, of z] sub y f [OF z(1)] by (auto simp: at_kept_def)
    then show "at_kept x y" using f z by auto
  qed simp
  then show ?thesis using b unfolding foldl_put_attestation
    by (simp add: calm_def base_inv_def receipt_inv_def records_kept_def rows_kept_refl)
qed

lemma distinct_map_take_filter: "distinct (map key rows) \<Longrightarrow> distinct (map key (take n (filter P rows)))"
  by (simp only: take_map [symmetric] distinct_take distinct_map_filter)

lemma set_take_filter: "set (take n (filter P rows)) \<subseteq> set rows"
  using set_take_subset [of n "filter P rows"] by auto

lemma cancel_pending_calm:
  assumes b: "base_inv w" and res: "cancel_pending_dispatches w now limit = Inr w'"
  shows "calm w w'"
proof -
  let ?P = "\<lambda>d. wd_delivery_state d = ''pending'' \<and> wd_resolution_state d = ''unresolved'' \<and> cancelled_authority w d"
  let ?batch = "take limit (filter ?P (dispatches w))"
  let ?f = "\<lambda>d. d\<lparr>wd_delivery_state := ''cancelled'', wd_resolution_state := ''cancelled'', wd_cancelled_at := Some now\<rparr>"
  obtain w1 where l: "lock_batch w ?batch = Inr w1" and w': "w' = foldl put_dispatch w1 (map ?f ?batch)"
    using res by (cases "lock_batch w ?batch") (auto simp: cancel_pending_dispatches_def Let_def)
  obtain s where w1: "w1 = w\<lparr>schedules := s\<rparr>" using lock_batch_frame [OF l] by blast
  have c: "calm w w1" unfolding w1 by (rule schedules_calm [OF b])
  have "set ?batch \<subseteq> set (filter ?P (dispatches w))" by (rule set_take_subset)
  then have un: "wd_resolution_state d = ''unresolved''" if "d \<in> set ?batch" for d using that by auto
  have "distinct (map wd_id (dispatches w))" using b by (simp add: base_inv_def ids_ok_def)
  then have dist: "distinct (map wd_id ?batch)" by (rule distinct_map_take_filter)
  have sub: "set ?batch \<subseteq> set (dispatches w1)" using set_take_filter [of limit ?P "dispatches w"] by (simp add: w1)
  have b1: "base_inv w1" using c by (simp add: calm_def)
  have "wd_id (?f d) = wd_id d \<and> wd_kept d (?f d)" if "d \<in> set ?batch" for d
    using un [OF that] by (simp add: wd_kept_def dismissed_def)
  from puts_dispatch_calm [OF b1 sub dist this] have "calm w1 (foldl put_dispatch w1 (map ?f ?batch))" .
  then show ?thesis unfolding w' by (rule calm_trans [OF c])
qed

lemma authorize_cancelled_calm:
  assumes b: "base_inv w" and res: "authorize_cancelled_dispatches w limit = Inr (w', ids)"
  shows "calm w w'"
proof -
  let ?P = "\<lambda>d. wd_delivery_state d = ''delivered''
    \<and> wd_resolution_state d \<in> {''unresolved'', ''cancel_authorized''} \<and> cancelled_authority w d"
  let ?batch = "take limit (filter ?P (dispatches w))"
  let ?part = "filter (\<lambda>d. wd_resolution_state d = ''unresolved'') ?batch"
  let ?f = "\<lambda>d. d\<lparr>wd_resolution_state := ''cancel_authorized''\<rparr>"
  obtain w1 where l: "lock_batch w ?batch = Inr w1" and w': "w' = foldl put_dispatch w1 (map ?f ?part)"
    using res by (cases "lock_batch w ?batch") (auto simp: authorize_cancelled_dispatches_def Let_def)
  obtain s where w1: "w1 = w\<lparr>schedules := s\<rparr>" using lock_batch_frame [OF l] by blast
  have c: "calm w w1" unfolding w1 by (rule schedules_calm [OF b])
  have "distinct (map wd_id (dispatches w))" using b by (simp add: base_inv_def ids_ok_def)
  then have dist: "distinct (map wd_id ?part)" by (intro distinct_map_filter distinct_map_take_filter)
  have sub: "set ?part \<subseteq> set (dispatches w1)" using set_take_filter [of limit ?P "dispatches w"] by (auto simp: w1)
  have b1: "base_inv w1" using c by (simp add: calm_def)
  have "wd_id (?f d) = wd_id d \<and> wd_kept d (?f d)" for d by (simp add: wd_kept_def dismissed_def wd_message_def)
  from puts_dispatch_calm [OF b1 sub dist this] have "calm w1 (foldl put_dispatch w1 (map ?f ?part))" .
  then show ?thesis unfolding w' by (rule calm_trans [OF c])
qed

lemma acknowledge_cancelled_safe:
  assumes b: "base_inv w" and res: "acknowledge_cancelled_dispatch w now i = (w', x)"
  shows "safe w w'"
proof (cases "get_dispatch w i")
  case None
  then show ?thesis using res self_safe [OF b] by (simp add: acknowledge_cancelled_dispatch_def)
next
  case (Some d)
  have d: "d \<in> set (dispatches w)" by (rule get_dispatch_mem [OF Some])
  show ?thesis
  proof (cases "lock_batch w [d]")
    case (Inl e)
    then show ?thesis using res Some self_safe [OF b] by (simp add: acknowledge_cancelled_dispatch_def)
  next
    case (Inr w1)
    obtain s where w1: "w1 = w\<lparr>schedules := s\<rparr>" using lock_batch_frame [OF Inr] by blast
    have c: "calm w w1" unfolding w1 by (rule schedules_calm [OF b])
    show ?thesis
    proof (cases "wd_resolution_state d = ''cancel_authorized'' \<and> wd_delivery_state d = ''delivered'' \<and> cancelled_authority w1 d
        \<and> wd_redis_message_id d \<noteq> None")
      case False
      then have "w' = w \<or> w' = w1"
        using res Some Inr by (auto simp: acknowledge_cancelled_dispatch_def split: if_splits option.splits)
      then show ?thesis using self_safe [OF b] calm_safe [OF c] by blast
    next
      case True
      then obtain msg where msg: "wd_redis_message_id d = Some msg" by blast
      let ?w2 = "xack w1 (wd_redis_stream d) (wd_consumer_group d) msg"
      let ?d = "d\<lparr>wd_resolution_state := ''acknowledged'', wd_acknowledged_at := Some now\<rparr>"
      let ?w3 = "put_dispatch ?w2 ?d"
      let ?atts = "filter (\<lambda>a. at_dispatch_key a = wd_dispatch_key d \<and> at_ack_state a \<noteq> ''acknowledged'') (attestations w1)"
      let ?f = "\<lambda>a. a\<lparr>at_ack_state := ''acknowledged'', at_acknowledged_at := Some now\<rparr>"
      have "durable w (wd_redis_stream d, wd_consumer_group d, msg)"
        using d True msg unfolding durable_def wd_message_def dismissed_def by auto
      then have s2: "safe w ?w2" by (rule safe_xack [OF calm_safe [OF c]])
      have b2: "base_inv ?w2" and d2: "d \<in> set (dispatches ?w2)" using s2 d by (simp_all add: safe_def w1)
      have c3: "calm ?w2 ?w3"
        by (rule put_dispatch_calm [OF b2 d2]) (simp_all add: wd_kept_def wd_message_def dismissed_def)
      then have b3: "base_inv ?w3" by (simp add: calm_def)
      have at3: "attestations ?w3 = attestations w1" by (simp add: put_dispatch_def)
      have dist: "distinct (map at_id ?atts)" using b by (simp add: w1 base_inv_def distinct_map_filter)
      have sub: "set ?atts \<subseteq> set (attestations ?w3)" unfolding at3 by auto
      have "at_kept a (?f a)" for a by (simp add: at_kept_def at_ident_def settled_def)
      from puts_attestation_calm [OF b3 sub dist this] have "calm ?w3 (foldl put_attestation ?w3 (map ?f ?atts))" .
      moreover have "w' = foldl put_attestation ?w3 (map ?f ?atts)"
        using res Some Inr True msg by (auto simp: acknowledge_cancelled_dispatch_def Let_def)
      ultimately show ?thesis using safe_calm [OF s2 calm_trans [OF c3]] by simp
    qed
  qed
qed

text \<open>A transaction that only adds receipts, deliveries and dispatches.\<close>

definition grown :: "world \<Rightarrow> world \<Rightarrow> bool" where
  "grown w w' \<longleftrightarrow> attestations w' = attestations w \<and> redis_acks w' = redis_acks w
     \<and> (\<exists>ds. deliveries w' = deliveries w @ ds) \<and> (\<exists>rs. receipts w' = receipts w @ rs)
     \<and> (\<exists>ds. dispatches w' = dispatches w @ ds)
     \<and> (ids_ok (map wd_id (dispatches w)) (next_id w) \<longrightarrow> ids_ok (map wd_id (dispatches w')) (next_id w'))"

lemma ids_ok_mono: "ids_ok ids n \<Longrightarrow> n \<le> m \<Longrightarrow> ids_ok ids m"
  unfolding ids_ok_def by fastforce

lemma grown_calm:
  assumes b: "base_inv w" and g: "grown w w'" and i: "receipt_inv w'"
  shows "calm w w'"
proof -
  have "rows_kept wd_kept (dispatches w) (dispatches w')" "rows_kept dl_kept (deliveries w) (deliveries w')"
    "rows_kept rc_kept (receipts w) (receipts w')" "rows_kept at_kept (attestations w) (attestations w')"
    using g unfolding grown_def by (auto simp: rows_kept_append rows_kept_refl)
  then show ?thesis using b g i by (simp add: calm_def records_kept_def base_inv_def grown_def)
qed

lemma schedules_grown: "grown w (w\<lparr>schedules := s\<rparr>)"
  by (simp add: grown_def)

lemma add_delivery_grown: "grown w (add_event_delivery w now rid att ev st reason)"
  unfolding grown_def by (auto simp: add_event_delivery_def intro: ids_ok_mono)

lemma grown_trans:
  assumes "grown a b" and "grown b c"
  shows "grown a c"
  using assms unfolding grown_def by (metis append_assoc)

lemma resume_receipt_grown: "resume_receipt env w now r ev att = Inr (w', x) \<Longrightarrow> grown w w'"
  using resume_receipt_Inr add_delivery_grown by blast

context event_applier
begin

lemma apply_new_receipt_grown:
  assumes inv: "receipt_inv w" and res: "apply_new_receipt apply_event w now ev att = Inr (w', x)"
  shows "grown w w'"
proof -
  obtain claim where c: "registration_claim ev = Inr claim"
    using res by (cases "registration_claim ev") (simp_all add: apply_new_receipt_def)
  let ?r = "new_receipt (next_id w) now att ev claim"
  let ?r' = "?r\<lparr>rc_application_state := ''applied'', rc_applied_at := Some now\<rparr>"
  let ?w1 = "w\<lparr>receipts := receipts w @ [?r], next_id := next_id w + 1\<rparr>"
  let ?w2 = "add_event_delivery ?w1 now (Some (rc_id ?r)) att ev ''accepted'' None"
  obtain w3 where w3: "apply_event ?w2 ?r ev = Inr w3" and w': "w' = put_receipt w3 ?r'"
    using res c by (auto simp: apply_new_receipt_def Let_def split: if_splits sum.splits)
  have "rc_id ?r = next_id w" by (simp add: new_receipt_def split: prod.splits)
  then have fresh: "rc_id ?r \<notin> rc_id ` set (receipts w)" using inv by (auto simp: receipt_inv_def receipts_ok_def)
  have "receipts w' = receipts w @ [?r']"
    unfolding w' put_receipt_def using keeps [OF w3] fresh by (simp add: row_put_append_last)
  moreover have "ids_ok (map wd_id (dispatches w)) (next_id w + 2)" if "ids_ok (map wd_id (dispatches w)) (next_id w)"
    using that by (rule ids_ok_mono) simp
  moreover have "\<exists>ds. deliveries ?w2 = deliveries w @ ds" by (simp add: add_event_delivery_def)
  ultimately show ?thesis using keeps [OF w3] unfolding grown_def w' by (simp add: put_receipt_def)
qed

lemma accept_fresh_grown:
  assumes inv: "receipt_inv w" and res: "accept_fresh_event env observe apply_event w now a ev observed att = Inr (w', x)"
  shows "grown w w'"
proof (cases "locked_receipt_for_attestation w att")
  case (Some r)
  then have "resume_receipt env w now r ev att = Inr (w', x)" using res by (simp add: accept_fresh_event_def)
  then show ?thesis by (rule resume_receipt_grown)
next
  case None
  then have "apply_new_receipt apply_event w now ev att = Inr (w', x)"
    using res by (auto simp: accept_fresh_event_def split: sum.splits if_splits authority_error.splits)
  then show ?thesis by (rule apply_new_receipt_grown [OF inv])
qed

lemma accept_calm:
  assumes b: "base_inv w" and res: "accept_and_apply env observe apply_event w now ev = Inr (w', x)"
  shows "calm w w'"
proof (rule grown_calm [OF b])
  have inv: "receipt_inv w" using b by (simp add: base_inv_def)
  show "receipt_inv w'" using accept_inv [OF inv res] by simp
  obtain w1 a where l: "lock_job_execution_authority w w (ev_job_id ev) (Some (ev_node_execution_id ev)) True = Inr (w1, a)"
    using res by (auto simp: accept_and_apply_def split: sum.splits prod.splits authority_error.splits)
  obtain s where w1: "w1 = w\<lparr>schedules := s\<rparr>" using lock_authority_frame [OF l] by blast
  have inv1: "receipt_inv w1" using inv by (simp add: w1)
  let ?att = "locked_task_attestation w1 ev"
  obtain observed att where ob: "(case ?att of None \<Rightarrow> map_sum id (\<lambda>i. (Some i, i)) (observe w1 ev) | Some t \<Rightarrow> Inr (None, at_id t)) = Inr (observed, att)"
    using res l by (auto simp: accept_and_apply_def Let_def split: if_splits sum.splits prod.splits)
  note res1 = res [unfolded accept_and_apply_def l sum.case prod.case Let_def ob]
  have "grown w1 w'"
  proof (cases "locked_event_delivery w1 ev")
    case (Some d)
    then have "w' = w1" using res1 by (cases "redelivered_event env w1 d ev") (auto split: if_splits)
    then show ?thesis using schedules_grown [of w1 "schedules w1"] by simp
  next
    case None
    show ?thesis
    proof (cases "Option.bind ?att (\<lambda>t. attestation_mismatch_reason t ev)")
      case (Some reason)
      then have "w' = add_event_delivery w1 now (map_option rc_id (locked_receipt_for_attestation w1 att)) att ev ''quarantined'' (Some reason)"
        using res1 None by (auto split: if_splits)
      then show ?thesis by (simp add: add_delivery_grown)
    next
      case ok: None
      then have "accept_fresh_event env observe apply_event w1 now a ev observed att = Inr (w', x)"
        using res1 None by (auto split: if_splits)
      then show ?thesis by (rule accept_fresh_grown [OF inv1])
    qed
  qed
  with schedules_grown [of w s] show "grown w w'" unfolding w1 by (rule grown_trans)
qed

end

section \<open>Deliveries of tasks\<close>

lemma put_locked_dispatch_calm:
  assumes b: "base_inv w" and d: "get_dispatch w i = Some d" and un: "wd_delivery_state d \<noteq> ''delivered''"
    and i: "wd_id d' = wd_id d"
  shows "calm w (put_dispatch (w\<lparr>schedules := s\<rparr>) d')"
proof -
  have c: "calm w (w\<lparr>schedules := s\<rparr>)" by (rule schedules_calm [OF b])
  then have b1: "base_inv (w\<lparr>schedules := s\<rparr>)" by (simp add: calm_def)
  have "calm (w\<lparr>schedules := s\<rparr>) (put_dispatch (w\<lparr>schedules := s\<rparr>) d')"
    by (rule put_dispatch_calm [OF b1 _ _ i]) (use get_dispatch_mem [OF d] un in \<open>simp_all add: wd_kept_def dismissed_def\<close>)
  then show ?thesis by (rule calm_trans [OF c])
qed

lemma stage_calm:
  assumes b: "base_inv w" and res: "stage_worker_task_dispatch env w now origin jid nid stream grp payload = Inr w'"
  shows "calm w w'"
proof -
  obtain d where w': "w' = w\<lparr>dispatches := dispatches w @ [d], next_id := next_id w + 2\<rparr>" and i: "wd_id d = next_id w + 1"
    using stage_Inr [OF res] by (auto simp: dispatch_ident_def)
  have "ids_ok (map wd_id (dispatches w)) (next_id w)" and r: "receipt_inv w" using b by (simp_all add: base_inv_def)
  then have "ids_ok (map wd_id (dispatches w) @ [next_id w + 1]) (next_id w + 2)" by (fastforce simp: ids_ok_def)
  then have "grown w w'" unfolding grown_def w' using i by simp
  moreover have "receipt_inv w'" using r by (auto simp: receipt_inv_def w' intro: receipts_ok_mono)
  ultimately show ?thesis by (rule grown_calm [OF b])
qed

lemma begin_calm:
  assumes b: "base_inv w" and res: "begin_dispatch_attempts w now receipt limit = Inr (w', batch)"
  shows "calm w w'"
proof -
  let ?P = "\<lambda>d. wd_delivery_state d = ''pending'' \<and> wd_resolution_state d = ''unresolved'' \<and> (receipt = None \<or> wd_origin_receipt_id d = receipt)"
  let ?batch = "take limit (filter ?P (dispatches w))"
  obtain s where w': "w' = foldl put_dispatch (w\<lparr>schedules := s\<rparr>) (map (attempted now) ?batch)"
    using begin_dispatch_attempts_Inr [OF res] by (auto simp: pending_batch_def)
  let ?w1 = "w\<lparr>schedules := s\<rparr>"
  have c: "calm w ?w1" by (rule schedules_calm [OF b])
  then have b1: "base_inv ?w1" by (simp add: calm_def)
  have "set ?batch \<subseteq> set (filter ?P (dispatches w))" by (rule set_take_subset)
  then have un: "wd_delivery_state d = ''pending''" if "d \<in> set ?batch" for d using that by auto
  have "distinct (map wd_id (dispatches w))" using b by (simp add: base_inv_def ids_ok_def)
  then have dist: "distinct (map wd_id ?batch)" by (rule distinct_map_take_filter)
  have sub: "set ?batch \<subseteq> set (dispatches ?w1)" using set_take_filter [of limit ?P "dispatches w"] by simp
  have "wd_id (attempted now d) = wd_id d \<and> wd_kept d (attempted now d)" if "d \<in> set ?batch" for d
    using un [OF that] by (simp add: attempted_def wd_kept_def dismissed_def)
  from puts_dispatch_calm [OF b1 sub dist this] have "calm ?w1 w'" unfolding w' .
  then show ?thesis by (rule calm_trans [OF c])
qed

lemma mark_delivered_calm:
  assumes b: "base_inv w" and res: "mark_dispatch_delivered w now i msg = Inr w'"
  shows "calm w w'"
proof -
  let ?f = "\<lambda>d. d\<lparr>wd_delivery_state := ''delivered'', wd_redis_message_id := Some msg, wd_delivered_at := Some now\<rparr>"
  obtain s d where d: "get_dispatch w i = Some d"
    and w': "w' = w\<lparr>schedules := s\<rparr> \<or> wd_delivery_state d = ''attempting'' \<and> w' = put_dispatch (w\<lparr>schedules := s\<rparr>) (?f d)"
    using mark_delivered_Inr [OF res] by metis
  have "calm w (put_dispatch (w\<lparr>schedules := s\<rparr>) (?f d))" if "wd_delivery_state d = ''attempting''"
    by (rule put_locked_dispatch_calm [OF b d]) (use that in simp_all)
  then show ?thesis using w' schedules_calm [OF b, of s] by metis
qed

lemma mark_uncertain_calm:
  assumes b: "base_inv w" and res: "mark_dispatch_uncertain w i reason = Inr w'"
  shows "calm w w'"
proof -
  let ?f = "\<lambda>d. d\<lparr>wd_delivery_state := ''uncertain'', wd_delivery_error := Some reason\<rparr>"
  obtain s d where d: "get_dispatch w i = Some d"
    and w': "w' = w\<lparr>schedules := s\<rparr> \<or> wd_delivery_state d = ''attempting'' \<and> w' = put_dispatch (w\<lparr>schedules := s\<rparr>) (?f d)"
    using mark_uncertain_Inr [OF res] by metis
  have "calm w (put_dispatch (w\<lparr>schedules := s\<rparr>) (?f d))" if "wd_delivery_state d = ''attempting''"
    by (rule put_locked_dispatch_calm [OF b d]) (use that in simp_all)
  then show ?thesis using w' schedules_calm [OF b, of s] by metis
qed

section \<open>Runs\<close>

text \<open>
  The transactions of the service in any order, with those that deliver tasks; a run that stops is a
  crash. \<open>rs_other\<close> is any change of the remaining tables, and the attestation of a new task delivery.
\<close>

inductive receipt_step :: "cache_env \<Rightarrow> (datetime \<Rightarrow> applier) \<Rightarrow> world \<Rightarrow> world \<Rightarrow> bool" for env apply_event where
  rs_accept: "accept_and_apply env observe (apply_event now) w now ev = Inr (w', x) \<Longrightarrow> receipt_step env apply_event w w'"
| rs_ack_applied: "acknowledge_applied env w now ev = (w', x) \<Longrightarrow> receipt_step env apply_event w w'"
| rs_ack_delivery: "acknowledge_delivery_id w now did = (w', x) \<Longrightarrow> receipt_step env apply_event w w'"
| rs_ack_task: "acknowledge_authorized_task w now aid = (w', x) \<Longrightarrow> receipt_step env apply_event w w'"
| rs_cancel: "cancel_pending_dispatches w now limit = Inr w' \<Longrightarrow> receipt_step env apply_event w w'"
| rs_authorize: "authorize_cancelled_dispatches w limit = Inr (w', ids) \<Longrightarrow> receipt_step env apply_event w w'"
| rs_ack_cancelled: "acknowledge_cancelled_dispatch w now i = (w', x) \<Longrightarrow> receipt_step env apply_event w w'"
| rs_stage: "stage_worker_task_dispatch env w now origin jid nid stream grp payload = Inr w' \<Longrightarrow> receipt_step env apply_event w w'"
| rs_begin: "begin_dispatch_attempts w now receipt limit = Inr (w', batch) \<Longrightarrow> receipt_step env apply_event w w'"
| rs_delivered: "mark_dispatch_delivered w now i msg = Inr w' \<Longrightarrow> receipt_step env apply_event w w'"
| rs_uncertain: "mark_dispatch_uncertain w i reason = Inr w' \<Longrightarrow> receipt_step env apply_event w w'"
| rs_other: "receipts w' = receipts w \<Longrightarrow> deliveries w' = deliveries w \<Longrightarrow> redis_acks w' = redis_acks w
    \<Longrightarrow> dispatches w' = dispatches w \<Longrightarrow> attestations w' = attestations w @ new \<Longrightarrow> distinct (map at_id (attestations w'))
    \<Longrightarrow> next_id w \<le> next_id w' \<Longrightarrow> receipt_step env apply_event w w'"

definition service_inv :: "world \<Rightarrow> bool" where
  "service_inv w \<longleftrightarrow> base_inv w \<and> (\<forall>m\<in>set (redis_acks w). durable w m)"

lemma other_calm:
  assumes "base_inv w" and "receipts w' = receipts w" and "deliveries w' = deliveries w" and "redis_acks w' = redis_acks w"
    and "dispatches w' = dispatches w" and "attestations w' = attestations w @ new" and "distinct (map at_id (attestations w'))"
    and "next_id w \<le> next_id w'"
  shows "calm w w'"
proof -
  have "receipt_inv w'" using assms(1,2,3,8) by (auto simp: base_inv_def receipt_inv_def intro: receipts_ok_mono)
  moreover have "ids_ok (map wd_id (dispatches w')) (next_id w')"
    using assms(1,5,8) by (auto simp: base_inv_def intro: ids_ok_mono)
  ultimately show ?thesis using assms
    by (simp add: calm_def base_inv_def records_kept_def rows_kept_refl rows_kept_append)
qed

lemma accepted_kept:
  assumes i: "receipt_inv w" "receipt_inv w'" and k: "records_kept w w'" and acc: "accepted_with w ev rid"
  shows "accepted_with w' ev rid"
proof -
  obtain d r where d: "locked_event_delivery w ev = Some d" "dl_resolution_state d \<noteq> ''quarantined''" "dl_receipt_id d = Some rid"
    and r: "get_receipt w rid = Some r" "rc_application_state r = ''applied''" using acc unfolding accepted_with_def by blast
  have m: "d \<in> set (deliveries w)" "dl_ident d = ev_ident ev" using locked_event_delivery_Some [OF d(1)] by simp_all
  obtain d' where d': "d' \<in> set (deliveries w')" "dl_key d' = dl_key d"
    using k m(1) unfolding records_kept_def rows_kept_def dl_kept_def by blast
  have "r \<in> set (receipts w)" using r(1) row_get_mem unfolding get_receipt_def by fast
  then obtain r' where r': "r' \<in> set (receipts w')" "rc_key r' = rc_key r"
    using k unfolding records_kept_def rows_kept_def rc_kept_def by blast
  have g: "get_receipt w' rid = Some r'" using receipt_row [OF i(2) r'(1)] receipt_rows.get_key [OF r(1)] r'(2) by (simp add: rc_key_def)
  have id': "dl_ident d' = ev_ident ev" using d'(2) m(2) by (simp add: dl_key_def)
  then have "locked_event_delivery w' ev \<noteq> None" using d'(1) unfolding locked_event_delivery_None by force
  then obtain e where e: "locked_event_delivery w' ev = Some e" by blast
  have "distinct (map dl_ident (deliveries w'))" using i(2) by (simp add: receipt_inv_def receipts_ok_def)
  then have "e = d'" using row_unique [of dl_ident] locked_event_delivery_Some [OF e] id' d'(1) by metis
  then show ?thesis using e g d d'(2) r(2) r'(2) unfolding accepted_with_def by (auto simp: dl_key_def rc_key_def)
qed

text \<open>The function that applies events, at every instant.\<close>

locale timed_event_applier =
  fixes apply_event :: "datetime \<Rightarrow> applier"
  assumes applier: "event_applier (apply_event now)"
begin

lemma receipt_step_safe:
  assumes st: "receipt_step env apply_event w w'" and b: "base_inv w"
  shows "safe w w'"
  using st
proof cases
  case rs_accept then show ?thesis by (rule calm_safe [OF event_applier.accept_calm [OF applier b]])
next
  case rs_ack_applied then show ?thesis by (rule acknowledge_applied_safe [OF b])
next
  case rs_ack_delivery then show ?thesis by (rule acknowledge_delivery_id_safe [OF b])
next
  case rs_ack_task then show ?thesis by (rule acknowledge_authorized_task_safe [OF b])
next
  case rs_cancel then show ?thesis by (rule calm_safe [OF cancel_pending_calm [OF b]])
next
  case rs_authorize then show ?thesis by (rule calm_safe [OF authorize_cancelled_calm [OF b]])
next
  case rs_ack_cancelled then show ?thesis by (rule acknowledge_cancelled_safe [OF b])
next
  case rs_stage then show ?thesis by (rule calm_safe [OF stage_calm [OF b]])
next
  case rs_begin then show ?thesis by (rule calm_safe [OF begin_calm [OF b]])
next
  case rs_delivered then show ?thesis by (rule calm_safe [OF mark_delivered_calm [OF b]])
next
  case rs_uncertain then show ?thesis by (rule calm_safe [OF mark_uncertain_calm [OF b]])
next
  case rs_other then show ?thesis by (rule calm_safe [OF other_calm [OF b]])
qed

lemma receipt_step_inv:
  assumes inv: "service_inv w" and st: "receipt_step env apply_event w w'"
  shows "service_inv w'"
proof -
  have s: "safe w w'" using receipt_step_safe [OF st] inv by (simp add: service_inv_def)
  have "durable w' m" if m: "m \<in> set (redis_acks w')" for m
  proof -
    have "durable w m" using s m inv unfolding safe_def service_inv_def by blast
    then show ?thesis using durable_kept s unfolding safe_def by blast
  qed
  then show ?thesis using s by (simp add: service_inv_def safe_def)
qed

lemma receipt_step_accepted:
  assumes inv: "service_inv w \<and> accepted_with w ev rid" and st: "receipt_step env apply_event w w'"
  shows "service_inv w' \<and> accepted_with w' ev rid"
proof -
  have i: "service_inv w'" by (rule receipt_step_inv [OF conjunct1 [OF inv] st])
  have "records_kept w w'" using receipt_step_safe [OF st] inv by (simp add: service_inv_def safe_def)
  then show ?thesis using accepted_kept [of w w' ev rid] inv i by (simp add: service_inv_def base_inv_def)
qed

end

sublocale timed_event_applier \<subseteq> runs: step_invariant "receipt_step env apply_event" service_inv for env
  by unfold_locales (rule receipt_step_inv)

sublocale timed_event_applier \<subseteq> accepted_runs: step_invariant "receipt_step env apply_event" "\<lambda>w. service_inv w \<and> accepted_with w ev rid" for env ev rid
  by unfold_locales (rule receipt_step_accepted)

section \<open>The reconciliation passes are runs\<close>

lemma run_each_steps:
  assumes "\<And>x w w' y. f x w = (w', y) \<Longrightarrow> receipt_step env apply_event w w'"
  shows "(receipt_step env apply_event)\<^sup>*\<^sup>* w (fst (run_each f xs w))"
proof (induction xs arbitrary: w)
  case (Cons x xs)
  obtain w1 y where f: "f x w = (w1, y)" by (rule prod.exhaust)
  have "receipt_step env apply_event w w1" by (rule assms [OF f])
  then show ?case using Cons.IH [of w1] by (cases y) (auto simp: f intro: converse_rtranclp_into_rtranclp)
qed simp

lemma settle_service_step:
  assumes "settle_attempt w now d = Inr w'"
  shows "receipt_step env apply_event w w'"
  using assms by (auto simp: settle_attempt_def split: option.splits if_splits intro: rs_delivered rs_uncertain)

lemma settle_service_steps: "(receipt_step env apply_event)\<^sup>*\<^sup>* w (fst (settle_attempts now w ds))"
proof (induction ds arbitrary: w)
  case (Cons d ds)
  show ?case
  proof (cases "settle_attempt w now d")
    case (Inr w1)
    then show ?thesis using Cons.IH [of w1] settle_service_step [OF Inr] by (auto intro: converse_rtranclp_into_rtranclp)
  qed simp
qed simp

lemma recover_stale_steps:
  "(receipt_step env apply_event)\<^sup>*\<^sup>* w (fst (recover_stale_dispatch_attempts w now recovery_seconds receipt limit))"
  unfolding recover_stale_dispatch_attempts_def by (rule settle_service_steps)

text \<open>The pass that reconciles cancelled dispatches is, whatever it meets and wherever it stops with an
  error, a run of the transactions of the service: settling stale attempts, cancelling what was not sent,
  authorizing what was, and acknowledging each message in its own transaction.\<close>

theorem reconcile_cancelled_refines:
  "(receipt_step env apply_event)\<^sup>*\<^sup>* w (fst (reconcile_cancelled_dispatches w now recovery_seconds limit))"
proof (cases "limit = 0")
  case True
  then show ?thesis by (simp add: reconcile_cancelled_dispatches_def)
next
  case False
  let ?rec = "recover_stale_dispatch_attempts w now recovery_seconds None limit"
  obtain w1 y where r: "?rec = (w1, y)" by (rule prod.exhaust)
  have s1: "(receipt_step env apply_event)\<^sup>*\<^sup>* w w1"
    using recover_stale_steps [of env apply_event w now recovery_seconds None limit] by (simp add: r)
  note res = reconcile_cancelled_dispatches_def [of w now recovery_seconds limit, unfolded r prod.case if_not_P [OF False]]
  consider (stop) "fst (reconcile_cancelled_dispatches w now recovery_seconds limit) = w1"
    | (goes) w2 where "cancel_pending_dispatches w1 now limit = Inr w2" "y = Inr ()"
    using res False by (cases y; cases "cancel_pending_dispatches w1 now limit") auto
  then show ?thesis
  proof cases
    case stop
    then show ?thesis using s1 by simp
  next
    case goes
    have "receipt_step env apply_event w1 w2" by (rule rs_cancel [OF goes(1)])
    then have s2: "(receipt_step env apply_event)\<^sup>*\<^sup>* w w2" by (rule rtranclp.rtrancl_into_rtrancl [OF s1])
    show ?thesis
    proof (cases "authorize_cancelled_dispatches w2 limit")
      case (Inl e)
      then show ?thesis using res False goes s2 by simp
    next
      case (Inr z)
      obtain w3 ids where z: "z = (w3, ids)" by (rule prod.exhaust)
      have "receipt_step env apply_event w2 w3" by (rule rs_authorize) (use Inr z in simp)
      then have s3: "(receipt_step env apply_event)\<^sup>*\<^sup>* w w3" by (rule rtranclp.rtrancl_into_rtrancl [OF s2])
      have "(receipt_step env apply_event)\<^sup>*\<^sup>* w3 (fst (run_each (\<lambda>i w. acknowledge_cancelled_dispatch w now i) ids w3))"
        by (rule run_each_steps) (rule rs_ack_cancelled)
      then show ?thesis using res False goes Inr z s3 by simp
    qed
  qed
qed

end
