(* ===== verification/Engine_Registered.thy ===== *)
theory Engine_Registered
  imports Engine Receipt_Runs
begin

text \<open>
  The events of registered workers: \<open>apply_registered_worker_event\<close> of \<open>app/orchestrator/engine.py\<close>,
  the function the receipt service applies an event with, and \<open>release_registered_retry_claim\<close> of
  \<open>app/services/registered_worker_retry.py\<close> on a database other than PostgreSQL. All of it happens in the
  transaction of the receipt, under the locks that transaction holds: an exception leaves nothing behind.
\<close>

section \<open>Releasing the claim of a failed attempt\<close>

definition release_mismatch :: receipt_error where
  "release_mismatch = AuthorityBlocked ''registered retry release authority mismatch''"

definition one_or_none :: "'a list \<Rightarrow> receipt_error + 'a option" where
  "one_or_none rows = (case rows of [] \<Rightarrow> Inr None | [r] \<Rightarrow> Inr (Some r) | _ \<Rightarrow> Inl MultipleResultsFound)"

definition release_node_ok :: "RegisteredWorkerEventReceipt \<Rightarrow> NodeExecution \<Rightarrow> bool" where
  "release_node_ok r n \<longleftrightarrow>
     rc_application_state r = ''accepted'' \<and> rc_applied_at r = None \<and> rc_event_type r = ''node_failed''
     \<and> rc_ack_state r = ''pending'' \<and> rc_source_task_ack_state r = ''pending'' \<and> ne_retry_count n = 1
     \<and> ne_queued_at n \<noteq> None \<and> ne_worker_id n = Some (rc_worker_id r)
     \<and> ne_worker_registration_id n = Some (rc_worker_registration_id r)
     \<and> ne_worker_lease_epoch n = Some (rc_worker_lease_epoch r) \<and> ne_started_at n = Some (rc_worker_started_at r)"

definition release_attestation_ok :: "RegisteredWorkerEventReceipt \<Rightarrow> WorkerTaskDeliveryAttestation \<Rightarrow> bool" where
  "release_attestation_ok r a \<longleftrightarrow>
     at_job_id a = rc_job_id r \<and> at_node_execution_id a = rc_node_execution_id r
     \<and> at_worker_registration_id a = rc_worker_registration_id r \<and> at_worker_lease_epoch a = rc_worker_lease_epoch r
     \<and> at_worker_id a = rc_worker_id r \<and> at_worker_started_at a = rc_worker_started_at r
     \<and> at_redis_stream a = rc_source_task_stream r \<and> at_consumer_group a = rc_source_task_group r
     \<and> at_message_id a = rc_source_task_message_id r"

definition release_registration_ok ::
  "world \<Rightarrow> datetime \<Rightarrow> RegisteredWorkerEventReceipt \<Rightarrow> WorkerTaskDeliveryAttestation \<Rightarrow> bool" where
  "release_registration_ok w now r a \<longleftrightarrow>
     (case row_get wr_id (registrations w) (rc_worker_registration_id r) of
        None \<Rightarrow> False
      | Some reg \<Rightarrow>
          wr_lease_epoch reg = rc_worker_lease_epoch r \<and> wr_status reg = ''active'' \<and> wr_lease_expires_at reg > now
          \<and> (case row_get gr_id (grants w) (wr_grant_id reg) of
               None \<Rightarrow> False
             | Some g \<Rightarrow> gr_redis_stream g = at_redis_stream a \<and> gr_redis_group g = at_consumer_group a))"

definition release_original_ok :: "WorkerTaskDeliveryAttestation \<Rightarrow> WorkerTaskDispatch \<Rightarrow> bool" where
  "release_original_ok a d \<longleftrightarrow>
     wd_job_id d = at_job_id a \<and> wd_node_execution_id d = at_node_execution_id a \<and> wd_redis_stream d = at_redis_stream a
     \<and> wd_consumer_group d = at_consumer_group a \<and> wd_redis_message_id d = Some (at_message_id a)
     \<and> wd_payload_sha256 d = at_payload_sha256 a \<and> wd_delivery_state d = ''delivered''
     \<and> wd_resolution_state d \<in> {''unresolved'', ''acknowledged''}"

definition release_emission_ok :: "RegisteredWorkerEventReceipt \<Rightarrow> WorkerEventEmission \<Rightarrow> bool" where
  "release_emission_ok r e \<longleftrightarrow>
     em_job_id e = rc_job_id r \<and> em_node_execution_id e = rc_node_execution_id r
     \<and> em_worker_registration_id e = rc_worker_registration_id r \<and> em_worker_lease_epoch e = rc_worker_lease_epoch r
     \<and> em_worker_id e = rc_worker_id r \<and> em_redis_stream e = rc_redis_stream r \<and> em_consumer_group e = rc_consumer_group r
     \<and> em_message_id e = Some (rc_message_id r) \<and> em_payload_sha256 e = rc_payload_sha256 r
     \<and> em_payload_json e = rc_payload_json r \<and> em_event_type e = rc_event_type r
     \<and> em_worker_started_at e = rc_worker_started_at r \<and> em_emission_state e = ''emitted''
     \<and> em_emitted_at e \<noteq> None \<and> em_resolved_at e = None"

definition release_payload_ok :: "RegisteredWorkerEventReceipt \<Rightarrow> WorkerTaskDeliveryAttestation \<Rightarrow> bool" where
  "release_payload_ok r a \<longleftrightarrow>
     list_all (\<lambda>(k, v). dict_get (rc_payload_json r) k = Some v)
       [(''event'', ''node_failed''), (''job_id'', uuid_str (rc_job_id r)),
        (''node_execution_id'', uuid_str (rc_node_execution_id r)), (''worker_id'', rc_worker_id r),
        (''worker_registration_id'', uuid_str (rc_worker_registration_id r)),
        (''worker_lease_epoch'', string_of_int (rc_worker_lease_epoch r)), (''task_stream'', rc_source_task_stream r),
        (''task_group'', rc_source_task_group r), (''task_message_id'', rc_source_task_message_id r),
        (''task_payload_sha256'', at_payload_sha256 a), (''task_dispatch_key'', uuid_str (at_dispatch_key a))]
     \<and> read_instant (dict_get_or (rc_payload_json r) ''started_at'' []) = Some (rc_worker_started_at r)"

definition release_delivery_ok ::
  "RegisteredWorkerEventReceipt \<Rightarrow> WorkerTaskDeliveryAttestation \<Rightarrow> RegisteredWorkerEventDelivery \<Rightarrow> bool" where
  "release_delivery_ok r a d \<longleftrightarrow>
     dl_receipt_id d = Some (rc_id r) \<and> dl_source_task_attestation_id d = at_id a
     \<and> dl_payload_sha256 d = rc_payload_sha256 r \<and> dl_resolution_state d = ''accepted''
     \<and> dl_ack_state d = ''pending'' \<and> dl_reason_code d = None"

definition release_retry_ok :: "RegisteredWorkerEventReceipt \<Rightarrow> WorkerTaskDispatch \<Rightarrow> WorkerTaskDispatch \<Rightarrow> bool" where
  "release_retry_ok r original d \<longleftrightarrow>
     wd_id d \<noteq> wd_id original \<and> wd_job_id d = rc_job_id r \<and> wd_node_execution_id d = rc_node_execution_id r
     \<and> wd_redis_stream d = wd_redis_stream original \<and> wd_consumer_group d = wd_consumer_group original
     \<and> wd_delivery_state d = ''pending'' \<and> wd_resolution_state d = ''unresolved''
     \<and> wd_delivery_attempted_at d = None \<and> wd_delivery_error d = None \<and> wd_redis_message_id d = None
     \<and> wd_delivered_at d = None \<and> wd_acknowledged_at d = None \<and> wd_cancelled_at d = None
     \<and> wd_created_at d \<ge> rc_accepted_at r
     \<and> list_all (\<lambda>(k, v). dict_get (wd_payload_json d) k = Some (PStr v))
         [(''job_id'', uuid_str (rc_job_id r)), (''node_execution_id'', uuid_str (rc_node_execution_id r)),
          (''dispatch_key'', uuid_str (wd_dispatch_key d))]"

definition release_competing :: "world \<Rightarrow> uuid \<Rightarrow> WorkerTaskDispatch \<Rightarrow> WorkerTaskDispatch \<Rightarrow> bool" where
  "release_competing w nid original retry \<longleftrightarrow>
     list_ex (\<lambda>d. wd_node_execution_id d = nid \<and> wd_id d \<notin> {wd_id original, wd_id retry}
                \<and> wd_resolution_state d \<in> {''unresolved'', ''cancel_authorized''}) (dispatches w)
     \<or> list_ex (\<lambda>a. at_dispatch_key a = wd_dispatch_key retry) (attestations w)"

definition unclaimed :: "NodeExecution \<Rightarrow> NodeExecution" where
  "unclaimed n = n\<lparr>ne_worker_id := None, ne_worker_registration_id := None, ne_worker_lease_epoch := None, ne_started_at := None\<rparr>"

text \<open>The checks that follow the locks, in their order; any that fails raises.\<close>

definition release_locked_claim ::
  "world \<Rightarrow> datetime \<Rightarrow> RegisteredWorkerEventReceipt \<Rightarrow> Job \<Rightarrow> NodeExecution \<Rightarrow> receipt_error + world" where
  "release_locked_claim w now r job n =
     (if \<not> release_node_ok r n then Inl release_mismatch
      else
     (case row_get at_id (attestations w) (rc_source_task_attestation_id r) of
        None \<Rightarrow> Inl release_mismatch
      | Some a \<Rightarrow>
          if \<not> release_attestation_ok r a \<or> \<not> release_registration_ok w now r a then Inl release_mismatch
          else
     (case one_or_none (filter (\<lambda>d. wd_dispatch_key d = at_dispatch_key a) (dispatches w)) of
        Inl e \<Rightarrow> Inl e
      | Inr None \<Rightarrow> Inl release_mismatch
      | Inr (Some original) \<Rightarrow>
          if \<not> release_original_ok a original then Inl release_mismatch
          else
     (case one_or_none (filter (\<lambda>e. em_source_task_attestation_id e = at_id a) (emissions w)) of
        Inl e \<Rightarrow> Inl e
      | Inr None \<Rightarrow> Inl release_mismatch
      | Inr (Some emission) \<Rightarrow>
          if \<not> release_emission_ok r emission \<or> \<not> release_payload_ok r a then Inl release_mismatch
          else
     (case one_or_none (filter (\<lambda>d. dl_redis_stream d = rc_redis_stream r \<and> dl_consumer_group d = rc_consumer_group r
                                  \<and> dl_message_id d = rc_message_id r) (deliveries w)) of
        Inl e \<Rightarrow> Inl e
      | Inr None \<Rightarrow> Inl release_mismatch
      | Inr (Some delivery) \<Rightarrow>
          if \<not> release_delivery_ok r a delivery then Inl release_mismatch
          else
     (case filter (\<lambda>d. wd_origin_receipt_id d = Some (rc_id r)) (dispatches w) of
        [retry] \<Rightarrow>
          if \<not> release_retry_ok r original retry \<or> release_competing w (ne_id n) original retry then Inl release_mismatch
          else Inr (put_job w (put_execution job (unclaimed n)))
      | _ \<Rightarrow> Inl release_mismatch))))))"

definition release_sqlite :: "world \<Rightarrow> datetime \<Rightarrow> uuid \<Rightarrow> receipt_error + world" where
  "release_sqlite w now rid =
     (case get_receipt w rid of
        None \<Rightarrow> Inl release_mismatch
      | Some r \<Rightarrow>
     (case lock_job_execution_authority w w (rc_job_id r) (Some (rc_node_execution_id r)) False of
        Inl (JobExecutionAuthorityBlocked m) \<Rightarrow> Inl (AuthorityBlocked m)
      | Inr (w1, a) \<Rightarrow>
     (case require_active_execution_authority a {JOB_RUNNING} (Some {QUEUED}) of
        Inl (JobExecutionAuthorityBlocked m) \<Rightarrow> Inl (AuthorityBlocked m)
      | Inr _ \<Rightarrow>
          (case auth_node a of
             None \<Rightarrow> Inl release_mismatch | Some n \<Rightarrow> release_locked_claim w1 now r (auth_job a) n))))"

section \<open>Staging what becomes ready\<close>

definition stage_receipt_dispatch ::
  "engine_env \<Rightarrow> datetime \<Rightarrow> uuid \<Rightarrow> world \<Rightarrow> Job \<Rightarrow> NodeExecution \<Rightarrow> (string, uuid) dict option \<Rightarrow> string list option
   \<Rightarrow> receipt_error + world" where
  "stage_receipt_dispatch env now rid w job ne input_artifacts preferred_hosts =
     (let inp = (case input_artifacts of None \<Rightarrow> receipt_input_artifacts job (ne_node_id ne) | Some i \<Rightarrow> i);
          hosts = (case preferred_hosts of
                     None \<Rightarrow> preferred_hosts_for_node (executions_by_node_id job) (dict_get_or (plan_dependencies job) (ne_node_id ne) [])
                   | Some h \<Rightarrow> h);
          wt = worker_type_of env (ne_node_type ne)
      in stage_worker_task_dispatch (cache_of env) w now (Some rid) (job_id job) (ne_id ne)
           (TASK_STREAM wt) (wt @ ''-workers'') (task_payload now job ne inp hosts))"

text \<open>One iteration of the pass: the node is left alone, reused from the cache, or queued and staged.\<close>

definition stage_ready_node ::
  "engine_env \<Rightarrow> datetime \<Rightarrow> uuid \<Rightarrow> world \<Rightarrow> Job \<Rightarrow> string \<Rightarrow> string list \<Rightarrow> receipt_error + world \<times> Job \<times> bool" where
  "stage_ready_node env now rid w job nid deps =
     (case dict_get (executions_by_node_id job) nid of
        None \<Rightarrow> Inr (w, job, False)
      | Some ne \<Rightarrow>
          if ne_status ne \<noteq> PENDING \<or> \<not> deps_done job deps then Inr (w, job, False)
          else
            (let inp = receipt_input_artifacts job nid in
             case apply_cached_artifact_uncommitted env w now job ne (input_artifacts_by_handle w inp) True of
               Inl e \<Rightarrow> Inl e
             | Inr (w1, Some ne') \<Rightarrow> (let job' = put_execution job ne' in Inr (put_job w1 job', job', True))
             | Inr (w1, None) \<Rightarrow>
                 (let ne' = queued now inp ne;
                      job' = put_execution job ne'
                  in case stage_receipt_dispatch env now rid (put_job w1 job') job' ne' (Some inp)
                            (Some (preferred_hosts_for_node (executions_by_node_id job) deps)) of
                       Inl e \<Rightarrow> Inl e | Inr w2 \<Rightarrow> Inr (w2, job', True))))"

primrec stage_pass ::
  "engine_env \<Rightarrow> datetime \<Rightarrow> uuid \<Rightarrow> (string, string list) dict \<Rightarrow> world \<Rightarrow> Job \<Rightarrow> bool \<Rightarrow> receipt_error + world \<times> Job \<times> bool" where
  "stage_pass env now rid [] w job progressed = Inr (w, job, progressed)"
| "stage_pass env now rid (p # ps) w job progressed =
     (case stage_ready_node env now rid w job (fst p) (snd p) of
        Inl e \<Rightarrow> Inl e
      | Inr (w', job', moved) \<Rightarrow> stage_pass env now rid ps w' job' (progressed \<or> moved))"

definition stage_ready_receipt_dispatches_once ::
  "engine_env \<Rightarrow> datetime \<Rightarrow> uuid \<Rightarrow> (string, string list) dict \<Rightarrow> world \<Rightarrow> Job \<Rightarrow> receipt_error + world \<times> Job \<times> bool" where
  "stage_ready_receipt_dispatches_once env now rid dep_map w job = stage_pass env now rid dep_map w job False"

definition pending_count :: "Job \<Rightarrow> nat" where
  "pending_count job = length (filter (\<lambda>n. ne_status n = PENDING) (node_executions job))"

lemma put_execution_pending:
  assumes "n \<in> set (node_executions job)" and "ne_status n = PENDING" and "ne_id n' = ne_id n" and "ne_status n' \<noteq> PENDING"
  shows "pending_count (put_execution job n') < pending_count job"
proof -
  have le: "length (filter (\<lambda>n. ne_status n = PENDING) (row_put ne_id ns n')) \<le> length (filter (\<lambda>n. ne_status n = PENDING) ns)" for ns
    by (induction ns) (simp_all add: row_put_def assms(4))
  have "n \<in> set ns \<Longrightarrow> length (filter (\<lambda>n. ne_status n = PENDING) (row_put ne_id ns n')) < length (filter (\<lambda>n. ne_status n = PENDING) ns)" for ns
  proof (induction ns)
    case (Cons x xs)
    show ?case
    proof (cases "x = n")
      case True
      then show ?thesis using le [of xs] assms by (simp add: row_put_def)
    next
      case False
      then show ?thesis using Cons assms(3,4) by (auto simp: row_put_def)
    qed
  qed simp
  then show ?thesis using assms(1) by (simp add: pending_count_def put_execution_def)
qed

lemma execution_of_node:
  assumes "dict_get (executions_by_node_id job) nid = Some n"
  shows "n \<in> set (node_executions job) \<and> ne_node_id n = nid"
  using dict_of_get_imp [OF assms [unfolded executions_by_node_id_def]] by blast

lemma cached_node:
  assumes "apply_cached_artifact_uncommitted env w now job ne inp registered = Inr (w', Some ne')"
  shows "ne_id ne' = ne_id ne \<and> ne_status ne' = SUCCEEDED \<and> ne_node_id ne' = ne_node_id ne \<and> ne_retry_count ne' = ne_retry_count ne
    \<and> ne_job_id ne' = ne_job_id ne \<and> ne_node_type ne' = ne_node_type ne \<and> ne_output_artifact_id ne' \<noteq> None"
  using assms by (auto simp: apply_cached_artifact_uncommitted_def Let_def split: if_splits sum.splits option.splits)

lemma stage_ready_node_cases:
  assumes "stage_ready_node env now rid w job nid deps = Inr (w', job', moved)"
  shows "\<not> moved \<and> w' = w \<and> job' = job
    \<and> (\<forall>ne. dict_get (executions_by_node_id job) nid = Some ne \<longrightarrow> ne_status ne \<noteq> PENDING \<or> \<not> deps_done job deps)
    \<or> moved \<and> (\<exists>ne ne'. dict_get (executions_by_node_id job) nid = Some ne \<and> ne_status ne = PENDING \<and> deps_done job deps
        \<and> job' = put_execution job ne' \<and> ne_id ne' = ne_id ne \<and> ne_node_id ne' = ne_node_id ne \<and> ne_status ne' \<in> {SUCCEEDED, QUEUED})"
proof (cases "dict_get (executions_by_node_id job) nid")
  case None
  then show ?thesis using assms by (simp add: stage_ready_node_def)
next
  case (Some ne)
  note ne = Some
  let ?inp = "receipt_input_artifacts job nid"
  let ?cached = "apply_cached_artifact_uncommitted env w now job ne (input_artifacts_by_handle w ?inp) True"
  show ?thesis
  proof (cases "ne_status ne \<noteq> PENDING \<or> \<not> deps_done job deps")
    case True
    then show ?thesis using assms ne by (auto simp: stage_ready_node_def)
  next
    case False
    show ?thesis
    proof (cases ?cached)
      case (Inl e)
      then show ?thesis using assms ne False by (simp add: stage_ready_node_def Let_def)
    next
      case (Inr z)
      obtain w1 hit where z: "z = (w1, hit)" by (rule prod.exhaust)
      show ?thesis
      proof (cases hit)
        case None
        have "moved \<and> job' = put_execution job (queued now ?inp ne)"
          using assms ne False Inr z None by (auto simp: stage_ready_node_def Let_def split: sum.splits)
        then show ?thesis using ne False by (auto simp: queued_def)
      next
        case (Some ne')
        have "moved \<and> job' = put_execution job ne'"
          using assms ne False Inr z Some by (auto simp: stage_ready_node_def Let_def)
        then show ?thesis using ne False cached_node [of env w now job ne _ True w1 ne'] Inr z Some by auto
      qed
    qed
  qed
qed

lemma stage_pass_pending:
  "stage_pass env now rid ps w job progressed = Inr (w', job', progressed')
   \<Longrightarrow> pending_count job' \<le> pending_count job \<and> (progressed' \<longrightarrow> progressed \<or> pending_count job' < pending_count job)"
proof (induction ps arbitrary: w job progressed)
  case (Cons p ps)
  obtain w1 job1 moved where n: "stage_ready_node env now rid w job (fst p) (snd p) = Inr (w1, job1, moved)"
    and r: "stage_pass env now rid ps w1 job1 (progressed \<or> moved) = Inr (w', job', progressed')"
    using Cons.prems by (auto split: sum.splits prod.splits)
  have "moved \<and> pending_count job1 < pending_count job \<or> \<not> moved \<and> job1 = job"
    using stage_ready_node_cases [OF n] execution_of_node put_execution_pending by fastforce
  then show ?case using Cons.IH [OF r] by auto
qed simp

text \<open>\<open>_stage_receipt_dispatches\<close>: passes until one makes no progress. Each one that does leaves fewer pending nodes.\<close>

function stage_receipt_dispatches ::
  "engine_env \<Rightarrow> datetime \<Rightarrow> uuid \<Rightarrow> (string, string list) dict \<Rightarrow> world \<Rightarrow> Job \<Rightarrow> receipt_error + world \<times> Job" where
  "stage_receipt_dispatches env now rid dep_map w job =
     (case stage_ready_receipt_dispatches_once env now rid dep_map w job of
        Inl e \<Rightarrow> Inl e
      | Inr (w', job', progressed) \<Rightarrow>
          if progressed then stage_receipt_dispatches env now rid dep_map w' job' else Inr (w', job'))"
  by pat_completeness auto
termination
  by (relation "measure (\<lambda>(env, now, rid, dep_map, w, job). pending_count job)")
    (auto simp: stage_ready_receipt_dispatches_once_def dest: stage_pass_pending)

declare stage_receipt_dispatches.simps [simp del]

section \<open>Applying an event\<close>

definition require_accepted_receipt :: "RegisteredWorkerEventReceipt \<Rightarrow> RegisteredWorkerEvent \<Rightarrow> receipt_error + unit" where
  "require_accepted_receipt r ev =
     (if rc_application_state r \<noteq> ''accepted'' \<or> rc_redis_stream r \<noteq> ev_redis_stream ev
         \<or> rc_consumer_group r \<noteq> ev_consumer_group ev \<or> rc_message_id r \<noteq> ev_message_id ev
         \<or> rc_payload_sha256 r \<noteq> ev_payload_sha256 ev \<or> rc_job_id r \<noteq> ev_job_id ev
         \<or> rc_node_execution_id r \<noteq> ev_node_execution_id ev
         \<or> Some (rc_worker_registration_id r) \<noteq> claim_worker_registration_id (ev_claim ev)
         \<or> Some (rc_worker_lease_epoch r) \<noteq> claim_worker_lease_epoch (ev_claim ev)
      then Inl (RegisteredWorkerEventError ''registered event receipt authority mismatch'') else Inr ())"

definition event_holds_node :: "RegisteredWorkerEvent \<Rightarrow> Job \<Rightarrow> NodeExecution \<Rightarrow> bool" where
  "event_holds_node ev job ne \<longleftrightarrow>
     job_status job = JOB_RUNNING \<and> ne_status ne = RUNNING \<and> ne_worker_id ne = Some (claim_worker_id (ev_claim ev))
     \<and> ne_worker_registration_id ne = claim_worker_registration_id (ev_claim ev)
     \<and> ne_worker_lease_epoch ne = claim_worker_lease_epoch (ev_claim ev)
     \<and> ne_started_at ne = Some (claim_started_at (ev_claim ev))"

definition apply_registered_completion ::
  "engine_env \<Rightarrow> datetime \<Rightarrow> world \<Rightarrow> RegisteredWorkerEventReceipt \<Rightarrow> RegisteredWorkerEvent \<Rightarrow> Job \<Rightarrow> NodeExecution
   \<Rightarrow> receipt_error + world" where
  "apply_registered_completion env now w r ev job ne =
     (case Option.bind (dict_get (ev_payload ev) ''output_artifact_id'') read_uuid of
        None \<Rightarrow> Inl (RegisteredWorkerEventError ''registered completion artifact is invalid'')
      | Some out \<Rightarrow>
          if (case get_artifact w out of
                None \<Rightarrow> True | Some a \<Rightarrow> art_job_id a \<noteq> job_id job \<or> art_node_execution_id a \<noteq> ne_id ne)
          then Inl (RegisteredWorkerEventError ''registered completion artifact authority mismatch'')
          else
            (let ne1 = completed now out ne;
                 job1 = put_execution job ne1
             in case write_artifact_cache_for_node (cache_of env) (put_job w job1) now job1 ne1 of
                  Inl e \<Rightarrow> Inl (PyError e)
                | Inr w1 \<Rightarrow>
                    (case finalize_locked w1 now job1 of
                       (True, w2) \<Rightarrow> Inr w2
                     | (False, w2) \<Rightarrow>
                         (case stage_receipt_dispatches env now (rc_id r) (plan_dependencies job1) w2 job1 of
                            Inl e \<Rightarrow> Inl e
                          | Inr (w3, job3) \<Rightarrow> Inr (snd (finalize_locked w3 now job3))))))"

definition apply_registered_failure ::
  "engine_env \<Rightarrow> datetime \<Rightarrow> world \<Rightarrow> RegisteredWorkerEventReceipt \<Rightarrow> RegisteredWorkerEvent \<Rightarrow> Job \<Rightarrow> NodeExecution
   \<Rightarrow> receipt_error + world" where
  "apply_registered_failure env now w r ev job ne =
     (let err = take 2000 (dict_get_or (ev_payload ev) ''error'' ''Unknown error'') in
      if ne_retry_count ne < 1 then
        (let ne1 = retried now ne;
             job1 = put_execution job ne1
         in case stage_receipt_dispatch env now (rc_id r) (put_job w job1) job1 ne1 None None of
              Inl e \<Rightarrow> Inl e
            | Inr w1 \<Rightarrow> release_sqlite w1 now (rc_id r))
      else
        (let job1 = fail_node now err job ne
         in Inr (snd (finalize_locked (put_job w job1) now job1))))"

definition apply_registered_worker_event :: "engine_env \<Rightarrow> datetime \<Rightarrow> applier" where
  "apply_registered_worker_event env now w r ev =
     (case require_accepted_receipt r ev of
        Inl e \<Rightarrow> Inl e
      | Inr _ \<Rightarrow>
     (case get_job w (ev_job_id ev) of
        None \<Rightarrow> Inl (RegisteredWorkerEventError ''registered event job is missing'')
      | Some job \<Rightarrow>
     (case get_execution job (ev_node_execution_id ev) of
        None \<Rightarrow> Inl (RegisteredWorkerEventError ''registered event node authority changed'')
      | Some ne \<Rightarrow>
          if \<not> event_holds_node ev job ne
          then Inl (RegisteredWorkerEventError ''registered event node authority changed'')
          else if ev_event_type ev = ''node_completed'' then apply_registered_completion env now w r ev job ne
          else apply_registered_failure env now w r ev job ne)))"

section \<open>What applying an event leaves alone\<close>

text \<open>The tables of receipts, deliveries and attestations, and the dispatches that were there.\<close>

definition receipts_untouched :: "world \<Rightarrow> world \<Rightarrow> bool" where
  "receipts_untouched w w' \<longleftrightarrow>
     receipts w' = receipts w \<and> deliveries w' = deliveries w \<and> attestations w' = attestations w
     \<and> redis_acks w' = redis_acks w \<and> next_id w \<le> next_id w' \<and> (\<exists>ds. dispatches w' = dispatches w @ ds)
     \<and> (ids_ok (map wd_id (dispatches w)) (next_id w) \<longrightarrow> ids_ok (map wd_id (dispatches w')) (next_id w'))"

lemma untouched_refl [simp]: "receipts_untouched w w"
  by (simp add: receipts_untouched_def)

lemma untouched_trans [trans]:
  assumes ab: "receipts_untouched a b" and bc: "receipts_untouched b c"
  shows "receipts_untouched a c"
proof -
  obtain ds es where "dispatches b = dispatches a @ ds" "dispatches c = dispatches b @ es"
    using ab bc unfolding receipts_untouched_def by blast
  then have "\<exists>fs. dispatches c = dispatches a @ fs" by simp
  then show ?thesis using ab bc unfolding receipts_untouched_def by simp
qed

lemma untouched_frame:
  assumes "receipts w' = receipts w" and "deliveries w' = deliveries w" and "attestations w' = attestations w"
    and "redis_acks w' = redis_acks w" and "dispatches w' = dispatches w" and "next_id w \<le> next_id w'"
  shows "receipts_untouched w w'"
  using assms ids_ok_mono unfolding receipts_untouched_def by simp

lemma put_job_untouched [simp]: "receipts_untouched w (put_job w job)"
  by (rule untouched_frame) (simp_all add: put_job_def)

lemma stage_untouched:
  assumes "stage_worker_task_dispatch env w now origin jid nid stream grp payload = Inr w'"
  shows "receipts_untouched w w'"
proof -
  obtain d where w': "w' = w\<lparr>dispatches := dispatches w @ [d], next_id := next_id w + 2\<rparr>" and i: "wd_id d = next_id w + 1"
    using stage_Inr [OF assms] by (auto simp: dispatch_ident_def)
  have "ids_ok (map wd_id (dispatches w) @ [next_id w + 1]) (next_id w + 2)" if "ids_ok (map wd_id (dispatches w)) (next_id w)"
    using that by (fastforce simp: ids_ok_def)
  then show ?thesis unfolding receipts_untouched_def w' using i by simp
qed

text \<open>What the cache changes.\<close>

definition cache_change :: "world \<Rightarrow> world \<Rightarrow> bool" where
  "cache_change w w' \<longleftrightarrow> (\<exists>c a n. w' = w\<lparr>cache_entries := c, artifacts := a, next_id := n\<rparr> \<and> next_id w \<le> n)"

lemma cache_change_refl: "cache_change w w"
  unfolding cache_change_def by (intro exI [of _ "cache_entries w"] exI [of _ "artifacts w"] exI [of _ "next_id w"]) simp

lemma cache_change_trans [trans]: "cache_change a b \<Longrightarrow> cache_change b c \<Longrightarrow> cache_change a c"
  unfolding cache_change_def by fastforce

lemma cache_change_untouched: "cache_change w w' \<Longrightarrow> receipts_untouched w w'"
  unfolding cache_change_def by (auto intro: untouched_frame)

lemma put_entry_change: "cache_change w (put_entry w e)" "cache_change w (delete_entry w e)"
  "cache_change w (w\<lparr>cache_entries := c, next_id := next_id w + 1\<rparr>)" "cache_change w (w\<lparr>artifacts := a, next_id := next_id w + 1\<rparr>)"
  unfolding put_entry_def delete_entry_def cache_change_def
  by (rule exI [of _ _], rule exI [of _ "artifacts w"], rule exI [of _ "next_id w"], simp,
      rule exI [of _ _], rule exI [of _ "artifacts w"], rule exI [of _ "next_id w"], simp,
      rule exI [of _ c], rule exI [of _ "artifacts w"], rule exI [of _ "next_id w + 1"], simp,
      rule exI [of _ "cache_entries w"], rule exI [of _ a], rule exI [of _ "next_id w + 1"], simp)

lemma put_artifact_change: "cache_change w (put_artifact w a)"
  unfolding put_artifact_def cache_change_def
  by (rule exI [of _ "cache_entries w"], rule exI [of _ _], rule exI [of _ "next_id w"], simp)

lemma cache_lookup_change:
  assumes "cache_lookup env w ntype cfg inp registered = Inr (w', x)"
  shows "cache_change w w'"
proof -
  have "w' = w \<or> (\<exists>e. w' = put_entry w e) \<or> (\<exists>e e'. w' = delete_entry (put_entry w e) e')"
    using assms unfolding cache_lookup_def Let_def by (auto split: if_splits sum.splits option.splits)
  then show ?thesis using put_entry_change cache_change_refl cache_change_trans by metis
qed

lemma cache_store_change:
  assumes "cache_store env w now ntype cfg inp out nid jid = Inr w'"
  shows "cache_change w w'"
proof -
  have "w' = w \<or> (\<exists>e. w' = put_entry w e) \<or> (\<exists>c. w' = w\<lparr>cache_entries := c, next_id := next_id w + 1\<rparr>)"
    using assms unfolding cache_store_def Let_def by (auto split: if_splits sum.splits option.splits)
  then show ?thesis using put_entry_change cache_change_refl by metis
qed

lemma write_cache_change: "write_artifact_cache_for_node env w now job ne = Inr w' \<Longrightarrow> cache_change w w'"
  by (auto simp: write_artifact_cache_for_node_def cache_change_refl split: option.splits intro: cache_store_change)

lemma materialize_change: "materialize_hit w entry jid nid = Inr (w', a) \<Longrightarrow> cache_change w w'"
  by (auto simp: materialize_hit_def Let_def cache_change_refl put_entry_change [unfolded Suc_eq_plus1 [symmetric]] split: if_splits option.splits)

lemma apply_cached_change:
  assumes "apply_cached_artifact_uncommitted env w now job ne inp registered = Inr (w', x)"
  shows "cache_change w w'"
proof (cases "cache_lookup (cache_of env) w (ne_node_type ne) (ne_node_config ne) inp registered")
  case (Inl e)
  then show ?thesis using assms cache_change_refl by (auto simp: apply_cached_artifact_uncommitted_def split: if_splits)
next
  case (Inr y)
  obtain w1 hit where y: "y = (w1, hit)" by (rule prod.exhaust)
  have c1: "cache_change w w1" using Inr y by (auto intro: cache_lookup_change)
  show ?thesis
  proof (cases hit)
    case None
    then show ?thesis using assms Inr y c1 by (auto simp: apply_cached_artifact_uncommitted_def split: if_splits)
  next
    case (Some entry)
    then obtain w2 a where m: "materialize_hit w1 entry (job_id job) (ne_id ne) = Inr (w2, a)" and w': "w' = record_hit w2 now entry"
      using assms Inr y by (auto simp: apply_cached_artifact_uncommitted_def Let_def split: if_splits sum.splits)
    have "cache_change w2 w'" unfolding w' record_hit_def by (rule put_entry_change)
    then show ?thesis using c1 materialize_change [OF m] cache_change_trans by blast
  qed
qed

lemma mark_final_change: "cache_change w (mark_final_artifacts_uncommitted w job)"
proof -
  let ?f = "\<lambda>w n. if ne_node_id n \<in> set (leaf_node_ids (pipeline_snapshot job)) \<and> ne_status n = SUCCEEDED
    then (case Option.bind (ne_output_artifact_id n) (get_artifact w) of None \<Rightarrow> w | Some a \<Rightarrow> put_artifact w (a\<lparr>art_kind := FINAL\<rparr>))
    else w"
  have st: "cache_change w (?f w n)" for w n
    by (auto simp: cache_change_refl put_artifact_change split: option.split)
  have "cache_change w (foldl ?f w ns)" for ns
  proof (induction ns arbitrary: w)
    case (Cons n ns)
    show ?case unfolding foldl_Cons by (rule cache_change_trans [OF st Cons.IH])
  qed (simp add: cache_change_refl)
  then show ?thesis unfolding mark_final_artifacts_uncommitted_def .
qed

lemma finalization_change:
  assumes "apply_job_finalization w now job = (b, w', job')"
  shows "cache_change w w'"
  using assms mark_final_change cache_change_refl
  by (auto simp: apply_job_finalization_def Let_def split: if_splits)

lemma finalize_locked_untouched:
  assumes "finalize_locked w now job = (b, w')"
  shows "receipts_untouched w w'"
proof -
  obtain c w1 job1 where f: "apply_job_finalization w now job = (c, w1, job1)" by (rule prod_cases3)
  have "w' = w \<or> w' = put_job w1 job1" using assms f by (cases c) (auto simp: finalize_locked_def)
  then show ?thesis using cache_change_untouched [OF finalization_change [OF f]] untouched_trans [OF _ put_job_untouched] by auto
qed

lemma stage_ready_node_untouched:
  assumes "stage_ready_node env now rid w job nid deps = Inr (w', job', moved)"
  shows "receipts_untouched w w'"
proof (cases "dict_get (executions_by_node_id job) nid")
  case None
  then show ?thesis using assms by (simp add: stage_ready_node_def)
next
  case (Some ne)
  note ne = Some
  let ?inp = "receipt_input_artifacts job nid"
  let ?cached = "apply_cached_artifact_uncommitted env w now job ne (input_artifacts_by_handle w ?inp) True"
  show ?thesis
  proof (cases "ne_status ne \<noteq> PENDING \<or> \<not> deps_done job deps")
    case True
    then show ?thesis using assms ne by (auto simp: stage_ready_node_def)
  next
    case False
    show ?thesis
    proof (cases ?cached)
      case (Inl e)
      then show ?thesis using assms ne False by (simp add: stage_ready_node_def Let_def)
    next
      case (Inr z)
      obtain w1 hit where z: "z = (w1, hit)" by (rule prod.exhaust)
      have c: "receipts_untouched w (put_job w1 j)" for j
        using apply_cached_change [of env w now job ne _ True w1 hit] Inr z cache_change_untouched put_job_untouched untouched_trans by blast
      show ?thesis
      proof (cases hit)
        case None
        obtain j where "stage_receipt_dispatch env now rid (put_job w1 j) j (queued now ?inp ne) (Some ?inp)
            (Some (preferred_hosts_for_node (executions_by_node_id job) deps)) = Inr w'"
          using assms ne False Inr z None by (auto simp: stage_ready_node_def Let_def split: sum.splits)
        then have "receipts_untouched (put_job w1 j) w'" unfolding stage_receipt_dispatch_def Let_def by (rule stage_untouched)
        then show ?thesis by (rule untouched_trans [OF c])
      next
        case (Some ne')
        then show ?thesis using assms ne False Inr z c by (auto simp: stage_ready_node_def Let_def)
      qed
    qed
  qed
qed

lemma stage_pass_untouched:
  "stage_pass env now rid ps w job progressed = Inr (w', job', progressed') \<Longrightarrow> receipts_untouched w w'"
proof (induction ps arbitrary: w job progressed)
  case (Cons p ps)
  obtain w1 job1 moved where n: "stage_ready_node env now rid w job (fst p) (snd p) = Inr (w1, job1, moved)"
    and r: "stage_pass env now rid ps w1 job1 (progressed \<or> moved) = Inr (w', job', progressed')"
    using Cons.prems by (auto split: sum.splits prod.splits)
  show ?case by (rule untouched_trans [OF stage_ready_node_untouched [OF n] Cons.IH [OF r]])
qed simp

lemma stage_receipt_dispatches_untouched:
  "stage_receipt_dispatches env now rid dep_map w job = Inr (w', job') \<Longrightarrow> receipts_untouched w w'"
proof (induction env now rid dep_map w job rule: stage_receipt_dispatches.induct)
  case (1 env now rid dep_map w job)
  obtain w1 job1 b where p: "stage_ready_receipt_dispatches_once env now rid dep_map w job = Inr (w1, job1, b)"
    using "1.prems" by (subst (asm) stage_receipt_dispatches.simps) (auto split: sum.splits prod.splits)
  have u: "receipts_untouched w w1" using stage_pass_untouched p unfolding stage_ready_receipt_dispatches_once_def by blast
  show ?case
  proof (cases b)
    case True
    then have "stage_receipt_dispatches env now rid dep_map w1 job1 = Inr (w', job')"
      using "1.prems" p by (simp add: stage_receipt_dispatches.simps [of env now rid dep_map w])
    then show ?thesis using "1.IH" [OF p refl refl True] u untouched_trans by blast
  next
    case False
    then show ?thesis using "1.prems" p u by (simp add: stage_receipt_dispatches.simps [of env now rid dep_map w])
  qed
qed

lemma release_locked_untouched:
  assumes "release_locked_claim w now r job n = Inr w'"
  shows "w' = put_job w (put_execution job (unclaimed n))"
  using assms unfolding release_locked_claim_def
  by (auto split: if_splits option.splits sum.splits list.splits)

lemma release_sqlite_Inr:
  assumes "release_sqlite w now rid = Inr w'"
  shows "\<exists>r w1 a n. get_receipt w rid = Some r
    \<and> lock_job_execution_authority w w (rc_job_id r) (Some (rc_node_execution_id r)) False = Inr (w1, a)
    \<and> require_active_execution_authority a {JOB_RUNNING} (Some {QUEUED}) = Inr () \<and> auth_node a = Some n
    \<and> release_locked_claim w1 now r (auth_job a) n = Inr w'"
proof (cases "get_receipt w rid")
  case None
  then show ?thesis using assms by (simp add: release_sqlite_def)
next
  case (Some r)
  show ?thesis
  proof (cases "lock_job_execution_authority w w (rc_job_id r) (Some (rc_node_execution_id r)) False")
    case (Inl e)
    then show ?thesis using assms Some by (cases e) (simp add: release_sqlite_def)
  next
    case (Inr y)
    obtain w1 a where y: "y = (w1, a)" by (rule prod.exhaust)
    show ?thesis using assms Some Inr y
      by (auto simp: release_sqlite_def split: sum.splits authority_error.splits option.splits)
  qed
qed

lemma release_sqlite_untouched:
  assumes "release_sqlite w now rid = Inr w'"
  shows "receipts_untouched w w'"
proof -
  obtain r w1 a n where l: "lock_job_execution_authority w w (rc_job_id r) (Some (rc_node_execution_id r)) False = Inr (w1, a)"
    and c: "release_locked_claim w1 now r (auth_job a) n = Inr w'" using release_sqlite_Inr [OF assms] by blast
  obtain s where w1: "w1 = w\<lparr>schedules := s\<rparr>" using lock_authority_frame [OF l] by blast
  have "receipts_untouched w w1" unfolding w1 by (rule untouched_frame) simp_all
  then show ?thesis unfolding release_locked_untouched [OF c] by (rule untouched_trans) simp
qed

lemma completion_untouched:
  assumes "apply_registered_completion env now w r ev job ne = Inr w'"
  shows "receipts_untouched w w'"
proof -
  obtain out where out: "Option.bind (dict_get (ev_payload ev) ''output_artifact_id'') read_uuid = Some out"
    using assms by (auto simp: apply_registered_completion_def split: option.splits)
  let ?ne = "completed now out ne"
  let ?job = "put_execution job ?ne"
  obtain w1 where c: "write_artifact_cache_for_node (cache_of env) (put_job w ?job) now ?job ?ne = Inr w1"
    using assms out by (auto simp: apply_registered_completion_def Let_def split: if_splits sum.splits)
  obtain b w2 where f: "finalize_locked w1 now ?job = (b, w2)" by (rule prod.exhaust)
  have u2: "receipts_untouched w w2"
    using write_cache_change [OF c] finalize_locked_untouched [OF f] cache_change_untouched put_job_untouched untouched_trans by metis
  note res = assms [unfolded apply_registered_completion_def out option.case Let_def c sum.case f prod.case]
  show ?thesis
  proof (cases b)
    case True
    then show ?thesis using res u2 by (simp split: if_splits)
  next
    case False
    then obtain w3 job3 where s: "stage_receipt_dispatches env now (rc_id r) (plan_dependencies ?job) w2 ?job = Inr (w3, job3)"
      and w': "w' = snd (finalize_locked w3 now job3)" using res by (auto split: if_splits sum.splits prod.splits)
    obtain b3 w4 where f3: "finalize_locked w3 now job3 = (b3, w4)" by (rule prod.exhaust)
    then have "receipts_untouched w3 w'" using finalize_locked_untouched [OF f3] w' by simp
    then show ?thesis using u2 stage_receipt_dispatches_untouched [OF s] untouched_trans by blast
  qed
qed

lemma failure_untouched:
  assumes "apply_registered_failure env now w r ev job ne = Inr w'"
  shows "receipts_untouched w w'"
proof (cases "ne_retry_count ne < 1")
  case True
  let ?job = "put_execution job (retried now ne)"
  obtain w1 where s: "stage_receipt_dispatch env now (rc_id r) (put_job w ?job) ?job (retried now ne) None None = Inr w1"
    and r: "release_sqlite w1 now (rc_id r) = Inr w'"
    using assms True by (auto simp: apply_registered_failure_def Let_def split: sum.splits)
  have "receipts_untouched (put_job w ?job) w1" using s unfolding stage_receipt_dispatch_def Let_def by (rule stage_untouched)
  then show ?thesis using release_sqlite_untouched [OF r] put_job_untouched untouched_trans by blast
next
  case False
  let ?job = "fail_node now (take 2000 (dict_get_or (ev_payload ev) ''error'' ''Unknown error'')) job ne"
  obtain b w2 where f: "finalize_locked (put_job w ?job) now ?job = (b, w2)" by (rule prod.exhaust)
  then have "w' = w2" using assms False by (auto simp: apply_registered_failure_def Let_def)
  then show ?thesis using finalize_locked_untouched [OF f] put_job_untouched untouched_trans by blast
qed

interpretation registered_events: event_applier "apply_registered_worker_event env now" for env now
proof
  fix w r ev w'
  assume a: "apply_registered_worker_event env now w r ev = Inr w'"
  then obtain job ne where "apply_registered_completion env now w r ev job ne = Inr w' \<or> apply_registered_failure env now w r ev job ne = Inr w'"
    by (auto simp: apply_registered_worker_event_def split: sum.splits option.splits if_splits)
  then have "receipts_untouched w w'" using completion_untouched failure_untouched by blast
  then show "receipts w' = receipts w \<and> deliveries w' = deliveries w \<and> attestations w' = attestations w
    \<and> redis_acks w' = redis_acks w \<and> next_id w \<le> next_id w' \<and> (\<exists>ds. dispatches w' = dispatches w @ ds)
    \<and> (ids_ok (map wd_id (dispatches w)) (next_id w) \<longrightarrow> ids_ok (map wd_id (dispatches w')) (next_id w'))"
    unfolding receipts_untouched_def by blast
qed

end
