(* ===== verification/Registered_Runs.thy ===== *)
theory Registered_Runs
  imports Engine_Registered
begin

text \<open>
  The receipt service with the engine as the function that applies events: what holds in every run of
  accepting, acknowledging, cancelling and delivering, and what one application of an event does.
\<close>

interpretation registered_service: timed_event_applier "apply_registered_worker_event env" for env
  by (intro timed_event_applier.intro registered_events.event_applier_axioms)

section \<open>An event and its world\<close>

text \<open>A job with one node, claimed by a registered worker whose second attempt fails.\<close>

definition held_execution :: "nat \<Rightarrow> NodeExecution" where
  "held_execution retries = (sample_execution 11 ''a'' RUNNING)\<lparr>ne_worker_id := Some ''w'', ne_worker_registration_id := Some 5,
     ne_worker_lease_epoch := Some 1, ne_started_at := Some 0, ne_retry_count := int retries\<rparr>"

definition held_attestation :: WorkerTaskDeliveryAttestation where
  "held_attestation = \<lparr>at_id = 8, at_redis_stream = ''vp:tasks:ffmpeg'', at_consumer_group = ''ffmpeg-workers'', at_message_id = ''m'',
     at_payload_sha256 = claim_sha, at_dispatch_key = 7, at_job_id = 1, at_node_execution_id = 11,
     at_worker_registration_id = 5, at_worker_lease_epoch = 1, at_worker_id = ''w'', at_worker_started_at = 0,
     at_ack_state = ''pending'', at_acknowledged_at = None, at_attested_at = 0\<rparr>"

definition failed_payload :: "(string, string) dict" where
  "failed_payload = [(''event'', ''node_failed''), (''job_id'', uuid_str 1), (''node_execution_id'', uuid_str 11),
     (''worker_registration_id'', uuid_str 5), (''worker_id'', ''w''), (''started_at'', instant_str 0),
     (''worker_lease_epoch'', ''1''), (''task_stream'', ''vp:tasks:ffmpeg''), (''task_group'', ''ffmpeg-workers''),
     (''task_message_id'', ''m''), (''task_payload_sha256'', claim_sha), (''task_dispatch_key'', uuid_str 7),
     (''error'', ''boom'')]"

definition failed_event :: RegisteredWorkerEvent where
  "failed_event = \<lparr>ev_redis_stream = ''vp:events'', ev_consumer_group = ''orchestrator'', ev_message_id = ''e'',
     ev_payload = failed_payload, ev_payload_sha256 = ''k'', ev_event_type = ''node_failed'', ev_job_id = 1,
     ev_node_execution_id = 11, ev_claim = \<lparr>claim_job_id = 1, claim_node_execution_id = 11, claim_worker_id = ''w'',
       claim_started_at = 0, claim_worker_registration_id = Some 5, claim_worker_lease_epoch = Some 1\<rparr>,
     ev_source_task_stream = ''vp:tasks:ffmpeg'', ev_source_task_group = ''ffmpeg-workers'', ev_source_task_message_id = ''m'',
     ev_source_task_payload_sha256 = claim_sha, ev_source_task_dispatch_key = 7\<rparr>"

definition held_dispatch :: WorkerTaskDispatch where
  "held_dispatch = \<lparr>wd_id = 6, wd_origin_receipt_id = None, wd_dispatch_key = 7, wd_job_id = 1, wd_node_execution_id = 11,
     wd_redis_stream = ''vp:tasks:ffmpeg'', wd_consumer_group = ''ffmpeg-workers'', wd_payload_sha256 = claim_sha,
     wd_payload_json = [], wd_delivery_state = ''delivered'', wd_delivery_attempted_at = Some 0, wd_delivery_error = None,
     wd_resolution_state = ''unresolved'', wd_redis_message_id = Some ''m'', wd_created_at = 0, wd_delivered_at = Some 0,
     wd_acknowledged_at = None, wd_cancelled_at = None\<rparr>"

definition held_emission :: WorkerEventEmission where
  "held_emission = \<lparr>em_source_task_attestation_id = 8, em_redis_stream = ''vp:events'', em_consumer_group = ''orchestrator'',
     em_message_id = Some ''e'', em_payload_sha256 = ''k'', em_payload_json = failed_payload, em_event_type = ''node_failed'',
     em_job_id = 1, em_node_execution_id = 11, em_worker_registration_id = 5, em_worker_lease_epoch = 1, em_worker_id = ''w'',
     em_worker_started_at = 0, em_emission_state = ''emitted'', em_emitted_at = Some 0, em_resolved_at = None\<rparr>"

definition event_world :: "nat \<Rightarrow> world" where
  "event_world retries = (sample_world ''OPEN'' [sample_job 1 JOB_RUNNING [held_execution retries]])
     \<lparr>attestations := [held_attestation], dispatches := [held_dispatch], emissions := [held_emission],
      registrations := [\<lparr>wr_id = 5, wr_grant_id = 4, wr_lease_epoch = 1, wr_status = ''active'', wr_lease_expires_at = 100,
        wr_database_principal = ''worker''\<rparr>],
      grants := [\<lparr>gr_id = 4, gr_redis_stream = ''vp:tasks:ffmpeg'', gr_redis_group = ''ffmpeg-workers''\<rparr>]\<rparr>"

definition plain_engine :: engine_env where
  "plain_engine = \<lparr>cache_of = plain_env, registry_of = [], others = (\<lambda>_ w. w)\<rparr>"

text \<open>The observer that finds the delivery of the task.\<close>

definition held_observer :: observer where
  "held_observer _ _ = Inr 8"

lemma parse_failed_event:
  "parse_registered_worker_event plain_env ''vp:events'' ''orchestrator'' ''e'' failed_payload = Inr failed_event"
  by code_simp

definition accepted_world :: world where
  "accepted_world = (case accept_and_apply plain_env held_observer (apply_registered_worker_event plain_engine 5) (event_world 1) 5 failed_event of
     Inr (w, _) \<Rightarrow> w | Inl _ \<Rightarrow> event_world 1)"

lemma accepted_world_eq:
  "accept_and_apply plain_env held_observer (apply_registered_worker_event plain_engine 5) (event_world 1) 5 failed_event = Inr (accepted_world, Some 100)"
  by code_simp

lemma event_world_inv: "service_inv (event_world n)"
  by (simp add: service_inv_def base_inv_def receipt_inv_def receipts_ok_def ids_ok_def event_world_def sample_world_def held_dispatch_def)

lemma filter_unique_key:
  assumes "distinct (map key rows)" and "r \<in> set rows"
  shows "filter (\<lambda>x. key x = key r) rows = [r]"
  using assms
proof (induction rows)
  case (Cons x xs)
  show ?case
  proof (cases "key x = key r")
    case True
    then have "key y \<noteq> key r" if "y \<in> set xs" for y using Cons.prems(1) imageI [OF that, of key] by auto
    then have "filter (\<lambda>y. key y = key r) xs = []" by (simp add: filter_empty_conv)
    moreover have "x = r" using True Cons.prems by force
    ultimately show ?thesis using True by simp
  qed (use Cons in auto)
qed simp

definition acknowledged_world :: world where
  "acknowledged_world = fst (acknowledge_applied plain_env accepted_world 6 failed_event)"

lemma accepted_step: "receipt_step plain_env (apply_registered_worker_event plain_engine) (event_world 1) accepted_world"
  by (rule rs_accept [where apply_event = "apply_registered_worker_event plain_engine", OF accepted_world_eq])

lemma accepted_run: "(receipt_step plain_env (apply_registered_worker_event plain_engine))\<^sup>*\<^sup>* (event_world 1) accepted_world"
  using accepted_step by (rule r_into_rtranclp)

lemma acknowledged_step: "receipt_step plain_env (apply_registered_worker_event plain_engine) accepted_world acknowledged_world"
  unfolding acknowledged_world_def by (rule rs_ack_applied) (rule prod.collapse [symmetric])

lemma acknowledged_world_acks:
  "redis_acks acknowledged_world = [(''vp:tasks:ffmpeg'', ''ffmpeg-workers'', ''m''), (''vp:events'', ''orchestrator'', ''e'')]"
  by code_simp

section \<open>Runs\<close>

text \<open>C2: An event is applied once. After a message has been accepted, and after any further transactions of the
  service and of the deliveries, with any crash between them, accepting the same message again, whatever applies
  events then, returns the same receipt and changes nothing but the schedule row the lock may create.\<close>

theorem redelivery_applies_once:
  assumes "service_inv w" and "accept_and_apply (cache_of env) observe (apply_registered_worker_event env now) w now ev = Inr (w1, Some rid)"
    and "(receipt_step (cache_of env) (apply_registered_worker_event env))\<^sup>*\<^sup>* w1 w2"
    and "accept_and_apply cenv observe' apply_event w2 now' ev = Inr (w3, x)"
  shows "x = Some rid \<and> (\<exists>s. w3 = w2\<lparr>schedules := s\<rparr>)"
proof -
  have inv: "receipt_inv w" using assms(1) by (simp add: service_inv_def base_inv_def)
  have "service_inv w1" by (rule registered_service.receipt_step_inv [OF assms(1) rs_accept [where apply_event = "apply_registered_worker_event env", OF assms(2)]])
  moreover have "accepted_with w1 ev rid" using registered_events.accept_inv [OF inv assms(2)] by simp
  ultimately have "accepted_with w2 ev rid" using registered_service.accepted_runs.run_inv [OF assms(3)] by blast
  then show ?thesis using assms(4) by (rule accept_again)
qed

lemma accepted_again_eq:
  "accept_and_apply plain_env held_observer (apply_registered_worker_event plain_engine 9) accepted_world 9 failed_event = Inr (accepted_world, Some 100)"
  by code_simp

theorem redelivery_applies_once_witness:
  "accept_and_apply plain_env held_observer (apply_registered_worker_event plain_engine 5) (event_world 1) 5 failed_event = Inr (accepted_world, Some 100)
   \<and> (\<exists>s. accepted_world = accepted_world\<lparr>schedules := s\<rparr>)"
proof -
  have c: "cache_of plain_engine = plain_env" by (simp add: plain_engine_def)
  from redelivery_applies_once [where env = plain_engine, unfolded c, OF event_world_inv accepted_world_eq rtranclp.rtrancl_refl accepted_again_eq]
  show ?thesis using accepted_world_eq by blast
qed

text \<open>C6: In every run of the service a receipt is applied, and it is the only one of its task delivery: no
  transaction leaves a receipt behind that is accepted but not applied, and no task is settled twice.\<close>

theorem receipts_applied:
  assumes "service_inv w" and "(receipt_step cenv (apply_registered_worker_event env))\<^sup>*\<^sup>* w w'" and "r \<in> set (receipts w')"
  shows "rc_application_state r = ''applied''
    \<and> filter (\<lambda>r'. rc_source_task_attestation_id r' = rc_source_task_attestation_id r) (receipts w') = [r]"
proof -
  have "service_inv w'" by (rule registered_service.runs.run_inv [OF assms(2,1)])
  then have ok: "distinct (map rc_source_task_attestation_id (receipts w'))" "rc_application_state r = ''applied''"
    using assms(3) by (simp_all add: service_inv_def base_inv_def receipt_inv_def receipts_ok_def)
  then show ?thesis using filter_unique_key [OF ok(1) assms(3)] by simp
qed

theorem receipts_applied_witness:
  "\<exists>r. receipts accepted_world = [r] \<and> rc_application_state r = ''applied''"
proof -
  have "length (receipts accepted_world) = 1" by code_simp
  then obtain r where r: "receipts accepted_world = [r]" by (auto simp: length_Suc_conv)
  then show ?thesis using receipts_applied [OF event_world_inv accepted_run, of r] by simp
qed

text \<open>C5: Nothing is acknowledged to the broker before it is durable: whatever a transaction of the service
  acknowledges is, in the committed tables it started from, an event message on record, the message of a task whose
  event has a receipt or whose acknowledgement is authorized, or the message of a cancelled task.\<close>

theorem acknowledged_is_durable:
  assumes "service_inv w" and "(receipt_step cenv (apply_registered_worker_event env))\<^sup>*\<^sup>* w w1"
    and "receipt_step cenv (apply_registered_worker_event env) w1 w2" and "m \<in> set (redis_acks w2)"
  shows "durable w1 m"
proof -
  have i: "service_inv w1" by (rule registered_service.runs.run_inv [OF assms(2,1)])
  then have "safe w1 w2" using registered_service.receipt_step_safe [OF assms(3)] by (simp add: service_inv_def)
  then show ?thesis using i assms(4) unfolding safe_def service_inv_def by blast
qed

theorem acknowledged_is_durable_witness:
  "redis_acks acknowledged_world \<noteq> [] \<and> durable accepted_world (''vp:tasks:ffmpeg'', ''ffmpeg-workers'', ''m'')"
  using acknowledged_is_durable [OF event_world_inv accepted_run acknowledged_step, of "(''vp:tasks:ffmpeg'', ''ffmpeg-workers'', ''m'')"]
  by (simp add: acknowledged_world_acks)

section \<open>The staging loop\<close>

lemma stage_pass_progressed: "stage_pass env now rid ps w job True = Inr (w', job', b) \<Longrightarrow> b"
  by (induction ps arbitrary: w job) (auto split: sum.splits prod.splits)

definition not_ready :: "Job \<Rightarrow> string \<times> string list \<Rightarrow> bool" where
  "not_ready job p \<longleftrightarrow>
     (case dict_get (executions_by_node_id job) (fst p) of None \<Rightarrow> True | Some ne \<Rightarrow> ne_status ne \<noteq> PENDING \<or> \<not> deps_done job (snd p))"

lemma stage_pass_still:
  "stage_pass env now rid ps w job False = Inr (w', job', False) \<Longrightarrow> w' = w \<and> job' = job \<and> (\<forall>p\<in>set ps. not_ready job p)"
proof (induction ps arbitrary: w job)
  case (Cons p ps)
  obtain w1 job1 moved where n: "stage_ready_node env now rid w job (fst p) (snd p) = Inr (w1, job1, moved)"
    and r: "stage_pass env now rid ps w1 job1 moved = Inr (w', job', False)"
    using Cons.prems by (auto split: sum.splits prod.splits)
  have "\<not> moved" using r stage_pass_progressed by (cases moved) auto
  then have s: "w1 = w" "job1 = job" "not_ready job p"
    using stage_ready_node_cases [OF n] by (auto simp: not_ready_def split: option.split)
  show ?case using Cons.IH [of w job] r s \<open>\<not> moved\<close> by simp
qed simp

lemma stage_loop_still:
  "stage_receipt_dispatches env now rid dep_map w job = Inr (w', job') \<Longrightarrow> \<forall>p\<in>set dep_map. not_ready job' p"
proof (induction env now rid dep_map w job rule: stage_receipt_dispatches.induct)
  case (1 env now rid dep_map w job)
  obtain w1 job1 b where p: "stage_ready_receipt_dispatches_once env now rid dep_map w job = Inr (w1, job1, b)"
    using "1.prems" by (subst (asm) stage_receipt_dispatches.simps) (auto split: sum.splits prod.splits)
  show ?case
  proof (cases b)
    case True
    then have "stage_receipt_dispatches env now rid dep_map w1 job1 = Inr (w', job')"
      using "1.prems" p by (simp add: stage_receipt_dispatches.simps [of env now rid dep_map w])
    then show ?thesis by (rule "1.IH" [OF p refl refl True])
  next
    case False
    then have "job' = job1" using "1.prems" p by (simp add: stage_receipt_dispatches.simps [of env now rid dep_map w])
    moreover have "\<forall>p\<in>set dep_map. not_ready job p" "job1 = job"
      using stage_pass_still [of env now rid dep_map w job w1 job1] p False by (simp_all add: stage_ready_receipt_dispatches_once_def)
    ultimately show ?thesis by simp
  qed
qed

text \<open>C13: When the staging of a completed node ends, no node is left that could run: every pending node of the
  plan has a dependency that has not succeeded, also when the last one to succeed was a cache hit of the same pass.\<close>

theorem staging_leaves_nothing_ready:
  assumes "stage_receipt_dispatches env now rid dep_map w job = Inr (w', job')" and "(nid, deps) \<in> set dep_map"
    and "dict_get (executions_by_node_id job') nid = Some ne" and "ne_status ne = PENDING"
  shows "\<not> deps_done job' deps"
proof -
  have "not_ready job' (nid, deps)" using stage_loop_still [OF assms(1)] assms(2) by blast
  then show ?thesis using assms(3,4) by (simp add: not_ready_def)
qed

definition chain_job :: Job where
  "chain_job = sample_job 1 JOB_RUNNING [sample_execution 2 ''a'' SUCCEEDED, sample_execution 3 ''b'' PENDING, sample_execution 4 ''c'' PENDING]"

definition chain_staged :: "receipt_error + world \<times> Job" where
  "chain_staged = stage_receipt_dispatches plain_engine 0 50 [(''c'', [''b'']), (''b'', [''a''])] (sample_world ''OPEN'' [chain_job]) chain_job"

lemma chain_staged_statuses:
  "case chain_staged of Inl _ \<Rightarrow> False | Inr (w, job) \<Rightarrow> map ne_status (node_executions job) = [SUCCEEDED, QUEUED, PENDING]
     \<and> map_option ne_status (dict_get (executions_by_node_id job) ''c'') = Some PENDING"
  by code_simp

theorem staging_leaves_nothing_ready_witness:
  "\<exists>w job. chain_staged = Inr (w, job) \<and> map ne_status (node_executions job) = [SUCCEEDED, QUEUED, PENDING]
     \<and> \<not> deps_done job [''b'']"
proof -
  obtain w job ne where c: "chain_staged = Inr (w, job)" and st: "map ne_status (node_executions job) = [SUCCEEDED, QUEUED, PENDING]"
    and ne: "dict_get (executions_by_node_id job) ''c'' = Some ne" "ne_status ne = PENDING"
    using chain_staged_statuses by (auto split: sum.splits prod.splits)
  have "\<not> deps_done job [''b'']"
    by (rule staging_leaves_nothing_ready [OF c [unfolded chain_staged_def] _ ne]) simp
  then show ?thesis using c st by (intro exI [of _ w] exI [of _ job] conjI)
qed

text \<open>The loop with at most so many passes, None when they are not enough.\<close>

primrec stage_passes ::
  "nat \<Rightarrow> engine_env \<Rightarrow> datetime \<Rightarrow> uuid \<Rightarrow> (string, string list) dict \<Rightarrow> world \<Rightarrow> Job \<Rightarrow> (receipt_error + world \<times> Job) option" where
  "stage_passes 0 env now rid dep_map w job = None"
| "stage_passes (Suc k) env now rid dep_map w job =
     (case stage_ready_receipt_dispatches_once env now rid dep_map w job of
        Inl e \<Rightarrow> Some (Inl e)
      | Inr (w', job', progressed) \<Rightarrow>
          if progressed then stage_passes k env now rid dep_map w' job' else Some (Inr (w', job')))"

text \<open>C14: The staging loop ends after at most one pass more than the job has pending nodes.\<close>

theorem staging_terminates:
  "stage_passes (Suc (pending_count job)) env now rid dep_map w job = Some (stage_receipt_dispatches env now rid dep_map w job)"
proof -
  have "stage_passes (Suc k) env now rid dep_map w job = Some (stage_receipt_dispatches env now rid dep_map w job)"
    if "pending_count job \<le> k" for k
    using that
  proof (induction k arbitrary: w job)
    case 0
    have "\<not> b" if "stage_ready_receipt_dispatches_once env now rid dep_map w job = Inr (w1, job1, b)" for w1 job1 b
      using stage_pass_pending [of env now rid dep_map w job False w1 job1 b] that 0
      by (auto simp: stage_ready_receipt_dispatches_once_def)
    then show ?case by (auto simp: stage_receipt_dispatches.simps [of env now rid dep_map w job] split: sum.split prod.split)
  next
    case (Suc k)
    have "pending_count job1 \<le> k" if "stage_ready_receipt_dispatches_once env now rid dep_map w job = Inr (w1, job1, True)" for w1 job1
      using stage_pass_pending [of env now rid dep_map w job False w1 job1 True] that Suc.prems
      by (auto simp: stage_ready_receipt_dispatches_once_def)
    then show ?case using Suc.IH
      by (auto simp: stage_receipt_dispatches.simps [of env now rid dep_map w job] split: sum.split prod.split)
  qed
  then show ?thesis by simp
qed

section \<open>Retries\<close>

lemma release_locked_Inr:
  assumes "release_locked_claim w now r job n = Inr w'"
  shows "release_node_ok r n \<and> w' = put_job w (put_execution job (unclaimed n))
    \<and> (\<exists>a original retry. row_get at_id (attestations w) (rc_source_task_attestation_id r) = Some a
        \<and> filter (\<lambda>d. wd_dispatch_key d = at_dispatch_key a) (dispatches w) = [original]
        \<and> filter (\<lambda>d. wd_origin_receipt_id d = Some (rc_id r)) (dispatches w) = [retry]
        \<and> release_retry_ok r original retry \<and> \<not> release_competing w (ne_id n) original retry)"
  using assms unfolding release_locked_claim_def one_or_none_def
  by (auto split: if_splits option.splits list.splits)

text \<open>C15: A failed first attempt is released only into a state from which the retry can run: the node is queued,
  unowned and counted, exactly one dispatch comes from the receipt, it is not delivered yet, and no task of the node
  is outstanding but that one and the one of the failed attempt, so no third worker can claim the node.\<close>

theorem retry_release_claimable:
  assumes "wf_world w" and "release_sqlite w now rid = Inr w'"
  shows "\<exists>r job n a d. get_receipt w rid = Some r \<and> get_job w' (rc_job_id r) = Some job
    \<and> get_execution job (rc_node_execution_id r) = Some n \<and> claimable n \<and> ne_retry_count n = 1
    \<and> row_get at_id (attestations w') (rc_source_task_attestation_id r) = Some a
    \<and> filter (\<lambda>d. wd_origin_receipt_id d = Some rid) (dispatches w') = [d] \<and> wd_delivery_state d = ''pending''
    \<and> (\<forall>x\<in>set (dispatches w'). wd_node_execution_id x = rc_node_execution_id r
         \<and> wd_resolution_state x \<in> {''unresolved'', ''cancel_authorized''}
         \<longrightarrow> wd_id x = wd_id d \<or> (\<exists>y\<in>set (dispatches w'). wd_id y = wd_id x \<and> wd_dispatch_key y = at_dispatch_key a))"
proof -
  obtain r w1 a n where r: "get_receipt w rid = Some r"
    and l: "lock_job_execution_authority w w (rc_job_id r) (Some (rc_node_execution_id r)) False = Inr (w1, a)"
    and act: "require_active_execution_authority a {JOB_RUNNING} (Some {QUEUED}) = Inr ()" and n: "auth_node a = Some n"
    and c: "release_locked_claim w1 now r (auth_job a) n = Inr w'" using release_sqlite_Inr [OF assms(2)] by blast
  obtain s where w1: "w1 = w\<lparr>schedules := s\<rparr>" using lock_authority_frame [OF l] by blast
  have j: "get_job w1 (rc_job_id r) = Some (auth_job a)" and ln: "lock_node w1 (auth_job a) (Some (rc_node_execution_id r)) False = Inr (Some n)"
    using l n by (auto simp: lock_job_execution_authority_def split: sum.splits option.splits)
  have wf: "wf_world w1" using assms(1) by (simp add: w1 wf_world_def all_executions_def)
  have nid: "ne_id n = rc_node_execution_id r" and mem: "n \<in> set (all_executions w1)" and own: "ne_job_id n = job_id (auth_job a)"
    using ln row_get_key row_get_mem by (fastforce simp: lock_node_def split: option.splits if_splits)+
  have jid: "job_id (auth_job a) = rc_job_id r" by (rule get_job_id [OF j])
  have "n \<in> set (node_executions (auth_job a))" using wf_world_execution [OF wf j] mem own jid by simp
  then have ex: "get_execution (auth_job a) (rc_node_execution_id r) = Some n"
    unfolding get_execution_def nid [symmetric] by (rule row_get_distinct [OF wf_distinct_executions [OF wf j]])
  obtain tk original retry where tk: "row_get at_id (attestations w1) (rc_source_task_attestation_id r) = Some tk"
    and orig: "filter (\<lambda>d. wd_dispatch_key d = at_dispatch_key tk) (dispatches w1) = [original]"
    and ret: "filter (\<lambda>d. wd_origin_receipt_id d = Some (rc_id r)) (dispatches w1) = [retry]" "release_retry_ok r original retry"
    and comp: "\<not> release_competing w1 (ne_id n) original retry"
    and ok: "release_node_ok r n" and w': "w' = put_job w1 (put_execution (auth_job a) (unclaimed n))"
    using release_locked_Inr [OF c] by blast
  have q: "ne_status n = QUEUED" using act n by (auto simp: require_active_execution_authority_def split: if_splits)
  have "get_job w' (rc_job_id r) = Some (put_execution (auth_job a) (unclaimed n))"
    unfolding w' using job_rows.get_put_same [of w1 "put_execution (auth_job a) (unclaimed n)" "auth_job a"] j jid by (simp add: put_execution_def)
  moreover have "get_execution (put_execution (auth_job a) (unclaimed n)) (rc_node_execution_id r) = Some (unclaimed n)"
    using execution_rows.get_put_same [of "auth_job a" "unclaimed n" n] ex nid by (simp add: unclaimed_def)
  moreover have "claimable (unclaimed n)" "ne_retry_count (unclaimed n) = 1"
    using q ok by (simp_all add: claimable_def unclaimed_def release_node_ok_def)
  moreover have rows: "dispatches w' = dispatches w1" "attestations w' = attestations w1" by (simp_all add: w' put_job_def)
  moreover have "rc_id r = rid" by (rule receipt_rows.get_key [OF r])
  moreover have "wd_delivery_state retry = ''pending''" using ret(2) by (simp add: release_retry_ok_def)
  moreover have "wd_id x = wd_id retry \<or> (\<exists>y\<in>set (dispatches w'). wd_id y = wd_id x \<and> wd_dispatch_key y = at_dispatch_key tk)"
    if x: "x \<in> set (dispatches w')" "wd_node_execution_id x = rc_node_execution_id r
      \<and> wd_resolution_state x \<in> {''unresolved'', ''cancel_authorized''}" for x
  proof -
    have "wd_id x \<in> {wd_id original, wd_id retry}"
      using comp x nid unfolding release_competing_def rows(1) list_ex_iff by metis
    moreover have "original \<in> set (filter (\<lambda>d. wd_dispatch_key d = at_dispatch_key tk) (dispatches w1))" unfolding orig by simp
    ultimately show ?thesis unfolding rows(1) by auto
  qed
  ultimately show ?thesis using r tk ret(1) by metis
qed

text \<open>The world of a failed first attempt when its claim is released.\<close>

definition retry_receipt :: RegisteredWorkerEventReceipt where
  "retry_receipt = new_receipt 100 5 8 failed_event (5, 1)"

definition retry_world :: world where
  "retry_world =
     (let w = add_event_delivery ((event_world 0)\<lparr>receipts := [retry_receipt], next_id := 101\<rparr>) 5 (Some 100) 8 failed_event ''accepted'' None;
          ne = retried 5 (held_execution 0);
          job = sample_job 1 JOB_RUNNING [ne]
      in case stage_receipt_dispatch plain_engine 5 100 (put_job w job) job ne None None of Inr w' \<Rightarrow> w' | Inl _ \<Rightarrow> w)"

lemma retry_world_wf: "wf_world retry_world"
  unfolding wf_world_def by code_simp

lemma retry_world_released: "case release_sqlite retry_world 5 100 of Inl _ \<Rightarrow> False | Inr _ \<Rightarrow> True"
  by code_simp

theorem retry_release_claimable_witness:
  "\<exists>w' r job n. release_sqlite retry_world 5 100 = Inr w' \<and> get_receipt retry_world 100 = Some r
     \<and> get_job w' (rc_job_id r) = Some job \<and> get_execution job (rc_node_execution_id r) = Some n \<and> claimable n"
proof -
  obtain w' where w': "release_sqlite retry_world 5 100 = Inr w'" using retry_world_released by (auto split: sum.splits)
  then show ?thesis using retry_release_claimable [OF retry_world_wf w'] by blast
qed

end
