(* ===== verification/Event_Listener.thy ===== *)
theory Event_Listener
  imports Engine_Registered
begin

text \<open>
  The consumer of worker events, \<open>app/orchestrator/event_listener.py\<close>: what it does with one message, and with
  the messages a poll or a reclaim gives it. The fields of a message are texts. An exception that ends the
  handling of one message is logged and leaves the message with the broker; the listener goes on. The function that
  observes the delivery of a task is an argument, as it is for the receipts.
\<close>

section \<open>Messages\<close>

definition EVENT_STREAM :: string where
  "EVENT_STREAM = ''vp:events''"

definition CONSUMER_GROUP :: string where
  "CONSUMER_GROUP = ''orchestrator''"

definition DISPATCH_ATTEMPT_RECOVERY_SECONDS :: int where
  "DISPATCH_ATTEMPT_RECOVERY_SECONDS = 60"

text \<open>The limit of a reconciliation when none is given.\<close>

definition DEFAULT_LIMIT :: nat where
  "DEFAULT_LIMIT = 100"

type_synonym event_data = "(string, string) dict"

text \<open>The claim of an event: None when it is not valid; a very long epoch raises.\<close>

definition registration_of_event :: "event_data \<Rightarrow> py_exn + (uuid option \<times> int option) option" where
  "registration_of_event data =
     (case (dict_get data ''worker_registration_id'', dict_get data ''worker_lease_epoch'') of
        (None, None) \<Rightarrow> Inr (Some (None, None))
      | (Some r, Some e) \<Rightarrow>
          (case read_uuid r of
             None \<Rightarrow> Inr None
           | Some rid \<Rightarrow>
               if e = [] \<or> \<not> list_all is_digit e then Inr None
               else
                 (case py_int_of_string e of
                    Inl x \<Rightarrow> Inl x
                  | Inr n \<Rightarrow> if n \<le> 0 then Inr None else Inr (Some (Some rid, Some n))))
      | _ \<Rightarrow> Inr None)"

definition execution_claim_from_event :: "event_data \<Rightarrow> uuid \<Rightarrow> uuid \<Rightarrow> py_exn + NodeExecutionClaim option" where
  "execution_claim_from_event data jid nid =
     (case (dict_get data ''worker_id'', Option.bind (dict_get data ''started_at'') read_instant) of
        (Some worker, Some t) \<Rightarrow>
          if py_strip worker = [] then Inr None
          else
            (case registration_of_event data of
               Inl e \<Rightarrow> Inl e
             | Inr None \<Rightarrow> Inr None
             | Inr (Some (rid, epoch)) \<Rightarrow>
                 Inr (Some \<lparr>claim_job_id = jid, claim_node_execution_id = nid, claim_worker_id = py_strip worker,
                   claim_started_at = t, claim_worker_registration_id = rid, claim_worker_lease_epoch = epoch\<rparr>))
      | _ \<Rightarrow> Inr None)"

definition event_ids :: "event_data \<Rightarrow> (uuid \<times> uuid) option" where
  "event_ids data =
     (case (Option.bind (dict_get data ''job_id'') read_uuid, Option.bind (dict_get data ''node_execution_id'') read_uuid) of
        (Some jid, Some nid) \<Rightarrow> Some (jid, nid) | _ \<Rightarrow> None)"

section \<open>Handling\<close>

definition handle_event :: "engine_env \<Rightarrow> datetime \<Rightarrow> world \<Rightarrow> event_data \<Rightarrow> outcome" where
  "handle_event env now w data =
     (if dict_get data ''event'' \<notin> {Some ''node_completed'', Some ''node_failed''} then (w, Inr ())
      else
     (case event_ids data of
        None \<Rightarrow> (w, Inr ())
      | Some (jid, nid) \<Rightarrow>
          if dict_get data ''worker_id'' = None \<and> dict_get data ''started_at'' = None
          then (w, Inl ''event is missing execution claim'')
          else
     (case execution_claim_from_event data jid nid of
        Inl e \<Rightarrow> (w, Inl (py_exn_text e))
      | Inr None \<Rightarrow> (w, Inr ())
      | Inr (Some claim) \<Rightarrow>
          if claim_worker_registration_id claim \<noteq> None
          then (w, Inl ''registered event requires a durable receipt'')
          else if dict_get data ''event'' = Some ''node_completed'' then
            (case Option.bind (dict_get data ''output_artifact_id'') read_uuid of
               None \<Rightarrow> (w, Inr ())
             | Some out \<Rightarrow> on_node_completed env now w jid nid out claim)
          else on_node_failed env now w jid nid (dict_get_or data ''error'' ''Unknown error'') claim)))"

definition ack_event :: "world \<Rightarrow> string \<Rightarrow> event_data \<Rightarrow> outcome" where
  "ack_event w mid data =
     (case event_ids data of
        None \<Rightarrow> (w, Inl ''event acknowledgement has invalid identifiers'')
      | Some (jid, nid) \<Rightarrow>
     (case execution_claim_from_event data jid nid of
        Inl e \<Rightarrow> (w, Inl (py_exn_text e))
      | Inr None \<Rightarrow> (w, Inl ''event acknowledgement has no valid execution claim'')
      | Inr (Some claim) \<Rightarrow>
          if claim_worker_registration_id claim = None then (xack w EVENT_STREAM CONSUMER_GROUP mid, Inr ())
          else (w, Inl ''registered event acknowledgement requires an applied receipt'')))"

definition has_registration_claim :: "event_data \<Rightarrow> bool" where
  "has_registration_claim data \<longleftrightarrow>
     dict_get data ''worker_registration_id'' \<noteq> None \<or> dict_get data ''worker_lease_epoch'' \<noteq> None"

definition as_outcome :: "ack_outcome \<Rightarrow> outcome" where
  "as_outcome r = (case r of (w, Inl e) \<Rightarrow> (w, Inl (receipt_error_text e)) | (w, Inr _) \<Rightarrow> (w, Inr ()))"

text \<open>A registered event, once it is parsed: acceptance, the delivery of what it staged, acknowledgement.\<close>

definition process_registered ::
  "engine_env \<Rightarrow> observer \<Rightarrow> datetime \<Rightarrow> world \<Rightarrow> RegisteredWorkerEvent \<Rightarrow> ack_outcome" where
  "process_registered env observe now w ev =
     (case accept_and_apply (cache_of env) observe (apply_registered_worker_event env now) w now ev of
        Inl e \<Rightarrow> (w, Inl e)
      | Inr (w1, None) \<Rightarrow> acknowledge_applied (cache_of env) w1 now ev
      | Inr (w1, Some rid) \<Rightarrow>
          (case deliver_pending_dispatches (cache_of env) w1 now DISPATCH_ATTEMPT_RECOVERY_SECONDS (Some rid) DEFAULT_LIMIT of
             (w2, Inl e) \<Rightarrow> (w2, Inl e)
           | (w2, Inr _) \<Rightarrow> acknowledge_applied (cache_of env) w2 now ev))"

definition process_event :: "engine_env \<Rightarrow> observer \<Rightarrow> datetime \<Rightarrow> world \<Rightarrow> string \<Rightarrow> event_data \<Rightarrow> outcome" where
  "process_event env observe now w mid data =
     (if \<not> has_registration_claim data then
        (case handle_event env now w data of (w1, Inl e) \<Rightarrow> (w1, Inl e) | (w1, Inr _) \<Rightarrow> ack_event w1 mid data)
      else
        (case parse_registered_worker_event (cache_of env) EVENT_STREAM CONSUMER_GROUP mid data of
           Inl e \<Rightarrow> (w, Inl (receipt_error_text e))
         | Inr ev \<Rightarrow> as_outcome (process_registered env observe now w ev)))"

section \<open>Polling and reclaiming\<close>

text \<open>The messages of one poll; an exception is logged and the next message is handled.\<close>

definition process_messages ::
  "engine_env \<Rightarrow> observer \<Rightarrow> datetime \<Rightarrow> (string \<times> event_data) list \<Rightarrow> world \<Rightarrow> world" where
  "process_messages env observe now msgs w =
     foldl (\<lambda>w (mid, data). fst (process_event env observe now w mid data)) w msgs"

text \<open>The reclaim: four reconciliations, each on its own, then the messages that have been idle, without those whose data is gone.\<close>

definition reclaim_pending ::
  "engine_env \<Rightarrow> observer \<Rightarrow> datetime \<Rightarrow> (string \<times> event_data) list \<Rightarrow> world \<Rightarrow> world" where
  "reclaim_pending env observe now claimed w =
     (let w1 = fst (reconcile_cancelled_dispatches w now DISPATCH_ATTEMPT_RECOVERY_SECONDS DEFAULT_LIMIT);
          w2 = fst (deliver_pending_dispatches (cache_of env) w1 now DISPATCH_ATTEMPT_RECOVERY_SECONDS None DEFAULT_LIMIT);
          w3 = fst (reconcile_authorized_task_acknowledgements w2 now DEFAULT_LIMIT);
          w4 = fst (reconcile_pending_acknowledgements w3 now DEFAULT_LIMIT)
      in process_messages env observe now (filter (\<lambda>m. snd m \<noteq> []) claimed) w4)"

end
