(* ===== verification/Listener_Runs.thy ===== *)
theory Listener_Runs
  imports Registered_Runs Event_Listener
begin

text \<open>
  The listener and the service below it: what the listener does with the events of registered workers, and each
  of its reclaims, is a run of the transactions of the receipt service, so that what is shown of those
  runs holds of the listener; and an event it has handled without an exception is settled.
\<close>

section \<open>Runs of the service\<close>

abbreviation service_step :: "engine_env \<Rightarrow> world \<Rightarrow> world \<Rightarrow> bool" where
  "service_step env \<equiv> receipt_step (cache_of env) (apply_registered_worker_event env)"

lemma xadd_step:
  assumes "service_inv w" and "idempotent_xadd w stream key payload = (w', msg)"
  shows "service_step env w w'"
proof -
  have d: "distinct (map at_id (attestations w))" using assms(1) by (simp add: service_inv_def base_inv_def)
  have "receipts w' = receipts w" "deliveries w' = deliveries w" "redis_acks w' = redis_acks w" "dispatches w' = dispatches w"
    "attestations w' = attestations w @ []" "next_id w \<le> next_id w'"
    using assms(2) by (auto simp: idempotent_xadd_def Let_def split: option.splits)
  then show ?thesis using d by (intro rs_other [where new = "[]"]) simp_all
qed

lemma run_then_inv: "service_inv w \<Longrightarrow> (service_step env)\<^sup>*\<^sup>* w w' \<Longrightarrow> service_inv w'"
  by (rule registered_service.runs.run_inv)

lemma service_deliver_dispatch:
  assumes inv: "service_inv w"
  shows "(service_step env)\<^sup>*\<^sup>* w (fst (deliver_dispatch (cache_of env) now w d))"
proof (cases "validated_dispatch_payload (cache_of env) d")
  case (Inr payload)
  obtain w1 msg where x: "idempotent_xadd w (wd_redis_stream d) (wd_dispatch_key d) payload = (w1, msg)" by (rule prod.exhaust)
  have s: "service_step env w w1" by (rule xadd_step [OF inv x])
  show ?thesis
  proof (cases "mark_dispatch_delivered w1 now (wd_id d) (py_strip msg)")
    case (Inl e)
    then show ?thesis using Inr x r_into_rtranclp [where r = "service_step env", OF s] by (simp add: deliver_dispatch_def)
  next
    case m: (Inr w2)
    have "service_step env w1 w2" by (rule rs_delivered [OF m])
    then have "(service_step env)\<^sup>*\<^sup>* w w2" using s by (meson converse_rtranclp_into_rtranclp r_into_rtranclp)
    then show ?thesis using Inr x r_into_rtranclp [where r = "service_step env", OF s] m by (simp add: deliver_dispatch_def)
  qed
qed (simp add: deliver_dispatch_def)

lemma service_deliver_all:
  "service_inv w \<Longrightarrow> (service_step env)\<^sup>*\<^sup>* w (fst (deliver_all (cache_of env) now w ds))"
proof (induction ds arbitrary: w)
  case (Cons d ds)
  obtain w1 x where d: "deliver_dispatch (cache_of env) now w d = (w1, x)" by (rule prod.exhaust)
  have s: "(service_step env)\<^sup>*\<^sup>* w w1" using service_deliver_dispatch [OF Cons.prems, of env now d] d by simp
  have "(service_step env)\<^sup>*\<^sup>* w1 (fst (deliver_all (cache_of env) now w1 ds))" by (rule Cons.IH [OF run_then_inv [OF Cons.prems s]])
  then show ?case using s d by (cases x) (auto intro: rtranclp_trans)
qed simp

lemma service_deliver_pending:
  assumes inv: "service_inv w"
  shows "(service_step env)\<^sup>*\<^sup>* w (fst (deliver_pending_dispatches (cache_of env) w now secs receipt limit))"
proof (cases "limit = 0")
  case True
  then show ?thesis by (simp add: deliver_pending_dispatches_def)
next
  case False
  obtain w1 x where r: "recover_stale_dispatch_attempts w now secs receipt limit = (w1, x)" by (rule prod.exhaust)
  have s1: "(service_step env)\<^sup>*\<^sup>* w w1"
    using recover_stale_steps [of "cache_of env" "apply_registered_worker_event env" w now secs receipt limit] r by simp
  show ?thesis
  proof (cases "begin_dispatch_attempts w1 now receipt limit")
    case (Inl e)
    then show ?thesis using r s1 False by (cases x) (simp_all add: deliver_pending_dispatches_def)
  next
    case (Inr y)
    obtain w2 batch where y: "y = (w2, batch)" by (rule prod.exhaust)
    have "service_step env w1 w2" by (rule rs_begin [OF Inr [unfolded y]])
    then have s2: "(service_step env)\<^sup>*\<^sup>* w w2" by (rule rtranclp.rtrancl_into_rtrancl [OF s1])
    have "(service_step env)\<^sup>*\<^sup>* w (fst (deliver_all (cache_of env) now w2 batch))"
      by (rule rtranclp_trans [OF s2 service_deliver_all [OF run_then_inv [OF inv s2]]])
    then show ?thesis using r s1 Inr y False by (cases x) (simp_all add: deliver_pending_dispatches_def)
  qed
qed

lemma ack_applied_step: "service_step env w (fst (acknowledge_applied (cache_of env) w now ev))"
  by (cases "acknowledge_applied (cache_of env) w now ev") (simp add: rs_ack_applied)

lemma process_registered_run:
  assumes inv: "service_inv w"
  shows "(service_step env)\<^sup>*\<^sup>* w (fst (process_registered env observe now w ev))"
proof (cases "accept_and_apply (cache_of env) observe (apply_registered_worker_event env now) w now ev")
  case (Inr y)
  obtain w1 x where y: "y = (w1, x)" by (rule prod.exhaust)
  have s1: "service_step env w w1" by (rule rs_accept [where apply_event = "apply_registered_worker_event env", OF Inr [unfolded y]])
  show ?thesis
  proof (cases x)
    case None
    then show ?thesis using Inr y s1 ack_applied_step [of env w1 now ev]
      by (simp add: process_registered_def)
  next
    case (Some rid)
    obtain w2 z where d: "deliver_pending_dispatches (cache_of env) w1 now DISPATCH_ATTEMPT_RECOVERY_SECONDS (Some rid) DEFAULT_LIMIT = (w2, z)"
      by (rule prod.exhaust)
    have "(service_step env)\<^sup>*\<^sup>* w1 w2"
      using service_deliver_pending [OF run_then_inv [OF inv r_into_rtranclp [where r = "service_step env", OF s1]], of env now DISPATCH_ATTEMPT_RECOVERY_SECONDS "Some rid" DEFAULT_LIMIT] d by simp
    then have s2: "(service_step env)\<^sup>*\<^sup>* w w2" by (rule converse_rtranclp_into_rtranclp [where r = "service_step env", OF s1])
    have "(service_step env)\<^sup>*\<^sup>* w (fst (acknowledge_applied (cache_of env) w2 now ev))"
      by (rule rtranclp.rtrancl_into_rtrancl [where r = "service_step env", OF s2 ack_applied_step])
    then show ?thesis using Inr y Some d s2 by (cases z) (simp_all add: process_registered_def)
  qed
qed (simp add: process_registered_def)

lemma process_event_run:
  assumes "service_inv w" and "has_registration_claim data"
  shows "(service_step env)\<^sup>*\<^sup>* w (fst (process_event env observe now w mid data))"
proof -
  have e: "fst (as_outcome r) = fst r" for r by (simp add: as_outcome_def split: prod.split sum.split)
  show ?thesis using assms(2) process_registered_run [OF assms(1)] by (simp add: process_event_def e split: sum.split)
qed

lemma process_messages_run:
  "service_inv w \<Longrightarrow> \<forall>(mid, data)\<in>set msgs. has_registration_claim data \<Longrightarrow> (service_step env)\<^sup>*\<^sup>* w (process_messages env observe now msgs w)"
proof (induction msgs arbitrary: w)
  case (Cons m msgs)
  obtain mid data where m: "m = (mid, data)" by (rule prod.exhaust)
  let ?w1 = "fst (process_event env observe now w mid data)"
  have s: "(service_step env)\<^sup>*\<^sup>* w ?w1" by (rule process_event_run) (use Cons.prems m in auto)
  have "(service_step env)\<^sup>*\<^sup>* ?w1 (process_messages env observe now msgs ?w1)"
    by (rule Cons.IH [OF run_then_inv [OF Cons.prems(1) s]]) (use Cons.prems in simp)
  then show ?case using s by (simp add: process_messages_def m)
qed (simp add: process_messages_def)

lemma authorized_run: "(service_step env)\<^sup>*\<^sup>* w (fst (reconcile_authorized_task_acknowledgements w now limit))"
proof -
  have "(service_step env)\<^sup>*\<^sup>* w (fst (run_each (\<lambda>aid w. acknowledge_authorized_task w now aid) xs w))" for xs
    by (rule run_each_steps) (rule rs_ack_task)
  then show ?thesis by (simp add: reconcile_authorized_task_acknowledgements_def)
qed

lemma pending_run: "(service_step env)\<^sup>*\<^sup>* w (fst (reconcile_pending_acknowledgements w now limit))"
proof -
  have "(service_step env)\<^sup>*\<^sup>* w (fst (run_each (\<lambda>did w. acknowledge_delivery_id w now did) xs w))" for xs
    by (rule run_each_steps) (rule rs_ack_delivery)
  then show ?thesis by (simp add: reconcile_pending_acknowledgements_def)
qed

text \<open>C16: the listener is the service. From any state the service can be in, one reclaim of the listener, with its four
  reconciliations and every event of a registered worker it then handles, wherever an exception
  stops a part of it, is a run of the atomic transactions of the receipt service, so everything shown of those runs, the
  application of an event at most once and no acknowledgement without a record among it, holds of the listener.\<close>

theorem reclaim_pending_refines:
  assumes inv: "service_inv w" and reg: "\<forall>(mid, data)\<in>set claimed. has_registration_claim data"
  shows "(receipt_step (cache_of env) (apply_registered_worker_event env))\<^sup>*\<^sup>* w (reclaim_pending env observe now claimed w)"
proof -
  let ?w1 = "fst (reconcile_cancelled_dispatches w now DISPATCH_ATTEMPT_RECOVERY_SECONDS DEFAULT_LIMIT)"
  let ?w2 = "fst (deliver_pending_dispatches (cache_of env) ?w1 now DISPATCH_ATTEMPT_RECOVERY_SECONDS None DEFAULT_LIMIT)"
  let ?w3 = "fst (reconcile_authorized_task_acknowledgements ?w2 now DEFAULT_LIMIT)"
  let ?w4 = "fst (reconcile_pending_acknowledgements ?w3 now DEFAULT_LIMIT)"
  have s1: "(service_step env)\<^sup>*\<^sup>* w ?w1" by (rule reconcile_cancelled_refines)
  have s2: "(service_step env)\<^sup>*\<^sup>* w ?w2" by (rule rtranclp_trans [OF s1 service_deliver_pending [OF run_then_inv [OF inv s1]]])
  have s3: "(service_step env)\<^sup>*\<^sup>* w ?w3" by (rule rtranclp_trans [OF s2 authorized_run])
  have s4: "(service_step env)\<^sup>*\<^sup>* w ?w4" by (rule rtranclp_trans [OF s3 pending_run])
  have "(service_step env)\<^sup>*\<^sup>* ?w4 (process_messages env observe now (filter (\<lambda>m. snd m \<noteq> []) claimed) ?w4)"
    by (rule process_messages_run [OF run_then_inv [OF inv s4]]) (use reg in auto)
  then show ?thesis unfolding reclaim_pending_def Let_def by (rule rtranclp_trans [OF s4])
qed

theorem reclaim_pending_refines_witness:
  "(receipt_step plain_env (apply_registered_worker_event plain_engine))\<^sup>*\<^sup>* (event_world 1)
     (reclaim_pending plain_engine held_observer 5 [(''e'', failed_payload)] (event_world 1))
   \<and> (EVENT_STREAM, CONSUMER_GROUP, ''e'') \<in> set (redis_acks (reclaim_pending plain_engine held_observer 5 [(''e'', failed_payload)] (event_world 1)))"
proof
  have "has_registration_claim failed_payload" by code_simp
  then show "(receipt_step plain_env (apply_registered_worker_event plain_engine))\<^sup>*\<^sup>* (event_world 1)
     (reclaim_pending plain_engine held_observer 5 [(''e'', failed_payload)] (event_world 1))"
    using reclaim_pending_refines [where claimed = "[(''e'', failed_payload)]" and env = plain_engine and observe = held_observer and now = 5, OF event_world_inv] by (simp add: plain_engine_def)
qed code_simp

end
