(* ===== verification/Engine_Order.thy ===== *)
theory Engine_Order
  imports Engine_Registered
begin

text \<open>
  What the engine keeps of every job: no node is queued, runs or has succeeded before everything it depends
  on has succeeded, and everything that has succeeded has an output. The invariant is shown for each handler,
  under any interference that keeps it; here for the dispatch of ready nodes.
\<close>

section \<open>The invariant of a job\<close>

definition dispatched :: "NodeExecution \<Rightarrow> bool" where
  "dispatched n \<longleftrightarrow> ne_status n \<in> {QUEUED, RUNNING, SUCCEEDED}"

definition ready :: "Job \<Rightarrow> string \<Rightarrow> bool" where
  "ready job nid \<longleftrightarrow> deps_done job (dict_get_or (build_dependency_map (pipeline_snapshot job)) nid [])"

definition node_ok :: "Job \<Rightarrow> NodeExecution \<Rightarrow> bool" where
  "node_ok job n \<longleftrightarrow> ne_node_id n \<in> node_ids (pipeline_snapshot job)
     \<and> (ne_status n = SUCCEEDED \<longrightarrow> ne_output_artifact_id n \<noteq> None)
     \<and> (ne_node_type n \<noteq> ''source'' \<and> dispatched n \<longrightarrow> ready job (ne_node_id n))"

definition plan_ok :: "Job \<Rightarrow> bool" where
  "plan_ok job \<longleftrightarrow>
     (case execution_plan job of
        None \<Rightarrow> job_status job \<noteq> JOB_RUNNING
      | Some p \<Rightarrow> dependencies p = build_dependency_map (pipeline_snapshot job))"

definition job_ok :: "Job \<Rightarrow> bool" where
  "job_ok job \<longleftrightarrow> wf_executions job \<and> plan_ok job \<and> (\<forall>n\<in>set (node_executions job). node_ok job n)"

definition jobs_ok :: "world \<Rightarrow> bool" where
  "jobs_ok w \<longleftrightarrow> wf_world w \<and> (\<forall>job\<in>set (jobs w). job_ok job)"

text \<open>How an execution may change while the invariant is kept.\<close>

definition node_step :: "Job \<Rightarrow> NodeExecution \<Rightarrow> NodeExecution \<Rightarrow> bool" where
  "node_step job n n' \<longleftrightarrow>
     ne_id n' = ne_id n \<and> ne_job_id n' = ne_job_id n \<and> ne_node_id n' = ne_node_id n \<and> ne_node_type n' = ne_node_type n
     \<and> (ne_status n = SUCCEEDED \<longrightarrow> ne_status n' = SUCCEEDED)
     \<and> (ne_status n' = SUCCEEDED \<longrightarrow> ne_output_artifact_id n' \<noteq> None \<or> ne_status n = SUCCEEDED \<and> ne_output_artifact_id n' = ne_output_artifact_id n)
     \<and> (ne_node_type n \<noteq> ''source'' \<and> dispatched n' \<longrightarrow> dispatched n \<or> ready job (ne_node_id n))"

definition job_step :: "Job \<Rightarrow> Job \<Rightarrow> bool" where
  "job_step job job' \<longleftrightarrow> job_id job' = job_id job \<and> pipeline_snapshot job' = pipeline_snapshot job \<and> plan_ok job'
     \<and> list_all2 (node_step job) (node_executions job) (node_executions job')"

lemma node_step_refl [simp]: "node_step job n n"
  by (simp add: node_step_def)

lemma deps_done_iff:
  assumes "wf_executions job"
  shows "deps_done job deps \<longleftrightarrow> (\<forall>d\<in>set deps. \<exists>n\<in>set (node_executions job). ne_node_id n = d \<and> ne_status n = SUCCEEDED)"
proof -
  have "(case dict_get (executions_by_node_id job) d of None \<Rightarrow> False | Some n \<Rightarrow> ne_status n = SUCCEEDED)
      \<longleftrightarrow> (\<exists>n\<in>set (node_executions job). ne_node_id n = d \<and> ne_status n = SUCCEEDED)" for d
    using executions_by_node_id_get [OF assms, of d] by (cases "dict_get (executions_by_node_id job) d") (simp_all, metis+)
  then show ?thesis unfolding deps_done_def list_all_iff by blast
qed

lemma list_all2_map_eq: "list_all2 P xs ys \<Longrightarrow> (\<And>x y. P x y \<Longrightarrow> f y = f x) \<Longrightarrow> map f ys = map f xs"
  by (induction rule: list_all2_induct) auto

lemma list_all2_mem: "list_all2 P xs ys \<Longrightarrow> y \<in> set ys \<Longrightarrow> \<exists>x\<in>set xs. P x y"
  by (induction rule: list_all2_induct) auto

lemma list_all2_mem': "list_all2 P xs ys \<Longrightarrow> x \<in> set xs \<Longrightarrow> \<exists>y\<in>set ys. P x y"
  by (induction rule: list_all2_induct) auto

lemma job_step_wf:
  assumes "wf_executions job" and "job_step job job'"
  shows "wf_executions job'"
proof -
  have l: "list_all2 (node_step job) (node_executions job) (node_executions job')" using assms(2) by (simp add: job_step_def)
  have "map ne_id (node_executions job') = map ne_id (node_executions job)"
    "map ne_node_id (node_executions job') = map ne_node_id (node_executions job)"
    by (rule list_all2_map_eq [OF l], simp add: node_step_def)+
  then show ?thesis using assms(1) by (simp add: wf_executions_def)
qed

lemma deps_done_step:
  assumes wf: "wf_executions job" and st: "job_step job job'" and d: "deps_done job deps"
  shows "deps_done job' deps"
  unfolding deps_done_iff [OF job_step_wf [OF wf st]]
proof
  fix d assume "d \<in> set deps"
  then obtain n where n: "n \<in> set (node_executions job)" "ne_node_id n = d" "ne_status n = SUCCEEDED"
    using d unfolding deps_done_iff [OF wf] by blast
  then obtain n' where "n' \<in> set (node_executions job')" "node_step job n n'"
    using st list_all2_mem' unfolding job_step_def by metis
  then show "\<exists>n\<in>set (node_executions job'). ne_node_id n = d \<and> ne_status n = SUCCEEDED"
    using n by (auto simp: node_step_def)
qed

lemma ready_step: "wf_executions job \<Longrightarrow> job_step job job' \<Longrightarrow> ready job nid \<Longrightarrow> ready job' nid"
  using deps_done_step by (simp add: ready_def job_step_def)

lemma job_step_ok:
  assumes ok: "job_ok job" and st: "job_step job job'"
  shows "job_ok job'"
proof -
  have wf: "wf_executions job" using ok by (simp add: job_ok_def)
  have "node_ok job' n'" if n': "n' \<in> set (node_executions job')" for n'
  proof -
    obtain n where n: "n \<in> set (node_executions job)" and s: "node_step job n n'"
      using list_all2_mem [OF _ n'] st unfolding job_step_def by metis
    have "node_ok job n" using ok n by (simp add: job_ok_def)
    then show ?thesis using s st ready_step [OF wf st] unfolding node_ok_def node_step_def job_step_def by auto
  qed
  then show ?thesis using job_step_wf [OF wf st] st by (simp add: job_ok_def job_step_def)
qed

lemma job_step_put:
  assumes ok: "job_ok job" and n: "n \<in> set (node_executions job)" and s: "node_step job n n'"
  shows "job_step job (put_execution job n')"
proof -
  have i: "ne_id n' = ne_id n" using s by (simp add: node_step_def)
  have d: "distinct (map ne_id (node_executions job))" using ok by (simp add: job_ok_def wf_executions_def)
  have "node_step job x (if ne_id x = ne_id n' then n' else x)" if x: "x \<in> set (node_executions job)" for x
    using row_unique [OF d x n] i s by auto
  then have "list_all2 (node_step job) (node_executions job) (row_put ne_id (node_executions job) n')"
    unfolding row_put_def by (simp add: list_all2_map2 list_all2_same)
  moreover have "plan_ok (put_execution job n')" using ok by (simp add: job_ok_def plan_ok_def put_execution_def split: option.splits)
  ultimately show ?thesis by (simp add: job_step_def put_execution_def)
qed

lemma job_step_status:
  assumes "job_ok job" and "job_id job' = job_id job" and "pipeline_snapshot job' = pipeline_snapshot job"
    and "execution_plan job' = execution_plan job" and "node_executions job' = node_executions job"
    and "job_status job' = JOB_RUNNING \<Longrightarrow> job_status job = JOB_RUNNING"
  shows "job_step job job'"
proof -
  have "plan_ok job'" using assms unfolding job_ok_def plan_ok_def by (auto split: option.splits)
  then show ?thesis using assms by (simp add: job_step_def list_all2_same)
qed

section \<open>The invariant of the tables\<close>

lemma jobs_ok_cong: "jobs w' = jobs w \<Longrightarrow> jobs_ok w' = jobs_ok w"
  by (simp add: jobs_ok_def wf_world_def all_executions_def)

lemma jobs_ok_schedules [simp]: "jobs_ok (w\<lparr>schedules := s\<rparr>) = jobs_ok w"
  by (rule jobs_ok_cong) simp

lemma jobs_ok_get: "jobs_ok w \<Longrightarrow> get_job w jid = Some job \<Longrightarrow> job_ok job"
  using get_job_mem by (auto simp: jobs_ok_def)

lemma put_job_ok:
  assumes ok: "jobs_ok w" and g: "get_job w (job_id job') = Some job" and st: "job_step job job'"
  shows "jobs_ok (put_job w job')"
proof -
  have wf: "wf_world w" using ok by (simp add: jobs_ok_def)
  have d: "distinct (map job_id (jobs w))" using wf by (simp add: wf_world_def)
  have mem: "job \<in> set (jobs w)" and id: "job_id job' = job_id job" using get_job_mem [OF g] get_job_id [OF g] by simp_all
  have l: "list_all2 (node_step job) (node_executions job) (node_executions job')" using st by (simp add: job_step_def)
  have ids: "map ne_id (node_executions job') = map ne_id (node_executions job)"
    by (rule list_all2_map_eq [OF l]) (simp add: node_step_def)
  have "map ne_id (concat (map node_executions (row_put job_id xs job'))) = map ne_id (concat (map node_executions xs))"
    if "set xs \<subseteq> set (jobs w)" for xs
    using that
  proof (induction xs)
    case (Cons x xs)
    have "x = job" if "job_id x = job_id job'" using row_unique [OF d _ mem, of x] that id Cons.prems by simp
    then show ?case using Cons ids by (auto simp: row_put_def)
  qed (simp add: row_put_def)
  then have a: "map ne_id (all_executions (put_job w job')) = map ne_id (all_executions w)"
    by (simp add: all_executions_def put_job_def)
  have own: "ne_job_id n' = job_id job'" if "n' \<in> set (node_executions job')" for n'
    using list_all2_mem [OF l that] wf mem id by (auto simp: wf_world_def node_step_def)
  have rest: "j = job' \<or> j \<in> set (jobs w)" if "j \<in> set (jobs (put_job w job'))" for j
    using row_put_mem [of j job_id "jobs w" job'] that by (auto simp: put_job_def)
  have "map job_id (jobs (put_job w job')) = map job_id (jobs w)" by (simp add: put_job_def)
  then have "wf_world (put_job w job')" using wf own rest unfolding wf_world_def a by auto
  moreover have "job_ok job'" using job_step_ok [OF _ st] jobs_ok_get [OF ok g] by simp
  ultimately show ?thesis using ok rest unfolding jobs_ok_def by blast
qed

lemma put_world_execution_put:
  assumes "wf_world w" and "get_job w (ne_job_id n) = Some job"
  shows "put_world_execution w n = put_job w (put_execution job n)"
proof -
  have d: "distinct (map job_id (jobs w))" using assms(1) by (simp add: wf_world_def)
  have mem: "job \<in> set (jobs w)" and id: "job_id job = ne_job_id n" using get_job_mem [OF assms(2)] get_job_id [OF assms(2)] by simp_all
  have "(if job_id j = ne_job_id n then put_execution j n else j) = (if job_id j = job_id (put_execution job n) then put_execution job n else j)"
    if "j \<in> set (jobs w)" for j
    using row_unique [OF d that mem] id by (auto simp: put_execution_def)
  then show ?thesis by (simp add: put_world_execution_def put_job_def row_put_def cong: map_cong)
qed

section \<open>The locks\<close>

lemma lock_authority_rows:
  assumes ok: "jobs_ok w" and l: "lock_job_execution_authority seen w jid nid all = Inr (w1, a)"
  shows "jobs_ok w1 \<and> jobs w1 = jobs w \<and> get_job w1 jid = Some (auth_job a) \<and> job_ok (auth_job a)
    \<and> (\<forall>n. auth_node a = Some n \<longrightarrow> n \<in> set (node_executions (auth_job a)) \<and> nid = Some (ne_id n))"
proof -
  obtain s where w1: "w1 = w\<lparr>schedules := s\<rparr>" using lock_authority_frame [OF l] by blast
  have ok1: "jobs_ok w1" using ok by (simp add: w1)
  have j: "get_job w1 jid = Some (auth_job a)" and ln: "lock_node w1 (auth_job a) nid all = Inr (auth_node a)"
    using l by (auto simp: lock_job_execution_authority_def split: sum.splits option.splits prod.splits)
  have wf: "wf_world w1" using ok1 by (simp add: jobs_ok_def)
  have jid: "job_id (auth_job a) = jid" by (rule get_job_id [OF j])
  have "n \<in> set (node_executions (auth_job a)) \<and> nid = Some (ne_id n)" if n: "auth_node a = Some n" for n
  proof -
    let ?rows = "if all then sort_key ne_id (filter (\<lambda>n. ne_job_id n = job_id (auth_job a)) (all_executions w1)) else all_executions w1"
    obtain i where i: "nid = Some i" and g: "row_get ne_id ?rows i = Some n" and own: "ne_job_id n = job_id (auth_job a)"
      using ln n by (auto simp: lock_node_def split: option.splits if_splits)
    have "n \<in> set (all_executions w1)" using row_get_mem [OF g] by (auto split: if_splits)
    then show ?thesis using wf_world_execution [OF wf j] own jid i row_get_key [OF g] by simp
  qed
  then show ?thesis using ok1 j jobs_ok_get [OF ok1 j] by (simp add: w1)
qed

lemma deferred_step: "job_ok job \<Longrightarrow> job_step job (deferred_job job)"
proof -
  assume ok: "job_ok job"
  have "node_step job n (reset_active_node n)" for n
    by (simp add: node_step_def reset_active_node_def ACTIVE_NODE_STATUSES_def dispatched_def)
  moreover have "plan_ok (deferred_job job)"
    using ok by (simp add: job_ok_def plan_ok_def deferred_job_def parked_def split: option.splits)
  ultimately show ?thesis
    by (simp add: job_step_def deferred_job_def parked_def list_all2_map2 list_all2_same)
qed

text \<open>Interference that keeps the invariant.\<close>

definition keeps_jobs :: "engine_env \<Rightarrow> bool" where
  "keeps_jobs env \<longleftrightarrow> (\<forall>g w. jobs_ok w \<longrightarrow> jobs_ok (others env g w))"

lemma lock_initial_ok:
  assumes k: "keeps_jobs env" and ok: "jobs_ok w" and l: "lock_initial_launch_authority env g w jid = (w', x)"
  shows "jobs_ok w' \<and> (\<forall>job. x = Some job \<longrightarrow> get_job w' jid = Some job \<and> job_ok job)"
proof -
  let ?w0 = "others env g w"
  have ok0: "jobs_ok ?w0" using k ok by (simp add: keeps_jobs_def)
  show ?thesis
  proof (cases "lock_job_execution_authority w ?w0 jid None True")
    case (Inl e)
    then show ?thesis using l ok0 by (auto simp: lock_initial_launch_authority_def Let_def)
  next
    case (Inr y)
    obtain w1 a where y: "y = (w1, a)" by (rule prod.exhaust)
    have r: "jobs_ok w1" "get_job w1 jid = Some (auth_job a)" "job_ok (auth_job a)"
      using lock_authority_rows [OF ok0 Inr [unfolded y]] by simp_all
    have "job_id (deferred_job (auth_job a)) = jid" using get_job_id [OF r(2)] by (simp add: deferred_job_def parked_def)
    then have d: "jobs_ok (put_job w1 (deferred_job (auth_job a)))" using put_job_ok [OF r(1) _ deferred_step [OF r(3)]] r(2) by simp
    have "(w', x) \<in> {(?w0, None), (put_job w1 (deferred_job (auth_job a)), None), (w1, Some (auth_job a))}"
      using l Inr y unfolding lock_initial_launch_authority_def Let_def by (auto split: if_splits)
    then show ?thesis using r d ok0 by auto
  qed
qed

lemma lock_dispatch_ok:
  assumes k: "keeps_jobs env" and ok: "jobs_ok w" and l: "lock_dispatch_authority env g w jid nid = (w0, x)"
  shows "jobs_ok w0 \<and> (\<forall>w1 job n. x = Some (w1, job, n) \<longrightarrow> jobs_ok w1 \<and> get_job w1 jid = Some job \<and> job_ok job
    \<and> job_status job = JOB_RUNNING \<and> n \<in> set (node_executions job) \<and> ne_status n = PENDING)"
proof -
  let ?w0 = "others env g w"
  have ok0: "jobs_ok ?w0" using k ok by (simp add: keeps_jobs_def)
  show ?thesis
  proof (cases "lock_job_execution_authority w ?w0 jid (Some nid) False")
    case (Inl e)
    then show ?thesis using l ok0 by (auto simp: lock_dispatch_authority_def Let_def)
  next
    case (Inr y)
    obtain w1 a where y: "y = (w1, a)" by (rule prod.exhaust)
    note r = lock_authority_rows [OF ok0 Inr [unfolded y]]
    have "x = None \<or> (\<exists>n. x = Some (w1, auth_job a, n) \<and> auth_node a = Some n
        \<and> require_active_execution_authority a {JOB_RUNNING} (Some {PENDING}) = Inr ())" and w0: "w0 = ?w0"
      using l Inr y unfolding lock_dispatch_authority_def Let_def by (auto split: sum.splits option.splits)
    then show ?thesis using r ok0 by (auto simp: require_active_execution_authority_def split: if_splits)
  qed
qed

lemma lock_claim_ok:
  assumes k: "keeps_jobs env" and ok: "jobs_ok w" and l: "lock_claim_authority env g w jid nid st all claim = (w0, x)"
  shows "jobs_ok w0 \<and> (\<forall>w1 job n. x = Some (w1, job, n) \<longrightarrow> jobs_ok w1 \<and> get_job w1 jid = Some job \<and> job_ok job
    \<and> job_status job = JOB_RUNNING \<and> n \<in> set (node_executions job) \<and> ne_status n = st)"
proof -
  let ?w0 = "others env g w"
  have ok0: "jobs_ok ?w0" using k ok by (simp add: keeps_jobs_def)
  show ?thesis
  proof (cases "lock_job_execution_authority w ?w0 jid (Some nid) all")
    case (Inl e)
    then show ?thesis using l ok0 by (auto simp: lock_claim_authority_def Let_def)
  next
    case (Inr y)
    obtain w1 a where y: "y = (w1, a)" by (rule prod.exhaust)
    note r = lock_authority_rows [OF ok0 Inr [unfolded y]]
    have "x = None \<or> (\<exists>n. x = Some (w1, auth_job a, n) \<and> auth_node a = Some n
        \<and> require_active_execution_authority a {JOB_RUNNING} (Some {st}) = Inr ())" and w0: "w0 = ?w0"
      using l Inr y unfolding lock_claim_authority_def Let_def by (auto split: sum.splits option.splits)
    then show ?thesis using r ok0 by (auto simp: require_active_execution_authority_def split: if_splits)
  qed
qed

section \<open>What leaves the jobs alone\<close>

lemma lock_batch_jobs: "lock_batch w ds = Inr w' \<Longrightarrow> jobs w' = jobs w"
  using lock_batch_frame by fastforce

lemma puts_dispatch_jobs [simp]: "jobs (foldl put_dispatch w ds) = jobs w"
  by (simp add: foldl_put_dispatch)

lemma put_dispatch_jobs [simp]: "jobs (put_dispatch w d) = jobs w"
  by (simp add: put_dispatch_def)

lemma mark_delivered_jobs: "mark_dispatch_delivered w now i msg = Inr w' \<Longrightarrow> jobs w' = jobs w"
  using mark_delivered_Inr by fastforce

lemma mark_uncertain_jobs: "mark_dispatch_uncertain w i reason = Inr w' \<Longrightarrow> jobs w' = jobs w"
  using mark_uncertain_Inr by fastforce

lemma settle_attempts_jobs: "jobs (fst (settle_attempts now w ds)) = jobs w"
proof (induction ds arbitrary: w)
  case (Cons d ds)
  show ?case
  proof (cases "settle_attempt w now d")
    case (Inr w1)
    have "jobs w1 = jobs w"
      using Inr mark_delivered_jobs mark_uncertain_jobs by (auto simp: settle_attempt_def split: option.splits if_splits)
    then show ?thesis using Cons.IH [of w1] Inr by simp
  qed simp
qed simp

lemma recover_stale_jobs: "jobs (fst (recover_stale_dispatch_attempts w now secs receipt limit)) = jobs w"
  unfolding recover_stale_dispatch_attempts_def by (rule settle_attempts_jobs)

lemma deliver_dispatch_jobs: "deliver_dispatch env now w d = (w', x) \<Longrightarrow> jobs w' = jobs w"
  by (auto simp: deliver_dispatch_def idempotent_xadd_def Let_def split: sum.splits option.splits if_splits dest!: mark_delivered_jobs)

lemma deliver_all_jobs: "jobs (fst (deliver_all env now w ds)) = jobs w"
proof (induction ds arbitrary: w)
  case (Cons d ds)
  obtain w1 x where d: "deliver_dispatch env now w d = (w1, x)" by (rule prod.exhaust)
  show ?case using Cons.IH [of w1] deliver_dispatch_jobs [OF d] d by (cases x) simp_all
qed simp

lemma begin_jobs: "begin_dispatch_attempts w now receipt limit = Inr (w', batch) \<Longrightarrow> jobs w' = jobs w"
  using begin_dispatch_attempts_Inr by fastforce

lemma deliver_pending_jobs:
  assumes "deliver_pending_dispatches env w now secs receipt limit = (w', x)"
  shows "jobs w' = jobs w"
proof (cases "limit = 0")
  case True
  then show ?thesis using assms by (simp add: deliver_pending_dispatches_def)
next
  case False
  obtain w1 y where r: "recover_stale_dispatch_attempts w now secs receipt limit = (w1, y)" by (rule prod.exhaust)
  have j1: "jobs w1 = jobs w" using recover_stale_jobs [of w now secs receipt limit] by (simp add: r)
  note res = assms [unfolded deliver_pending_dispatches_def if_not_P [OF False] r prod.case]
  show ?thesis
  proof (cases y)
    case (Inl e)
    then show ?thesis using res j1 by simp
  next
    case (Inr u)
    show ?thesis
    proof (cases "begin_dispatch_attempts w1 now receipt limit")
      case (Inl e)
      then show ?thesis using res j1 Inr by simp
    next
      case b: (Inr z)
      obtain w2 batch where z: "z = (w2, batch)" by (rule prod.exhaust)
      have "jobs w2 = jobs w" using begin_jobs b z j1 by simp
      moreover have "deliver_all env now w2 batch = (w', x)" using res Inr b z by simp
      ultimately show ?thesis using deliver_all_jobs [of env now w2 batch] by simp
    qed
  qed
qed

lemma stage_jobs: "stage_worker_task_dispatch env w now origin jid nid stream grp payload = Inr w' \<Longrightarrow> jobs w' = jobs w"
  using stage_Inr by fastforce

lemma cache_change_jobs: "cache_change w w' \<Longrightarrow> jobs w' = jobs w"
  by (auto simp: cache_change_def)

section \<open>Dispatch\<close>

lemma running_plan:
  assumes "job_ok job" and "job_status job = JOB_RUNNING"
  shows "plan_dependencies job = build_dependency_map (pipeline_snapshot job)"
  using assms by (auto simp: job_ok_def plan_ok_def plan_dependencies_def split: option.splits)

lemma node_step_cached:
  assumes "apply_cached_artifact_uncommitted env w now job ne inp registered = Inr (w', Some ne')" and "ready j (ne_node_id ne)"
  shows "node_step j ne ne'"
  using cached_node [OF assms(1)] assms(2) by (simp add: node_step_def)

lemma node_step_queued: "ready job (ne_node_id n) \<Longrightarrow> ne_status n \<noteq> SUCCEEDED \<Longrightarrow> node_step job n (queued now inp n)"
  by (simp add: node_step_def queued_def)

lemma put_execution_ok:
  assumes ok: "jobs_ok w" and g: "get_job w (job_id job) = Some job" and n: "n \<in> set (node_executions job)" and s: "node_step job n n'"
  shows "jobs_ok (put_job w (put_execution job n'))"
proof (rule put_job_ok [OF ok])
  show "get_job w (job_id (put_execution job n')) = Some job" using g by (simp add: put_execution_def)
  show "job_step job (put_execution job n')" by (rule job_step_put [OF jobs_ok_get [OF ok g] n s])
qed

lemma dispatch_locked_ok:
  assumes ok0: "jobs_ok w0" and ok1: "jobs_ok w1" and g: "get_job w1 (job_id job) = Some job" and run: "job_status job = JOB_RUNNING"
    and ne: "ne \<in> set (node_executions job)" and p: "ne_status ne = PENDING"
    and res: "dispatch_locked_node env now w0 w1 job ne = (w', job', r)"
  shows "jobs_ok w'"
proof -
  let ?deps = "dict_get_or (plan_dependencies job) (ne_node_id ne) []"
  let ?inp = "receipt_input_artifacts job (ne_node_id ne)"
  have jok: "job_ok job" by (rule jobs_ok_get [OF ok1 g])
  show ?thesis
  proof (cases "deps_done job ?deps")
    case False
    then show ?thesis using res ok0 by (simp add: dispatch_locked_node_def)
  next
    case True
    have rd: "ready job (ne_node_id ne)" using True by (simp add: ready_def running_plan [OF jok run])
    note res1 = res [unfolded dispatch_locked_node_def Let_def]
    show ?thesis
    proof (cases "apply_cached_artifact_uncommitted env w1 now job ne (input_artifacts_by_handle w1 ?inp) False")
      case (Inl e)
      then show ?thesis using res1 True ok0 by simp
    next
      case (Inr z)
      note cached = Inr
      obtain w2 hit where z: "z = (w2, hit)" by (rule prod.exhaust)
      have j2: "jobs w2 = jobs w1" by (rule cache_change_jobs [OF apply_cached_change [OF Inr [unfolded z]]])
      then have ok2: "jobs_ok w2" and g2: "get_job w2 (job_id job) = Some job"
        using ok1 g jobs_ok_cong [OF j2] by (simp_all add: get_job_def)
      show ?thesis
      proof (cases hit)
        case (Some ne')
        have "jobs_ok (put_job w2 (put_execution job ne'))"
          by (rule put_execution_ok [OF ok2 g2 ne node_step_cached [OF Inr [unfolded z Some] rd]])
        then show ?thesis using res1 True Inr z Some by auto
      next
        case None
        let ?job = "put_execution job (queued now ?inp ne)"
        have okq: "jobs_ok (put_job w2 ?job)"
          using put_execution_ok [OF ok2 g2 ne node_step_queued [OF rd]] p by simp
        let ?wt = "worker_type_of env (ne_node_type ne)"
        let ?hosts = "preferred_hosts_for_node (executions_by_node_id job) ?deps"
        show ?thesis
        proof (cases "stage_worker_task_dispatch (cache_of env) (put_job w2 ?job) now None (job_id job) (ne_id ne)
            (TASK_STREAM ?wt) (?wt @ ''-workers'') (task_payload now job ne ?inp ?hosts)")
          case (Inl e)
          then show ?thesis using res1 True cached z None ok0 by simp
        next
          case s: (Inr w3)
          obtain w4 y where d: "deliver_pending_dispatches (cache_of env) w3 now 60 None 100 = (w4, y)" by (rule prod.exhaust)
          have "jobs w4 = jobs (put_job w2 ?job)" using deliver_pending_jobs [OF d] stage_jobs [OF s] by simp
          from jobs_ok_cong [OF this] have "jobs_ok w4" using okq by simp
          moreover have "w' = w4" using res1 True cached z None s d by (cases y) simp_all
          ultimately show ?thesis by simp
        qed
      qed
    qed
  qed
qed

lemma dispatch_node_ok:
  assumes k: "keeps_jobs env" and ok: "jobs_ok w" and res: "dispatch_node env now m w job nid = (w', job', r)"
  shows "jobs_ok w'"
proof -
  have locked: "jobs_ok w'"
    if d: "(case lock_dispatch_authority env g w jid i of
             (w0, None) \<Rightarrow> (w0, job, Return) | (w0, Some (w1, job1, ne1)) \<Rightarrow> dispatch_locked_node env now w0 w1 job1 ne1) = (w', job', r)"
    for g jid i
  proof -
    obtain w0 x where lk: "lock_dispatch_authority env g w jid i = (w0, x)" by (rule prod.exhaust)
    note l = lock_dispatch_ok [OF k ok lk]
    show ?thesis
    proof (cases x)
      case None
      then show ?thesis using d lk l by simp
    next
      case (Some y)
      obtain w1 job1 ne1 where y: "y = (w1, job1, ne1)" by (rule prod_cases3)
      then have dl: "dispatch_locked_node env now w0 w1 job1 ne1 = (w', job', r)" using d lk Some by simp
      have "get_job w1 (job_id job1) = Some job1" using l Some y get_job_id by metis
      then show ?thesis using dispatch_locked_ok [OF _ _ _ _ _ _ dl] l Some y by blast
    qed
  qed
  show ?thesis using res ok locked unfolding dispatch_node_def by (auto split: option.splits if_splits)
qed

lemma dispatch_loop_ok:
  assumes k: "keeps_jobs env"
  shows "jobs_ok w \<Longrightarrow> dispatch_loop env now guarded m nids w job = (w', job', r) \<Longrightarrow> jobs_ok w'"
proof (induction nids arbitrary: w job)
  case (Cons nid nids)
  let ?first = "if guarded then
      (if \<not> observed_ready m job nid then (w, job, Continue)
       else (case lock_initial_launch_authority env (Before_node_launch nid) w (job_id job) of
               (w1, None) \<Rightarrow> (w1, job, Return)
             | (w1, Some job1) \<Rightarrow> dispatch_node env now (build_dependency_map (pipeline_snapshot job1)) w1 job1 nid))
    else dispatch_node env now m w job nid"
  obtain w1 job1 e where f: "?first = (w1, job1, e)" by (rule prod_cases3)
  obtain wl x where l: "lock_initial_launch_authority env (Before_node_launch nid) w (job_id job) = (wl, x)" by (rule prod.exhaust)
  have okl: "jobs_ok wl" using lock_initial_ok [OF k Cons.prems(1) l] by simp
  have "jobs_ok w1"
  proof (cases guarded)
    case False
    then show ?thesis using f dispatch_node_ok [OF k Cons.prems(1)] by simp
  next
    case True
    show ?thesis
    proof (cases "observed_ready m job nid")
      case False
      then show ?thesis using f True Cons.prems(1) by simp
    next
      case ready: True
      show ?thesis using f True ready l okl dispatch_node_ok [OF k okl] by (cases x) auto
    qed
  qed
  moreover have "(case e of Continue \<Rightarrow> dispatch_loop env now guarded m nids w1 job1 | _ \<Rightarrow> (w1, job1, e)) = (w', job', r)"
    using Cons.prems(2) f by (simp only: dispatch_loop.simps Let_def prod.case)
  ultimately show ?case using Cons.IH by (cases e) auto
qed simp

lemma finalized_job:
  assumes "apply_job_finalization w now job = (True, w', job')"
  shows "job_id job' = job_id job \<and> pipeline_snapshot job' = pipeline_snapshot job \<and> execution_plan job' = execution_plan job
    \<and> node_executions job' = node_executions job \<and> job_status job' \<noteq> JOB_RUNNING"
  using assms by (auto simp: apply_job_finalization_def Let_def split: if_splits)

lemma finalized_step: "job_ok job \<Longrightarrow> apply_job_finalization w now job = (True, w', job') \<Longrightarrow> job_step job job'"
  using finalized_job [of w now job w' job'] by (intro job_step_status) auto

lemma maybe_finalize_ok:
  assumes k: "keeps_jobs env" and ok: "jobs_ok w"
  shows "jobs_ok (maybe_finalize_job env w now job)"
proof -
  let ?w0 = "others env Before_finalize w"
  have ok0: "jobs_ok ?w0" using k ok by (simp add: keeps_jobs_def)
  obtain b w1 job' where f: "apply_job_finalization ?w0 now job = (b, w1, job')" by (rule prod_cases3)
  have ok1: "jobs_ok w1" using ok0 jobs_ok_cong [OF cache_change_jobs [OF finalization_change [OF f]]] by simp
  let ?row = "\<lambda>row. row\<lparr>job_status := job_status job', job_error_message :=
       (if job_error_message job' = job_error_message job then job_error_message row else job_error_message job'),
       job_completed_at := job_completed_at job'\<rparr>"
  show ?thesis
  proof (cases b)
    case False
    then show ?thesis using ok0 f by (simp add: maybe_finalize_job_def Let_def)
  next
    case True
    show ?thesis
    proof (cases "get_job w1 (job_id job)")
      case None
      then show ?thesis using ok1 f True by (simp add: maybe_finalize_job_def Let_def)
    next
      case (Some row)
      have "job_step row (?row row)"
        by (rule job_step_status [OF jobs_ok_get [OF ok1 Some]]) (use finalized_job [of ?w0 now job w1 job'] f True in simp_all)
      then have "jobs_ok (put_job w1 (?row row))" by (rule put_job_ok [OF ok1, rotated]) (use Some get_job_id [OF Some] in simp)
      then show ?thesis using f True Some by (simp add: maybe_finalize_job_def Let_def)
    qed
  qed
qed

lemma dispatch_ready_ok:
  assumes k: "keeps_jobs env" and ok: "jobs_ok w"
  shows "jobs_ok (fst (dispatch_ready_nodes env now guarded m w job))"
proof (cases "job_status job = JOB_CANCELLED")
  case True
  then show ?thesis using ok by (simp add: dispatch_ready_nodes_def)
next
  case False
  obtain w' job' r where l: "dispatch_loop env now guarded m (dict_keys m) w job = (w', job', r)" by (rule prod_cases3)
  have "jobs_ok w'" by (rule dispatch_loop_ok [OF k ok l])
  then show ?thesis using maybe_finalize_ok [OF k] False l by (cases r) (simp_all add: dispatch_ready_nodes_def)
qed

end
