(* ===== verification/Pipeline_Service.thy ===== *)
theory Pipeline_Service
  imports Jobs Validate
begin

text \<open>
  The operations of \<open>app/services/pipeline_service.py\<close> on the table of pipelines. A column that is not
  nullable refuses the value null when the transaction is flushed; the JSON column of the definition does not,
  because null is a JSON value. A field of \<open>PipelineUpdate\<close> is unset, null or a value.
\<close>

section \<open>Requests\<close>

record PipelineCreate =
  pc_name :: string
  pc_description :: string
  pc_definition :: PipelineDefinition
  pc_is_template :: bool
  pc_template_tags :: "string list"

datatype 'a field = Unset | Null | Given 'a

record PipelineUpdate =
  pu_name :: "string field"
  pu_description :: "string field"
  pu_definition :: "PipelineDefinition field"
  pu_is_template :: "bool field"
  pu_template_tags :: "(string list) field"

datatype pipeline_error = PipelineValueError string | PipelineIntegrityError

section \<open>Operations\<close>

definition new_pipeline :: "uuid \<Rightarrow> datetime \<Rightarrow> PipelineCreate \<Rightarrow> Pipeline" where
  "new_pipeline i now data =
     \<lparr>pl_id = i, pl_name = pc_name data, pl_description = pc_description data, pl_definition = Some (pc_definition data),
      pl_is_template = pc_is_template data, pl_template_tags = pc_template_tags data, pl_created_by = ''system'',
      pl_version = 1, pl_created_at = now, pl_updated_at = now\<rparr>"

definition add_pipeline :: "world \<Rightarrow> Pipeline \<Rightarrow> world" where
  "add_pipeline w p = w\<lparr>pipelines := pipelines w @ [p], next_id := next_id w + 1\<rparr>"

definition create_pipeline :: "world \<Rightarrow> datetime \<Rightarrow> PipelineCreate \<Rightarrow> world \<times> Pipeline" where
  "create_pipeline w now data = (let p = new_pipeline (next_id w) now data in (add_pipeline w p, p))"

text \<open>Rows in descending order of a key, those with equal keys in the order of the table.\<close>

definition sort_desc :: "('r \<Rightarrow> int) \<Rightarrow> 'r list \<Rightarrow> 'r list" where
  "sort_desc key rows = sort_key (\<lambda>r. - key r) rows"

definition page :: "nat \<Rightarrow> nat \<Rightarrow> 'r list \<Rightarrow> 'r list" where
  "page skip limit rows = take limit (drop skip rows)"

definition list_pipelines :: "world \<Rightarrow> nat \<Rightarrow> nat \<Rightarrow> bool option \<Rightarrow> Pipeline list \<times> nat" where
  "list_pipelines w skip limit is_template =
     (let rows = filter (\<lambda>p. case is_template of None \<Rightarrow> True | Some b \<Rightarrow> pl_is_template p = b) (pipelines w)
      in (page skip limit (sort_desc pl_updated_at rows), length rows))"

text \<open>Setting a column that is not nullable: null is refused.\<close>

definition set_column :: "('a \<Rightarrow> Pipeline \<Rightarrow> Pipeline) \<Rightarrow> 'a field \<Rightarrow> Pipeline \<Rightarrow> Pipeline option" where
  "set_column upd f p = (case f of Unset \<Rightarrow> Some p | Null \<Rightarrow> None | Given v \<Rightarrow> Some (upd v p))"

definition set_definition :: "PipelineDefinition field \<Rightarrow> Pipeline \<Rightarrow> Pipeline" where
  "set_definition f p =
     (case f of Unset \<Rightarrow> p | Null \<Rightarrow> p\<lparr>pl_definition := None\<rparr> | Given d \<Rightarrow> p\<lparr>pl_definition := Some d\<rparr>)"

definition updated_pipeline :: "PipelineUpdate \<Rightarrow> Pipeline \<Rightarrow> Pipeline option" where
  "updated_pipeline data p =
     Option.bind (set_column (\<lambda>v p. p\<lparr>pl_name := v\<rparr>) (pu_name data) p) (\<lambda>p.
     Option.bind (set_column (\<lambda>v p. p\<lparr>pl_description := v\<rparr>) (pu_description data) p) (\<lambda>p.
     Option.bind (set_column (\<lambda>v p. p\<lparr>pl_is_template := v\<rparr>) (pu_is_template data) (set_definition (pu_definition data) p)) (\<lambda>p.
     set_column (\<lambda>v p. p\<lparr>pl_template_tags := v\<rparr>) (pu_template_tags data) p)))"

definition update_pipeline ::
  "world \<Rightarrow> datetime \<Rightarrow> uuid \<Rightarrow> PipelineUpdate \<Rightarrow> pipeline_error + world \<times> Pipeline option" where
  "update_pipeline w now pid data =
     (case get_pipeline w pid of
        None \<Rightarrow> Inr (w, None)
      | Some p \<Rightarrow>
          (case updated_pipeline data p of
             None \<Rightarrow> Inl PipelineIntegrityError
           | Some p' \<Rightarrow>
               (let p'' = p'\<lparr>pl_version := pl_version p + 1, pl_updated_at := now\<rparr>
                in Inr (put_pipeline w p'', Some p''))))"

text \<open>A template that jobs refer to is hidden, a pipeline that jobs refer to is kept.\<close>

definition delete_pipeline :: "world \<Rightarrow> datetime \<Rightarrow> uuid \<Rightarrow> pipeline_error + world \<times> bool" where
  "delete_pipeline w now pid =
     (case get_pipeline w pid of
        None \<Rightarrow> Inr (w, False)
      | Some p \<Rightarrow>
          if list_ex (\<lambda>j. job_pipeline_id j = pid) (jobs w) then
            (if \<not> pl_is_template p
             then Inl (PipelineValueError ''Pipeline is referenced by existing jobs and cannot be deleted'')
             else Inr (put_pipeline w (p\<lparr>pl_is_template := False, pl_template_tags := [], pl_version := pl_version p + 1,
                         pl_updated_at := now\<rparr>), True))
          else Inr (w\<lparr>pipelines := filter (\<lambda>x. pl_id x \<noteq> pid) (pipelines w)\<rparr>, True))"

definition duplicate_pipeline :: "world \<Rightarrow> datetime \<Rightarrow> uuid \<Rightarrow> world \<times> Pipeline option" where
  "duplicate_pipeline w now pid =
     (case get_pipeline w pid of
        None \<Rightarrow> (w, None)
      | Some original \<Rightarrow>
          (let copy = \<lparr>pl_id = next_id w, pl_name = pl_name original @ '' (copy)'', pl_description = pl_description original,
                       pl_definition = pl_definition original, pl_is_template = False,
                       pl_template_tags = pl_template_tags original, pl_created_by = ''system'', pl_version = 1,
                       pl_created_at = now, pl_updated_at = now\<rparr>
           in (add_pipeline w copy, Some copy)))"

definition validate_definition :: "registry \<Rightarrow> PipelineDefinition \<Rightarrow> py_exn + ValidationResult" where
  "validate_definition reg d = validate_pipeline reg d"

end
