(* ===== verification/Job_Service.thy ===== *)
theory Job_Service
  imports Pipeline_Service
begin

text \<open>
  The operations of \<open>app/services/job_service.py\<close>: the overrides a submission brings for the nodes of a
  pipeline, the creation of a job with its executions, cancelling, listing and deleting. A \<open>ValueError\<close> is the
  error a caller turns into a refusal; every other exception of the validator passes through. On PostgreSQL a
  stored function decides whether a job may be deleted; here it is the Python code that does.
\<close>

section \<open>Overrides\<close>

definition has_dot :: "string \<Rightarrow> bool" where
  "has_dot s \<longleftrightarrow> CHR ''.'' \<in> set s"

text \<open>\<open>path.split(".")\<close>\<close>

fun split_dots :: "string \<Rightarrow> string list" where
  "split_dots [] = [[]]"
| "split_dots (c # cs) =
     (if c = CHR ''.'' then [] # split_dots cs
      else (case split_dots cs of [] \<Rightarrow> [[c]] | p # ps \<Rightarrow> (c # p) # ps))"

definition nested_dict :: "config \<Rightarrow> string \<Rightarrow> config" where
  "nested_dict target k = (case dict_get target k of Some (PDict d) \<Rightarrow> d | _ \<Rightarrow> [])"

fun set_path :: "config \<Rightarrow> string list \<Rightarrow> pyval \<Rightarrow> config" where
  "set_path target [] v = target"
| "set_path target [p] v = dict_set target p v"
| "set_path target (p # ps) v = dict_set target p (PDict (set_path (nested_dict target p) ps v))"

definition set_nested_value :: "config \<Rightarrow> string \<Rightarrow> pyval \<Rightarrow> config" where
  "set_nested_value target path v =
     (if \<not> has_dot path then dict_set target path v else set_path target (split_dots path) v)"

fun merge_override_dict :: "config \<Rightarrow> config \<Rightarrow> config" where
  "merge_override_dict target [] = target"
| "merge_override_dict target ((k, PDict d) # rest) =
     merge_override_dict
       (if has_dot k then set_nested_value target k (PDict d)
        else dict_set target k (PDict (merge_override_dict (nested_dict target k) d))) rest"
| "merge_override_dict target ((k, v) # rest) = merge_override_dict (set_nested_value target k v) rest"

text \<open>\<open>key.split(".", 1)\<close> on a key with a dot.\<close>

definition split_first_dot :: "string \<Rightarrow> string \<times> string" where
  "split_first_dot k = (takeWhile (\<lambda>c. c \<noteq> CHR ''.'') k, tl (dropWhile (\<lambda>c. c \<noteq> CHR ''.'') k))"

definition add_override :: "(string, config) dict \<Rightarrow> string \<times> pyval \<Rightarrow> (string, config) dict" where
  "add_override acc = (\<lambda>(k, v).
     if k = ''asset_id'' then acc
     else
       (case v of
          PDict d \<Rightarrow> dict_set acc k (merge_override_dict (dict_get_or acc k []) d)
        | _ \<Rightarrow>
            if has_dot k then
              (let (nid, param) = split_first_dot k in dict_set acc nid (set_nested_value (dict_get_or acc nid []) param v))
            else dict_set acc k (dict_set (dict_get_or acc k []) ''asset_id'' v)))"

definition normalize_node_overrides :: "config \<Rightarrow> (string, config) dict" where
  "normalize_node_overrides input_overrides = foldl add_override [] input_overrides"

text \<open>\<open>asset_id: str | None\<close> of the document: any other value fails its validation.\<close>

definition asset_field :: "pyval \<Rightarrow> py_exn + string option" where
  "asset_field v = (case v of PStr s \<Rightarrow> Inr (Some s) | PNone \<Rightarrow> Inr None | _ \<Rightarrow> Inl ValueError)"

definition overridden_node ::
  "(string, config) dict \<Rightarrow> pyval option \<Rightarrow> bool \<Rightarrow> PipelineNode \<Rightarrow> py_exn + PipelineNode \<times> bool" where
  "overridden_node overrides asset applied node =
     (let config = (case dict_get overrides (node_id node) of
                      None \<Rightarrow> node_config node
                    | Some over \<Rightarrow> merge_override_dict (node_config node) over);
          take_asset = node_type node = ''source'' \<and> asset \<noteq> None \<and> \<not> applied;
          config' = (if take_asset then dict_set config ''asset_id'' (the asset) else config)
      in case dict_get config' ''asset_id'' of
           None \<Rightarrow> Inr (node\<lparr>node_config := config'\<rparr>, applied \<or> take_asset)
         | Some v \<Rightarrow>
             (case asset_field v of
                Inl e \<Rightarrow> Inl e
              | Inr a \<Rightarrow> Inr (node\<lparr>node_config := config', node_asset_id := a\<rparr>, applied \<or> take_asset)))"

primrec overridden_nodes ::
  "(string, config) dict \<Rightarrow> pyval option \<Rightarrow> bool \<Rightarrow> PipelineNode list \<Rightarrow> py_exn + PipelineNode list" where
  "overridden_nodes overrides asset applied [] = Inr []"
| "overridden_nodes overrides asset applied (n # ns) =
     (case overridden_node overrides asset applied n of
        Inl e \<Rightarrow> Inl e
      | Inr (n', applied') \<Rightarrow>
          (case overridden_nodes overrides asset applied' ns of Inl e \<Rightarrow> Inl e | Inr ns' \<Rightarrow> Inr (n' # ns')))"

definition apply_input_overrides :: "PipelineDefinition \<Rightarrow> config \<Rightarrow> py_exn + PipelineDefinition" where
  "apply_input_overrides d input_overrides =
     (if input_overrides = [] then Inr d
      else
        (case overridden_nodes (normalize_node_overrides input_overrides) (dict_get input_overrides ''asset_id'') False (nodes d) of
           Inl e \<Rightarrow> Inl e | Inr ns \<Rightarrow> Inr (d\<lparr>nodes := ns\<rparr>)))"

section \<open>Creation\<close>

datatype job_error = JobValueError string | JobRaises py_exn | JobIntegrityError

text \<open>The configuration of an execution: a source takes the asset of its configuration or of its node.\<close>

definition execution_config :: "PipelineNode \<Rightarrow> config" where
  "execution_config node =
     (if node_type node \<noteq> ''source'' then node_config node
      else
        (case dict_get (node_config node) ''asset_id'' of
           Some v \<Rightarrow>
             if py_truthy v then dict_set (node_config node) ''asset_id'' v
             else (case node_asset_id node of
                     Some (c # cs) \<Rightarrow> dict_set (node_config node) ''asset_id'' (PStr (c # cs)) | _ \<Rightarrow> node_config node)
         | None \<Rightarrow>
             (case node_asset_id node of
                Some (c # cs) \<Rightarrow> dict_set (node_config node) ''asset_id'' (PStr (c # cs)) | _ \<Rightarrow> node_config node)))"

definition new_execution :: "uuid \<Rightarrow> uuid \<Rightarrow> PipelineNode \<Rightarrow> NodeExecution" where
  "new_execution jid i node =
     \<lparr>ne_id = i, ne_job_id = jid, ne_node_id = node_id node, ne_node_type = node_type node,
      ne_node_label = (if node_label node = [] then node_type node else node_label node),
      ne_node_config = execution_config node, ne_status = PENDING, ne_progress = 0, ne_worker_id = None,
      ne_queued_at = None, ne_started_at = None, ne_completed_at = None, ne_error_message = None,
      ne_error_trace = None, ne_retry_count = 0, ne_input_artifact_ids = [], ne_output_artifact_id = None,
      ne_worker_registration_id = None, ne_worker_lease_epoch = None\<rparr>"

definition new_job :: "uuid \<Rightarrow> datetime \<Rightarrow> uuid \<Rightarrow> PipelineDefinition \<Rightarrow> Job" where
  "new_job i now pid d =
     \<lparr>job_id = i, job_pipeline_id = pid, pipeline_snapshot = d, job_status = JOB_PENDING, execution_plan = None,
      submitted_at = now, job_started_at = None, job_completed_at = None, job_error_message = None,
      submitted_by = ''system'', parent_job_id = None, job_retry_count = 0, orchestrator_owner = ''python'',
      node_executions = map (\<lambda>(k, node). new_execution i (i + 1 + k) node) (enumerate 0 (nodes d))\<rparr>"

definition create_job_from_definition ::
  "registry \<Rightarrow> world \<Rightarrow> datetime \<Rightarrow> uuid \<Rightarrow> PipelineDefinition \<Rightarrow> job_error + world \<times> Job" where
  "create_job_from_definition reg w now pid d =
     (case validate_pipeline reg d of
        Inl e \<Rightarrow> Inl (JobRaises e)
      | Inr v \<Rightarrow>
          if \<not> valid v then Inl (JobValueError ''Pipeline validation failed'')
          else
            (let job = new_job (next_id w) now pid d
             in Inr (w\<lparr>jobs := jobs w @ [job], next_id := next_id w + 1 + length (nodes d)\<rparr>, job)))"

definition create_job ::
  "registry \<Rightarrow> world \<Rightarrow> datetime \<Rightarrow> uuid \<Rightarrow> config \<Rightarrow> job_error + world \<times> Job" where
  "create_job reg w now pid input_overrides =
     (case get_pipeline w pid of
        None \<Rightarrow> Inl (JobValueError ''Pipeline not found'')
      | Some p \<Rightarrow>
     (case pl_definition p of
        None \<Rightarrow> Inl (JobRaises ValueError)
      | Some d \<Rightarrow>
     (case apply_input_overrides d input_overrides of
        Inl e \<Rightarrow> Inl (JobRaises e)
      | Inr d' \<Rightarrow>
     (case validate_pipeline reg d' of
        Inl e \<Rightarrow> Inl (JobRaises e)
      | Inr v \<Rightarrow>
          if \<not> valid v then Inl (JobValueError ''Pipeline validation failed'')
          else create_job_from_definition reg w now pid (compile_runtime_definition d')))))"

definition create_job_from_snapshot ::
  "registry \<Rightarrow> world \<Rightarrow> datetime \<Rightarrow> uuid \<Rightarrow> PipelineDefinition \<Rightarrow> job_error + world \<times> Job" where
  "create_job_from_snapshot reg w now pid snapshot = create_job_from_definition reg w now pid snapshot"

text \<open>\<open>create_jobs_or_400\<close>: each job is committed before the next is created.\<close>

primrec create_jobs_or_400 ::
  "registry \<Rightarrow> datetime \<Rightarrow> uuid \<Rightarrow> config list \<Rightarrow> world \<Rightarrow> world \<times> (job_error + Job list)" where
  "create_jobs_or_400 reg now pid [] w = (w, Inr [])"
| "create_jobs_or_400 reg now pid (inp # inps) w =
     (case create_job reg w now pid inp of
        Inl e \<Rightarrow> (w, Inl e)
      | Inr (w1, job) \<Rightarrow>
          (case create_jobs_or_400 reg now pid inps w1 of
             (w2, Inl e) \<Rightarrow> (w2, Inl e) | (w2, Inr js) \<Rightarrow> (w2, Inr (job # js))))"

section \<open>Listing, cancelling, deleting\<close>

definition matching_jobs :: "world \<Rightarrow> uuid option \<Rightarrow> JobStatus option \<Rightarrow> Job list" where
  "matching_jobs w pid st =
     filter (\<lambda>j. (case pid of None \<Rightarrow> True | Some p \<Rightarrow> job_pipeline_id j = p)
               \<and> (case st of None \<Rightarrow> True | Some s \<Rightarrow> job_status j = s)) (jobs w)"

definition list_jobs :: "world \<Rightarrow> nat \<Rightarrow> nat \<Rightarrow> uuid option \<Rightarrow> JobStatus option \<Rightarrow> Job list \<times> nat" where
  "list_jobs w skip limit pid st =
     (let rows = matching_jobs w pid st in (page skip limit (sort_desc submitted_at rows), length rows))"

definition cancelled_execution :: "NodeExecution \<Rightarrow> NodeExecution" where
  "cancelled_execution n = (if ne_status n \<in> {PENDING, QUEUED, RUNNING} then n\<lparr>ne_status := CANCELLED\<rparr> else n)"

definition cancelled_job :: "Job \<Rightarrow> Job" where
  "cancelled_job job = job\<lparr>job_status := JOB_CANCELLED, node_executions := map cancelled_execution (node_executions job)\<rparr>"

definition cancel_job :: "world \<Rightarrow> uuid \<Rightarrow> world \<times> Job option" where
  "cancel_job w jid =
     (case get_job w jid of
        None \<Rightarrow> (w, None)
      | Some job \<Rightarrow>
          if job_status job \<in> {JOB_SUCCEEDED, JOB_FAILED, JOB_CANCELLED} then (w, Some job)
          else (put_job w (cancelled_job job), Some (cancelled_job job)))"

definition resolve_worker_event_authority :: "world \<Rightarrow> uuid \<Rightarrow> job_error + world" where
  "resolve_worker_event_authority w jid =
     (let atts = filter (\<lambda>a. at_job_id a = jid) (attestations w);
          att_ids = map at_id atts;
          recs = filter (\<lambda>r. rc_job_id r = jid) (receipts w);
          dels = filter (\<lambda>d. dl_source_task_attestation_id d \<in> set att_ids) (deliveries w);
          disps = filter (\<lambda>d. wd_job_id d = jid) (dispatches w)
      in if list_ex (\<lambda>a. at_ack_state a \<noteq> ''acknowledged'') atts
            \<or> list_ex (\<lambda>r. rc_application_state r \<noteq> ''applied'' \<or> rc_ack_state r \<noteq> ''acknowledged'') recs
            \<or> list_ex (\<lambda>d. dl_ack_state d \<noteq> ''acknowledged'') dels
            \<or> list_ex (\<lambda>d. \<not> (wd_resolution_state d = ''acknowledged''
                 \<or> wd_delivery_state d = ''cancelled'' \<and> wd_resolution_state d = ''cancelled'')) disps
         then Inl (JobValueError ''Worker event authority is unresolved'')
         else Inr (w\<lparr>deliveries := filter (\<lambda>d. dl_source_task_attestation_id d \<notin> set att_ids) (deliveries w),
                     dispatches := filter (\<lambda>d. wd_job_id d \<noteq> jid) (dispatches w),
                     receipts := filter (\<lambda>r. rc_job_id r \<noteq> jid) (receipts w),
                     attestations := filter (\<lambda>a. at_job_id a \<noteq> jid) (attestations w)\<rparr>))"

text \<open>
  The foreign keys of the models: artifacts go with their job, a cache entry forgets an artifact that goes,
  and a row that refers to the job with no action of its own refuses the deletion.
\<close>

definition referred_job :: "world \<Rightarrow> uuid \<Rightarrow> bool" where
  "referred_job w jid \<longleftrightarrow> list_ex (\<lambda>j. parent_job_id j = Some jid \<and> job_id j \<noteq> jid) (jobs w)
     \<or> list_ex (\<lambda>s. guarded_job_id s = Some jid) (schedules w)"

definition remove_job :: "world \<Rightarrow> uuid \<Rightarrow> world" where
  "remove_job w jid =
     (let gone = map art_id (filter (\<lambda>a. art_job_id a = jid) (artifacts w))
      in w\<lparr>jobs := filter (\<lambda>j. job_id j \<noteq> jid) (jobs w),
           artifacts := filter (\<lambda>a. art_job_id a \<noteq> jid) (artifacts w),
           cache_entries := map (\<lambda>e. if (case ce_output_artifact_id e of None \<Rightarrow> False | Some a \<Rightarrow> a \<in> set gone)
                                     then e\<lparr>ce_output_artifact_id := None\<rparr> else e) (cache_entries w)\<rparr>)"

definition delete_job :: "world \<Rightarrow> uuid \<Rightarrow> job_error + world \<times> bool" where
  "delete_job w jid =
     (case get_job w jid of
        None \<Rightarrow> Inr (w, False)
      | Some job \<Rightarrow>
          if job_status job \<in> {JOB_PENDING, PLANNING, JOB_RUNNING}
          then Inl (JobValueError ''Only terminal jobs can be deleted'')
          else
            (case resolve_worker_event_authority w jid of
               Inl e \<Rightarrow> Inl e
             | Inr w1 \<Rightarrow> if referred_job w1 jid then Inl JobIntegrityError else Inr (remove_job w1 jid, True)))"

end
