(* ===== verification/Engine_Handlers.thy ===== *)
theory Engine_Handlers
  imports Engine_Order Job_Service
begin

text \<open>
  The invariant of \<open>Engine_Order\<close> through every handler of the engine, legacy and registered, through the
  claims of workers and the operations of the job service, and through every run that interleaves them.
\<close>

section \<open>Starting a job\<close>

lemma planned_step: "job_ok job \<Longrightarrow> planned_job now job = Inr job1 \<Longrightarrow> job_step job job1 \<and> job_id job1 = job_id job"
  by (auto simp: planned_job_def job_step_def plan_ok_def node_step_def reset_unclaimed_def dispatched_def
      list_all2_map2 list_all2_same split: sum.splits)

lemma resolve_source_step:
  assumes r: "resolve_source_node now w job ne = Inr (w', ne')" and ok: "node_ok job ne"
  shows "node_step job ne ne' \<and> jobs w' = jobs w"
proof -
  have f: "node_step job ne (source_failed now m ne)" if "ne_status ne \<noteq> SUCCEEDED" for m
    using that by (simp add: node_step_def source_failed_def dispatched_def)
  show ?thesis
    using r ok f by (auto simp: resolve_source_node_def node_ok_def node_step_def split: if_splits option.splits)
qed

lemma resolve_nodes_step:
  assumes "resolve_nodes now w job ns = Inr (w', ns')" and "\<forall>n\<in>set ns. node_ok job n"
  shows "list_all2 (node_step job) ns ns' \<and> jobs w' = jobs w"
  using assms
proof (induction ns arbitrary: w ns')
  case (Cons n ns)
  obtain w1 n1 where n1: "resolve_source_node now w job n = Inr (w1, n1)"
    using Cons.prems(1) by (cases "resolve_source_node now w job n") auto
  obtain ns1 where ns1: "resolve_nodes now w1 job ns = Inr (w', ns1)" and e: "ns' = n1 # ns1"
    using Cons.prems(1) n1 by (cases "resolve_nodes now w1 job ns") auto
  show ?case using resolve_source_step [OF n1] Cons.IH [OF ns1] Cons.prems(2) e by simp
qed simp

lemma resolve_sources_ok:
  assumes ok: "jobs_ok w" and g: "get_job w (job_id job) = Some job" and r: "resolve_source_nodes now w job = Inr w'"
  shows "jobs_ok w'"
proof -
  obtain w1 ns where n: "resolve_nodes now w job (node_executions job) = Inr (w1, ns)" and w': "w' = put_job w1 (job\<lparr>node_executions := ns\<rparr>)"
    using r by (cases "resolve_nodes now w job (node_executions job)") (auto simp: resolve_source_nodes_def)
  have jok: "job_ok job" by (rule jobs_ok_get [OF ok g])
  have l: "list_all2 (node_step job) (node_executions job) ns" and j: "jobs w1 = jobs w"
    using resolve_nodes_step [OF n] jok by (simp_all add: job_ok_def)
  have "job_step job (job\<lparr>node_executions := ns\<rparr>)"
    using l jok by (simp add: job_step_def job_ok_def plan_ok_def split: option.splits)
  moreover have "jobs_ok w1" using ok jobs_ok_cong [OF j] by simp
  moreover have "get_job w1 (job_id (job\<lparr>node_executions := ns\<rparr>)) = Some job" using g j by (simp add: get_job_def)
  ultimately show ?thesis unfolding w' by (intro put_job_ok)
qed

lemma launch_job_ok:
  assumes k: "keeps_jobs env" and ok: "jobs_ok w" and g: "get_job w (job_id job) = Some job"
  shows "jobs_ok (fst (launch_job env now w job))"
proof (cases "planned_job now job")
  case (Inl e)
  then show ?thesis using ok by (simp add: launch_job_def)
next
  case (Inr job1)
  note st = planned_step [OF jobs_ok_get [OF ok g] Inr]
  have ok1: "jobs_ok (put_job w job1)" using put_job_ok [OF ok, of job1 job] st g by simp
  obtain w2 x where l2: "lock_initial_launch_authority env Before_launch_recheck (put_job w job1) (job_id job) = (w2, x)" by (rule prod.exhaust)
  note r2 = lock_initial_ok [OF k ok1 l2]
  show ?thesis
  proof (cases x)
    case None
    then show ?thesis using Inr l2 r2 by (simp add: launch_job_def)
  next
    case x: (Some job2)
    have g2: "get_job w2 (job_id job2) = Some job2" using r2 x get_job_id by auto
    show ?thesis
    proof (cases "resolve_source_nodes now w2 job2")
      case (Inl e)
      then show ?thesis using Inr l2 r2 x by (simp add: launch_job_def)
    next
      case w3: (Inr w3)
      have ok3: "jobs_ok w3" by (rule resolve_sources_ok [OF _ g2 w3]) (use r2 in simp)
      obtain w4 y where l4: "lock_initial_launch_authority env Before_dispatch w3 (job_id job) = (w4, y)" by (rule prod.exhaust)
      note r4 = lock_initial_ok [OF k ok3 l4]
      show ?thesis
        using Inr l2 x w3 l4 r4 dispatch_ready_ok [OF k, of w4] by (cases y) (simp_all add: launch_job_def)
    qed
  qed
qed

lemma start_job_ok:
  assumes k: "keeps_jobs env" and ok: "jobs_ok w"
  shows "jobs_ok (start_job env now w jid)"
proof -
  obtain w1 x where l1: "lock_initial_launch_authority env Launch w jid = (w1, x)" by (rule prod.exhaust)
  note r1 = lock_initial_ok [OF k ok l1]
  show ?thesis
  proof (cases x)
    case None
    then show ?thesis using l1 r1 by (simp add: start_job_def)
  next
    case x: (Some job)
    have g1: "get_job w1 (job_id job) = Some job" using r1 x get_job_id by auto
    obtain w2 y where l2: "launch_job env now w1 job = (w2, y)" by (rule prod.exhaust)
    have ok2: "jobs_ok w2" using launch_job_ok [OF k _ g1, of now] r1 l2 by simp
    show ?thesis
    proof (cases y)
      case (Inr u)
      then show ?thesis using l1 x l2 ok2 by (simp add: start_job_def)
    next
      case (Inl e)
      obtain w3 z where l3: "lock_initial_launch_authority env Launch_failed w2 jid = (w3, z)" by (rule prod.exhaust)
      note r3 = lock_initial_ok [OF k ok2 l3]
      show ?thesis
      proof (cases z)
        case None
        then show ?thesis using l1 x l2 Inl l3 r3 by (simp add: start_job_def)
      next
        case (Some fresh)
        have g3: "get_job w3 jid = Some fresh" and f: "job_ok fresh" using r3 Some by simp_all
        let ?f = "fresh\<lparr>job_status := JOB_FAILED, job_error_message := Some e, job_completed_at := Some now\<rparr>"
        have "job_step fresh ?f" by (rule job_step_status [OF f]) simp_all
        with r3 have "jobs_ok (put_job w3 ?f)" using put_job_ok [of w3 ?f fresh] r3 g3 get_job_id [OF g3] by simp
        then show ?thesis using l1 x l2 Inl l3 Some by (simp add: start_job_def)
      qed
    qed
  qed
qed

section \<open>Events of workers\<close>

lemma finalized_after_step:
  assumes st: "job_step job job'" and f: "apply_job_finalization w now job' = (True, w', job'')"
  shows "job_step job job''"
proof -
  note e = finalized_job [OF f]
  have "plan_ok job''" using st e unfolding job_step_def plan_ok_def by (auto split: option.splits)
  then show ?thesis using st e by (simp add: job_step_def)
qed

lemma finalize_locked_ok:
  assumes ok: "jobs_ok w" and g: "get_job w (job_id job) = Some job0" and st: "job_step job0 job" and f: "finalize_locked w now job = (b, w')"
  shows "jobs_ok w' \<and> (\<not> b \<longrightarrow> w' = w)"
proof -
  obtain c w1 job' where a: "apply_job_finalization w now job = (c, w1, job')" by (rule prod_cases3)
  have ch: "jobs w1 = jobs w" by (rule cache_change_jobs [OF finalization_change [OF a]])
  show ?thesis
  proof (cases c)
    case False
    then show ?thesis using f a ok by (auto simp: finalize_locked_def)
  next
    case True
    have t: "apply_job_finalization w now job = (True, w1, job')" using a True by simp
    have "jobs_ok (put_job w1 job')"
    proof (rule put_job_ok)
      show "jobs_ok w1" using ok jobs_ok_cong [OF ch] by simp
      show "get_job w1 (job_id job') = Some job0" using g ch finalized_job [OF t] by (simp add: get_job_def)
      show "job_step job0 job'" by (rule finalized_after_step [OF st t])
    qed
    then show ?thesis using f a True by (auto simp: finalize_locked_def)
  qed
qed

lemma job_step_refl: "job_ok job \<Longrightarrow> job_step job job"
  by (rule job_step_status) simp_all

text \<open>A job of the database that runs, as a handler holds it.\<close>

definition held :: "world \<Rightarrow> Job \<Rightarrow> bool" where
  "held w job \<longleftrightarrow> jobs_ok w \<and> get_job w (job_id job) = Some job \<and> job_status job = JOB_RUNNING"

lemma held_frame: "jobs w' = jobs w \<Longrightarrow> held w' job = held w job"
  using jobs_ok_cong [of w' w] by (simp add: held_def get_job_def)

lemma held_put:
  assumes h: "held w job" and n: "n \<in> set (node_executions job)" and s: "node_step job n n'"
  shows "held (put_job w (put_execution job n')) (put_execution job n')"
proof -
  have g: "get_job w (job_id job) = Some job" and ok: "jobs_ok w" using h by (simp_all add: held_def)
  have "jobs_ok (put_job w (put_execution job n'))" by (rule put_execution_ok [OF ok g n s])
  moreover have "get_job (put_job w (put_execution job n')) (job_id (put_execution job n')) = Some (put_execution job n')"
    by (rule job_rows.get_put_same) (use g in \<open>simp add: put_execution_def\<close>)
  ultimately show ?thesis using h by (simp add: held_def put_execution_def)
qed

lemma held_finalize:
  assumes "held w job" and "finalize_locked w now job = (b, w')"
  shows "jobs_ok w' \<and> (\<not> b \<longrightarrow> w' = w)"
proof -
  have "jobs_ok w" and "get_job w (job_id job) = Some job" using assms(1) by (simp_all add: held_def)
  then show ?thesis by (rule finalize_locked_ok [OF _ _ job_step_refl assms(2)]) (use assms(1) in \<open>auto simp: held_def dest: jobs_ok_get\<close>)
qed

lemma node_step_completed: "node_ok job n \<Longrightarrow> dispatched n \<Longrightarrow> node_step job n (completed now out n)"
  by (simp add: node_step_def completed_def)

lemma node_step_retried: "ne_status n = RUNNING \<Longrightarrow> node_step job n (retried now n)"
  by (simp add: node_step_def retried_def dispatched_def)

lemma node_step_failed: "ne_status n = RUNNING \<Longrightarrow> node_step job n (node_failed now err n)"
  by (simp add: node_step_def node_failed_def dispatched_def)

lemma skip_one_fields:
  "job_id (skip_one now job nid) = job_id job \<and> pipeline_snapshot (skip_one now job nid) = pipeline_snapshot job
   \<and> execution_plan (skip_one now job nid) = execution_plan job \<and> job_status (skip_one now job nid) = job_status job"
  by (simp add: skip_one_def put_execution_def split: option.split)

lemma skip_fields:
  "job_id (skip_downstream now job f m) = job_id job \<and> pipeline_snapshot (skip_downstream now job f m) = pipeline_snapshot job
   \<and> execution_plan (skip_downstream now job f m) = execution_plan job \<and> job_status (skip_downstream now job f m) = job_status job"
proof -
  have "job_id (foldl (skip_one now) job xs) = job_id job \<and> pipeline_snapshot (foldl (skip_one now) job xs) = pipeline_snapshot job
     \<and> execution_plan (foldl (skip_one now) job xs) = execution_plan job \<and> job_status (foldl (skip_one now) job xs) = job_status job" for xs
    by (induction xs arbitrary: job) (simp_all add: skip_one_fields)
  then show ?thesis by (simp add: skip_downstream_def Let_def)
qed

lemma node_step_skipped: "node_step job n n' \<Longrightarrow> ne_status n' = PENDING \<Longrightarrow> node_step job n (skipped now n')"
  by (auto simp: node_step_def skipped_def dispatched_def)

lemma fail_node_step:
  assumes ok: "job_ok job" and n: "n \<in> set (node_executions job)" and r: "ne_status n = RUNNING"
  shows "job_step job (fail_node now err job n) \<and> job_id (fail_node now err job n) = job_id job
    \<and> job_status (fail_node now err job n) = job_status job"
proof -
  let ?j = "put_execution job (node_failed now err n)"
  let ?k = "skip_downstream now ?j (ne_node_id n) (plan_dependencies job)"
  let ?f = "\<lambda>m. if ne_status m = PENDING \<and> (ne_node_id n, ne_node_id m) \<in> (dep_rel (plan_dependencies job))\<^sup>+ then skipped now m else m"
  have st: "job_step job ?j" by (rule job_step_put [OF ok n node_step_failed [OF r]])
  have wf: "wf_executions ?j" using job_step_ok [OF ok st] by (simp add: job_ok_def)
  have "list_all2 (node_step job) (node_executions job) (map ?f (node_executions ?j))"
    unfolding list_all2_map2
    by (rule list_all2_mono [of "node_step job"]) (use st node_step_skipped in \<open>auto simp: job_step_def\<close>)
  then have "list_all2 (node_step job) (node_executions job) (node_executions ?k)" by (simp only: skip_downstream_executions [OF wf])
  moreover have "plan_ok (?k\<lparr>job_error_message := e\<rparr>)" for e
    using ok skip_fields [of now ?j "ne_node_id n" "plan_dependencies job"]
    by (simp add: job_ok_def plan_ok_def put_execution_def split: option.splits)
  ultimately show ?thesis
    using skip_fields [of now ?j "ne_node_id n" "plan_dependencies job"] by (simp add: fail_node_def job_step_def put_execution_def)
qed

lemma lock_claim_held:
  assumes k: "keeps_jobs env" and ok: "jobs_ok w" and l: "lock_claim_authority env g w jid nid st all claim = (w0, Some (w1, job, n))"
  shows "held w1 job \<and> n \<in> set (node_executions job) \<and> ne_status n = st \<and> node_ok job n"
proof -
  have r: "jobs_ok w1" "get_job w1 jid = Some job" "job_ok job" "job_status job = JOB_RUNNING" "n \<in> set (node_executions job)" "ne_status n = st"
    using lock_claim_ok [OF k ok l] by simp_all
  then show ?thesis using get_job_id [OF r(2)] by (simp add: held_def job_ok_def)
qed

lemma on_node_completed_ok:
  assumes k: "keeps_jobs env" and ok: "jobs_ok w"
  shows "jobs_ok (fst (on_node_completed env now w jid nid out claim))"
proof (cases "claim_worker_registration_id claim")
  case (Some r)
  then show ?thesis using ok by (simp add: on_node_completed_def)
next
  case reg: None
  obtain w0 x where l: "lock_claim_authority env Node_event w jid nid RUNNING False claim = (w0, x)" by (rule prod.exhaust)
  have ok0: "jobs_ok w0" using lock_claim_ok [OF k ok l] by simp
  show ?thesis
  proof (cases x)
    case None
    then show ?thesis using reg l ok0 by (simp add: on_node_completed_def)
  next
    case (Some y)
    obtain w1 job ne where y: "y = (w1, job, ne)" by (rule prod_cases3)
    note h = lock_claim_held [OF k ok l [unfolded Some y]]
    let ?ne = "completed now out ne"
    let ?job = "put_execution job ?ne"
    let ?w2 = "others env After_completion (put_job w1 ?job)"
    let ?w3 = "case write_artifact_cache_for_node (cache_of env) ?w2 now ?job ?ne of Inl _ \<Rightarrow> ?w2 | Inr w' \<Rightarrow> w'"
    have s: "node_step job ne ?ne" by (rule node_step_completed) (use h in \<open>simp_all add: dispatched_def\<close>)
    have "held (put_job w1 ?job) ?job" using held_put [of w1 job ne] h s by simp
    then have ok2: "jobs_ok ?w2" using k by (simp add: keeps_jobs_def held_def)
    have "jobs ?w3 = jobs ?w2" using cache_change_jobs [OF write_cache_change] by (auto split: sum.splits)
    then have ok3: "jobs_ok ?w3" using ok2 jobs_ok_cong by blast
    obtain w4 z where l4: "lock_claim_authority env After_cache ?w3 jid nid SUCCEEDED True claim = (w4, z)" by (rule prod.exhaust)
    have ok4: "jobs_ok w4" using lock_claim_ok [OF k ok3 l4] by simp
    show ?thesis
    proof (cases z)
      case None
      then show ?thesis using reg l Some y l4 ok4 by (simp add: on_node_completed_def Let_def)
    next
      case z: (Some v)
      obtain w5 job5 ne5 where v: "v = (w5, job5, ne5)" by (rule prod_cases3)
      note h5 = lock_claim_held [OF k ok3 l4 [unfolded z v]]
      obtain b w6 where f: "finalize_locked w5 now job5 = (b, w6)" by (rule prod.exhaust)
      have ok6: "jobs_ok w6" using held_finalize [OF conjunct1 [OF h5] f] by simp
      show ?thesis
        using reg l Some y l4 z v f ok6 dispatch_ready_ok [OF k ok6] by (cases b) (simp_all add: on_node_completed_def Let_def)
    qed
  qed
qed

lemma on_node_failed_ok:
  assumes k: "keeps_jobs env" and ok: "jobs_ok w"
  shows "jobs_ok (fst (on_node_failed env now w jid nid err claim))"
proof (cases "claim_worker_registration_id claim")
  case (Some r)
  then show ?thesis using ok by (simp add: on_node_failed_def)
next
  case reg: None
  obtain w0 x where l: "lock_claim_authority env Node_event w jid nid RUNNING True claim = (w0, x)" by (rule prod.exhaust)
  have ok0: "jobs_ok w0" using lock_claim_ok [OF k ok l] by simp
  show ?thesis
  proof (cases x)
    case None
    then show ?thesis using reg l ok0 by (simp add: on_node_failed_def)
  next
    case (Some y)
    obtain w1 job ne where y: "y = (w1, job, ne)" by (rule prod_cases3)
    note h = lock_claim_held [OF k ok l [unfolded Some y]]
    show ?thesis
    proof (cases "ne_retry_count ne < 1")
      case True
      let ?w = "put_job w1 (put_execution job (retried now ne))"
      have "held ?w (put_execution job (retried now ne))" using held_put [of w1 job ne] h node_step_retried by simp
      then have okr: "jobs_ok ?w" by (simp add: held_def)
      obtain w2 z where l2: "lock_claim_authority env After_retry ?w jid nid QUEUED False claim = (w2, z)" by (rule prod.exhaust)
      note r2 = lock_claim_ok [OF k okr l2]
      show ?thesis
      proof (cases z)
        case None
        then show ?thesis using reg l Some y True l2 r2 by (simp add: on_node_failed_def)
      next
        case z: (Some v)
        obtain w3 job3 ne3 where v: "v = (w3, job3, ne3)" by (rule prod_cases3)
        have "jobs_ok (redispatch_node env now w3 job3 ne3)"
          using r2 z v jobs_ok_cong [of "redispatch_node env now w3 job3 ne3" w3] by (simp add: redispatch_node_def Let_def)
        then show ?thesis using reg l Some y True l2 z v by (simp add: on_node_failed_def)
      qed
    next
      case False
      let ?job = "fail_node now err job ne"
      have g: "get_job w1 (job_id job) = Some job" and ok1: "jobs_ok w1" using h by (simp_all add: held_def)
      have st: "job_step job ?job \<and> job_id ?job = job_id job"
        using fail_node_step [OF jobs_ok_get [OF ok1 g], of ne] h by simp
      obtain b w2 where f: "finalize_locked w1 now ?job = (b, w2)" by (rule prod.exhaust)
      have ok2: "jobs_ok w2" by (rule conjunct1 [OF finalize_locked_ok [OF ok1 _ _ f]]) (use g st in auto)
      have "jobs_ok (put_job w1 ?job)" using put_job_ok [OF ok1, of ?job job] g st by simp
      then show ?thesis using reg l Some y False f ok2 by (cases b) (simp_all add: on_node_failed_def Let_def)
    qed
  qed
qed

section \<open>Events of registered workers\<close>

lemma stage_dispatch_jobs: "stage_receipt_dispatch env now rid w job ne inp hosts = Inr w' \<Longrightarrow> jobs w' = jobs w"
  unfolding stage_receipt_dispatch_def Let_def by (rule stage_jobs)

lemma stage_ready_node_held:
  assumes h: "held w job" and d: "deps = dict_get_or (plan_dependencies job) nid []"
    and r: "stage_ready_node env now rid w job nid deps = Inr (w', job', moved)"
  shows "held w' job' \<and> plan_dependencies job' = plan_dependencies job"
proof (cases "dict_get (executions_by_node_id job) nid")
  case None
  then show ?thesis using r h by (simp add: stage_ready_node_def)
next
  case ne: (Some ne)
  note m = execution_of_node [OF ne]
  let ?inp = "receipt_input_artifacts job nid"
  let ?cached = "apply_cached_artifact_uncommitted env w now job ne (input_artifacts_by_handle w ?inp) True"
  have jok: "job_ok job" using h jobs_ok_get by (auto simp: held_def)
  have put: "held (put_job w1 (put_execution job n')) (put_execution job n') \<and> plan_dependencies (put_execution job n') = plan_dependencies job"
    if "jobs w1 = jobs w" "node_step job ne n'" for w1 n'
    using held_put [of w1 job ne n'] that h m held_frame [of w1 w] by (simp add: plan_dependencies_def put_execution_def)
  show ?thesis
  proof (cases "ne_status ne \<noteq> PENDING \<or> \<not> deps_done job deps")
    case True
    then show ?thesis using r ne h by (auto simp: stage_ready_node_def)
  next
    case False
    have rd: "ready job (ne_node_id ne)"
      using False running_plan [OF jok] h m by (simp add: ready_def d held_def)
    show ?thesis
    proof (cases ?cached)
      case (Inl e)
      then show ?thesis using r ne False by (simp add: stage_ready_node_def Let_def)
    next
      case (Inr z)
      obtain w1 hit where z: "z = (w1, hit)" by (rule prod.exhaust)
      note c = Inr [unfolded z]
      have j1: "jobs w1 = jobs w" by (rule cache_change_jobs [OF apply_cached_change [OF c]])
      show ?thesis
      proof (cases hit)
        case None
        let ?job = "put_execution job (queued now ?inp ne)"
        have s: "stage_receipt_dispatch env now rid (put_job w1 ?job) ?job (queued now ?inp ne) (Some ?inp)
            (Some (preferred_hosts_for_node (executions_by_node_id job) deps)) = Inr w'" and "job' = ?job"
          using r ne False c None by (auto simp: stage_ready_node_def Let_def split: sum.splits)
        then show ?thesis
          using put [OF j1 node_step_queued [OF rd]] False held_frame [OF stage_dispatch_jobs [OF s]] by simp
      next
        case (Some ne')
        have "job' = put_execution job ne'" and "w' = put_job w1 job'"
          using r ne False c Some by (auto simp: stage_ready_node_def Let_def)
        then show ?thesis using put [OF j1 node_step_cached [OF c [unfolded Some] rd]] by simp
      qed
    qed
  qed
qed

lemma dependency_entry: "p \<in> set (build_dependency_map d) \<Longrightarrow> dict_get_or (build_dependency_map d) (fst p) [] = snd p"
proof -
  assume p: "p \<in> set (build_dependency_map d)"
  have "distinct (dict_keys (build_dependency_map d))" by (simp add: build_dependency_map_keys)
  then show ?thesis using p by (cases p) (simp add: dict_get_or_def)
qed

lemma held_plan: "held w job \<Longrightarrow> plan_dependencies job = build_dependency_map (pipeline_snapshot job)"
  by (rule running_plan) (auto simp: held_def dest: jobs_ok_get)

lemma stage_pass_held:
  assumes "held w job" and "\<forall>p\<in>set ps. snd p = dict_get_or (plan_dependencies job) (fst p) []"
    and "stage_pass env now rid ps w job progressed = Inr (w', job', progressed')"
  shows "held w' job' \<and> plan_dependencies job' = plan_dependencies job"
  using assms
proof (induction ps arbitrary: w job progressed)
  case (Cons p ps)
  obtain w1 job1 moved where n: "stage_ready_node env now rid w job (fst p) (snd p) = Inr (w1, job1, moved)"
    and r: "stage_pass env now rid ps w1 job1 (progressed \<or> moved) = Inr (w', job', progressed')"
    using Cons.prems(3) by (auto split: sum.splits prod.splits)
  have h: "held w1 job1 \<and> plan_dependencies job1 = plan_dependencies job"
    by (rule stage_ready_node_held [OF Cons.prems(1) _ n]) (use Cons.prems(2) in simp)
  then show ?case using Cons.IH [OF _ _ r] Cons.prems(2) by simp
qed simp

lemma stage_dispatches_held:
  "stage_receipt_dispatches env now rid m w job = Inr (w', job') \<Longrightarrow> held w job \<Longrightarrow> m = plan_dependencies job \<Longrightarrow> held w' job'"
proof (induction env now rid m w job rule: stage_receipt_dispatches.induct)
  case (1 env now rid m w job)
  obtain w1 job1 b where p: "stage_ready_receipt_dispatches_once env now rid m w job = Inr (w1, job1, b)"
    using "1.prems"(1) by (subst (asm) stage_receipt_dispatches.simps) (auto split: sum.splits prod.splits)
  have "\<forall>p\<in>set m. snd p = dict_get_or (plan_dependencies job) (fst p) []"
    using "1.prems" held_plan dependency_entry by simp
  from stage_pass_held [OF "1.prems"(2) this p [unfolded stage_ready_receipt_dispatches_once_def]]
  have h: "held w1 job1 \<and> plan_dependencies job1 = plan_dependencies job" .
  show ?case
  proof (cases b)
    case False
    then show ?thesis using "1.prems"(1) p h by (subst (asm) stage_receipt_dispatches.simps) simp
  next
    case True
    have "stage_receipt_dispatches env now rid m w1 job1 = Inr (w', job')"
      using "1.prems"(1) p True by (subst (asm) stage_receipt_dispatches.simps) simp
    then show ?thesis using "1.IH" [OF p _ _ True] h "1.prems"(3) by simp
  qed
qed

lemma release_ok:
  assumes ok: "jobs_ok w" and r: "release_sqlite w now rid = Inr w'"
  shows "jobs_ok w'"
proof -
  obtain rc w1 a n where l: "lock_job_execution_authority w w (rc_job_id rc) (Some (rc_node_execution_id rc)) False = Inr (w1, a)"
    and n: "auth_node a = Some n" and c: "release_locked_claim w1 now rc (auth_job a) n = Inr w'"
    using release_sqlite_Inr [OF r] by blast
  note rows = lock_authority_rows [OF ok l]
  have g: "get_job w1 (job_id (auth_job a)) = Some (auth_job a)" using rows get_job_id by auto
  have "node_step (auth_job a) n (unclaimed n)" by (simp add: node_step_def unclaimed_def dispatched_def)
  then show ?thesis unfolding release_locked_untouched [OF c] using put_execution_ok [OF _ g, of n] rows n by simp
qed

lemma completion_ok:
  assumes h: "held w job" and ne: "ne \<in> set (node_executions job)" and run: "ne_status ne = RUNNING"
    and res: "apply_registered_completion env now w r ev job ne = Inr w'"
  shows "jobs_ok w'"
proof -
  obtain out where out: "Option.bind (dict_get (ev_payload ev) ''output_artifact_id'') read_uuid = Some out"
    using res by (auto simp: apply_registered_completion_def split: option.splits)
  let ?ne = "completed now out ne"
  let ?job = "put_execution job ?ne"
  obtain w1 where c: "write_artifact_cache_for_node (cache_of env) (put_job w ?job) now ?job ?ne = Inr w1"
    using res out by (auto simp: apply_registered_completion_def Let_def split: if_splits sum.splits)
  have "job_ok job" using h jobs_ok_get by (auto simp: held_def)
  then have "node_step job ne ?ne" using ne run by (intro node_step_completed) (simp_all add: job_ok_def dispatched_def)
  then have h1: "held w1 ?job" using held_put [OF h ne] held_frame [OF cache_change_jobs [OF write_cache_change [OF c]]] by simp
  obtain b w2 where f: "finalize_locked w1 now ?job = (b, w2)" by (rule prod.exhaust)
  note f2 = held_finalize [OF h1 f]
  note res1 = res [unfolded apply_registered_completion_def out option.case Let_def c sum.case f prod.case]
  show ?thesis
  proof (cases b)
    case True
    then show ?thesis using res1 f2 by (simp split: if_splits)
  next
    case False
    then obtain w3 job3 where s: "stage_receipt_dispatches env now (rc_id r) (plan_dependencies ?job) w2 ?job = Inr (w3, job3)"
      and w': "w' = snd (finalize_locked w3 now job3)" using res1 by (auto split: if_splits sum.splits prod.splits)
    have h3: "held w3 job3" by (rule stage_dispatches_held [OF s]) (use f2 False h1 in simp_all)
    obtain b3 w4 where f3: "finalize_locked w3 now job3 = (b3, w4)" by (rule prod.exhaust)
    then show ?thesis using held_finalize [OF h3 f3] w' by simp
  qed
qed

lemma failure_ok:
  assumes h: "held w job" and ne: "ne \<in> set (node_executions job)" and run: "ne_status ne = RUNNING"
    and res: "apply_registered_failure env now w r ev job ne = Inr w'"
  shows "jobs_ok w'"
proof (cases "ne_retry_count ne < 1")
  case True
  let ?job = "put_execution job (retried now ne)"
  obtain w1 where s: "stage_receipt_dispatch env now (rc_id r) (put_job w ?job) ?job (retried now ne) None None = Inr w1"
    and r: "release_sqlite w1 now (rc_id r) = Inr w'"
    using res True by (auto simp: apply_registered_failure_def Let_def split: sum.splits)
  have "held w1 ?job" using held_put [OF h ne node_step_retried [OF run]] held_frame [OF stage_dispatch_jobs [OF s]] by simp
  then show ?thesis using release_ok [OF _ r] by (simp add: held_def)
next
  case False
  let ?job = "fail_node now (take 2000 (dict_get_or (ev_payload ev) ''error'' ''Unknown error'')) job ne"
  have g: "get_job w (job_id job) = Some job" and ok: "jobs_ok w" using h by (simp_all add: held_def)
  note st = fail_node_step [OF jobs_ok_get [OF ok g] ne run]
  have ok1: "jobs_ok (put_job w ?job)" using put_job_ok [OF ok, of ?job job] g st by simp
  have "get_job (put_job w ?job) (job_id ?job) = Some ?job" by (rule job_rows.get_put_same) (use g st in simp)
  then have h1: "held (put_job w ?job) ?job" using ok1 h st by (simp add: held_def)
  obtain b w2 where f: "finalize_locked (put_job w ?job) now ?job = (b, w2)" by (rule prod.exhaust)
  then have "w' = w2" using res False by (auto simp: apply_registered_failure_def Let_def)
  then show ?thesis using held_finalize [OF h1 f] by simp
qed

lemma apply_registered_ok:
  assumes ok: "jobs_ok w" and res: "apply_registered_worker_event env now w r ev = Inr w'"
  shows "jobs_ok w'"
proof -
  obtain job where g: "get_job w (ev_job_id ev) = Some job"
    using res by (cases "get_job w (ev_job_id ev)") (auto simp: apply_registered_worker_event_def split: sum.splits)
  obtain ne where e: "get_execution job (ev_node_execution_id ev) = Some ne"
    using res g by (cases "get_execution job (ev_node_execution_id ev)") (auto simp: apply_registered_worker_event_def split: sum.splits)
  have hold: "event_holds_node ev job ne" and
    w': "(if ev_event_type ev = ''node_completed'' then apply_registered_completion env now w r ev job ne
          else apply_registered_failure env now w r ev job ne) = Inr w'"
    using res g e by (auto simp: apply_registered_worker_event_def split: sum.splits if_splits)
  have h: "held w job" using ok g get_job_id [OF g] hold by (simp add: held_def event_holds_node_def)
  have ne: "ne \<in> set (node_executions job)" "ne_status ne = RUNNING"
    using e hold by (auto simp: get_execution_def event_holds_node_def row_get_def find_Some_iff)
  show ?thesis using w' completion_ok [OF h ne] failure_ok [OF h ne] by (auto split: if_splits)
qed

lemma apply_new_receipt_ok:
  assumes ok: "jobs_ok w" and res: "apply_new_receipt (apply_registered_worker_event env now) w now ev att = Inr (w', rid)"
  shows "jobs_ok w'"
proof -
  obtain claim where c: "registration_claim ev = Inr claim" using res by (cases "registration_claim ev") (auto simp: apply_new_receipt_def)
  let ?r = "new_receipt (next_id w) now att ev claim"
  let ?w2 = "add_event_delivery (w\<lparr>receipts := receipts w @ [?r], next_id := next_id w + 1\<rparr>) now (Some (rc_id ?r)) att ev ''accepted'' None"
  have "jobs ?w2 = jobs w" by (simp add: add_event_delivery_def)
  then have ok2: "jobs_ok ?w2" using ok jobs_ok_cong by blast
  obtain w3 where a: "apply_registered_worker_event env now ?w2 ?r ev = Inr w3"
    using res c by (cases "apply_registered_worker_event env now ?w2 ?r ev") (auto simp: apply_new_receipt_def Let_def split: if_splits)
  then obtain r' where "w' = put_receipt w3 r'" using res c by (auto simp: apply_new_receipt_def Let_def split: if_splits)
  then have "jobs w' = jobs w3" by (simp add: put_receipt_def)
  then show ?thesis using apply_registered_ok [OF ok2 a] jobs_ok_cong by blast
qed

lemma resume_receipt_jobs: "resume_receipt env w now r ev att = Inr (w', rid) \<Longrightarrow> jobs w' = jobs w"
  by (auto simp: resume_receipt_def add_event_delivery_def split: sum.splits option.splits if_splits)

lemma accept_fresh_ok:
  assumes ok: "jobs_ok w" and res: "accept_fresh_event cenv observe (apply_registered_worker_event env now) w now a ev observed att = Inr (w', rid)"
  shows "jobs_ok w'"
proof (cases "locked_receipt_for_attestation w att")
  case (Some r)
  then have "jobs w' = jobs w" using res resume_receipt_jobs by (simp add: accept_fresh_event_def)
  then show ?thesis using ok jobs_ok_cong by blast
next
  case None
  then have "apply_new_receipt (apply_registered_worker_event env now) w now ev att = Inr (w', rid)"
    using res by (auto simp: accept_fresh_event_def split: sum.splits if_splits authority_error.splits option.splits)
  then show ?thesis by (rule apply_new_receipt_ok [OF ok])
qed

lemma accept_and_apply_ok:
  assumes ok: "jobs_ok w" and res: "accept_and_apply cenv observe (apply_registered_worker_event env now) w now ev = Inr (w', rid)"
  shows "jobs_ok w'"
proof (cases "lock_job_execution_authority w w (ev_job_id ev) (Some (ev_node_execution_id ev)) True")
  case (Inl e)
  then show ?thesis using res by (cases e) (simp add: accept_and_apply_def)
next
  case (Inr y)
  obtain w1 a where y: "y = (w1, a)" by (rule prod.exhaust)
  have ok1: "jobs_ok w1" using lock_authority_rows [OF ok Inr [unfolded y]] by simp
  have "w' = w1 \<or> jobs w' = jobs w1
      \<or> (\<exists>observed att. accept_fresh_event cenv observe (apply_registered_worker_event env now) w1 now a ev observed att = Inr (w', rid))"
    using res Inr y
    by (auto simp: accept_and_apply_def Let_def add_event_delivery_def map_sum_def split: sum.splits option.splits if_splits)
  then show ?thesis using ok1 accept_fresh_ok [OF ok1] jobs_ok_cong [of w' w1] by blast
qed

section \<open>Claims and recovery\<close>

lemma put_world_execution_ok:
  assumes ok: "jobs_ok w" and g: "get_job w jid = Some job" and n: "n \<in> set (all_executions w)" "ne_job_id n = jid" and s: "node_step job n n'"
  shows "jobs_ok (put_world_execution w n')"
proof -
  have wf: "wf_world w" using ok by (simp add: jobs_ok_def)
  have j: "ne_job_id n' = jid" and id: "job_id job = jid" using s n get_job_id [OF g] by (simp_all add: node_step_def)
  have "put_world_execution w n' = put_job w (put_execution job n')" by (rule put_world_execution_put [OF wf]) (simp add: j g)
  moreover have "n \<in> set (node_executions job)" using wf_world_execution [OF wf g] n by simp
  ultimately show ?thesis using put_execution_ok [OF ok _ _ s] g id by simp
qed

lemma claim_ok:
  assumes ok: "jobs_ok w" and c: "claim_registered_worker_node w now jid nid rid epoch worker stream grp msg sha key = Inr (w', cl, aid)"
  shows "jobs_ok w'"
proof -
  obtain job n r e where g: "get_job w jid = Some job" and f: "find (\<lambda>n. ne_id n = nid \<and> ne_job_id n = jid) (all_executions w) = Some n"
    and cl: "claimable n"
    and w': "jobs w' = jobs (put_world_execution w (n\<lparr>ne_status := RUNNING, ne_started_at := Some now, ne_worker_id := Some worker,
               ne_worker_registration_id := Some r, ne_worker_lease_epoch := Some e\<rparr>))" (is "_ = jobs (put_world_execution w ?n)")
    using c by (auto simp: claim_registered_worker_node_def Let_def split: sum.splits if_splits option.splits prod.splits)
  have st: "node_step job n ?n" using cl by (simp add: node_step_def claimable_def dispatched_def)
  have "jobs_ok (put_world_execution w ?n)"
    by (rule put_world_execution_ok [OF ok g _ _ st]) (use f in \<open>auto simp: find_Some_iff\<close>)
  then show ?thesis using jobs_ok_cong [OF w'] by simp
qed

lemma recover_ok:
  assumes ok: "jobs_ok w" and c: "recover_registered_worker_node w now jid nid = Inr (w', x)"
    and live: "\<forall>n\<in>set (all_executions w). ne_id n = nid \<longrightarrow> ne_status n \<noteq> SUCCEEDED"
  shows "jobs_ok w'"
proof (cases "w' = w")
  case True
  then show ?thesis using ok by simp
next
  case False
  then obtain job n where g: "get_job w jid = Some job" and f: "find (\<lambda>n. ne_id n = nid \<and> ne_job_id n = jid) (all_executions w) = Some n"
    and w': "w' = put_world_execution w (n\<lparr>ne_status := PENDING, ne_worker_id := None, ne_worker_registration_id := None,
                    ne_worker_lease_epoch := None, ne_queued_at := None, ne_started_at := None,
                    ne_completed_at := None, ne_progress := 0, ne_error_message := None, ne_input_artifact_ids := []\<rparr>)"
    using c by (auto simp: recover_registered_worker_node_def split: option.splits if_splits)
  have n: "n \<in> set (all_executions w)" "ne_job_id n = jid" "ne_id n = nid" using f by (auto simp: find_Some_iff)
  show ?thesis unfolding w'
    by (rule put_world_execution_ok [OF ok g n(1,2)]) (use live n in \<open>simp add: node_step_def dispatched_def\<close>)
qed

end
