(* ===== verification/Startup.thy ===== *)
theory Startup
  imports Engine_Registered
begin

text \<open>
  Starting jobs: the recovery of \<open>app/main.py\<close> when the process starts, and the start or the deferral of
  submitted jobs in \<open>app/services/job_runtime.py\<close>. The tasks that start jobs run beside each other; here one
  after the other, what the others commit meanwhile being the interference of the environment.
\<close>

section \<open>Recovery\<close>

definition STALE_NODE_RECOVERY_THRESHOLD :: int where
  "STALE_NODE_RECOVERY_THRESHOLD = 600"

definition first_time :: "datetime option list \<Rightarrow> datetime \<Rightarrow> datetime" where
  "first_time ts t = (case filter (\<lambda>x. x \<noteq> None) ts of Some s # _ \<Rightarrow> s | _ \<Rightarrow> t)"

definition abandoned :: "datetime \<Rightarrow> Job \<Rightarrow> NodeExecution \<Rightarrow> bool" where
  "abandoned now job n \<longleftrightarrow>
     ne_status n \<in> {QUEUED, RUNNING}
     \<and> STALE_NODE_RECOVERY_THRESHOLD \<le> now - first_time [ne_started_at n, ne_queued_at n, job_started_at job] (submitted_at job)"

definition reset_stale_node :: "NodeExecution \<Rightarrow> NodeExecution" where
  "reset_stale_node n =
     n\<lparr>ne_status := PENDING, ne_worker_id := None, ne_queued_at := None, ne_started_at := None, ne_completed_at := None,
       ne_progress := 0, ne_error_message := None, ne_input_artifact_ids := []\<rparr>"

primrec recover_nodes ::
  "datetime \<Rightarrow> Job \<Rightarrow> NodeExecution list \<Rightarrow> world \<Rightarrow> bool \<Rightarrow> authority_error + world \<times> bool" where
  "recover_nodes now job [] w changed = Inr (w, changed)"
| "recover_nodes now job (n # ns) w changed =
     (if \<not> abandoned now job n then recover_nodes now job ns w changed
      else if ne_worker_registration_id n \<noteq> None then
        (case recover_registered_worker_node w now (job_id job) (ne_id n) of
           Inl e \<Rightarrow> Inl e
         | Inr (w', Recovered) \<Rightarrow> recover_nodes now job ns w' True
         | Inr (w', _) \<Rightarrow> recover_nodes now job ns w' changed)
      else recover_nodes now job ns (put_world_execution w (reset_stale_node n)) True)"

definition restarted :: "Job \<Rightarrow> Job" where
  "restarted job =
     (if job_status job \<in> {JOB_RUNNING, PLANNING}
      then job\<lparr>job_status := JOB_PENDING, job_error_message := None, job_completed_at := None\<rparr> else job)"

definition prepare_job_for_recovery :: "datetime \<Rightarrow> world \<Rightarrow> Job \<Rightarrow> authority_error + world \<times> bool" where
  "prepare_job_for_recovery now w job =
     (case recover_nodes now job (node_executions job) w False of
        Inl e \<Rightarrow> Inl e
      | Inr (w', changed) \<Rightarrow>
          if changed then
            (case get_job w' (job_id job) of None \<Rightarrow> Inr (w', changed) | Some row \<Rightarrow> Inr (put_job w' (restarted row), changed))
          else Inr (w', changed))"

text \<open>The first transaction: which jobs are deferred, which are to restart, which only to finalize.\<close>

primrec sort_stale_jobs ::
  "datetime \<Rightarrow> VideoScheduleState \<Rightarrow> uuid option \<Rightarrow> Job list \<Rightarrow> world \<Rightarrow> uuid list \<Rightarrow> uuid list
   \<Rightarrow> authority_error + world \<times> uuid list \<times> uuid list" where
  "sort_stale_jobs now st guard [] w restart fin = Inr (w, restart, fin)"
| "sort_stale_jobs now st guard (job # js) w restart fin =
     (if should_defer_job_start job st guard
      then sort_stale_jobs now st guard js (fst (defer_job_until_next_window w job)) restart fin
      else
        (case prepare_job_for_recovery now w job of
           Inl e \<Rightarrow> Inl e
         | Inr (w', changed) \<Rightarrow>
             if changed \<or> job_status job \<in> {JOB_PENDING, WAITING_WINDOW}
             then sort_stale_jobs now st guard js w' (restart @ [job_id job]) fin
             else sort_stale_jobs now st guard js w' restart (fin @ [job_id job])))"

text \<open>A job that is finalized is the object of the first transaction.\<close>

definition finalize_jobs :: "engine_env \<Rightarrow> datetime \<Rightarrow> world \<Rightarrow> uuid list \<Rightarrow> world" where
  "finalize_jobs env now w ids =
     foldl (\<lambda>w' jid. case get_job w jid of None \<Rightarrow> w' | Some job \<Rightarrow> maybe_finalize_job env w' now job) w ids"

definition start_jobs_background :: "engine_env \<Rightarrow> datetime \<Rightarrow> world \<Rightarrow> uuid list \<Rightarrow> world" where
  "start_jobs_background env now w ids = foldl (start_job env now) w ids"

definition recover_stale_jobs :: "engine_env \<Rightarrow> datetime \<Rightarrow> world \<Rightarrow> authority_error + world" where
  "recover_stale_jobs env now w =
     (let (w1, s) = get_video_schedule_record w in
      case sort_stale_jobs now (schedule_state_of w1 s) (guarded_job_id s) (load_video_jobs_for_recovery w1) w1 [] [] of
        Inl e \<Rightarrow> Inl e
      | Inr (w2, restart, fin) \<Rightarrow> Inr (start_jobs_background env now (finalize_jobs env now w2 fin) restart))"

section \<open>Submitted jobs\<close>

definition start_or_defer_jobs :: "engine_env \<Rightarrow> datetime \<Rightarrow> world \<Rightarrow> Job list \<Rightarrow> world \<times> VideoScheduleState" where
  "start_or_defer_jobs env now w js =
     (if js = [] then (w, OPEN)
      else
        (let (w1, s) = get_video_schedule_record w;
             st = schedule_state_of w1 s;
             deferred = filter (\<lambda>j. should_defer_job_start j st (guarded_job_id s)) js;
             started = filter (\<lambda>j. \<not> should_defer_job_start j st (guarded_job_id s)) js
         in (start_jobs_background env now (fst (park_jobs_for_window w1 deferred)) (map job_id started), st)))"

end
