(* ===== verification/Entry_Points.thy ===== *)
theory Entry_Points
  imports Engine_Handlers Startup Event_Listener
begin

text \<open>
  The invariant of \<open>Engine_Order\<close> through the operations of the services, the recovery at start-up and the
  handling of events.
\<close>

section \<open>Operations of the services\<close>

lemma node_step_cancelled: "node_step job n (cancelled_execution n)"
  by (auto simp: node_step_def cancelled_execution_def dispatched_def)

lemma cancelled_step: "job_ok job \<Longrightarrow> job_step job (cancelled_job job)"
  by (auto simp: job_step_def cancelled_job_def job_ok_def plan_ok_def list_all2_map2 list_all2_same node_step_cancelled
      split: option.splits)

lemma cancel_ok:
  assumes ok: "jobs_ok w"
  shows "jobs_ok (fst (cancel_job w jid))"
proof (cases "get_job w jid")
  case None
  then show ?thesis using ok by (simp add: cancel_job_def)
next
  case (Some job)
  have "get_job w (job_id (cancelled_job job)) = Some job" using Some get_job_id [OF Some] by (simp add: cancelled_job_def)
  from put_job_ok [OF ok this cancelled_step [OF jobs_ok_get [OF ok Some]]]
  show ?thesis using ok Some by (simp add: cancel_job_def)
qed

text \<open>Identifiers that are drawn are not in use.\<close>

definition fresh_ids :: "world \<Rightarrow> bool" where
  "fresh_ids w \<longleftrightarrow> (\<forall>j\<in>set (jobs w). job_id j < next_id w \<and> (\<forall>n\<in>set (node_executions j). ne_id n < next_id w))"

lemma new_job_ids:
  "map ne_id (node_executions (new_job i now pid d)) = [i + 1..<i + 1 + length (nodes d)]"
  "map ne_node_id (node_executions (new_job i now pid d)) = map node_id (nodes d)"
proof -
  have e: "node_executions (new_job i now pid d) = map (\<lambda>p. new_execution i (fst p + (i + 1)) (snd p)) (enumerate 0 (nodes d))"
    by (simp add: new_job_def case_prod_beta add.commute)
  have "map ne_id (node_executions (new_job i now pid d)) = map (\<lambda>k. k + (i + 1)) (map fst (enumerate 0 (nodes d)))"
    unfolding e map_map comp_def by (simp add: new_execution_def)
  then show "map ne_id (node_executions (new_job i now pid d)) = [i + 1..<i + 1 + length (nodes d)]"
    by (simp only: map_fst_enumerate add_0 map_add_upt add.commute)
  have "map ne_node_id (node_executions (new_job i now pid d)) = map node_id (map snd (enumerate 0 (nodes d)))"
    unfolding e map_map comp_def by (simp add: new_execution_def)
  then show "map ne_node_id (node_executions (new_job i now pid d)) = map node_id (nodes d)" by simp
qed

lemma new_job_pending:
  assumes "n \<in> set (node_executions (new_job i now pid d))"
  shows "ne_status n = PENDING \<and> ne_job_id n = i \<and> (\<exists>x\<in>set (nodes d). ne_node_id n = node_id x)"
  using assms by (auto simp: new_job_def new_execution_def enumerate_eq_zip dest: set_zip_rightD)

lemma new_job_ok:
  assumes "distinct (map node_id (nodes d))"
  shows "job_ok (new_job i now pid d)"
proof -
  have "node_ok (new_job i now pid d) n" if "n \<in> set (node_executions (new_job i now pid d))" for n
    using new_job_pending [OF that] by (auto simp: node_ok_def dispatched_def node_ids_def new_job_def)
  moreover have "plan_ok (new_job i now pid d)" by (simp add: plan_ok_def new_job_def)
  ultimately show ?thesis using assms new_job_ids [of i now pid d] by (simp add: job_ok_def wf_executions_def)
qed

lemma add_job_ok:
  assumes ok: "jobs_ok w" and fr: "fresh_ids w" and d: "distinct (map node_id (nodes d))" and w': "jobs w' = jobs w @ [new_job (next_id w) now pid d]"
  shows "jobs_ok w'"
proof -
  let ?j = "new_job (next_id w) now pid d"
  have wf: "wf_world w" using ok by (simp add: jobs_ok_def)
  have id: "job_id ?j = next_id w" by (simp add: new_job_def)
  have "ne_id n < next_id w" if "n \<in> set (all_executions w)" for n
    using that fr by (auto simp: all_executions_def fresh_ids_def)
  then have dis: "set (map ne_id (all_executions w)) \<inter> set [next_id w + 1..<next_id w + 1 + length (nodes d)] = {}" by fastforce
  have all: "map ne_id (all_executions w') = map ne_id (all_executions w) @ [next_id w + 1..<next_id w + 1 + length (nodes d)]"
    by (simp only: all_executions_def w' map_append concat_append list.map concat.simps append_Nil2 new_job_ids(1))
  have "distinct (map ne_id (all_executions w))" using wf by (simp only: wf_world_def)
  then have "distinct (map ne_id (all_executions w'))" unfolding all distinct_append using dis by (intro conjI) (assumption, rule distinct_upt)
  moreover have "distinct (map job_id (jobs w'))"
  proof -
    have "next_id w \<notin> job_id ` set (jobs w)" using fr by (auto simp: fresh_ids_def)
    then show ?thesis using wf id by (simp add: wf_world_def w')
  qed
  moreover have "ne_job_id n = job_id j" if j: "j \<in> set (jobs w')" and n: "n \<in> set (node_executions j)" for j n
  proof (cases "j = ?j")
    case True
    then show ?thesis using new_job_pending [of n "next_id w" now pid d] n id by simp
  next
    case False
    then show ?thesis using wf j n by (simp add: wf_world_def w')
  qed
  ultimately show ?thesis using ok new_job_ok [OF d] by (simp add: jobs_ok_def wf_world_def w')
qed

lemma create_from_definition_Inr:
  assumes "create_job_from_definition reg w now pid d = Inr (w', job)"
  shows "job = new_job (next_id w) now pid d \<and> w' = w\<lparr>jobs := jobs w @ [job], next_id := next_id w + 1 + length (nodes d)\<rparr>
    \<and> (\<exists>v. validate_pipeline reg d = Inr v \<and> valid v)"
  using assms by (auto simp: create_job_from_definition_def Let_def split: sum.splits if_splits)

lemma create_job_Inr:
  assumes "create_job reg w now pid inp = Inr (w', job)"
  shows "\<exists>p d d'. get_pipeline w pid = Some p \<and> pl_definition p = Some d \<and> apply_input_overrides d inp = Inr d'
    \<and> create_job_from_definition reg w now pid (compile_runtime_definition d') = Inr (w', job)"
  using assms by (auto simp: create_job_def split: option.splits sum.splits if_splits)

lemma create_ok:
  assumes ok: "jobs_ok w" and fr: "fresh_ids w" and c: "create_job reg w now pid inp = Inr (w', job)"
    and d: "distinct (map node_id (nodes (pipeline_snapshot job)))"
  shows "jobs_ok w'"
proof -
  obtain d' where c': "create_job_from_definition reg w now pid (compile_runtime_definition d') = Inr (w', job)"
    using create_job_Inr [OF c] by blast
  note e = create_from_definition_Inr [OF c']
  show ?thesis by (rule add_job_ok [OF ok fr]) (use e d in \<open>auto simp: new_job_def\<close>)
qed

lemma filter_jobs_ok:
  assumes ok: "jobs_ok w" and w': "jobs w' = filter P (jobs w)"
  shows "jobs_ok w'"
proof -
  have "distinct (map ne_id (concat (map node_executions (filter P js))))"
    if "distinct (map ne_id (concat (map node_executions js)))" for js
    using that by (induction js) auto
  then show ?thesis using ok by (auto simp: jobs_ok_def wf_world_def all_executions_def w' distinct_map_filter)
qed

lemma resolve_authority_jobs: "resolve_worker_event_authority w jid = Inr w' \<Longrightarrow> jobs w' = jobs w"
  by (auto simp: resolve_worker_event_authority_def Let_def split: if_splits)

lemma delete_ok:
  assumes ok: "jobs_ok w" and d: "delete_job w jid = Inr (w', b)"
  shows "jobs_ok w'"
proof -
  have "w' = w \<or> (\<exists>w1. resolve_worker_event_authority w jid = Inr w1 \<and> w' = remove_job w1 jid)"
    using d by (auto simp: delete_job_def split: option.splits if_splits sum.splits)
  then show ?thesis
    using ok filter_jobs_ok [OF ok] resolve_authority_jobs by (auto simp: remove_job_def Let_def)
qed

text \<open>The operations of the video window write rows back that they have read.\<close>

lemma put_jobs_ok:
  assumes "jobs_ok w" and "distinct (map job_id js)" and "\<forall>j\<in>set js. get_job w (job_id j) = Some j"
    and f: "\<And>j. job_ok j \<Longrightarrow> job_step j (f j)"
  shows "jobs_ok (foldl put_job w (map f js))"
  using assms(1-3)
proof (induction js arbitrary: w)
  case (Cons j js)
  have st: "job_step j (f j)" by (rule f, rule jobs_ok_get) (use Cons.prems in auto)
  then have id: "job_id (f j) = job_id j" by (simp add: job_step_def)
  have "jobs_ok (put_job w (f j))" using put_job_ok [OF Cons.prems(1) _ st] Cons.prems(3) id by simp
  moreover have "get_job (put_job w (f j)) (job_id x) = Some x" if x: "x \<in> set js" for x
  proof -
    have "job_id x \<noteq> job_id (f j)" using Cons.prems(2) x id by (metis distinct.simps(2) image_eqI list.set_map list.simps(9))
    then have "get_job (put_job w (f j)) (job_id x) = get_job w (job_id x)" by (rule job_rows.get_put_other)
    then show ?thesis using Cons.prems(3) x by simp
  qed
  ultimately show ?case using Cons.IH Cons.prems(2) by simp
qed simp

lemma released_step: "job_ok job \<Longrightarrow> job_step job (released job)"
  by (rule job_step_status) (simp_all add: released_def)

lemma parked_step: "job_ok job \<Longrightarrow> job_step job (parked job)"
  by (rule job_step_status) (simp_all add: parked_def)

lemma release_waiting_ok:
  assumes ok: "jobs_ok w"
  shows "jobs_ok (fst (release_waiting_video_jobs w))"
proof -
  let ?js = "list_waiting_video_jobs w"
  have d: "distinct (map job_id (jobs w))" using ok by (simp add: jobs_ok_def wf_world_def)
  have "mset (map job_id ?js) = mset (map job_id (filter (\<lambda>j. job_status j = WAITING_WINDOW \<and> orchestrator_owner j = ''python'') (jobs w)))"
    by (simp add: list_waiting_video_jobs_def)
  then have "distinct (map job_id ?js)" using mset_eq_imp_distinct_iff distinct_map_filter [OF d] by blast
  moreover have "\<forall>j\<in>set ?js. get_job w (job_id j) = Some j"
    by (auto simp: list_waiting_video_jobs_def get_job_def intro: row_get_distinct [OF d])
  ultimately have "jobs_ok (foldl put_job w (map released ?js))" using put_jobs_ok [OF ok _ _ released_step] by simp
  then show ?thesis using ok by (simp add: release_waiting_video_jobs_def Let_def)
qed

lemma open_for_job_ok:
  assumes ok: "jobs_ok w" and r: "open_video_schedule_for_job w jid = Inr (w', ids)"
  shows "jobs_ok w'"
proof -
  obtain w1 s c where s: "get_or_create_and_lock_runtime_schedule w VIDEO_SCHEDULE_SERVICE None = (w1, s, c)" by (rule prod_cases3)
  have j1: "jobs w1 = jobs w"
    using s unfolding get_or_create_and_lock_runtime_schedule_def Let_def
    by (cases "row_get service_name (schedules w) VIDEO_SCHEDULE_SERVICE") auto
  obtain job s' where job: "job \<in> set (jobs w1)" and w': "w' = put_job (put_schedule w1 s') (released job)"
  proof -
    let ?es = "filter (\<lambda>j. job_id j = jid \<and> job_status j = WAITING_WINDOW \<and> orchestrator_owner j = ''python'')
        (filter (\<lambda>j. job_status j \<in> set GUARDED_OPEN_JOB_STATUSES) (sort_key job_id (jobs w1)))"
    have l: "length ?es = 1" and "\<exists>s'. w' = put_job (put_schedule w1 s') (released (hd ?es))"
      using r unfolding open_video_schedule_for_job_def Let_def s prod.case by (simp_all split: if_split_asm) blast
    moreover have "hd ?es \<in> set ?es" using l by (intro hd_in_set) auto
    then have "hd ?es \<in> set (jobs w1)" by simp
    ultimately show ?thesis using that by blast
  qed
  let ?w2 = "put_schedule w1 s'"
  have j2: "jobs ?w2 = jobs w" using j1 by (simp add: put_schedule_def)
  have ok2: "jobs_ok ?w2" using ok jobs_ok_cong [OF j2] by simp
  have d: "distinct (map job_id (jobs ?w2))" using ok2 by (simp add: jobs_ok_def wf_world_def)
  have g: "get_job ?w2 (job_id (released job)) = Some job"
    using row_get_distinct [OF d, of job] job j1 j2 by (simp add: get_job_def released_def)
  show ?thesis unfolding w' by (rule put_job_ok [OF ok2 g released_step [OF jobs_ok_get [OF ok2 g]]])
qed

lemma defer_ok: "jobs_ok w \<Longrightarrow> get_job w (job_id job) = Some job \<Longrightarrow> jobs_ok (fst (defer_job_until_next_window w job))"
  using put_job_ok [of w "deferred_job job" job] deferred_step [of job] jobs_ok_get [of w "job_id job" job]
  by (simp add: defer_job_until_next_window_def deferred_job_def parked_def)

lemma park_ok: "jobs_ok w \<Longrightarrow> get_job w (job_id job) = Some job \<Longrightarrow> jobs_ok (fst (park_job_for_window w job))"
  using put_job_ok [of w "parked job" job] parked_step [of job] jobs_ok_get [of w "job_id job" job]
  by (simp add: park_job_for_window_def parked_def)

section \<open>Events\<close>

lemma ack_frames [simp]:
  "jobs (xack w s g m) = jobs w" "jobs (rolled_back w w') = jobs w" "jobs (put_attestation w a) = jobs w"
  "jobs (put_delivery w d) = jobs w" "jobs (put_receipt w r) = jobs w"
  by (simp_all add: xack_def rolled_back_def put_attestation_def put_delivery_def put_receipt_def)

lemma puts_attestation_jobs [simp]: "jobs (foldl put_attestation w as) = jobs w"
  by (induction as arbitrary: w) simp_all

lemma mark_proven_jobs: "mark_proven_task_acknowledged w now a = Inr w' \<Longrightarrow> jobs w' = jobs w"
  by (auto simp: mark_proven_task_acknowledged_def Let_def split: option.splits if_splits)

lemma ack_locked_jobs: "acknowledge_locked_delivery w now a receipt d = (w', x) \<Longrightarrow> jobs w' = jobs w"
proof -
  assume res: "acknowledge_locked_delivery w now a receipt d = (w', x)"
  let ?task = "receipt \<noteq> None \<and> at_ack_state a \<noteq> ''acknowledged''"
  let ?w1 = "if ?task then xack w (at_redis_stream a) (at_consumer_group a) (at_message_id a) else w"
  let ?w2 = "if dl_ack_state d \<noteq> ''acknowledged'' then xack ?w1 (dl_redis_stream d) (dl_consumer_group d) (dl_message_id d) else ?w1"
  have j2: "jobs ?w2 = jobs w" by simp
  note res1 = res [unfolded acknowledge_locked_delivery_def Let_def]
  show ?thesis
  proof (cases "if ?task then mark_proven_task_acknowledged ?w2 now a else Inr ?w2")
    case (Inl e)
    then show ?thesis using res1 by (auto split: if_split_asm)
  next
    case (Inr w3)
    have "jobs w3 = jobs ?w2"
    proof (cases ?task)
      case True
      then have "mark_proven_task_acknowledged ?w2 now a = Inr w3" using Inr by (simp only: if_True simp_thms)
      then show ?thesis by (rule mark_proven_jobs)
    next
      case False
      then have "?w2 = w3" using Inr by (simp only: if_False simp_thms sum.inject)
      then show ?thesis by (simp only:)
    qed
    then have "jobs w3 = jobs w" by (simp only: j2)
    then show ?thesis using res1 unfolding Inr by (auto split: if_split_asm option.split_asm)
  qed
qed

lemma lock_entry_jobs: "lock_job_execution_entry seen w jid = Inr (w', x) \<Longrightarrow> jobs w' = jobs w"
  using lock_entry_frame by fastforce

lemma lock_ack_jobs: "lock_delivery_ack_authority w did = Inr (w1, y) \<Longrightarrow> jobs w1 = jobs w"
  using lock_entry_jobs by (auto simp: lock_delivery_ack_authority_def Let_def split: option.splits sum.splits if_splits authority_error.splits)

lemma ack_tail_jobs:
  assumes "jobs w1 = jobs w"
  shows "jobs (fst (case acknowledge_locked_delivery w1 now a r d of
            (w2, Inl e) \<Rightarrow> (rolled_back w w2, Inl e) | (w2, Inr _) \<Rightarrow> (w2, Inr ()))) = jobs w"
proof -
  obtain w2 z where l: "acknowledge_locked_delivery w1 now a r d = (w2, z)" by (rule prod.exhaust)
  then show ?thesis using ack_locked_jobs [OF l] assms by (cases z) simp_all
qed

lemma ack_delivery_jobs: "jobs (fst (acknowledge_delivery_id w now did)) = jobs w"
proof (cases "lock_delivery_ack_authority w did")
  case (Inr y)
  obtain w1 a receipt d where y: "y = (w1, a, receipt, d)" by (rule prod_cases4)
  show ?thesis using Inr y by (simp add: acknowledge_delivery_id_def Let_def ack_tail_jobs [OF lock_ack_jobs [OF Inr [unfolded y]]])
qed (simp add: acknowledge_delivery_id_def)

lemma ack_applied_jobs: "jobs (fst (acknowledge_applied env w now ev)) = jobs w"
proof (cases "locked_event_delivery w ev")
  case (Some d0)
  show ?thesis
  proof (cases "lock_delivery_ack_authority w (dl_id d0)")
    case (Inr y)
    obtain w1 a receipt d where y: "y = (w1, a, receipt, d)" by (rule prod_cases4)
    show ?thesis using Inr y Some
      by (simp add: acknowledge_applied_def Let_def ack_tail_jobs [OF lock_ack_jobs [OF Inr [unfolded y]]] split: sum.split)
  qed (simp add: acknowledge_applied_def Some)
qed (simp add: acknowledge_applied_def)

lemma ack_task_jobs: "jobs (fst (acknowledge_authorized_task w now aid)) = jobs w"
proof (cases "row_get at_id (attestations w) aid")
  case (Some a)
  show ?thesis
  proof (cases "lock_job_execution_entry w w (at_job_id a)")
    case (Inl e)
    then show ?thesis using Some by (cases e) (simp add: acknowledge_authorized_task_def)
  next
    case (Inr y)
    obtain w1 z where y: "y = (w1, z)" by (rule prod.exhaust)
    let ?w2 = "xack w1 (at_redis_stream a) (at_consumer_group a) (at_message_id a)"
    have "jobs w1 = jobs w" by (rule lock_entry_jobs [OF Inr [unfolded y]])
    then show ?thesis
      using Some Inr y mark_proven_jobs [of ?w2 now a]
      by (cases "mark_proven_task_acknowledged ?w2 now a") (simp_all add: acknowledge_authorized_task_def Let_def)
  qed
qed (simp add: acknowledge_authorized_task_def)

lemma ack_cancelled_jobs: "jobs (fst (acknowledge_cancelled_dispatch w now i)) = jobs w"
proof (cases "get_dispatch w i")
  case (Some d)
  show ?thesis
  proof (cases "lock_batch w [d]")
    case (Inr w1)
    then show ?thesis using Some lock_batch_jobs [OF Inr] by (simp add: acknowledge_cancelled_dispatch_def Let_def split: option.split)
  qed (simp add: acknowledge_cancelled_dispatch_def Some)
qed (simp add: acknowledge_cancelled_dispatch_def)

lemma run_each_jobs: "(\<And>x w. jobs (fst (f x w)) = jobs w) \<Longrightarrow> jobs (fst (run_each f xs w)) = jobs w"
proof (induction xs arbitrary: w)
  case (Cons x xs)
  obtain w1 y where f: "f x w = (w1, y)" by (rule prod.exhaust)
  show ?case using Cons.IH [OF Cons.prems, of w1] Cons.prems [of x w] f by (cases y) simp_all
qed simp

lemma reconcile_cancelled_jobs: "jobs (fst (reconcile_cancelled_dispatches w now secs limit)) = jobs w"
proof -
  obtain w1 y where r: "recover_stale_dispatch_attempts w now secs None limit = (w1, y)" by (rule prod.exhaust)
  have j1: "jobs w1 = jobs w" using recover_stale_jobs [of w now secs None limit] r by simp
  have c: "jobs w2 = jobs w1" if "cancel_pending_dispatches w1 now limit = Inr w2" for w2
    using that lock_batch_jobs by (auto simp: cancel_pending_dispatches_def Let_def split: sum.splits)
  have a: "jobs w3 = jobs w2" if "authorize_cancelled_dispatches w2 limit = Inr (w3, ids)" for w2 w3 ids
    using that lock_batch_jobs by (auto simp: authorize_cancelled_dispatches_def Let_def split: sum.splits)
  have e: "jobs (fst (run_each (\<lambda>i w. acknowledge_cancelled_dispatch w now i) ids w3)) = jobs w3" for ids w3
    by (rule run_each_jobs) (rule ack_cancelled_jobs)
  show ?thesis
    using r j1 c a e by (auto simp: reconcile_cancelled_dispatches_def split: sum.split prod.split)
qed

lemma deliver_jobs: "jobs (fst (deliver_pending_dispatches env w now secs receipt limit)) = jobs w"
  by (cases "deliver_pending_dispatches env w now secs receipt limit") (simp add: deliver_pending_jobs)

lemma reconcile_ack_jobs:
  "jobs (fst (reconcile_authorized_task_acknowledgements w now limit)) = jobs w"
  "jobs (fst (reconcile_pending_acknowledgements w now limit)) = jobs w"
  by (simp_all add: reconcile_authorized_task_acknowledgements_def reconcile_pending_acknowledgements_def
      run_each_jobs ack_task_jobs ack_delivery_jobs)

lemma handle_event_ok:
  assumes k: "keeps_jobs env" and ok: "jobs_ok w"
  shows "jobs_ok (fst (handle_event env now w data))"
  using ok on_node_completed_ok [OF k ok] on_node_failed_ok [OF k ok]
  by (simp add: handle_event_def split: option.split sum.split prod.split)

lemma ack_event_jobs: "jobs (fst (ack_event w mid data)) = jobs w"
  by (simp add: ack_event_def split: option.split sum.split prod.split)

lemma jobs_ok_eq: "jobs w' = jobs w \<Longrightarrow> jobs_ok w \<Longrightarrow> jobs_ok w'"
  using jobs_ok_cong by blast

lemma process_registered_ok:
  assumes ok: "jobs_ok w"
  shows "jobs_ok (fst (process_registered env observe now w ev))"
proof (cases "accept_and_apply (cache_of env) observe (apply_registered_worker_event env now) w now ev")
  case (Inl e)
  then show ?thesis using ok by (simp add: process_registered_def)
next
  case (Inr y)
  obtain w1 x where y: "y = (w1, x)" by (rule prod.exhaust)
  have ok1: "jobs_ok w1" by (rule accept_and_apply_ok [OF ok Inr [unfolded y]])
  show ?thesis
  proof (cases x)
    case None
    then show ?thesis using Inr y jobs_ok_eq [OF ack_applied_jobs ok1] by (simp add: process_registered_def)
  next
    case (Some rid)
    obtain w2 z where d: "deliver_pending_dispatches (cache_of env) w1 now DISPATCH_ATTEMPT_RECOVERY_SECONDS (Some rid) DEFAULT_LIMIT = (w2, z)"
      by (rule prod.exhaust)
    have ok2: "jobs_ok w2" by (rule jobs_ok_eq [OF deliver_pending_jobs [OF d] ok1])
    then show ?thesis using Inr y Some d jobs_ok_eq [OF ack_applied_jobs ok2] by (cases z) (simp_all add: process_registered_def)
  qed
qed

lemma as_outcome_fst: "fst (as_outcome r) = fst r"
  by (simp add: as_outcome_def split: prod.split sum.split)

lemma process_event_ok:
  assumes k: "keeps_jobs env" and ok: "jobs_ok w"
  shows "jobs_ok (fst (process_event env observe now w mid data))"
proof (cases "has_registration_claim data")
  case True
  then show ?thesis
    using ok process_registered_ok [OF ok] by (simp add: process_event_def as_outcome_fst split: sum.split)
next
  case False
  obtain w1 x where h: "handle_event env now w data = (w1, x)" by (rule prod.exhaust)
  have "jobs_ok w1" using handle_event_ok [OF k ok, of now data] h by simp
  then show ?thesis using False h jobs_ok_eq [OF ack_event_jobs] by (cases x) (simp_all add: process_event_def)
qed

lemma process_messages_ok:
  assumes k: "keeps_jobs env" and ok: "jobs_ok w"
  shows "jobs_ok (process_messages env observe now msgs w)"
  using ok unfolding process_messages_def
  by (induction msgs arbitrary: w) (auto intro: process_event_ok [OF k])

lemma reclaim_ok:
  assumes k: "keeps_jobs env" and ok: "jobs_ok w"
  shows "jobs_ok (reclaim_pending env observe now claimed w)"
  unfolding reclaim_pending_def Let_def
  by (rule process_messages_ok [OF k])
    (rule jobs_ok_eq [OF reconcile_ack_jobs(2)], rule jobs_ok_eq [OF reconcile_ack_jobs(1)], rule jobs_ok_eq [OF deliver_jobs],
      rule jobs_ok_eq [OF reconcile_cancelled_jobs ok])

section \<open>Start-up\<close>

lemma put_world_other:
  assumes "m \<in> set (all_executions w)" and "ne_id m \<noteq> ne_id n"
  shows "m \<in> set (all_executions (put_world_execution w n))"
proof -
  obtain j where j: "j \<in> set (jobs w)" "m \<in> set (node_executions j)" using assms(1) by (auto simp: all_executions_def)
  let ?f = "\<lambda>j. if job_id j = ne_job_id n then put_execution j n else j"
  have "m \<in> set (node_executions (?f j))" using j(2) assms(2) by (auto simp: put_execution_def row_put_def)
  then show ?thesis using j(1) by (auto simp: all_executions_def put_world_execution_def split: if_splits intro!: bexI [of _ j])
qed

lemma put_world_get:
  assumes "jid \<noteq> ne_job_id n"
  shows "get_job (put_world_execution w n) jid = get_job w jid"
proof -
  have "find (\<lambda>j. job_id j = jid) (map (\<lambda>j. if job_id j = ne_job_id n then put_execution j n else j) js) = find (\<lambda>j. job_id j = jid) js" for js
    using assms by (induction js) (auto simp: put_execution_def)
  then show ?thesis by (simp add: get_job_def row_get_def put_world_execution_def)
qed

lemma put_world_has:
  "get_job w jid \<noteq> None \<Longrightarrow> get_job (put_world_execution w n) jid \<noteq> None"
proof -
  have "map job_id (jobs (put_world_execution w n)) = map job_id (jobs w)"
    by (simp add: put_world_execution_def put_execution_def)
  then have "job_id ` set (jobs (put_world_execution w n)) = job_id ` set (jobs w)" by (simp only: list.set_map [symmetric])
  then show "get_job w jid \<noteq> None \<Longrightarrow> get_job (put_world_execution w n) jid \<noteq> None" by (simp add: get_job_def row_get_None_iff)
qed

lemma recover_changes:
  assumes "recover_registered_worker_node w now jid nid = Inr (w', x)"
  shows "w' = w \<or> (\<exists>n'. w' = put_world_execution w n' \<and> ne_id n' = nid \<and> ne_job_id n' = jid)"
  using assms by (auto simp: recover_registered_worker_node_def find_Some_iff split: option.splits if_splits)

lemma get_execution_job:
  assumes ok: "jobs_ok w" and "get_job w jid \<noteq> None" and n: "n \<in> set (all_executions w)" "ne_job_id n = jid"
  obtains job where "get_job w jid = Some job" and "node_ok job n"
proof -
  obtain job where g: "get_job w jid = Some job" using assms(2) by blast
  have "n \<in> set (node_executions job)" using wf_world_execution [OF _ g] ok n by (simp add: jobs_ok_def)
  then have "node_ok job n" using jobs_ok_get [OF ok g] by (simp add: job_ok_def)
  then show ?thesis using that g by blast
qed

lemma execution_unique:
  assumes "jobs_ok w" and "m \<in> set (all_executions w)" and "n \<in> set (all_executions w)" and "ne_id m = ne_id n"
  shows "m = n"
  using assms by (intro row_unique [of ne_id "all_executions w"]) (auto simp: jobs_ok_def wf_world_def)

lemma reset_stale_ok:
  assumes ok: "jobs_ok w" and g: "get_job w jid \<noteq> None" and n: "n \<in> set (all_executions w)" "ne_job_id n = jid" and st: "ne_status n \<in> {QUEUED, RUNNING}"
  shows "jobs_ok (put_world_execution w (reset_stale_node n))"
proof -
  obtain job where g: "get_job w jid = Some job" using g by blast
  have s: "node_step job n (reset_stale_node n)" using st by (auto simp: node_step_def reset_stale_node_def dispatched_def)
  show ?thesis by (rule put_world_execution_ok [OF ok g n s])
qed

lemma recover_nodes_ok:
  assumes "jobs_ok w" and "get_job w (job_id job) \<noteq> None" and "distinct (map ne_id ns)"
    and "\<forall>n\<in>set ns. n \<in> set (all_executions w) \<and> ne_job_id n = job_id job" and "recover_nodes now job ns w changed = Inr (w', c)"
  shows "jobs_ok w' \<and> (\<forall>jid. jid \<noteq> job_id job \<longrightarrow> get_job w' jid = get_job w jid)"
  using assms
proof (induction ns arbitrary: w changed)
  case (Cons n ns)
  note ok = Cons.prems(1) and g = Cons.prems(2)
  have n: "n \<in> set (all_executions w)" "ne_job_id n = job_id job" using Cons.prems(4) by auto
  have go: ?case
    if r: "recover_nodes now job ns w1 b = Inr (w', c)" and ok1: "jobs_ok w1"
      and w1: "w1 = w \<or> (\<exists>n'. w1 = put_world_execution w n' \<and> ne_id n' = ne_id n \<and> ne_job_id n' = job_id job)" for w1 b
  proof -
    have "get_job w1 (job_id job) \<noteq> None" using w1 g put_world_has by auto
    moreover have "\<forall>m\<in>set ns. m \<in> set (all_executions w1) \<and> ne_job_id m = job_id job"
    proof
      fix m assume m: "m \<in> set ns"
      then have "ne_id m \<noteq> ne_id n" using Cons.prems(3) by (metis distinct.simps(2) image_eqI list.set_map list.simps(9))
      then show "m \<in> set (all_executions w1) \<and> ne_job_id m = job_id job"
        using w1 Cons.prems(4) m put_world_other [of m w] by auto
    qed
    ultimately have "jobs_ok w' \<and> (\<forall>jid. jid \<noteq> job_id job \<longrightarrow> get_job w' jid = get_job w1 jid)"
      using Cons.IH [OF ok1 _ _ _ r] Cons.prems(3) by simp
    then show ?thesis using w1 put_world_get [of _ _ w] by auto
  qed
  show ?case
  proof (cases "abandoned now job n")
    case False
    then show ?thesis using go [of w changed] Cons.prems(5) ok by simp
  next
    case True
    then have st: "ne_status n \<in> {QUEUED, RUNNING}" by (simp add: abandoned_def)
    show ?thesis
    proof (cases "ne_worker_registration_id n")
      case None
      have "jobs_ok (put_world_execution w (reset_stale_node n))" by (rule reset_stale_ok [OF ok g n st])
      moreover have "ne_id (reset_stale_node n) = ne_id n" "ne_job_id (reset_stale_node n) = job_id job"
        using n by (simp_all add: reset_stale_node_def)
      ultimately show ?thesis using go [of "put_world_execution w (reset_stale_node n)" True] True None Cons.prems(5) by auto
    next
      case (Some r)
      obtain w1 x where rec: "recover_registered_worker_node w now (job_id job) (ne_id n) = Inr (w1, x)"
        using Cons.prems(5) True Some by (cases "recover_registered_worker_node w now (job_id job) (ne_id n)") auto
      have "\<forall>m\<in>set (all_executions w). ne_id m = ne_id n \<longrightarrow> ne_status m \<noteq> SUCCEEDED"
      proof (intro ballI impI)
        fix m assume "m \<in> set (all_executions w)" "ne_id m = ne_id n"
        then have "m = n" by (intro execution_unique [OF ok _ n(1)])
        then show "ne_status m \<noteq> SUCCEEDED" using st by auto
      qed
      then have ok1: "jobs_ok w1" by (rule recover_ok [OF ok rec])
      obtain b where "recover_nodes now job ns w1 b = Inr (w', c)"
        using Cons.prems(5) True Some rec by (cases x) auto
      then show ?thesis by (rule go [OF _ ok1 recover_changes [OF rec]])
    qed
  qed
qed simp

lemma prepare_ok:
  assumes ok: "jobs_ok w" and g: "get_job w (job_id job) = Some job" and p: "prepare_job_for_recovery now w job = Inr (w', c)"
  shows "jobs_ok w' \<and> (\<forall>jid. jid \<noteq> job_id job \<longrightarrow> get_job w' jid = get_job w jid)"
proof -
  have wf: "wf_world w" and jok: "job_ok job" using ok jobs_ok_get [OF ok g] by (simp_all add: jobs_ok_def)
  obtain w1 b where r: "recover_nodes now job (node_executions job) w False = Inr (w1, b)"
    using p by (cases "recover_nodes now job (node_executions job) w False") (auto simp: prepare_job_for_recovery_def)
  have rr: "jobs_ok w1 \<and> (\<forall>jid. jid \<noteq> job_id job \<longrightarrow> get_job w1 jid = get_job w jid)"
    by (rule recover_nodes_ok [OF ok _ _ _ r]) (use g jok wf_world_execution [OF wf g] in \<open>auto simp: job_ok_def wf_executions_def\<close>)
  show ?thesis
  proof (cases "w' = w1")
    case True
    then show ?thesis using rr by simp
  next
    case False
    then obtain row where row: "get_job w1 (job_id job) = Some row" and w': "w' = put_job w1 (restarted row)"
      using p r by (auto simp: prepare_job_for_recovery_def split: if_splits option.splits)
    have id: "job_id (restarted row) = job_id job" using get_job_id [OF row] by (simp add: restarted_def)
    have "job_step row (restarted row)"
      by (rule job_step_status [OF jobs_ok_get [OF conjunct1 [OF rr] row]]) (auto simp: restarted_def split: if_splits)
    then have "jobs_ok w'" using put_job_ok [of w1 "restarted row" row] rr row id w' by simp
    moreover have "get_job w' jid = get_job w1 jid" if "jid \<noteq> job_id job" for jid
      unfolding w' using job_rows.get_put_other [of jid "restarted row" w1] that id by simp
    ultimately show ?thesis using rr by simp
  qed
qed

lemma sort_stale_ok:
  assumes "jobs_ok w" and "distinct (map job_id js)" and "\<forall>j\<in>set js. get_job w (job_id j) = Some j"
    and "sort_stale_jobs now st guard js w restart fin = Inr (w', restart', fin')"
  shows "jobs_ok w'"
  using assms
proof (induction js arbitrary: w restart fin)
  case (Cons job js)
  have g: "get_job w (job_id job) = Some job" using Cons.prems(3) by simp
  have go: "jobs_ok w'"
    if r: "sort_stale_jobs now st guard js w1 a b = Inr (w', restart', fin')" and ok1: "jobs_ok w1"
      and other: "\<And>jid. jid \<noteq> job_id job \<Longrightarrow> get_job w1 jid = get_job w jid" for w1 a b
  proof (rule Cons.IH [OF ok1 _ _ r])
    show "distinct (map job_id js)" using Cons.prems(2) by simp
    show "\<forall>j\<in>set js. get_job w1 (job_id j) = Some j"
    proof
      fix j assume j: "j \<in> set js"
      then have "job_id j \<noteq> job_id job" using Cons.prems(2) by (metis distinct.simps(2) image_eqI list.set_map list.simps(9))
      then show "get_job w1 (job_id j) = Some j" using other Cons.prems(3) j by simp
    qed
  qed
  show ?case
  proof (cases "should_defer_job_start job st guard")
    case True
    let ?w1 = "fst (defer_job_until_next_window w job)"
    have "get_job ?w1 jid = get_job w jid" if "jid \<noteq> job_id job" for jid
      using job_rows.get_put_other [of jid "deferred_job job" w] that by (simp add: defer_job_until_next_window_def deferred_job_def parked_def)
    then show ?thesis using go [OF _ defer_ok [OF Cons.prems(1) g]] Cons.prems(4) True by simp
  next
    case False
    obtain w1 c where p: "prepare_job_for_recovery now w job = Inr (w1, c)"
      using Cons.prems(4) False by (cases "prepare_job_for_recovery now w job") auto
    have "jobs_ok w1 \<and> (\<forall>jid. jid \<noteq> job_id job \<longrightarrow> get_job w1 jid = get_job w jid)" by (rule prepare_ok [OF Cons.prems(1) g p])
    then show ?thesis using go [of w1] Cons.prems(4) False p by (auto split: if_splits)
  qed
qed simp

lemma schedule_record_jobs: "get_video_schedule_record w = (w1, s) \<Longrightarrow> jobs w1 = jobs w"
  by (cases "row_get service_name (schedules w) VIDEO_SCHEDULE_SERVICE")
    (auto simp: get_video_schedule_record_def get_or_create_and_lock_runtime_schedule_def Let_def)

lemma start_background_ok:
  assumes k: "keeps_jobs env" and ok: "jobs_ok w"
  shows "jobs_ok (start_jobs_background env now w ids)"
  using ok unfolding start_jobs_background_def by (induction ids arbitrary: w) (auto intro: start_job_ok [OF k])

lemma finalize_jobs_ok:
  assumes k: "keeps_jobs env" and ok: "jobs_ok w"
  shows "jobs_ok (finalize_jobs env now w ids)"
proof -
  have "jobs_ok (foldl (\<lambda>w' jid. case get_job w jid of None \<Rightarrow> w' | Some job \<Rightarrow> maybe_finalize_job env w' now job) v ids)"
    if "jobs_ok v" for v
    using that by (induction ids arbitrary: v) (auto intro: maybe_finalize_ok [OF k] split: option.split)
  then show ?thesis using ok by (simp add: finalize_jobs_def)
qed

lemma recover_stale_jobs_ok:
  assumes k: "keeps_jobs env" and ok: "jobs_ok w" and r: "recover_stale_jobs env now w = Inr w'"
  shows "jobs_ok w'"
proof -
  obtain w1 s where s: "get_video_schedule_record w = (w1, s)" by (rule prod.exhaust)
  have ok1: "jobs_ok w1" by (rule jobs_ok_eq [OF schedule_record_jobs [OF s] ok])
  obtain w2 restart fin where ss: "sort_stale_jobs now (schedule_state_of w1 s) (guarded_job_id s) (load_video_jobs_for_recovery w1) w1 [] [] = Inr (w2, restart, fin)"
    and w': "w' = start_jobs_background env now (finalize_jobs env now w2 fin) restart"
    using r s by (auto simp: recover_stale_jobs_def split: sum.splits prod.splits)
  have d: "distinct (map job_id (jobs w1))" using ok1 by (simp add: jobs_ok_def wf_world_def)
  have "jobs_ok w2"
    by (rule sort_stale_ok [OF ok1 _ _ ss])
      (auto simp: load_video_jobs_for_recovery_def get_job_def distinct_map_filter [OF d] intro: row_get_distinct [OF d])
  then show ?thesis unfolding w' by (intro start_background_ok [OF k] finalize_jobs_ok [OF k])
qed

lemma start_or_defer_ok:
  assumes k: "keeps_jobs env" and ok: "jobs_ok w" and d: "distinct (map job_id js)" and rows: "\<forall>j\<in>set js. get_job w (job_id j) = Some j"
  shows "jobs_ok (fst (start_or_defer_jobs env now w js))"
proof (cases "js = []")
  case True
  then show ?thesis using ok by (simp add: start_or_defer_jobs_def)
next
  case False
  obtain w1 s where s: "get_video_schedule_record w = (w1, s)" by (rule prod.exhaust)
  have j1: "jobs w1 = jobs w" by (rule schedule_record_jobs [OF s])
  have ok1: "jobs_ok w1" by (rule jobs_ok_eq [OF j1 ok])
  let ?d = "filter (\<lambda>j. should_defer_job_start j (schedule_state_of w1 s) (guarded_job_id s)) js"
  have "jobs_ok (foldl put_job w1 (map parked ?d))"
    by (rule put_jobs_ok [OF ok1 _ _ parked_step]) (use d rows j1 in \<open>auto simp: distinct_map_filter get_job_def\<close>)
  then have "jobs_ok (fst (park_jobs_for_window w1 ?d))" using ok1 by (simp add: park_jobs_for_window_def)
  then show ?thesis using False s start_background_ok [OF k] by (simp add: start_or_defer_jobs_def Let_def)
qed

end
