(* ===== verification/Engine_Runs.thy ===== *)
theory Engine_Runs
  imports Entry_Points Builtins
begin

text \<open>
  The runs of the backend on its jobs: submissions, starts, claims, events of both kinds of workers, recovery at
  start-up, the video window, cancelling and deleting, in any order, with other sessions in between. Every run
  keeps the invariant of \<open>Engine_Order\<close>.
\<close>

section \<open>Runs\<close>

text \<open>
  One operation of the backend: the routes and the background tasks of the application, and the handlers they
  are made of. A node is recovered only while it is queued or running, as start-up does; a
  submission draws new identifiers, and its nodes have different ids. Any other change leaves the jobs alone.
\<close>

inductive engine_step :: "engine_env \<Rightarrow> world \<Rightarrow> world \<Rightarrow> bool" for env :: engine_env where
  es_create: "create_job reg w now pid inp = Inr (w', job) \<Longrightarrow> fresh_ids w
     \<Longrightarrow> distinct (map node_id (nodes (pipeline_snapshot job))) \<Longrightarrow> engine_step env w w'"
| es_start: "engine_step env w (start_job env now w jid)"
| es_completed: "engine_step env w (fst (on_node_completed env now w jid nid out claim))"
| es_failed: "engine_step env w (fst (on_node_failed env now w jid nid err claim))"
| es_accept: "accept_and_apply (cache_of env) observe (apply_registered_worker_event env now) w now ev = Inr (w', rid) \<Longrightarrow> engine_step env w w'"
| es_claim: "claim_registered_worker_node w now jid nid rid epoch worker stream grp msg sha key = Inr (w', cl, aid) \<Longrightarrow> engine_step env w w'"
| es_recover: "recover_registered_worker_node w now jid nid = Inr (w', x)
     \<Longrightarrow> \<forall>n\<in>set (all_executions w). ne_id n = nid \<longrightarrow> ne_status n \<in> {QUEUED, RUNNING} \<Longrightarrow> engine_step env w w'"
| es_event: "engine_step env w (fst (process_event env observe now w mid data))"
| es_reclaim: "engine_step env w (reclaim_pending env observe now claimed w)"
| es_startup: "recover_stale_jobs env now w = Inr w' \<Longrightarrow> engine_step env w w'"
| es_submitted: "distinct (map job_id js) \<Longrightarrow> \<forall>j\<in>set js. get_job w (job_id j) = Some j
     \<Longrightarrow> engine_step env w (fst (start_or_defer_jobs env now w js))"
| es_cancel: "engine_step env w (fst (cancel_job w jid))"
| es_delete: "delete_job w jid = Inr (w', b) \<Longrightarrow> engine_step env w w'"
| es_release: "engine_step env w (fst (release_waiting_video_jobs w))"
| es_open: "open_video_schedule_for_job w jid = Inr (w', ids) \<Longrightarrow> engine_step env w w'"
| es_defer: "get_job w (job_id job) = Some job \<Longrightarrow> engine_step env w (fst (defer_job_until_next_window w job))"
| es_park: "get_job w (job_id job) = Some job \<Longrightarrow> engine_step env w (fst (park_job_for_window w job))"
| es_other: "jobs w' = jobs w \<Longrightarrow> engine_step env w w'"

lemma engine_step_ok: "engine_step env w w' \<Longrightarrow> keeps_jobs env \<Longrightarrow> jobs_ok w \<Longrightarrow> jobs_ok w'"
proof (induction rule: engine_step.induct)
  case (es_create reg w now pid inp w' job)
  from es_create.prems(2) es_create.hyps(2,1,3) show ?case by (rule create_ok)
next
  case (es_accept observe now w ev w' rid)
  from es_accept.prems(2) es_accept.hyps(1) show ?case by (rule accept_and_apply_ok)
next
  case (es_claim w now jid nid rid epoch worker stream grp msg sha key w' cl aid)
  from es_claim.prems(2) es_claim.hyps(1) show ?case by (rule claim_ok)
next
  case (es_recover w now jid nid w' x)
  have "\<forall>n\<in>set (all_executions w). ne_id n = nid \<longrightarrow> ne_status n \<noteq> SUCCEEDED" using es_recover.hyps(2) by fastforce
  from es_recover.prems(2) es_recover.hyps(1) this show ?case by (rule recover_ok)
next
  case (es_delete w jid w' b)
  from es_delete.prems(2) es_delete.hyps(1) show ?case by (rule delete_ok)
next
  case (es_open w jid w' ids)
  from es_open.prems(2) es_open.hyps(1) show ?case by (rule open_for_job_ok)
next
  case (es_startup now w w')
  from es_startup.prems es_startup.hyps(1) show ?case by (rule recover_stale_jobs_ok)
next
  case (es_submitted js w now)
  from es_submitted.prems es_submitted.hyps show ?case by (rule start_or_defer_ok)
next
  case (es_other w' w)
  from es_other.prems(2) jobs_ok_cong [OF es_other.hyps(1)] show ?case by simp
qed (simp_all add: start_job_ok on_node_completed_ok on_node_failed_ok cancel_ok release_waiting_ok defer_ok park_ok
    process_event_ok reclaim_ok)

text \<open>
  The other sessions run the same backend: what they commit during a handler is a run of its operations, in
  which yet other sessions interfere in the same way.
\<close>

inductive disciplined :: "engine_env \<Rightarrow> bool" where
  d_alone: "others env = (\<lambda>g w. w) \<Longrightarrow> disciplined env"
| d_others: "(\<And>g w. \<exists>env'. disciplined env' \<and> (engine_step env')\<^sup>*\<^sup>* w (others env g w)) \<Longrightarrow> disciplined env"

lemma disciplined_keeps: "disciplined env \<Longrightarrow> keeps_jobs env"
proof (induction rule: disciplined.induct)
  case (d_alone env)
  then show ?case by (simp add: keeps_jobs_def)
next
  case (d_others env)
  have "jobs_ok (others env g w)" if ok: "jobs_ok w" for g w
  proof -
    obtain env' where k: "keeps_jobs env'" and r: "(engine_step env')\<^sup>*\<^sup>* w (others env g w)" using d_others.IH by blast
    from r ok show ?thesis by (induction rule: rtranclp_induct) (auto intro: engine_step_ok [OF _ k])
  qed
  then show ?case by (simp add: keeps_jobs_def)
qed

definition backend_step :: "world \<Rightarrow> world \<Rightarrow> bool" where
  "backend_step w w' \<longleftrightarrow> (\<exists>env. disciplined env \<and> engine_step env w w')"

interpretation backend_runs: step_invariant backend_step jobs_ok
  by unfold_locales (auto simp: backend_step_def intro: engine_step_ok disciplined_keeps)

lemma no_jobs_ok: "jobs w = [] \<Longrightarrow> jobs_ok w"
  by (simp add: jobs_ok_def wf_world_def all_executions_def)

text \<open>C1: the order of execution. In every run of the backend from a database without jobs, whatever the sessions
  do in between, a node that is not a source is queued, runs or has succeeded only after the node at the other end of each of
  its incoming edges has succeeded, and that node has an output to read.\<close>

theorem engine_dependency_order:
  assumes "backend_step\<^sup>*\<^sup>* w0 w" and "jobs w0 = []" and "job \<in> set (jobs w)" and "n \<in> set (node_executions job)"
    and "ne_status n \<in> {QUEUED, RUNNING, SUCCEEDED}" and "ne_node_type n \<noteq> ''source''"
    and "e \<in> set (edges (pipeline_snapshot job))" and "edge_target e = ne_node_id n"
  shows "\<exists>m\<in>set (node_executions job). ne_node_id m = edge_source e \<and> ne_status m = SUCCEEDED \<and> ne_output_artifact_id m \<noteq> None"
proof -
  have "jobs_ok w" by (rule backend_runs.run_inv [OF assms(1) no_jobs_ok [OF assms(2)]])
  then have ok: "job_ok job" using assms(3) by (simp add: jobs_ok_def)
  then have wf: "wf_executions job" and n: "node_ok job n" using assms(4) by (simp_all add: job_ok_def)
  have i: "ne_node_id n \<in> node_ids (pipeline_snapshot job)" and "ready job (ne_node_id n)"
    using n assms(5,6) by (auto simp: node_ok_def dispatched_def)
  then have "deps_done job (map edge_source (filter (\<lambda>x. edge_target x = ne_node_id n) (edges (pipeline_snapshot job))))"
    by (simp add: ready_def dict_get_or_def build_dependency_map_get)
  moreover have "edge_source e \<in> set (map edge_source (filter (\<lambda>x. edge_target x = ne_node_id n) (edges (pipeline_snapshot job))))"
    using assms(7,8) by auto
  ultimately obtain m where m: "m \<in> set (node_executions job)" "ne_node_id m = edge_source e" "ne_status m = SUCCEEDED"
    using executions_by_node_id_get [OF wf] unfolding deps_done_def list_all_iff by (fastforce split: option.splits)
  then show ?thesis using ok by (auto simp: job_ok_def node_ok_def)
qed

text \<open>A run: a submission of a source and a transcode, and its start.\<close>

definition order_pipeline :: Pipeline where
  "order_pipeline = \<lparr>pl_id = 7, pl_name = ''p'', pl_description = [],
     pl_definition = Some \<lparr>
       nodes = [\<lparr>node_id = ''a'', node_type = ''source'', position = [], node_label = ''A'',
                  node_config = [(''asset_id'', PStr ''9'')], node_asset_id = None\<rparr>,
                \<lparr>node_id = ''b'', node_type = ''transcode'', position = [], node_label = ''B'',
                  node_config = [], node_asset_id = None\<rparr>],
       edges = [\<lparr>edge_id = ''e'', edge_source = ''a'', edge_target = ''b'',
                  sourceHandle = ''output'', targetHandle = ''input''\<rparr>],
       viewport = []\<rparr>,
     pl_is_template = False, pl_template_tags = [], pl_created_by = ''system'', pl_version = 1, pl_created_at = 0, pl_updated_at = 0\<rparr>"

definition order_registry :: registry where
  "order_registry = load_builtins [source_DEFINITION, transcode_DEFINITION] []"

definition order_env :: engine_env where
  "order_env = \<lparr>cache_of = plain_env, registry_of = order_registry, others = (\<lambda>_ w. w)\<rparr>"

definition order_world :: world where
  "order_world = (sample_world ''OPEN'' [])\<lparr>pipelines := [order_pipeline],
     assets := [\<lparr>asset_id = 9, asset_filename = ''f'', asset_original_name = ''f'', asset_mime_type = None, asset_file_size = None,
       asset_storage_backend = ''local'', asset_storage_path = ''p'', asset_media_info = None\<rparr>]\<rparr>"

definition submitted :: "job_error + world \<times> Job" where
  "submitted = create_job order_registry order_world 5 7 []"

lemma submitted_eval:
  "case submitted of Inl _ \<Rightarrow> False | Inr (w, job) \<Rightarrow> distinct (map node_id (nodes (pipeline_snapshot job)))
     \<and> map (\<lambda>j. map ne_status (node_executions j)) (jobs (start_job order_env 6 w 100)) = [[SUCCEEDED, QUEUED]]
     \<and> map (\<lambda>j. map ne_node_type (node_executions j)) (jobs (start_job order_env 6 w 100)) = [[''source'', ''transcode'']]
     \<and> map (\<lambda>j. map ne_node_id (node_executions j)) (jobs (start_job order_env 6 w 100)) = [[''a'', ''b'']]
     \<and> map (\<lambda>j. map edge_target (edges (pipeline_snapshot j))) (jobs (start_job order_env 6 w 100)) = [[''b'']]
     \<and> map (\<lambda>j. map edge_source (edges (pipeline_snapshot j))) (jobs (start_job order_env 6 w 100)) = [[''a'']]"
  by code_simp

theorem engine_dependency_order_witness:
  "\<exists>w. backend_step\<^sup>*\<^sup>* order_world w \<and> (\<exists>job\<in>set (jobs w). (\<exists>n\<in>set (node_executions job). ne_node_id n = ''b'' \<and> ne_status n = QUEUED)
     \<and> (\<exists>m\<in>set (node_executions job). ne_node_id m = ''a'' \<and> ne_status m = SUCCEEDED \<and> ne_output_artifact_id m \<noteq> None))"
proof -
  obtain w1 job1 where c: "submitted = Inr (w1, job1)" using submitted_eval by (auto split: sum.splits)
  let ?w = "start_job order_env 6 w1 100"
  note ev = submitted_eval [unfolded c sum.case prod.case]
  have d: "disciplined order_env" by (rule d_alone) (simp add: order_env_def)
  have "engine_step order_env order_world w1"
    by (rule es_create [OF c [unfolded submitted_def]]) (use ev in \<open>simp_all add: fresh_ids_def order_world_def sample_world_def\<close>)
  then have "backend_step order_world w1" using d by (auto simp: backend_step_def)
  moreover have "backend_step w1 ?w" using d es_start [of order_env w1 6 100] by (auto simp: backend_step_def)
  ultimately have run: "backend_step\<^sup>*\<^sup>* order_world ?w" by (rule converse_rtranclp_into_rtranclp [OF _ r_into_rtranclp])
  obtain job where js: "jobs ?w = [job]" using ev by (cases "jobs ?w") auto
  obtain a b where ns: "node_executions job = [a, b]" using ev js by (cases "node_executions job"; cases "tl (node_executions job)") auto
  obtain e where es: "edges (pipeline_snapshot job) = [e]" using ev js by (cases "edges (pipeline_snapshot job)") auto
  have "\<exists>m\<in>set (node_executions job). ne_node_id m = edge_source e \<and> ne_status m = SUCCEEDED \<and> ne_output_artifact_id m \<noteq> None"
    by (rule engine_dependency_order [OF run, of job b]) (use ev js ns es in \<open>simp_all add: order_world_def sample_world_def\<close>)
  then have "\<exists>m\<in>set (node_executions job). ne_node_id m = ''a'' \<and> ne_status m = SUCCEEDED \<and> ne_output_artifact_id m \<noteq> None"
    using ev js es by simp
  moreover have "\<exists>n\<in>set (node_executions job). ne_node_id n = ''b'' \<and> ne_status n = QUEUED" using ev js ns by simp
  ultimately show ?thesis using run js by (intro exI [of _ ?w] conjI bexI [of _ job]) simp_all
qed

end
