(* ===== verification/Job_Properties.thy ===== *)
theory Job_Properties
  imports Engine_Runs Registered_Runs
begin

text \<open>
  What the services promise of jobs and pipelines: what a submission creates, that the two ways to write
  overrides mean the same, the pages of a listing, cancelling, and what deleting a job leaves behind.
\<close>

section \<open>Overrides\<close>

definition is_dict :: "pyval \<Rightarrow> bool" where
  "is_dict v = (case v of PDict _ \<Rightarrow> True | _ \<Rightarrow> False)"

lemma merge_flat:
  "\<forall>(k, v)\<in>set pvs. \<not> is_dict v \<Longrightarrow> merge_override_dict target pvs = foldl (\<lambda>t (k, v). set_nested_value t k v) target pvs"
proof (induction pvs arbitrary: target)
  case (Cons p pvs)
  obtain k v where p: "p = (k, v)" by (rule prod.exhaust)
  show ?case using Cons by (cases v) (auto simp: p is_dict_def)
qed simp

lemma split_first_dot_append: "\<not> has_dot n \<Longrightarrow> split_first_dot (n @ ''.'' @ p) = (n, p)"
  by (induction n) (auto simp: split_first_dot_def has_dot_def)

lemma dotted_not_asset: "n @ CHR ''.'' # p \<noteq> ''asset_id''"
proof
  assume e: "n @ CHR ''.'' # p = ''asset_id''"
  have "CHR ''.'' \<in> set (n @ CHR ''.'' # p)" by simp
  then show False unfolding e by simp
qed

lemma add_flat:
  assumes "\<not> is_dict v" and "\<not> has_dot n"
  shows "add_override acc (n @ ''.'' @ p, v) = dict_set acc n (set_nested_value (dict_get_or acc n []) p v)"
proof -
  have "n @ ''.'' @ p \<noteq> ''asset_id''" using dotted_not_asset by simp
  moreover have "has_dot (n @ ''.'' @ p)" by (simp add: has_dot_def)
  ultimately show ?thesis
    using assms split_first_dot_append [OF assms(2), of p] by (cases v) (simp_all add: add_override_def is_dict_def)
qed

lemma normalize_flat:
  assumes "\<forall>(k, v)\<in>set pvs. \<not> is_dict v" and "\<not> has_dot n" and "pvs \<noteq> []"
  shows "normalize_node_overrides (map (\<lambda>(p, v). (n @ ''.'' @ p, v)) pvs) = [(n, foldl (\<lambda>t (k, v). set_nested_value t k v) [] pvs)]"
proof -
  have step: "foldl add_override [(n, b)] (map (\<lambda>(p, v). (n @ ''.'' @ p, v)) qs) = [(n, foldl (\<lambda>t (k, v). set_nested_value t k v) b qs)]"
    if "\<forall>(k, v)\<in>set qs. \<not> is_dict v" for b qs
    using that
  proof (induction qs arbitrary: b)
    case (Cons q qs)
    obtain k v where q: "q = (k, v)" by (rule prod.exhaust)
    have "add_override [(n, b)] (n @ ''.'' @ k, v) = [(n, set_nested_value b k v)]"
      using add_flat [OF _ assms(2), of v "[(n, b)]" k] Cons.prems by (simp add: q dict_get_or_def)
    then show ?case using Cons by (simp add: q)
  qed simp
  obtain k v qs where pvs: "pvs = (k, v) # qs" using assms(3) by (cases pvs) auto
  have "add_override [] (n @ ''.'' @ k, v) = [(n, set_nested_value [] k v)]"
    using add_flat [OF _ assms(2), of v "[]" k] assms(1) by (simp add: pvs dict_get_or_def)
  then show ?thesis using step [of qs "set_nested_value [] k v"] assms(1) by (simp add: normalize_node_overrides_def pvs)
qed

lemma flat_no_asset: "dict_get (map (\<lambda>(p, v). (n @ ''.'' @ p, v)) pvs) ''asset_id'' = None"
  by (induction pvs) (simp_all add: case_prod_beta dotted_not_asset dotted_not_asset [symmetric])



section \<open>Pages\<close>

lemma pages_concat: "concat (map (\<lambda>i. page (i * k) k xs) [0..<m]) = take (m * k) xs"
proof (induction m)
  case (Suc m)
  have "take (Suc m * k) xs = take (m * k) xs @ take k (drop (m * k) xs)"
    by (metis add.commute mult_Suc take_add)
  then show ?case using Suc by (simp add: page_def)
qed simp


section \<open>Submissions\<close>

text \<open>C7: what a submission creates. When \<open>create_job\<close> returns, the definition it has recorded passes
  validation; the job is pending, without a plan, and belongs to the pipeline; it has one execution per node, in the order of
  the nodes and of their types, pending, with no worker and no output; the job and its executions have the identifiers
  that were drawn, all different; and no other row of the database has changed.\<close>

theorem create_job_correct:
  assumes "create_job reg w now pid inp = Inr (w', job)"
  shows "(\<exists>v. validate_pipeline reg (pipeline_snapshot job) = Inr v \<and> valid v)
    \<and> job_status job = JOB_PENDING \<and> execution_plan job = None \<and> job_pipeline_id job = pid
    \<and> map ne_node_id (node_executions job) = map node_id (nodes (pipeline_snapshot job))
    \<and> map ne_node_type (node_executions job) = map node_type (nodes (pipeline_snapshot job))
    \<and> (\<forall>n\<in>set (node_executions job). ne_status n = PENDING \<and> ne_job_id n = job_id job \<and> ne_worker_id n = None
         \<and> ne_worker_registration_id n = None \<and> ne_output_artifact_id n = None \<and> ne_retry_count n = 0)
    \<and> job_id job # map ne_id (node_executions job) = [next_id w..<next_id w']
    \<and> w' = w\<lparr>jobs := jobs w @ [job], next_id := next_id w'\<rparr>"
proof -
  obtain d' where c: "create_job_from_definition reg w now pid (compile_runtime_definition d') = Inr (w', job)"
    using create_job_Inr [OF assms] by blast
  let ?d = "compile_runtime_definition d'"
  note e = create_from_definition_Inr [OF c]
  have job: "job = new_job (next_id w) now pid ?d" using e by simp
  have s: "pipeline_snapshot job = ?d" by (simp add: job new_job_def)
  have n: "next_id w' = next_id w + 1 + length (nodes ?d)" using e by simp
  have ty: "map ne_node_type (node_executions job) = map node_type (nodes ?d)"
  proof -
    have "map ne_node_type (node_executions job) = map node_type (map snd (enumerate 0 (nodes ?d)))"
      unfolding job by (simp only: map_map comp_def new_job_def Job.simps) (simp add: new_execution_def case_prod_beta)
    then show ?thesis by simp
  qed
  have al: "\<forall>n\<in>set (node_executions job). ne_status n = PENDING \<and> ne_job_id n = job_id job \<and> ne_worker_id n = None
         \<and> ne_worker_registration_id n = None \<and> ne_output_artifact_id n = None \<and> ne_retry_count n = 0"
    by (auto simp: job new_job_def new_execution_def)
  have ids: "job_id job # map ne_id (node_executions job) = [next_id w..<next_id w']"
    unfolding job new_job_ids(1) n by (simp add: new_job_def upt_conv_Cons del: upt_Suc)
  have w': "w' = w\<lparr>jobs := jobs w @ [job], next_id := next_id w'\<rparr>" using e by simp
  show ?thesis
    using e s ty al ids w' new_job_ids(2) [of "next_id w" now pid ?d]
    by (intro conjI) (simp_all add: job new_job_def del: upt_Suc)
qed

theorem create_job_correct_witness:
  "\<exists>w' job. create_job order_registry order_world 5 7 [] = Inr (w', job) \<and> job_status job = JOB_PENDING
     \<and> map ne_node_id (node_executions job) = map node_id (nodes (pipeline_snapshot job))"
proof -
  obtain w' job where c: "create_job order_registry order_world 5 7 [] = Inr (w', job)"
    using submitted_eval unfolding submitted_def by (auto split: sum.splits)
  show ?thesis using c create_job_correct [OF c] by blast
qed

section \<open>Cancelling\<close>


definition running_world :: "JobStatus \<Rightarrow> world" where
  "running_world st = sample_world ''OPEN'' [sample_job 1 st [sample_execution 11 ''a'' SUCCEEDED, sample_execution 12 ''b'' QUEUED]]"


section \<open>Deleting\<close>



end
