(* ===== verification/Uploads.thy ===== *)
theory Uploads
  imports Receipts
begin

text \<open>
  The durable record of an upload to YouTube, as registered workers keep it: the rows of
  \<open>app/models/youtube_upload_operation.py\<close>, the stored functions \<open>vp_require_worker_node_claim\<close>,
  \<open>vp_require_worker_lease_margin\<close>, \<open>vp_reserve_worker_youtube_upload\<close> and
  \<open>vp_transition_worker_youtube_upload\<close> that revision 034 creates and revisions 040 and 042 amend, and the
  methods of \<open>YouTubeUploadOperationStore\<close> (\<open>app/services/youtube_upload_operations.py\<close>) that call them.

  A stored function reads the production tasks of a job before it takes its locks and again afterwards;
  \<open>m_seen\<close> is the database of the first reading and \<open>m_world\<close> the one under the locks. The role of the
  session, the sealed jobs of the seed inventories, the guard of sealed rows and the check of the
  producer's lineage belong to other parts of the schema and are the fields of \<open>upload_env\<close>: each can
  only refuse.
\<close>

section \<open>Rows\<close>

record YouTubeUploadOperation =
  yo_id :: uuid
  yo_production_task_id :: "uuid option"
  yo_job_id :: uuid
  yo_node_execution_id :: uuid
  yo_input_artifact_id :: uuid
  yo_content_sha256 :: string
  yo_title :: string
  yo_privacy :: string
  yo_status :: string
  yo_manager_task_id :: "string option"
  yo_platform_video_id :: "string option"
  yo_receipt_json :: config
  yo_error_message :: "string option"
  yo_request_attempted_at :: "datetime option"
  yo_completed_at :: "datetime option"

record UploadOperationContext =
  uc_job_id :: uuid
  uc_node_execution_id :: uuid
  uc_execution_claim :: NodeExecutionClaim
  uc_input_artifact_id :: uuid
  uc_content_sha256 :: string
  uc_title :: string
  uc_privacy :: string

record upload_db =
  upload_operations :: "YouTubeUploadOperation list"
  next_operation :: uuid

record upload_env =
  session_principal :: string
  principal_privileged :: "string \<Rightarrow> bool"
  job_sealed :: "uuid \<Rightarrow> bool"
  seal_allows :: "YouTubeUploadOperation option \<Rightarrow> YouTubeUploadOperation \<Rightarrow> bool"
  producer_allows :: "uuid \<Rightarrow> uuid \<Rightarrow> uuid \<Rightarrow> string \<Rightarrow> string \<Rightarrow> string \<Rightarrow> bool"

record moment =
  m_seen :: world
  m_world :: world
  m_now :: datetime

datatype upload_error =
    SqlRaises string
  | UniqueViolation
  | CheckViolation
  | UploadBlocked string
  | UploadLookupError
  | UploadValueError string
  | HandlerError string
  | HandlerCancelled

text \<open>A sequence of tests, each of which raises its message when it fails.\<close>

primrec sql_checks :: "(bool \<times> string) list \<Rightarrow> upload_error + unit" where
  "sql_checks [] = Inr ()"
| "sql_checks (c # cs) = (if fst c then sql_checks cs else Inl (SqlRaises (snd c)))"

definition sql_trim :: "string \<Rightarrow> string" where
  "sql_trim s = rev (dropWhile (\<lambda>c. c = CHR '' '') (rev (dropWhile (\<lambda>c. c = CHR '' '') s)))"

section \<open>Authority of a registered worker\<close>

definition job_task_rows :: "world \<Rightarrow> uuid option \<Rightarrow> ProductionTask list" where
  "job_task_rows w jid = (if jid = None then [] else sort_key task_id (filter (\<lambda>t. task_job_id t = jid) (tasks w)))"

definition vp_owned_history_job_entry :: "upload_env \<Rightarrow> moment \<Rightarrow> uuid option \<Rightarrow> upload_error + unit" where
  "vp_owned_history_job_entry env m jid =
     (let refs = map (\<lambda>t. (task_id t, task_channel_profile_id t)) (job_task_rows (m_seen m) jid);
          fresh = map (\<lambda>t. (task_id t, task_channel_profile_id t)) (job_task_rows (m_world m) jid)
      in sql_checks
           [(length refs \<le> 1, ''task_authority_changed''),
            (list_all (\<lambda>(_, c). row_get channel_id (channels (m_world m)) c \<noteq> None) refs, ''channel_authority_changed''),
            (row_get service_name (schedules (m_world m)) ''videoprocess'' \<noteq> None, ''schedule_authority_changed''),
            (refs = fresh, ''task_authority_changed''),
            (case jid of None \<Rightarrow> True | Some j \<Rightarrow> \<not> job_sealed env j, ''owned_history_sealed'')])"

definition channel_permits :: "world \<Rightarrow> uuid \<Rightarrow> bool" where
  "channel_permits w cid =
     (case row_get channel_id (channels w) cid of
        None \<Rightarrow> False | Some c \<Rightarrow> channel_enabled c \<and> channel_halted_at c = None)"

definition schedule_permits :: "world \<Rightarrow> uuid \<Rightarrow> bool" where
  "schedule_permits w jid =
     (case row_get service_name (schedules w) ''videoprocess'' of
        None \<Rightarrow> False
      | Some s \<Rightarrow> sched_state s \<in> {''OPEN'', ''DRAINING''} \<and> (guarded_job_id s = None \<or> guarded_job_id s = Some jid))"

definition task_permits :: "world \<Rightarrow> uuid \<Rightarrow> ProductionTask \<Rightarrow> bool" where
  "task_permits w jid found =
     (case row_get task_id (tasks w) (task_id found) of
        None \<Rightarrow> False
      | Some t \<Rightarrow> task_job_id t = Some jid \<and> task_channel_profile_id t = task_channel_profile_id found
                  \<and> task_state t = ''producing'')"

definition job_permits :: "world \<Rightarrow> uuid \<Rightarrow> bool" where
  "job_permits w jid = (case get_job w jid of None \<Rightarrow> False | Some j \<Rightarrow> job_status j = JOB_RUNNING)"

definition node_permits :: "world \<Rightarrow> uuid \<Rightarrow> int \<Rightarrow> string \<Rightarrow> datetime \<Rightarrow> uuid \<Rightarrow> uuid \<Rightarrow> bool" where
  "node_permits w rid epoch worker started jid nid =
     (case row_get ne_id (all_executions w) nid of
        None \<Rightarrow> False
      | Some n \<Rightarrow> ne_job_id n = jid \<and> ne_status n = RUNNING \<and> ne_worker_id n = Some worker
                  \<and> ne_started_at n = Some started \<and> ne_worker_registration_id n = Some rid
                  \<and> ne_worker_lease_epoch n = Some epoch)"

definition lease_permits :: "upload_env \<Rightarrow> moment \<Rightarrow> uuid \<Rightarrow> int \<Rightarrow> bool" where
  "lease_permits env m rid epoch =
     (case row_get wr_id (registrations (m_world m)) rid of
        None \<Rightarrow> False
      | Some r \<Rightarrow> wr_lease_epoch r = epoch \<and> wr_status r = ''active'' \<and> m_now m < wr_lease_expires_at r
                  \<and> wr_database_principal r = session_principal env)"

definition vp_require_worker_node_claim ::
  "upload_env \<Rightarrow> moment \<Rightarrow> uuid \<Rightarrow> int \<Rightarrow> string \<Rightarrow> datetime \<Rightarrow> uuid \<Rightarrow> uuid \<Rightarrow> upload_error + unit" where
  "vp_require_worker_node_claim env m rid epoch worker started jid nid =
     (case vp_owned_history_job_entry env m (Some jid) of
        Inl e \<Rightarrow> Inl e
      | Inr _ \<Rightarrow>
          (let found = job_task_rows (m_seen m) (Some jid); w = m_world m
           in sql_checks
                ([(sql_trim worker \<noteq> [], ''claim_mismatch''),
                  (\<not> principal_privileged env (session_principal env), ''database_principal_privileged''),
                  (length found \<le> 1, ''production_task_authority_changed'')]
                 @ (case found of [] \<Rightarrow> [] | t # _ \<Rightarrow> [(channel_permits w (task_channel_profile_id t), ''channel_authority_changed'')])
                 @ [(schedule_permits w jid, ''schedule_authority_changed'')]
                 @ (case found of [] \<Rightarrow> [] | t # _ \<Rightarrow> [(task_permits w jid t, ''production_task_authority_changed'')])
                 @ [(job_permits w jid, ''job_authority_changed''),
                    (node_permits w rid epoch worker started jid nid, ''node_claim_mismatch''),
                    (lease_permits env m rid epoch, ''lease_fenced'')])))"

definition vp_require_worker_lease_margin :: "upload_env \<Rightarrow> moment \<Rightarrow> uuid \<Rightarrow> int \<Rightarrow> int \<Rightarrow> upload_error + unit" where
  "vp_require_worker_lease_margin env m rid epoch margin =
     (let r = row_get wr_id (registrations (m_world m)) rid
      in sql_checks
           [(0 < margin \<and> margin \<le> 3600, ''claim_mismatch''),
            (\<not> principal_privileged env (session_principal env), ''database_principal_privileged''),
            (case r of None \<Rightarrow> False | Some r \<Rightarrow> wr_lease_epoch r = epoch \<and> wr_status r = ''active'', ''lease_fenced''),
            (case r of None \<Rightarrow> False | Some r \<Rightarrow> wr_database_principal r = session_principal env, ''database_principal_mismatch''),
            (case r of None \<Rightarrow> False | Some r \<Rightarrow> m_now m + margin \<le> wr_lease_expires_at r, ''lease_margin_insufficient'')])"

definition blocked_unless :: "upload_error + unit \<Rightarrow> string \<Rightarrow> upload_error + unit" where
  "blocked_unless r msg = (case r of Inl _ \<Rightarrow> Inl (UploadBlocked msg) | Inr _ \<Rightarrow> Inr ())"

definition require_registered_worker_node_claim :: "upload_env \<Rightarrow> moment \<Rightarrow> NodeExecutionClaim \<Rightarrow> upload_error + unit" where
  "require_registered_worker_node_claim env m c =
     (case validated_registration_identity (claim_worker_registration_id c) (claim_worker_lease_epoch c) of
        Inl (JobExecutionAuthorityBlocked msg) \<Rightarrow> Inl (UploadBlocked msg)
      | Inr (rid, epoch) \<Rightarrow>
          blocked_unless
            (vp_require_worker_node_claim env m rid epoch (claim_worker_id c) (claim_started_at c)
               (claim_job_id c) (claim_node_execution_id c))
            ''registered worker node claim is no longer authoritative'')"

definition require_worker_registration_margin ::
  "upload_env \<Rightarrow> moment \<Rightarrow> NodeExecutionClaim \<Rightarrow> int \<Rightarrow> upload_error + unit" where
  "require_worker_registration_margin env m c margin =
     (case validated_registration_identity (claim_worker_registration_id c) (claim_worker_lease_epoch c) of
        Inl (JobExecutionAuthorityBlocked msg) \<Rightarrow> Inl (UploadBlocked msg)
      | Inr (rid, epoch) \<Rightarrow>
          if margin \<le> 0 then Inl (UploadBlocked ''worker registration lease margin is invalid'')
          else blocked_unless (vp_require_worker_lease_margin env m rid epoch margin)
                 ''worker registration lease margin is insufficient'')"

definition SUBMISSION_LEASE_MARGIN_SECONDS :: int where
  "SUBMISSION_LEASE_MARGIN_SECONDS = 150"

definition require_registered_submission_authority ::
  "upload_env \<Rightarrow> moment \<Rightarrow> UploadOperationContext \<Rightarrow> upload_error + unit" where
  "require_registered_submission_authority env m ctx =
     (case require_registered_worker_node_claim env m (uc_execution_claim ctx) of
        Inl e \<Rightarrow> Inl e
      | Inr _ \<Rightarrow> require_worker_registration_margin env m (uc_execution_claim ctx) SUBMISSION_LEASE_MARGIN_SECONDS)"

section \<open>Reservation and transitions\<close>

definition get_operation :: "upload_db \<Rightarrow> uuid \<Rightarrow> YouTubeUploadOperation option" where
  "get_operation db i = row_get yo_id (upload_operations db) i"

definition put_operation :: "upload_db \<Rightarrow> YouTubeUploadOperation \<Rightarrow> upload_db" where
  "put_operation db x = db\<lparr>upload_operations := row_put yo_id (upload_operations db) x\<rparr>"

definition reserved_operation :: "uuid \<Rightarrow> uuid option \<Rightarrow> UploadOperationContext \<Rightarrow> YouTubeUploadOperation" where
  "reserved_operation i task ctx =
     \<lparr>yo_id = i, yo_production_task_id = task, yo_job_id = uc_job_id ctx,
      yo_node_execution_id = uc_node_execution_id ctx, yo_input_artifact_id = uc_input_artifact_id ctx,
      yo_content_sha256 = uc_content_sha256 ctx, yo_title = uc_title ctx, yo_privacy = uc_privacy ctx,
      yo_status = ''reserved'', yo_manager_task_id = None, yo_platform_video_id = None, yo_receipt_json = [],
      yo_error_message = None, yo_request_attempted_at = None, yo_completed_at = None\<rparr>"

definition matches_context :: "YouTubeUploadOperation \<Rightarrow> UploadOperationContext \<Rightarrow> bool" where
  "matches_context x ctx \<longleftrightarrow>
     yo_node_execution_id x = uc_node_execution_id ctx \<and> yo_job_id x = uc_job_id ctx
     \<and> yo_input_artifact_id x = uc_input_artifact_id ctx \<and> yo_content_sha256 x = uc_content_sha256 ctx
     \<and> yo_title x = uc_title ctx \<and> yo_privacy x = uc_privacy ctx"

text \<open>The insertion: the guard of sealed rows runs first, a row of the same node is left alone, and the
  unique index on the production task is the only other one that can be violated.\<close>

definition insert_operation :: "upload_env \<Rightarrow> upload_db \<Rightarrow> YouTubeUploadOperation \<Rightarrow> upload_error + upload_db" where
  "insert_operation env db x =
     (if \<not> seal_allows env None x then Inl (SqlRaises ''owned_history_sealed'')
      else if list_ex (\<lambda>y. yo_node_execution_id y = yo_node_execution_id x) (upload_operations db) then Inr db
      else if yo_production_task_id x \<noteq> None
              \<and> list_ex (\<lambda>y. yo_production_task_id y = yo_production_task_id x) (upload_operations db)
      then Inl UniqueViolation
      else Inr (db\<lparr>upload_operations := upload_operations db @ [x], next_operation := next_operation db + 1\<rparr>))"

definition vp_reserve_worker_youtube_upload ::
  "upload_env \<Rightarrow> moment \<Rightarrow> upload_db \<Rightarrow> uuid \<Rightarrow> int \<Rightarrow> UploadOperationContext \<Rightarrow> upload_error + upload_db \<times> uuid" where
  "vp_reserve_worker_youtube_upload env m db rid epoch ctx =
     (let c = uc_execution_claim ctx; w = m_world m; jid = uc_job_id ctx; nid = uc_node_execution_id ctx in
      case vp_owned_history_job_entry env m (Some jid) of
        Inl e \<Rightarrow> Inl e
      | Inr _ \<Rightarrow>
     (case sql_checks
             [(is_payload_sha256 (uc_content_sha256 ctx) \<and> sql_trim (uc_title ctx) \<noteq> []
                 \<and> uc_privacy ctx \<in> {''private'', ''unlisted''}, ''upload_operation_mismatch''),
              (\<not> principal_privileged env (session_principal env), ''database_principal_privileged'')] of
        Inl e \<Rightarrow> Inl e
      | Inr _ \<Rightarrow>
     (case vp_require_worker_node_claim env m rid epoch (claim_worker_id c) (claim_started_at c) jid nid of
        Inl e \<Rightarrow> Inl e
      | Inr _ \<Rightarrow>
     (case sql_checks
             [(case row_get ne_id (all_executions w) nid of
                 None \<Rightarrow> False
               | Some n \<Rightarrow> ne_node_type n = ''youtube_upload'' \<and> ne_input_artifact_ids n = [uc_input_artifact_id ctx],
               ''upload_operation_mismatch''),
              (case get_artifact w (uc_input_artifact_id ctx) of None \<Rightarrow> False | Some a \<Rightarrow> art_job_id a = jid,
               ''artifact_mismatch''),
              (list_ex (\<lambda>y. yo_node_execution_id y = nid
                  \<and> (yo_status y \<noteq> ''reserved'' \<or> yo_request_attempted_at y \<noteq> None)) (upload_operations db)
                 \<or> producer_allows env jid nid (uc_input_artifact_id ctx) (uc_content_sha256 ctx) (uc_title ctx) (uc_privacy ctx),
               ''owned_producer_refused'')] of
        Inl e \<Rightarrow> Inl e
      | Inr _ \<Rightarrow>
     (case insert_operation env db
             (reserved_operation (next_operation db)
               (case job_task_rows w (Some jid) of [] \<Rightarrow> None | t # _ \<Rightarrow> Some (task_id t)) ctx) of
        Inl e \<Rightarrow> Inl e
      | Inr db1 \<Rightarrow>
          (case find (\<lambda>y. matches_context y ctx) (upload_operations db1) of
             None \<Rightarrow> Inl (SqlRaises ''upload_operation_mismatch'')
           | Some y \<Rightarrow> Inr (db1, yo_id y)))))))"

definition hex_digit :: "char \<Rightarrow> bool" where
  "hex_digit c \<longleftrightarrow> c \<in> set ''0123456789abcdef''"

definition is_canonical_uuid :: "string \<Rightarrow> bool" where
  "is_canonical_uuid s \<longleftrightarrow> length s = 36
     \<and> list_all (\<lambda>i. if i \<in> {8, 13, 18, 23} then s ! i = CHR ''-'' else hex_digit (s ! i)) [0..<36]"

text \<open>What a transition carries besides its name: the task of the manager, the video, the receipt and the message.\<close>

record transition_args =
  ta_manager_task_id :: "string option"
  ta_platform_video_id :: "string option"
  ta_receipt_json :: "config option"
  ta_error_message :: "string option"

definition no_args :: transition_args where
  "no_args = \<lparr>ta_manager_task_id = None, ta_platform_video_id = None, ta_receipt_json = None, ta_error_message = None\<rparr>"

text \<open>An \<open>UPDATE\<close> of one row: the guard of sealed rows, the check on the task of the manager and the unique
  index on the video.\<close>

definition update_operation :: "upload_env \<Rightarrow> upload_db \<Rightarrow> YouTubeUploadOperation \<Rightarrow> YouTubeUploadOperation \<Rightarrow> upload_error + upload_db" where
  "update_operation env db old new =
     (if \<not> seal_allows env (Some old) new then Inl (SqlRaises ''owned_history_sealed'')
      else if \<not> (case yo_manager_task_id new of None \<Rightarrow> yo_status new \<notin> {''submitted'', ''succeeded''} | Some t \<Rightarrow> is_canonical_uuid t)
      then Inl CheckViolation
      else if yo_platform_video_id new \<noteq> None
              \<and> list_ex (\<lambda>y. yo_id y \<noteq> yo_id new \<and> yo_platform_video_id y = yo_platform_video_id new) (upload_operations db)
      then Inl UniqueViolation
      else Inr (put_operation db new))"

definition producer_check :: "upload_env \<Rightarrow> YouTubeUploadOperation \<Rightarrow> upload_error + unit" where
  "producer_check env x =
     sql_checks [(producer_allows env (yo_job_id x) (yo_node_execution_id x) (yo_input_artifact_id x) (yo_content_sha256 x)
        (yo_title x) (yo_privacy x), ''owned_producer_refused'')]"

definition operation_transition ::
  "upload_env \<Rightarrow> datetime \<Rightarrow> upload_db \<Rightarrow> YouTubeUploadOperation \<Rightarrow> string \<Rightarrow> transition_args \<Rightarrow> upload_error + upload_db" where
  "operation_transition env now db x transition a =
     (if transition = ''attempting'' \<and> yo_status x = ''reserved'' \<and> yo_request_attempted_at x = None
      then (case producer_check env x of
              Inl e \<Rightarrow> Inl e
            | Inr _ \<Rightarrow> update_operation env db x (x\<lparr>yo_request_attempted_at := Some now\<rparr>))
      else if transition = ''fence'' \<and> yo_status x = ''reserved'' \<and> yo_request_attempted_at x \<noteq> None
              \<and> yo_manager_task_id x = None \<and> a = no_args
      then (case producer_check env x of Inl e \<Rightarrow> Inl e | Inr _ \<Rightarrow> Inr db)
      else if transition = ''submitted'' \<and> yo_status x = ''reserved'' \<and> ta_manager_task_id a \<noteq> None
      then update_operation env db x
             (x\<lparr>yo_status := ''submitted'', yo_manager_task_id := ta_manager_task_id a,
                yo_request_attempted_at := (case yo_request_attempted_at x of None \<Rightarrow> Some now | Some t \<Rightarrow> Some t),
                yo_error_message := None\<rparr>)
      else if transition = ''succeeded'' \<and> yo_status x = ''submitted''
              \<and> ta_platform_video_id a \<noteq> None \<and> ta_receipt_json a \<noteq> None
      then update_operation env db x
             (x\<lparr>yo_status := ''succeeded'', yo_platform_video_id := ta_platform_video_id a,
                yo_receipt_json := the (ta_receipt_json a), yo_completed_at := Some now, yo_error_message := None\<rparr>)
      else if transition \<in> {''failed'', ''uncertain''} \<and> yo_status x \<in> {''reserved'', ''submitted''}
              \<and> ta_error_message a \<noteq> None
      then update_operation env db x (x\<lparr>yo_status := transition, yo_error_message := ta_error_message a\<rparr>)
      else Inl (SqlRaises ''upload_transition_mismatch''))"

definition vp_transition_worker_youtube_upload ::
  "upload_env \<Rightarrow> moment \<Rightarrow> upload_db \<Rightarrow> uuid \<Rightarrow> int \<Rightarrow> string \<Rightarrow> datetime \<Rightarrow> uuid \<Rightarrow> string \<Rightarrow> string \<Rightarrow> transition_args
   \<Rightarrow> upload_error + upload_db \<times> uuid" where
  "vp_transition_worker_youtube_upload env m db rid epoch worker started i expected transition a =
     (case vp_owned_history_job_entry env m (map_option yo_job_id (get_operation db i)) of
        Inl e \<Rightarrow> Inl e
      | Inr _ \<Rightarrow>
          if principal_privileged env (session_principal env) then Inl (SqlRaises ''database_principal_privileged'')
          else
            (case get_operation db i of
               None \<Rightarrow> Inl (SqlRaises ''upload_operation_mismatch'')
             | Some x \<Rightarrow>
                 (case vp_require_worker_node_claim env m rid epoch worker started (yo_job_id x) (yo_node_execution_id x) of
                    Inl e \<Rightarrow> Inl e
                  | Inr _ \<Rightarrow>
                      if yo_status x \<noteq> expected then Inl (SqlRaises ''upload_transition_mismatch'')
                      else map_sum id (\<lambda>db'. (db', i)) (operation_transition env (m_now m) db x transition a))))"

section \<open>The store\<close>

definition canonical_manager_task_id :: "string option \<Rightarrow> string option" where
  "canonical_manager_task_id v = (case v of None \<Rightarrow> None | Some s \<Rightarrow> if is_canonical_uuid s then Some s else None)"

definition action_for :: "YouTubeUploadOperation \<Rightarrow> string" where
  "action_for x =
     (let t = canonical_manager_task_id (yo_manager_task_id x) in
      if yo_status x = ''reserved'' \<and> yo_request_attempted_at x = None then ''submit''
      else if yo_status x = ''submitted'' \<and> t \<noteq> None then ''resume''
      else if yo_status x = ''succeeded'' \<and> t \<noteq> None then ''replay''
      else ''block'')"

definition operation :: "upload_db \<Rightarrow> uuid \<Rightarrow> upload_error + YouTubeUploadOperation" where
  "operation db i = (case get_operation db i of None \<Rightarrow> Inl UploadLookupError | Some x \<Rightarrow> Inr x)"

definition reserve_registered ::
  "upload_env \<Rightarrow> moment \<Rightarrow> upload_db \<Rightarrow> UploadOperationContext \<Rightarrow> upload_error + upload_db \<times> YouTubeUploadOperation" where
  "reserve_registered env m db ctx =
     (let c = uc_execution_claim ctx in
      case (claim_worker_registration_id c, claim_worker_lease_epoch c) of
        (Some rid, Some epoch) \<Rightarrow>
          (case vp_reserve_worker_youtube_upload env m db rid epoch ctx of
             Inl e \<Rightarrow> Inl e | Inr (db', i) \<Rightarrow> map_sum id (\<lambda>x. (db', x)) (operation db' i))
      | _ \<Rightarrow> Inl (UploadBlocked ''registered upload operation has no lease''))"

definition transition_registered ::
  "upload_env \<Rightarrow> moment \<Rightarrow> upload_db \<Rightarrow> uuid \<Rightarrow> UploadOperationContext \<Rightarrow> string \<Rightarrow> string \<Rightarrow> transition_args
   \<Rightarrow> upload_error + upload_db \<times> YouTubeUploadOperation" where
  "transition_registered env m db i ctx expected transition a =
     (let c = uc_execution_claim ctx in
      case (claim_worker_registration_id c, claim_worker_lease_epoch c) of
        (Some rid, Some epoch) \<Rightarrow>
          (case vp_transition_worker_youtube_upload env m db rid epoch (claim_worker_id c) (claim_started_at c)
                  i expected transition a of
             Inl e \<Rightarrow> Inl e
           | Inr (db', i') \<Rightarrow>
               if i' \<noteq> i then Inl (UploadBlocked ''registered upload transition identity changed'')
               else map_sum id (\<lambda>x. (db', x)) (operation db' i))
      | _ \<Rightarrow> Inl (UploadBlocked ''registered upload operation has no lease''))"

definition claim :: "upload_env \<Rightarrow> moment \<Rightarrow> upload_db \<Rightarrow> UploadOperationContext \<Rightarrow> upload_error + upload_db \<times> string \<times> YouTubeUploadOperation" where
  "claim env m db ctx = map_sum id (\<lambda>(db', x). (db', action_for x, x)) (reserve_registered env m db ctx)"

text \<open>The three parts of \<open>_mark_attempting_in_fence\<close>, between which the worker renews its lease: the
  durable attempt, the fence taken again in a new transaction, and the last check.\<close>

definition attempt_in_fence where
  "attempt_in_fence env m db i ctx = transition_registered env m db i ctx ''reserved'' ''attempting'' no_args"

definition refence :: "upload_env \<Rightarrow> moment \<Rightarrow> upload_db \<Rightarrow> uuid \<Rightarrow> UploadOperationContext \<Rightarrow> upload_error + YouTubeUploadOperation" where
  "refence env m db i ctx =
     (case require_registered_submission_authority env m ctx of
        Inl e \<Rightarrow> Inl e
      | Inr _ \<Rightarrow> map_sum id snd (transition_registered env m db i ctx ''reserved'' ''fence'' no_args))"

definition mark_submitted ::
  "upload_env \<Rightarrow> moment \<Rightarrow> upload_db \<Rightarrow> uuid \<Rightarrow> string \<Rightarrow> UploadOperationContext \<Rightarrow> upload_error + upload_db \<times> YouTubeUploadOperation" where
  "mark_submitted env m db i manager_task ctx =
     (case canonical_manager_task_id (Some manager_task) of
        None \<Rightarrow> Inl (UploadValueError ''manager task id must be a canonical UUID'')
      | Some t \<Rightarrow> transition_registered env m db i ctx ''reserved'' ''submitted'' (no_args\<lparr>ta_manager_task_id := Some t\<rparr>))"

definition finite_number_or_none :: "pyval \<Rightarrow> pyval" where
  "finite_number_or_none v =
     (case v of
        PNone \<Rightarrow> PNone | PBool _ \<Rightarrow> PNone | PInt n \<Rightarrow> PInt n
      | _ \<Rightarrow> (case py_float v of Inr (FFin q) \<Rightarrow> PFloat (FFin q) | _ \<Rightarrow> PNone))"

definition str_or :: "pyval \<Rightarrow> string \<Rightarrow> string" where
  "str_or v d = (case v of PStr s \<Rightarrow> s | _ \<Rightarrow> d)"

definition is_str :: "pyval \<Rightarrow> bool" where
  "is_str v = (case v of PStr _ \<Rightarrow> True | _ \<Rightarrow> False)"

definition receipt_for :: "string \<Rightarrow> string \<Rightarrow> string \<Rightarrow> config \<Rightarrow> config" where
  "receipt_for title privacy video receipt =
     (let field = (\<lambda>k. dict_get_or receipt k PNone);
          tags = (case dict_get_or receipt ''tags'' (PList []) of PList xs \<Rightarrow> filter is_str xs | _ \<Rightarrow> []);
          url = (if is_str (field ''url'') then field ''url'' else field ''video_url'')
      in [(''video_id'', PStr video), (''url'', PStr (str_or url [])), (''title'', PStr (str_or (field ''title'') title)),
          (''privacy'', PStr (str_or (field ''privacy'') privacy)), (''tags'', PList tags),
          (''quota_estimate'', finite_number_or_none (dict_get_or receipt ''quota_estimate'' (field ''quota_units_estimated'')))])"

definition mark_succeeded ::
  "upload_env \<Rightarrow> moment \<Rightarrow> upload_db \<Rightarrow> uuid \<Rightarrow> string \<Rightarrow> config \<Rightarrow> UploadOperationContext \<Rightarrow> upload_error + upload_db \<times> YouTubeUploadOperation" where
  "mark_succeeded env m db i video receipt ctx =
     (if py_strip video = [] then Inl (UploadValueError ''platform video id is required'')
      else
        (case operation db i of
           Inl e \<Rightarrow> Inl e
         | Inr x \<Rightarrow> transition_registered env m db i ctx ''submitted'' ''succeeded''
             (no_args\<lparr>ta_platform_video_id := Some video,
                ta_receipt_json := Some (receipt_for (yo_title x) (yo_privacy x) video receipt)\<rparr>)))"

definition mark_terminal ::
  "upload_env \<Rightarrow> moment \<Rightarrow> upload_db \<Rightarrow> uuid \<Rightarrow> string \<Rightarrow> string \<Rightarrow> UploadOperationContext \<Rightarrow> upload_error + upload_db \<times> YouTubeUploadOperation" where
  "mark_terminal env m db i status message ctx =
     (case operation db i of
        Inl e \<Rightarrow> Inl e
      | Inr x \<Rightarrow> transition_registered env m db i ctx (yo_status x) status (no_args\<lparr>ta_error_message := Some message\<rparr>))"

end
