(* ===== verification/Upload_Handler.thy ===== *)
theory Upload_Handler
  imports Uploads
begin

text \<open>
  The upload handler of the workers, \<open>worker/handlers/youtube_upload.py\<close>, as a program counter that
  moves by one call of the store or one request to the manager at a time, so that other workers, the
  services and a crash can come between any two. The pre-receipt drill is not armed. What the
  surroundings decide in a step is a \<open>stimulus\<close>: whether the node has been cancelled, whether the lease
  could be renewed, what the manager answers. A handler enters with the context that
  \<open>_operation_context\<close> built from the claim of its task; copying the media file is left out.
\<close>

section \<open>What the surroundings decide\<close>

text \<open>
  The outcome of a request: the surrounding task is aborted or the process interrupted, an exception with the note whether
  \<open>_is_recoverable_poll_failure\<close> holds of it, a status \<open>raise_for_status\<close> refuses, or a body, \<open>None\<close>
  when it is not JSON.
\<close>

datatype http_answer = Aborted | Interrupted | NoAnswer bool | Refused nat | Answered "pyval option"

text \<open>The transition that records the task of the manager runs to its end, or the wait for it is cancelled
  or times out, before or after it was committed.\<close>

datatype persist_outcome = Persist_runs | Persist_cancelled bool | Persist_timed_out bool

record stimulus =
  st_cancelled :: bool
  st_refreshed :: bool
  st_file_ok :: bool
  st_timed_out :: bool
  st_answer :: http_answer
  st_persist :: persist_outcome

datatype handler_pc =
    Start UploadOperationContext
  | Claimed UploadOperationContext YouTubeUploadOperation string
  | Fenced UploadOperationContext YouTubeUploadOperation
  | Preflighted UploadOperationContext YouTubeUploadOperation
  | Attempted UploadOperationContext YouTubeUploadOperation
  | Refenced UploadOperationContext YouTubeUploadOperation
  | Post_fenced UploadOperationContext YouTubeUploadOperation
  | Posted UploadOperationContext YouTubeUploadOperation
  | Submitting UploadOperationContext YouTubeUploadOperation string
  | Submitted UploadOperationContext YouTubeUploadOperation string
  | Polling UploadOperationContext YouTubeUploadOperation string
  | Completing UploadOperationContext YouTubeUploadOperation string config
  | Marking UploadOperationContext YouTubeUploadOperation string string
  | Done "upload_error + config"

abbreviation uncertain :: "UploadOperationContext \<Rightarrow> YouTubeUploadOperation \<Rightarrow> string \<Rightarrow> handler_pc" where
  "uncertain ctx x message \<equiv> Marking ctx x ''uncertain'' message"

section \<open>Checks on answers\<close>

definition UPLOAD_INSERT_COST :: rat where
  "UPLOAD_INSERT_COST = 1600"

definition DEFINITE_UPLOAD_REJECTION_STATUSES :: "nat list" where
  "DEFINITE_UPLOAD_REJECTION_STATUSES = [400, 401, 403, 404, 413, 415, 422]"

definition finite_nonnegative :: "pyval \<Rightarrow> rat option" where
  "finite_nonnegative v =
     (case v of
        PInt n \<Rightarrow> (case py_float (PInt n) of Inr (FFin q) \<Rightarrow> if 0 \<le> q then Some q else None | _ \<Rightarrow> None)
      | PFloat (FFin q) \<Rightarrow> if 0 \<le> q then Some q else None
      | _ \<Rightarrow> None)"

definition validate_auth_and_quota :: "config \<Rightarrow> bool" where
  "validate_auth_and_quota payload \<longleftrightarrow>
     dict_get_or payload ''authenticated'' PNone = PBool True
     \<and> (case dict_get_or payload ''quota_estimate'' PNone of
          PDict quota \<Rightarrow>
            (case (finite_nonnegative (dict_get_or quota ''daily_limit'' PNone),
                   finite_nonnegative (dict_get_or quota ''estimated_units_used'' PNone),
                   finite_nonnegative (dict_get_or quota ''estimated_units_remaining'' PNone),
                   finite_nonnegative (dict_get_or quota ''upload_cost_per_request'' PNone)) of
               (Some daily_limit, Some _, Some remaining, Some upload_cost) \<Rightarrow>
                 upload_cost \<le> daily_limit \<and> UPLOAD_INSERT_COST \<le> upload_cost \<and> upload_cost \<le> remaining
             | _ \<Rightarrow> False)
        | _ \<Rightarrow> False)"

definition object_json :: "pyval option \<Rightarrow> config option" where
  "object_json body = (case body of Some (PDict d) \<Rightarrow> Some d | _ \<Rightarrow> None)"

definition require_canonical_manager_task_id :: "pyval \<Rightarrow> string option" where
  "require_canonical_manager_task_id v = (case v of PStr s \<Rightarrow> if is_canonical_uuid s then Some s else None | _ \<Rightarrow> None)"

definition watch_url :: "string \<Rightarrow> string" where
  "watch_url video = ''https://www.youtube.com/watch?v='' @ video"

text \<open>The video of a completed upload with the result object, when its fields agree, or what is wrong.\<close>

definition completed_video :: "config \<Rightarrow> string + string \<times> config" where
  "completed_video payload =
     (case dict_get_or payload ''result'' PNone of
        PDict result \<Rightarrow>
          (case (dict_get_or result ''video_id'' PNone, dict_get_or result ''url'' PNone) of
             (PStr v, PStr url) \<Rightarrow>
               if py_strip v \<noteq> [] \<and> url = watch_url (py_strip v) then Inr (py_strip v, result)
               else Inl ''YouTubeManager completed upload has invalid result fields''
           | _ \<Rightarrow> Inl ''YouTubeManager completed upload has invalid result fields'')
      | _ \<Rightarrow> Inl ''YouTubeManager completed upload has no result object'')"

definition copy_durable_receipt :: "bool \<Rightarrow> YouTubeUploadOperation \<Rightarrow> upload_error + config" where
  "copy_durable_receipt file_ok x =
     (case dict_get_or (yo_receipt_json x) ''video_id'' PNone of
        PStr v \<Rightarrow>
          if py_strip v = [] then Inl (HandlerError ''youtube upload operation has an invalid durable receipt'')
          else if \<not> file_ok then Inl (HandlerError ''file'')
          else Inr [(''youtube'', PDict (yo_receipt_json x))]
      | _ \<Rightarrow> Inl (HandlerError ''youtube upload operation has an invalid durable receipt''))"

section \<open>Steps\<close>

type_synonym handler_outcome = "upload_db \<times> handler_pc \<times> uuid list"

definition step_claim :: "upload_env \<Rightarrow> moment \<Rightarrow> stimulus \<Rightarrow> upload_db \<Rightarrow> UploadOperationContext \<Rightarrow> handler_outcome" where
  "step_claim env m st db ctx =
     (if st_cancelled st then (db, Done (Inl HandlerCancelled), [])
      else (case claim env m db ctx of
              Inl e \<Rightarrow> (db, Done (Inl e), [])
            | Inr (db', action, x) \<Rightarrow> (db', Claimed ctx x action, [])))"

text \<open>After the claim: the hash is compared, then the action decides. To submit, the lease is renewed and the
  submission fence is opened.\<close>

definition step_route ::
  "upload_env \<Rightarrow> moment \<Rightarrow> stimulus \<Rightarrow> upload_db \<Rightarrow> UploadOperationContext \<Rightarrow> YouTubeUploadOperation \<Rightarrow> string \<Rightarrow> handler_outcome" where
  "step_route env m st db ctx x action =
     (if st_cancelled st then (db, Done (Inl HandlerCancelled), [])
      else if action \<noteq> ''block'' \<and> yo_content_sha256 x \<noteq> uc_content_sha256 ctx
      then (if action = ''resume''
            then (db, uncertain ctx x ''youtube upload snapshot content hash does not match the claimed operation'', [])
            else (db, Done (Inl (HandlerError ''youtube upload snapshot content hash does not match the claimed operation'')), []))
      else if action = ''replay'' then (db, Done (copy_durable_receipt (st_file_ok st) x), [])
      else if action = ''block'' then (db, Done (Inl (HandlerError ''youtube upload operation cannot safely be retried'')), [])
      else if action = ''submit''
      then (if \<not> st_refreshed st then (db, Done (Inl (HandlerError ''worker lease could not be renewed'')), [])
            else (case require_registered_submission_authority env m ctx of
                    Inl e \<Rightarrow> (db, Done (Inl e), []) | Inr _ \<Rightarrow> (db, Fenced ctx x, [])))
      else if action = ''resume''
      then (case canonical_manager_task_id (yo_manager_task_id x) of
              None \<Rightarrow> (db, uncertain ctx x ''submitted operation has no canonical manager task'', [])
            | Some t \<Rightarrow> (db, Polling ctx x t, []))
      else (db, Done (Inl (HandlerError ''unknown youtube upload operation action'')), []))"

definition step_preflight :: "stimulus \<Rightarrow> upload_db \<Rightarrow> UploadOperationContext \<Rightarrow> YouTubeUploadOperation \<Rightarrow> handler_outcome" where
  "step_preflight st db ctx x =
     (let failed = (db, Marking ctx x ''failed'' ''YouTubeManager authentication or quota preflight failed'', []) in
      case st_answer st of
        Aborted \<Rightarrow> (db, Done (Inl HandlerCancelled), [])
      | Interrupted \<Rightarrow> (db, Done (Inl HandlerCancelled), [])
      | NoAnswer _ \<Rightarrow> failed
      | Refused _ \<Rightarrow> if st_cancelled st then (db, Done (Inl HandlerCancelled), []) else failed
      | Answered body \<Rightarrow>
          if st_cancelled st then (db, Done (Inl HandlerCancelled), [])
          else (case object_json body of
                  None \<Rightarrow> failed
                | Some payload \<Rightarrow> if validate_auth_and_quota payload then (db, Preflighted ctx x, []) else failed))"

definition step_attempt ::
  "upload_env \<Rightarrow> moment \<Rightarrow> stimulus \<Rightarrow> upload_db \<Rightarrow> UploadOperationContext \<Rightarrow> YouTubeUploadOperation \<Rightarrow> handler_outcome" where
  "step_attempt env m st db ctx x =
     (if st_cancelled st then (db, Done (Inl HandlerCancelled), [])
      else (case attempt_in_fence env m db (yo_id x) ctx of
              Inl e \<Rightarrow> (db, Done (Inl e), []) | Inr (db', x') \<Rightarrow> (db', Attempted ctx x', [])))"

definition step_refence ::
  "upload_env \<Rightarrow> moment \<Rightarrow> stimulus \<Rightarrow> upload_db \<Rightarrow> UploadOperationContext \<Rightarrow> YouTubeUploadOperation \<Rightarrow> handler_outcome" where
  "step_refence env m st db ctx x =
     (if \<not> st_refreshed st then (db, Done (Inl (HandlerError ''worker lease could not be renewed'')), [])
      else (case refence env m db (yo_id x) ctx of
              Inl e \<Rightarrow> (db, Done (Inl e), []) | Inr x' \<Rightarrow> (db, Refenced ctx x', [])))"

definition step_recheck ::
  "upload_env \<Rightarrow> moment \<Rightarrow> stimulus \<Rightarrow> upload_db \<Rightarrow> UploadOperationContext \<Rightarrow> YouTubeUploadOperation \<Rightarrow> handler_outcome" where
  "step_recheck env m st db ctx x =
     (if \<not> st_refreshed st then (db, Done (Inl (HandlerError ''worker lease could not be renewed'')), [])
      else (case require_registered_submission_authority env m ctx of
              Inl e \<Rightarrow> (db, Done (Inl e), []) | Inr _ \<Rightarrow> (db, Post_fenced ctx x, [])))"

text \<open>The request itself: its third component is the operation it was sent for.\<close>

definition step_post :: "stimulus \<Rightarrow> upload_db \<Rightarrow> UploadOperationContext \<Rightarrow> YouTubeUploadOperation \<Rightarrow> handler_outcome" where
  "step_post st db ctx x =
     (if st_cancelled st then (db, Done (Inl HandlerCancelled), [])
      else if \<not> st_file_ok st
      then (db, uncertain ctx x ''YouTubeManager upload submission outcome is uncertain'', [])
      else (db, Posted ctx x, [yo_id x]))"

definition step_answer :: "stimulus \<Rightarrow> upload_db \<Rightarrow> UploadOperationContext \<Rightarrow> YouTubeUploadOperation \<Rightarrow> handler_outcome" where
  "step_answer st db ctx x =
     (let unsure = (db, uncertain ctx x ''YouTubeManager upload submission outcome is uncertain'', []) in
      case st_answer st of
        Aborted \<Rightarrow> (db, uncertain ctx x ''YouTubeManager upload submission was cancelled'', [])
      | Interrupted \<Rightarrow> (db, uncertain ctx x ''YouTubeManager upload submission was interrupted'', [])
      | NoAnswer _ \<Rightarrow> unsure
      | Refused code \<Rightarrow>
          if st_cancelled st then (db, uncertain ctx x ''YouTubeManager upload submission was cancelled'', [])
          else if code \<in> set DEFINITE_UPLOAD_REJECTION_STATUSES
          then (db, Marking ctx x ''failed'' (''YouTubeManager rejected upload request with HTTP '' @ string_of_nat code), [])
          else unsure
      | Answered body \<Rightarrow>
          (case object_json body of
             None \<Rightarrow> unsure
           | Some payload \<Rightarrow>
               (case require_canonical_manager_task_id (dict_get_or payload ''task_id'' PNone) of
                  None \<Rightarrow> unsure | Some t \<Rightarrow> (db, Submitting ctx x t, []))))"

definition persist_manager_task ::
  "upload_env \<Rightarrow> moment \<Rightarrow> stimulus \<Rightarrow> upload_db \<Rightarrow> UploadOperationContext \<Rightarrow> YouTubeUploadOperation \<Rightarrow> string \<Rightarrow> handler_outcome" where
  "persist_manager_task env m st db ctx x t =
     (let unsure = uncertain ctx x ''YouTubeManager upload submission outcome is uncertain'';
          cancelled = uncertain ctx x ''YouTubeManager upload submission was cancelled after manager task creation'';
          result = mark_submitted env m db (yo_id x) t ctx;
          db1 = (\<lambda>committed. case result of Inl _ \<Rightarrow> db | Inr (db', _) \<Rightarrow> if committed then db' else db)
      in case st_persist st of
           Persist_runs \<Rightarrow> (case result of Inl _ \<Rightarrow> (db, unsure, []) | Inr (db', _) \<Rightarrow> (db', Submitted ctx x t, []))
         | Persist_cancelled committed \<Rightarrow> (db1 committed, cancelled, [])
         | Persist_timed_out committed \<Rightarrow> (db1 committed, unsure, []))"

definition step_submitted :: "stimulus \<Rightarrow> upload_db \<Rightarrow> UploadOperationContext \<Rightarrow> YouTubeUploadOperation \<Rightarrow> string \<Rightarrow> handler_outcome" where
  "step_submitted st db ctx x t =
     (if st_cancelled st then (db, uncertain ctx x ''YouTubeManager upload submission was cancelled'', [])
      else (db, Polling ctx x t, []))"

text \<open>One turn of the polling loop. A status that cannot be hashed ends the test of membership with an
  exception.\<close>

definition step_poll :: "stimulus \<Rightarrow> upload_db \<Rightarrow> UploadOperationContext \<Rightarrow> YouTubeUploadOperation \<Rightarrow> string \<Rightarrow> handler_outcome" where
  "step_poll st db ctx x t =
     (let unsure = (db, uncertain ctx x ''YouTubeManager upload status is uncertain'', []) in
      if st_cancelled st then (db, uncertain ctx x ''YouTubeManager upload polling was cancelled'', [])
      else
        (case st_answer st of
           Aborted \<Rightarrow> (db, uncertain ctx x ''YouTubeManager upload polling was cancelled'', [])
         | Interrupted \<Rightarrow> (db, uncertain ctx x ''YouTubeManager upload polling was interrupted'', [])
         | NoAnswer recoverable \<Rightarrow>
             if recoverable then (db, Done (Inl (HandlerError ''YouTubeManager upload status is uncertain'')), []) else unsure
         | Refused _ \<Rightarrow> unsure
         | Answered body \<Rightarrow>
             (case object_json body of
                None \<Rightarrow> unsure
              | Some payload \<Rightarrow>
                  (case dict_get_or payload ''status'' PNone of
                     PStr s \<Rightarrow>
                       if s = ''completed''
                       then (case completed_video payload of
                               Inl message \<Rightarrow> (db, uncertain ctx x message, [])
                             | Inr (v, result) \<Rightarrow> (db, Completing ctx x v result, []))
                       else if s = ''failed''
                       then (db, Marking ctx x ''failed''
                               (take 1000 (case dict_get_or payload ''error'' PNone of
                                             PStr e \<Rightarrow> py_strip e | _ \<Rightarrow> ''manager reported failure'')), [])
                       else if s \<in> {''pending'', ''uploading''}
                       then (if st_timed_out st then (db, Done (Inl (HandlerError ''YouTubeManager upload polling timed out'')), [])
                             else (db, Polling ctx x t, []))
                       else (db, uncertain ctx x ''YouTubeManager returned an unknown upload status'', [])
                   | PList _ \<Rightarrow> (db, Done (Inl (HandlerError ''unhashable status'')), [])
                   | PDict _ \<Rightarrow> (db, Done (Inl (HandlerError ''unhashable status'')), [])
                   | _ \<Rightarrow> (db, uncertain ctx x ''YouTubeManager returned an unknown upload status'', [])))))"

definition record_completion ::
  "upload_env \<Rightarrow> moment \<Rightarrow> stimulus \<Rightarrow> upload_db \<Rightarrow> UploadOperationContext \<Rightarrow> YouTubeUploadOperation \<Rightarrow> string \<Rightarrow> config \<Rightarrow> handler_outcome" where
  "record_completion env m st db ctx x v result =
     (case mark_succeeded env m db (yo_id x) v result ctx of
        Inl _ \<Rightarrow> (db, uncertain ctx x ''YouTubeManager completion could not be recorded durably'', [])
      | Inr (db', x') \<Rightarrow>
          (db', Done (if st_cancelled st then Inl HandlerCancelled else copy_durable_receipt (st_file_ok st) x'), []))"

text \<open>The operation is marked failed or uncertain, and the handler raises.\<close>

definition step_mark ::
  "upload_env \<Rightarrow> moment \<Rightarrow> upload_db \<Rightarrow> UploadOperationContext \<Rightarrow> YouTubeUploadOperation \<Rightarrow> string \<Rightarrow> string \<Rightarrow> handler_outcome" where
  "step_mark env m db ctx x status message =
     (case mark_terminal env m db (yo_id x) status message ctx of
        Inl e \<Rightarrow> (db, Done (Inl e), []) | Inr (db', _) \<Rightarrow> (db', Done (Inl (HandlerError message)), []))"

fun handler_step :: "upload_env \<Rightarrow> moment \<Rightarrow> stimulus \<Rightarrow> upload_db \<Rightarrow> handler_pc \<Rightarrow> handler_outcome" where
  "handler_step env m st db (Start ctx) = step_claim env m st db ctx"
| "handler_step env m st db (Claimed ctx x action) = step_route env m st db ctx x action"
| "handler_step env m st db (Fenced ctx x) = step_preflight st db ctx x"
| "handler_step env m st db (Preflighted ctx x) = step_attempt env m st db ctx x"
| "handler_step env m st db (Attempted ctx x) = step_refence env m st db ctx x"
| "handler_step env m st db (Refenced ctx x) = step_recheck env m st db ctx x"
| "handler_step env m st db (Post_fenced ctx x) = step_post st db ctx x"
| "handler_step env m st db (Posted ctx x) = step_answer st db ctx x"
| "handler_step env m st db (Submitting ctx x t) = persist_manager_task env m st db ctx x t"
| "handler_step env m st db (Submitted ctx x t) = step_submitted st db ctx x t"
| "handler_step env m st db (Polling ctx x t) = step_poll st db ctx x t"
| "handler_step env m st db (Completing ctx x v result) = record_completion env m st db ctx x v result"
| "handler_step env m st db (Marking ctx x status message) = step_mark env m db ctx x status message"
| "handler_step env m st db (Done r) = (db, Done r, [])"

end
