(* ===== verification/Upload_Runs.thy ===== *)
theory Upload_Runs
  imports Upload_Handler
begin

text \<open>
  Runs of any number of upload handlers on one table of operations. A handler may start with any context,
  move by \<open>handler_step\<close>, or vanish; the other services may rewrite the rest of the database, except the
  rows a handler holds locked in its open transaction; the deletion of a job or of a production task
  reaches the table through its foreign keys. The third component is the list of the requests sent to
  the manager.
\<close>

section \<open>The system\<close>

record upload_system =
  us_world :: world
  us_db :: upload_db
  us_procs :: "nat \<Rightarrow> handler_pc option"
  us_posts :: "uuid list"

text \<open>
  The claim and the operation for which \<open>vp_require_worker_node_claim\<close> has locked the schedule, the job
  and the node in the transaction a handler keeps open. The transaction of the fence ends with the attempt
  and is opened again.
\<close>

fun fence_held :: "handler_pc \<Rightarrow> (NodeExecutionClaim \<times> YouTubeUploadOperation) option" where
  "fence_held (Refenced ctx x) = Some (uc_execution_claim ctx, x)"
| "fence_held (Post_fenced ctx x) = Some (uc_execution_claim ctx, x)"
| "fence_held (Posted ctx x) = Some (uc_execution_claim ctx, x)"
| "fence_held (Submitting ctx x t) = Some (uc_execution_claim ctx, x)"
| "fence_held _ = None"

definition job_row :: "world \<Rightarrow> uuid \<Rightarrow> Job option" where
  "job_row w jid = map_option (\<lambda>j. j\<lparr>node_executions := []\<rparr>) (get_job w jid)"

definition rows_kept :: "world \<Rightarrow> world \<Rightarrow> YouTubeUploadOperation \<Rightarrow> bool" where
  "rows_kept w w' x \<longleftrightarrow> job_row w' (yo_job_id x) = job_row w (yo_job_id x)
     \<and> row_get ne_id (all_executions w') (yo_node_execution_id x) = row_get ne_id (all_executions w) (yo_node_execution_id x)
     \<and> row_get service_name (schedules w') ''videoprocess'' = row_get service_name (schedules w) ''videoprocess''"

definition delete_job_operations :: "upload_db \<Rightarrow> uuid \<Rightarrow> upload_db" where
  "delete_job_operations db jid = db\<lparr>upload_operations := filter (\<lambda>x. yo_job_id x \<noteq> jid) (upload_operations db)\<rparr>"

definition unlinked :: "uuid \<Rightarrow> YouTubeUploadOperation \<Rightarrow> YouTubeUploadOperation" where
  "unlinked tid x = (if yo_production_task_id x = Some tid then x\<lparr>yo_production_task_id := None\<rparr> else x)"

definition unlink_task :: "upload_db \<Rightarrow> uuid \<Rightarrow> upload_db" where
  "unlink_task db tid = db\<lparr>upload_operations := map (unlinked tid) (upload_operations db)\<rparr>"

inductive upload_step :: "upload_env \<Rightarrow> upload_system \<Rightarrow> upload_system \<Rightarrow> bool" for env where
  up_start: "us_procs s p = None \<Longrightarrow> upload_step env s (s\<lparr>us_procs := (us_procs s)(p \<mapsto> Start ctx)\<rparr>)"
| up_move: "us_procs s p = Some pc \<Longrightarrow> m_world m = us_world s \<Longrightarrow> handler_step env m st (us_db s) pc = (db', pc', ps)
    \<Longrightarrow> upload_step env s (s\<lparr>us_db := db', us_procs := (us_procs s)(p \<mapsto> pc'), us_posts := us_posts s @ ps\<rparr>)"
| up_crash: "upload_step env s (s\<lparr>us_procs := (us_procs s)(p := None)\<rparr>)"
| up_other: "(\<And>p pc c x. us_procs s p = Some pc \<Longrightarrow> fence_held pc = Some (c, x) \<Longrightarrow> rows_kept (us_world s) w' x)
    \<Longrightarrow> upload_step env s (s\<lparr>us_world := w'\<rparr>)"
| up_delete: "upload_step env s (s\<lparr>us_db := delete_job_operations (us_db s) jid\<rparr>)"
| up_unlink: "upload_step env s (s\<lparr>us_db := unlink_task (us_db s) tid\<rparr>)"

definition upload_initial :: "world \<Rightarrow> upload_system" where
  "upload_initial w = \<lparr>us_world = w, us_db = \<lparr>upload_operations = [], next_operation = 0\<rparr>, us_procs = (\<lambda>_. None), us_posts = []\<rparr>"

section \<open>What the store can do to the table\<close>

definition evolves :: "YouTubeUploadOperation \<Rightarrow> YouTubeUploadOperation \<Rightarrow> bool" where
  "evolves old new \<longleftrightarrow> yo_id new = yo_id old \<and> yo_node_execution_id new = yo_node_execution_id old
     \<and> yo_production_task_id new = yo_production_task_id old \<and> yo_status old \<in> {''reserved'', ''submitted''}
     \<and> (yo_request_attempted_at old \<noteq> None \<longrightarrow> yo_request_attempted_at new \<noteq> None)"

definition video_free :: "upload_db \<Rightarrow> YouTubeUploadOperation \<Rightarrow> bool" where
  "video_free db new \<longleftrightarrow> yo_platform_video_id new = None
     \<or> (\<forall>y\<in>set (upload_operations db). yo_id y \<noteq> yo_id new \<longrightarrow> yo_platform_video_id y \<noteq> yo_platform_video_id new)"

inductive db_change :: "upload_db \<Rightarrow> upload_db \<Rightarrow> bool" where
  dc_same: "db_change db db"
| dc_insert: "yo_id x = next_operation db \<Longrightarrow> yo_node_execution_id x \<notin> yo_node_execution_id ` set (upload_operations db)
    \<Longrightarrow> yo_production_task_id x = None \<or> yo_production_task_id x \<notin> yo_production_task_id ` set (upload_operations db)
    \<Longrightarrow> yo_platform_video_id x = None
    \<Longrightarrow> db_change db (db\<lparr>upload_operations := upload_operations db @ [x], next_operation := next_operation db + 1\<rparr>)"
| dc_update: "get_operation db (yo_id new) = Some old \<Longrightarrow> evolves old new \<Longrightarrow> video_free db new
    \<Longrightarrow> db_change db (put_operation db new)"

lemma get_operation_id: "get_operation db i = Some x \<Longrightarrow> yo_id x = i"
  unfolding get_operation_def by (rule row_get_key)

interpretation operation_rows: row_table yo_id get_operation put_operation
  by unfold_locales (auto simp: get_operation_def put_operation_def row_get_put dest: row_get_key)

lemma update_operationD:
  assumes "update_operation env db old new = Inr db'"
  shows "db' = put_operation db new \<and> video_free db new"
  using assms by (auto simp: update_operation_def video_free_def list_ex_iff split: if_splits)

lemma operation_transition_cases:
  assumes "operation_transition env now db x transition a = Inr db'"
  obtains (attempting) "transition = ''attempting''" "yo_status x = ''reserved''" "yo_request_attempted_at x = None"
      "update_operation env db x (x\<lparr>yo_request_attempted_at := Some now\<rparr>) = Inr db'"
    | (fence) "transition = ''fence''" "yo_request_attempted_at x \<noteq> None" "db' = db"
    | (other) new where "transition \<noteq> ''attempting''" "transition \<noteq> ''fence''" "evolves x new" "update_operation env db x new = Inr db'"
proof -
  let ?at = "case yo_request_attempted_at x of None \<Rightarrow> Some now | Some t \<Rightarrow> Some t"
  have at: "?at \<noteq> None" by (simp split: option.split)
  note d = assms [unfolded operation_transition_def]
  show thesis
  proof (cases "transition = ''attempting'' \<and> yo_status x = ''reserved'' \<and> yo_request_attempted_at x = None")
    case True
    then show thesis using d attempting by (simp split: sum.splits)
  next
    case f1: False
    show thesis
    proof (cases "transition = ''fence'' \<and> yo_status x = ''reserved'' \<and> yo_request_attempted_at x \<noteq> None
        \<and> yo_manager_task_id x = None \<and> a = no_args")
      case True
      then show thesis using d fence by (simp split: sum.splits)
    next
      case f2: False
      note d2 = d [unfolded if_not_P [OF f1] if_not_P [OF f2]]
      show thesis
      proof (cases "transition = ''submitted'' \<and> yo_status x = ''reserved'' \<and> ta_manager_task_id a \<noteq> None")
        case True
        then have "update_operation env db x (x\<lparr>yo_status := ''submitted'', yo_manager_task_id := ta_manager_task_id a,
            yo_request_attempted_at := ?at, yo_error_message := None\<rparr>) = Inr db'" using d2 by simp
        then show thesis using True at by (intro other) (auto simp: evolves_def)
      next
        case f3: False
        note d3 = d2 [unfolded if_not_P [OF f3]]
        show thesis
        proof (cases "transition = ''succeeded'' \<and> yo_status x = ''submitted'' \<and> ta_platform_video_id a \<noteq> None \<and> ta_receipt_json a \<noteq> None")
          case True
          then have "update_operation env db x (x\<lparr>yo_status := ''succeeded'', yo_platform_video_id := ta_platform_video_id a,
              yo_receipt_json := the (ta_receipt_json a), yo_completed_at := Some now, yo_error_message := None\<rparr>) = Inr db'" using d3 by simp
          then show thesis using True by (intro other) (auto simp: evolves_def)
        next
          case False
          note d4 = d3 [unfolded if_not_P [OF False]]
          then have c: "transition \<in> {''failed'', ''uncertain''} \<and> yo_status x \<in> {''reserved'', ''submitted''} \<and> ta_error_message a \<noteq> None"
            by (simp split: if_splits)
          then have "update_operation env db x (x\<lparr>yo_status := transition, yo_error_message := ta_error_message a\<rparr>) = Inr db'"
            using d4 by simp
          then show thesis using c by (intro other) (auto simp: evolves_def)
        qed
      qed
    qed
  qed
qed

lemma sql_checks_ok: "sql_checks cs = Inr () \<longleftrightarrow> list_all fst cs"
  by (induction cs) auto

lemma claim_permits:
  assumes "vp_require_worker_node_claim env m rid epoch worker started jid nid = Inr ()"
  shows "schedule_permits (m_world m) jid" and "job_permits (m_world m) jid"
    and "node_permits (m_world m) rid epoch worker started jid nid"
  using assms by (auto simp: vp_require_worker_node_claim_def sql_checks_ok Let_def simp del: sql_checks.simps split: sum.splits)

definition claim_allows :: "upload_env \<Rightarrow> moment \<Rightarrow> NodeExecutionClaim \<Rightarrow> YouTubeUploadOperation \<Rightarrow> bool" where
  "claim_allows env m c x \<longleftrightarrow>
     (case (claim_worker_registration_id c, claim_worker_lease_epoch c) of
        (Some rid, Some epoch) \<Rightarrow>
          vp_require_worker_node_claim env m rid epoch (claim_worker_id c) (claim_started_at c)
            (yo_job_id x) (yo_node_execution_id x) = Inr ()
      | _ \<Rightarrow> False)"

lemma transition_registeredD:
  assumes "transition_registered env m db i ctx expected transition a = Inr (db', x)"
  obtains old where "get_operation db i = Some old" and "yo_status old = expected"
    and "claim_allows env m (uc_execution_claim ctx) old"
    and "operation_transition env (m_now m) db old transition a = Inr db'" and "get_operation db' i = Some x"
proof -
  let ?c = "uc_execution_claim ctx"
  obtain rid where r: "claim_worker_registration_id ?c = Some rid"
    using assms by (cases "claim_worker_registration_id ?c") (simp_all add: transition_registered_def Let_def)
  obtain epoch where e: "claim_worker_lease_epoch ?c = Some epoch"
    using assms r by (cases "claim_worker_lease_epoch ?c") (simp_all add: transition_registered_def Let_def)
  obtain db1 j where v: "vp_transition_worker_youtube_upload env m db rid epoch (claim_worker_id ?c) (claim_started_at ?c)
      i expected transition a = Inr (db1, j)"
    using assms r e by (auto simp: transition_registered_def Let_def split: sum.splits)
  have x: "get_operation db' i = Some x" "db' = db1"
    using assms r e v by (auto simp: transition_registered_def operation_def Let_def split: if_splits option.splits)
  obtain old where o1: "get_operation db i = Some old"
    using v by (cases "get_operation db i") (auto simp: vp_transition_worker_youtube_upload_def split: sum.splits if_splits)
  have o2: "vp_require_worker_node_claim env m rid epoch (claim_worker_id ?c) (claim_started_at ?c)
      (yo_job_id old) (yo_node_execution_id old) = Inr ()" "yo_status old = expected"
    "operation_transition env (m_now m) db old transition a = Inr db1"
    using v o1 by (cases "operation_transition env (m_now m) db old transition a",
      auto simp: vp_transition_worker_youtube_upload_def split: sum.splits if_splits)+
  show thesis using that [OF o1 o2(2)] r e o2(1,3) x by (simp add: claim_allows_def)
qed

lemma transition_change:
  assumes "transition_registered env m db i ctx expected transition a = Inr (db', x)"
  shows "db_change db db'" and "yo_id x = i"
proof -
  obtain old where o: "get_operation db i = Some old" "operation_transition env (m_now m) db old transition a = Inr db'"
    and x: "get_operation db' i = Some x"
    using assms by (rule transition_registeredD)
  show "yo_id x = i" using x by (rule get_operation_id)
  have i: "yo_id old = i" using o(1) by (rule get_operation_id)
  from o(2) show "db_change db db'"
  proof (cases rule: operation_transition_cases)
    case attempting
    then show ?thesis using update_operationD [OF attempting(4)] o(1) i
      by (auto simp: evolves_def intro!: dc_update [where old = old])
  next
    case fence
    then show ?thesis by (simp add: dc_same)
  next
    case (other new)
    then show ?thesis using update_operationD [OF other(4)] o(1) i
      by (auto simp: evolves_def intro!: dc_update [where old = old])
  qed
qed

lemma insert_change:
  assumes "insert_operation env db (reserved_operation (next_operation db) t ctx) = Inr db'"
  shows "db_change db db'"
proof -
  let ?x = "reserved_operation (next_operation db) t ctx"
  have new: "db_change db (db\<lparr>upload_operations := upload_operations db @ [?x], next_operation := next_operation db + 1\<rparr>)"
    if "\<not> list_ex (\<lambda>y. yo_node_execution_id y = yo_node_execution_id ?x) (upload_operations db)"
      and "yo_production_task_id ?x = None \<or> \<not> list_ex (\<lambda>y. yo_production_task_id y = yo_production_task_id ?x) (upload_operations db)"
    using that by (intro dc_insert) (auto simp: reserved_operation_def list_ex_iff)
  show ?thesis using assms new by (auto simp: insert_operation_def dc_same split: if_splits)
qed

lemma claim_change:
  assumes "claim env m db ctx = Inr (db', action, x)"
  shows "db_change db db'"
proof -
  obtain rid epoch i where "vp_reserve_worker_youtube_upload env m db rid epoch ctx = Inr (db', i)"
    using assms by (auto simp: claim_def reserve_registered_def operation_def Let_def split: option.splits sum.splits)
  then obtain t where "insert_operation env db (reserved_operation (next_operation db) t ctx) = Inr db'"
    unfolding vp_reserve_worker_youtube_upload_def Let_def
    by (auto simp del: sql_checks.simps split: sum.splits option.splits)
  then show ?thesis by (rule insert_change)
qed

section \<open>Attempts\<close>

text \<open>An identifier that can no longer be attempted: it has been given out, and its row, if it is still there,
  carries the time of its attempt.\<close>

definition spent :: "upload_db \<Rightarrow> uuid \<Rightarrow> bool" where
  "spent db i \<longleftrightarrow> i < next_operation db \<and> (\<forall>x. get_operation db i = Some x \<longrightarrow> yo_request_attempted_at x \<noteq> None)"

definition unique_some :: "('r \<Rightarrow> 'k option) \<Rightarrow> 'r list \<Rightarrow> bool" where
  "unique_some key rows \<longleftrightarrow> (\<forall>x\<in>set rows. \<forall>y\<in>set rows. key x \<noteq> None \<and> key x = key y \<longrightarrow> x = y)"

definition rows_ok :: "upload_db \<Rightarrow> bool" where
  "rows_ok db \<longleftrightarrow> distinct (map yo_id (upload_operations db)) \<and> (\<forall>x\<in>set (upload_operations db). yo_id x < next_operation db)
     \<and> distinct (map yo_node_execution_id (upload_operations db))
     \<and> unique_some yo_production_task_id (upload_operations db) \<and> unique_some yo_platform_video_id (upload_operations db)"

lemma get_operation_put: "get_operation (put_operation db new) i =
    (if i = yo_id new then (if get_operation db i = None then None else Some new) else get_operation db i)"
  by (rule operation_rows.get_put)

lemma spent_change:
  assumes "db_change db db'" and "spent db i"
  shows "spent db' i"
  using assms(1)
proof cases
  case dc_same
  then show ?thesis using assms(2) by simp
next
  case (dc_insert x)
  then show ?thesis using assms(2) by (auto simp: spent_def get_operation_def row_get_append split: option.splits)
next
  case (dc_update new old)
  have n: "next_operation (put_operation db new) = next_operation db" by (simp add: put_operation_def)
  show ?thesis using assms(2) dc_update by (auto simp: spent_def n get_operation_put evolves_def)
qed

lemma unique_some_put:
  assumes u: "unique_some key rows" and n: "\<And>y. y \<in> set rows \<Longrightarrow> rid y \<noteq> rid new \<Longrightarrow> key new \<noteq> None \<Longrightarrow> key y \<noteq> key new"
  shows "unique_some key (row_put rid rows new)"
  unfolding unique_some_def
proof (intro ballI impI)
  fix x y assume x: "x \<in> set (row_put rid rows new)" and y: "y \<in> set (row_put rid rows new)" and k: "key x \<noteq> None \<and> key x = key y"
  from row_put_mem [OF x] row_put_mem [OF y]
  consider "x = new" "y = new" | "x = new" "y \<in> set rows" "rid y \<noteq> rid new" | "y = new" "x \<in> set rows" "rid x \<noteq> rid new"
    | "x \<in> set rows" "y \<in> set rows" by blast
  then show "x = y"
  proof cases
    case 1 then show ?thesis by simp
  next
    case 2 then show ?thesis using n [of y] k by metis
  next
    case 3 then show ?thesis using n [of x] k by metis
  next
    case 4 then show ?thesis using u k unfolding unique_some_def by blast
  qed
qed

lemma rows_ok_update:
  assumes ok: "rows_ok db" and g: "get_operation db (yo_id new) = Some old" and e: "evolves old new" and v: "video_free db new"
  shows "rows_ok (put_operation db new)"
proof -
  let ?rows = "upload_operations db" and ?new = "row_put yo_id (upload_operations db) new"
  have d: "distinct (map yo_id ?rows)" using ok by (simp add: rows_ok_def)
  have old: "old \<in> set ?rows" using g by (simp add: get_operation_def row_get_mem)
  have mem: "y \<in> set ?new \<Longrightarrow> y = new \<or> y \<in> set ?rows \<and> yo_id y \<noteq> yo_id new" for y by (rule row_put_mem)
  have same: "map yo_node_execution_id ?new = map yo_node_execution_id ?rows"
  proof -
    have "yo_node_execution_id (if yo_id y = yo_id new then new else y) = yo_node_execution_id y" if "y \<in> set ?rows" for y
      using row_unique [OF d that old] e by (auto simp: evolves_def)
    then show ?thesis by (simp add: row_put_def)
  qed
  have t: "unique_some yo_production_task_id ?new"
  proof (rule unique_some_put)
    show "unique_some yo_production_task_id ?rows" using ok by (simp add: rows_ok_def)
    fix y assume y: "y \<in> set ?rows" "yo_id y \<noteq> yo_id new" "yo_production_task_id new \<noteq> None"
    have "y = old" if "yo_production_task_id y = yo_production_task_id new"
      using ok old y that e unfolding rows_ok_def unique_some_def by (metis evolves_def)
    then show "yo_production_task_id y \<noteq> yo_production_task_id new" using y(2) e by (auto simp: evolves_def)
  qed
  have p: "unique_some yo_platform_video_id ?new"
    by (rule unique_some_put) (use ok v in \<open>auto simp: rows_ok_def video_free_def\<close>)
  have "\<forall>y\<in>set ?new. yo_id y < next_operation db" using mem ok g old e by (fastforce simp: rows_ok_def evolves_def)
  then show ?thesis using ok t p same by (simp add: rows_ok_def put_operation_def)
qed

lemma unique_some_snoc:
  assumes u: "unique_some key rows" and n: "key x = None \<or> key x \<notin> key ` set rows"
  shows "unique_some key (rows @ [x])"
  unfolding unique_some_def
proof (intro ballI impI)
  fix a b assume a: "a \<in> set (rows @ [x])" and b: "b \<in> set (rows @ [x])" and k: "key a \<noteq> None \<and> key a = key b"
  show "a = b"
  proof (cases "a \<in> set rows \<and> b \<in> set rows")
    case True
    then show ?thesis using u k unfolding unique_some_def by blast
  next
    case False
    then consider "a = x" "b = x" | "a = x" "b \<in> set rows" | "b = x" "a \<in> set rows" using a b by auto
    then show ?thesis using k n by cases (metis image_eqI)+
  qed
qed

lemma rows_ok_insert:
  assumes ok: "rows_ok db" and i: "yo_id x = next_operation db"
    and n: "yo_node_execution_id x \<notin> yo_node_execution_id ` set (upload_operations db)"
    and t: "yo_production_task_id x = None \<or> yo_production_task_id x \<notin> yo_production_task_id ` set (upload_operations db)"
    and v: "yo_platform_video_id x = None"
  shows "rows_ok (db\<lparr>upload_operations := upload_operations db @ [x], next_operation := next_operation db + 1\<rparr>)"
proof -
  have lt: "yo_id y < next_operation db" if "y \<in> set (upload_operations db)" for y using ok that by (simp add: rows_ok_def)
  have "yo_id x \<notin> yo_id ` set (upload_operations db)" using lt i by fastforce
  moreover have "\<forall>y\<in>set (upload_operations db). yo_id y < next_operation db + 1" using lt less_SucI by fastforce
  moreover have "unique_some yo_production_task_id (upload_operations db @ [x])"
    by (rule unique_some_snoc) (use ok t in \<open>simp_all add: rows_ok_def\<close>)
  moreover have "unique_some yo_platform_video_id (upload_operations db @ [x])"
    by (rule unique_some_snoc) (use ok v in \<open>simp_all add: rows_ok_def\<close>)
  ultimately show ?thesis using ok i n by (simp add: rows_ok_def)
qed

lemma rows_ok_change: "db_change db db' \<Longrightarrow> rows_ok db \<Longrightarrow> rows_ok db'"
proof (induction rule: db_change.induct)
  case (dc_same db)
  then show ?case .
next
  case (dc_insert x db)
  show ?case by (rule rows_ok_insert [OF dc_insert.prems dc_insert.hyps])
next
  case (dc_update db new old)
  show ?case by (rule rows_ok_update [OF dc_update.prems dc_update.hyps])
qed

section \<open>Steps of a handler\<close>

text \<open>A handler between its durable attempt and the request holds the right to send it.\<close>

fun post_token :: "handler_pc \<Rightarrow> uuid option" where
  "post_token (Attempted ctx x) = Some (yo_id x)"
| "post_token (Refenced ctx x) = Some (yo_id x)"
| "post_token (Post_fenced ctx x) = Some (yo_id x)"
| "post_token _ = None"

lemma mark_submitted_change: "mark_submitted env m db i t ctx = Inr (db', x) \<Longrightarrow> db_change db db'"
  by (auto simp: mark_submitted_def split: option.splits dest: transition_change(1))

lemma mark_succeeded_change: "mark_succeeded env m db i v r ctx = Inr (db', x) \<Longrightarrow> db_change db db'"
  by (auto simp: mark_succeeded_def split: if_splits sum.splits dest: transition_change(1))

lemma mark_terminal_change: "mark_terminal env m db i s msg ctx = Inr (db', x) \<Longrightarrow> db_change db db'"
  by (auto simp: mark_terminal_def split: sum.splits dest: transition_change(1))

lemma attempt_change: "attempt_in_fence env m db i ctx = Inr (db', x) \<Longrightarrow> db_change db db'"
  by (simp add: attempt_in_fence_def transition_change(1))

text \<open>Most steps change the table as the store does, send nothing and keep at most the fence they had.\<close>

definition quiet :: "upload_db \<Rightarrow> handler_pc \<Rightarrow> handler_outcome \<Rightarrow> bool" where
  "quiet db pc r \<longleftrightarrow> (\<exists>db' pc'. r = (db', pc', []) \<and> db_change db db' \<and> post_token pc' = None
     \<and> (fence_held pc' = None \<or> fence_held pc' = fence_held pc))"

lemma quiet_same [simp]:
  "quiet db pc (db, pc', []) \<longleftrightarrow> post_token pc' = None \<and> (fence_held pc' = None \<or> fence_held pc' = fence_held pc)"
  by (auto simp: quiet_def dc_same)

lemma quiet_change:
  "db_change db db' \<Longrightarrow> quiet db pc (db', pc', []) \<longleftrightarrow> post_token pc' = None \<and> (fence_held pc' = None \<or> fence_held pc' = fence_held pc)"
  by (auto simp: quiet_def)

lemma step_claim_quiet: "quiet db (Start ctx) (step_claim env m st db ctx)"
  unfolding step_claim_def by (auto simp: quiet_change claim_change split: sum.split prod.split)

lemma step_route_quiet: "quiet db (Claimed ctx x action) (step_route env m st db ctx x action)"
  unfolding step_route_def by (simp split: sum.split option.split)

lemma step_preflight_quiet: "quiet db (Fenced ctx x) (step_preflight st db ctx x)"
  unfolding step_preflight_def Let_def by (simp split: http_answer.split option.split)

lemma step_answer_quiet: "quiet db (Posted ctx x) (step_answer st db ctx x)"
  unfolding step_answer_def Let_def by (simp split: http_answer.split option.split)

lemma persist_quiet: "quiet db (Submitting ctx x t) (persist_manager_task env m st db ctx x t)"
proof (cases "mark_submitted env m db (yo_id x) t ctx")
  case (Inl e)
  then show ?thesis unfolding persist_manager_task_def Let_def by (simp split: persist_outcome.split)
next
  case (Inr r)
  obtain db' x' where r: "r = (db', x')" by (rule prod.exhaust)
  show ?thesis unfolding persist_manager_task_def Let_def Inr r
    by (simp add: quiet_change mark_submitted_change [OF Inr [unfolded r]] split: persist_outcome.split)
qed

lemma step_submitted_quiet: "quiet db (Submitted ctx x t) (step_submitted st db ctx x t)"
  unfolding step_submitted_def by simp

lemma step_poll_quiet: "quiet db (Polling ctx x t) (step_poll st db ctx x t)"
proof (cases "st_cancelled st")
  case True
  then show ?thesis by (simp add: step_poll_def Let_def)
next
  case go: False
  show ?thesis
  proof (cases "st_answer st")
    case (Answered body)
    show ?thesis
    proof (cases "object_json body")
      case None
      then show ?thesis using go Answered by (simp add: step_poll_def Let_def)
    next
      case (Some payload)
      note run = step_poll_def [of st db ctx x t, unfolded Let_def if_not_P [OF go] Answered http_answer.case Some option.case]
      show ?thesis
      proof (cases "dict_get_or payload ''status'' PNone")
        case (PStr s)
        show ?thesis unfolding run PStr pyval.case
          by (cases "completed_video payload") (simp_all split: prod.split)
      qed (unfold run, simp_all)
    qed
  qed (use go in \<open>simp_all add: step_poll_def Let_def\<close>)
qed

lemma record_completion_quiet: "quiet db (Completing ctx x v r) (record_completion env m st db ctx x v r)"
  unfolding record_completion_def by (auto simp: quiet_change mark_succeeded_change split: sum.split prod.split)

lemma step_mark_quiet: "quiet db (Marking ctx x s msg) (step_mark env m db ctx x s msg)"
  unfolding step_mark_def by (auto simp: quiet_change mark_terminal_change split: sum.split prod.split)

text \<open>The attempt is durable and happens once; the fence is taken again for the same row.\<close>

lemma attempt_in_fenceD:
  assumes "attempt_in_fence env m db i ctx = Inr (db', x)"
  obtains old where "get_operation db i = Some old" and "yo_request_attempted_at old = None"
    and "get_operation db' i = Some x" and "yo_request_attempted_at x \<noteq> None"
proof -
  obtain old where o: "get_operation db i = Some old" "operation_transition env (m_now m) db old ''attempting'' no_args = Inr db'"
    and x: "get_operation db' i = Some x"
    using assms [unfolded attempt_in_fence_def] by (rule transition_registeredD)
  from o(2) show thesis
  proof (cases rule: operation_transition_cases)
    case attempting
    have "x = old\<lparr>yo_request_attempted_at := Some (m_now m)\<rparr>"
      using update_operationD [OF attempting(4)] x o(1) get_operation_id [OF o(1)] by (simp add: get_operation_put)
    then show thesis using that [OF o(1) attempting(3) x] by simp
  qed simp_all
qed

lemma refenceD:
  assumes "refence env m db i ctx = Inr x"
  shows "yo_id x = i" and "claim_allows env m (uc_execution_claim ctx) x"
proof -
  obtain db' where t: "transition_registered env m db i ctx ''reserved'' ''fence'' no_args = Inr (db', x)"
    using assms by (cases "transition_registered env m db i ctx ''reserved'' ''fence'' no_args")
      (auto simp: refence_def split: sum.splits)
  then obtain old where o: "get_operation db i = Some old" "claim_allows env m (uc_execution_claim ctx) old"
    "operation_transition env (m_now m) db old ''fence'' no_args = Inr db'" and x: "get_operation db' i = Some x"
    by (rule transition_registeredD)
  from o(3) have "db' = db" by (cases rule: operation_transition_cases) simp_all
  then show "yo_id x = i" "claim_allows env m (uc_execution_claim ctx) x" using o x get_operation_id [OF x] by simp_all
qed

lemma handler_step_cases:
  assumes "handler_step env m st db pc = (db', pc', ps)"
  obtains (quiet) "quiet db pc (db', pc', ps)"
    | (attempt) ctx x x' where "pc = Preflighted ctx x" "pc' = Attempted ctx x'" "ps = []" "attempt_in_fence env m db (yo_id x) ctx = Inr (db', x')"
    | (refence) ctx x x' where "pc = Attempted ctx x" "pc' = Refenced ctx x'" "ps = []" "db' = db" "yo_id x' = yo_id x"
        "claim_allows env m (uc_execution_claim ctx) x'"
    | (recheck) ctx x where "pc = Refenced ctx x" "pc' = Post_fenced ctx x" "ps = []" "db' = db"
    | (post) ctx x where "pc = Post_fenced ctx x" "pc' = Posted ctx x" "ps = [yo_id x]" "db' = db"
proof (cases pc)
  case (Preflighted ctx x)
  show thesis
  proof (cases "st_cancelled st")
    case False
    show thesis
    proof (cases "attempt_in_fence env m db (yo_id x) ctx")
      case (Inr r)
      obtain d x' where "r = (d, x')" by (rule prod.exhaust)
      then show thesis
        by (intro attempt [OF Preflighted, of x']) (use assms Preflighted False Inr in \<open>auto simp: step_attempt_def\<close>)
    qed (use assms quiet Preflighted False in \<open>auto simp: step_attempt_def\<close>)
  qed (use assms quiet Preflighted in \<open>auto simp: step_attempt_def\<close>)
next
  case (Attempted ctx x)
  show thesis
  proof (cases "st_refreshed st")
    case True
    show thesis
    proof (cases "refence env m db (yo_id x) ctx")
      case (Inr x')
      then show thesis
        by (intro refence [OF Attempted, of x']) (use refenceD [OF Inr] assms Attempted True in \<open>auto simp: step_refence_def\<close>)
    qed (use assms quiet Attempted True in \<open>auto simp: step_refence_def\<close>)
  qed (use assms quiet Attempted in \<open>auto simp: step_refence_def\<close>)
next
  case (Refenced ctx x)
  show thesis
  proof (cases "pc' = Post_fenced ctx x")
    case True
    then show thesis
      by (intro recheck [OF Refenced]) (use assms Refenced in \<open>auto simp: step_recheck_def split: if_splits sum.splits\<close>)
  next
    case False
    then have "quiet db pc (db', pc', ps)" using assms Refenced by (auto simp: step_recheck_def split: if_splits sum.splits)
    then show thesis by (rule quiet)
  qed
next
  case (Post_fenced ctx x)
  show thesis
  proof (cases "pc' = Posted ctx x")
    case True
    then show thesis
      by (intro post [OF Post_fenced]) (use assms Post_fenced in \<open>auto simp: step_post_def split: if_splits\<close>)
  next
    case False
    then have "quiet db pc (db', pc', ps)" using assms Post_fenced by (auto simp: step_post_def split: if_splits)
    then show thesis by (rule quiet)
  qed
next
  case (Start ctx)
  show thesis using step_claim_quiet [of db ctx env m st] assms Start by (intro quiet) simp
next
  case (Claimed ctx x action)
  show thesis using step_route_quiet [of db ctx x action env m st] assms Claimed by (intro quiet) simp
next
  case (Fenced ctx x)
  show thesis using step_preflight_quiet [of db ctx x st] assms Fenced by (intro quiet) simp
next
  case (Posted ctx x)
  show thesis using step_answer_quiet [of db ctx x st] assms Posted by (intro quiet) simp
next
  case (Submitting ctx x t)
  show thesis using persist_quiet [of db ctx x t env m st] assms Submitting by (intro quiet) simp
next
  case (Submitted ctx x t)
  show thesis using step_submitted_quiet [of db ctx x t st] assms Submitted by (intro quiet) simp
next
  case (Polling ctx x t)
  show thesis using step_poll_quiet [of db ctx x t st] assms Polling by (intro quiet) simp
next
  case (Completing ctx x v r)
  show thesis using record_completion_quiet [of db ctx x v r env m st] assms Completing by (intro quiet) simp
next
  case (Marking ctx x s msg)
  show thesis using step_mark_quiet [of db ctx x s msg env m] assms Marking by (intro quiet) simp
next
  case (Done r)
  show thesis using assms Done by (intro quiet) auto
qed

section \<open>Invariants of runs\<close>

definition token_of :: "upload_system \<Rightarrow> nat \<Rightarrow> uuid option" where
  "token_of s p = Option.bind (us_procs s p) post_token"

definition upload_inv :: "upload_system \<Rightarrow> bool" where
  "upload_inv s \<longleftrightarrow> rows_ok (us_db s) \<and> distinct (us_posts s) \<and> (\<forall>i\<in>set (us_posts s). spent (us_db s) i)
     \<and> (\<forall>p i. token_of s p = Some i \<longrightarrow> spent (us_db s) i \<and> i \<notin> set (us_posts s))
     \<and> (\<forall>p q i. token_of s p = Some i \<longrightarrow> token_of s q = Some i \<longrightarrow> p = q)"

text \<open>A step in which no handler gains a token and nothing is sent keeps the invariant.\<close>

lemma upload_inv_weaken:
  assumes "upload_inv s" and "rows_ok (us_db s')" and "\<And>i. spent (us_db s) i \<Longrightarrow> spent (us_db s') i"
    and "us_posts s' = us_posts s" and t: "\<And>p i. token_of s' p = Some i \<Longrightarrow> token_of s p = Some i"
  shows "upload_inv s'"
proof -
  have u: "p = q" if "token_of s p = Some i" "token_of s q = Some i" for p q i
    using assms(1) that unfolding upload_inv_def by blast
  have "p = q" if "token_of s' p = Some i" "token_of s' q = Some i" for p q i
    using u t that by blast
  moreover have "spent (us_db s') i \<and> i \<notin> set (us_posts s')" if "token_of s' p = Some i" for p i
  proof -
    have "spent (us_db s) i \<and> i \<notin> set (us_posts s)" using assms(1) t [OF that] unfolding upload_inv_def by blast
    then show ?thesis using assms(3,4) by simp
  qed
  moreover have "\<forall>i\<in>set (us_posts s'). spent (us_db s') i" "distinct (us_posts s')"
    using assms(1,3,4) unfolding upload_inv_def by auto
  ultimately show ?thesis using assms(2) unfolding upload_inv_def by blast
qed

lemma upload_inv_attempt:
  assumes inv: "upload_inv s" and a: "attempt_in_fence env m (us_db s) i ctx = Inr (db', x)" and x: "post_token pc' = Some i"
  shows "upload_inv (s\<lparr>us_db := db', us_procs := (us_procs s)(p \<mapsto> pc'), us_posts := us_posts s @ []\<rparr>)" (is "upload_inv ?s")
proof -
  have ch: "db_change (us_db s) db'" using a by (rule attempt_change)
  obtain old where o: "get_operation (us_db s) i = Some old" "yo_request_attempted_at old = None"
    and new: "get_operation db' i = Some x" "yo_request_attempted_at x \<noteq> None"
    using a by (rule attempt_in_fenceD)
  have rows: "rows_ok (us_db s)" using inv by (simp add: upload_inv_def)
  have rows': "rows_ok db'" by (rule rows_ok_change [OF ch rows])
  have "x \<in> set (upload_operations db')" "yo_id x = i"
    using new(1) get_operation_id [OF new(1)] by (simp_all add: get_operation_def row_get_mem)
  then have "i < next_operation db'" using rows' by (auto simp: rows_ok_def)
  then have sp: "spent db' i" using new by (simp add: spent_def)
  have ns: "\<not> spent (us_db s) i" using o by (auto simp: spent_def)
  have post: "i \<notin> set (us_posts s)" using inv ns by (auto simp: upload_inv_def)
  have other: "token_of s q \<noteq> Some i" for q using inv ns by (auto simp: upload_inv_def)
  have tok: "token_of ?s q = (if q = p then Some i else token_of s q)" for q using x by (simp add: token_of_def)
  show ?thesis unfolding upload_inv_def
  proof (intro conjI allI impI ballI)
    show "rows_ok (us_db ?s)" using rows' by simp
    show "distinct (us_posts ?s)" using inv by (simp add: upload_inv_def)
    fix j assume "j \<in> set (us_posts ?s)"
    then show "spent (us_db ?s) j" using inv spent_change [OF ch] by (simp add: upload_inv_def)
  next
    fix q j assume t: "token_of ?s q = Some j"
    show "spent (us_db ?s) j"
    proof (cases "q = p")
      case True
      then show ?thesis using t tok sp by simp
    next
      case False
      then have "token_of s q = Some j" using t tok by simp
      then have "spent (us_db s) j" using inv unfolding upload_inv_def by blast
      then show ?thesis using spent_change [OF ch] by simp
    qed
    show "j \<notin> set (us_posts ?s)"
      using t tok [of q] post inv by (cases "q = p") (auto simp: upload_inv_def)
  next
    fix q q' j assume t: "token_of ?s q = Some j" "token_of ?s q' = Some j"
    have u: "q = q'" if "token_of s q = Some j" "token_of s q' = Some j" using inv that unfolding upload_inv_def by blast
    show "q = q'" using t tok [of q] tok [of q'] other [of q] other [of q'] u by (auto split: if_splits)
  qed
qed

lemma upload_inv_post:
  assumes inv: "upload_inv s" and t: "token_of s p = Some i" and n: "post_token pc' = None"
  shows "upload_inv (s\<lparr>us_db := us_db s, us_procs := (us_procs s)(p \<mapsto> pc'), us_posts := us_posts s @ [i]\<rparr>)" (is "upload_inv ?s")
proof -
  have i: "spent (us_db s) i" "i \<notin> set (us_posts s)" using inv t unfolding upload_inv_def by blast+
  have tok: "token_of ?s q = (if q = p then None else token_of s q)" for q using n by (simp add: token_of_def)
  have u: "q = q'" if "token_of s q = Some j" "token_of s q' = Some j" for q q' j using inv that unfolding upload_inv_def by blast
  have old: "spent (us_db s) j \<and> j \<notin> set (us_posts s)" if "token_of s q = Some j" for q j
    using inv that unfolding upload_inv_def by blast
  show ?thesis unfolding upload_inv_def
  proof (intro conjI allI impI ballI)
    show "rows_ok (us_db ?s)" "distinct (us_posts ?s)" using inv i by (simp_all add: upload_inv_def)
    fix j assume "j \<in> set (us_posts ?s)"
    then show "spent (us_db ?s) j" using inv i by (auto simp: upload_inv_def)
  next
    fix q j assume q: "token_of ?s q = Some j"
    then have q': "q \<noteq> p" "token_of s q = Some j" using tok by (simp_all split: if_splits)
    then show "spent (us_db ?s) j" using old by simp
    have "j \<noteq> i" using q' u t by blast
    then show "j \<notin> set (us_posts ?s)" using old [OF q'(2)] by simp
  next
    fix q q' j assume "token_of ?s q = Some j" "token_of ?s q' = Some j"
    then show "q = q'" using tok u by (simp split: if_splits)
  qed
qed

lemma get_operation_delete:
  "get_operation (delete_job_operations db jid) i = Some x \<Longrightarrow> rows_ok db \<Longrightarrow> get_operation db i = Some x"
  unfolding get_operation_def delete_job_operations_def rows_ok_def
  by (frule row_get_mem, drule row_get_key) (auto intro: row_get_distinct)

lemma unique_some_filter: "unique_some key rows \<Longrightarrow> unique_some key (filter P rows)"
  unfolding unique_some_def set_filter by blast

lemma rows_ok_delete: "rows_ok db \<Longrightarrow> rows_ok (delete_job_operations db jid)"
  unfolding rows_ok_def delete_job_operations_def by (simp add: distinct_map_filter unique_some_filter)

lemma unlinked_simps [simp]:
  "yo_id (unlinked tid x) = yo_id x" "yo_node_execution_id (unlinked tid x) = yo_node_execution_id x"
  "yo_platform_video_id (unlinked tid x) = yo_platform_video_id x" "yo_status (unlinked tid x) = yo_status x"
  "yo_manager_task_id (unlinked tid x) = yo_manager_task_id x" "yo_receipt_json (unlinked tid x) = yo_receipt_json x"
  "yo_request_attempted_at (unlinked tid x) = yo_request_attempted_at x" "yo_completed_at (unlinked tid x) = yo_completed_at x"
  by (simp_all add: unlinked_def)

lemma unlinked_task: "yo_production_task_id (unlinked tid x) \<noteq> None \<Longrightarrow> yo_production_task_id (unlinked tid x) = yo_production_task_id x"
  by (simp add: unlinked_def split: if_splits)

lemma get_operation_unlink: "get_operation (unlink_task db tid) i = map_option (unlinked tid) (get_operation db i)"
proof -
  have "row_get yo_id (map (unlinked tid) rows) i = map_option (unlinked tid) (row_get yo_id rows i)" for rows
    by (induction rows) auto
  then show ?thesis by (simp add: get_operation_def unlink_task_def)
qed

lemma unique_some_map:
  assumes u: "unique_some key rows" and f: "\<And>x. key (f x) \<noteq> None \<Longrightarrow> key (f x) = key x"
  shows "unique_some key (map f rows)"
  unfolding unique_some_def
proof (intro ballI impI)
  fix a b assume "a \<in> set (map f rows)" and "b \<in> set (map f rows)" and k: "key a \<noteq> None \<and> key a = key b"
  then obtain x y where x: "x \<in> set rows" "a = f x" and y: "y \<in> set rows" "b = f y" by auto
  then have "key x \<noteq> None \<and> key x = key y" using k f [of x] f [of y] by metis
  then show "a = b" using u x y unfolding unique_some_def by blast
qed

lemma rows_ok_unlink:
  assumes "rows_ok db"
  shows "rows_ok (unlink_task db tid)"
proof -
  have "map yo_id (map (unlinked tid) xs) = map yo_id xs" "map yo_node_execution_id (map (unlinked tid) xs) = map yo_node_execution_id xs" for xs
    by simp_all
  moreover have "unique_some yo_production_task_id (map (unlinked tid) (upload_operations db))"
    by (rule unique_some_map, use assms in \<open>simp add: rows_ok_def\<close>) (rule unlinked_task)
  moreover have "unique_some yo_platform_video_id (map (unlinked tid) (upload_operations db))"
    by (rule unique_some_map) (use assms in \<open>simp_all add: rows_ok_def\<close>)
  moreover have "\<forall>x\<in>set (map (unlinked tid) (upload_operations db)). yo_id x < next_operation db"
    using assms by (auto simp: rows_ok_def)
  ultimately show ?thesis using assms unfolding rows_ok_def unlink_task_def by (simp del: map_map set_map)
qed

lemma upload_step_inv:
  assumes "upload_step env s s'" and "upload_inv s"
  shows "upload_inv s'"
  using assms
proof (induction rule: upload_step.induct)
  case (up_start s p ctx)
  show ?case by (rule upload_inv_weaken [OF up_start.prems]) (use up_start.prems in \<open>auto simp: upload_inv_def token_of_def split: if_splits\<close>)
next
  case (up_move s p pc m st db' pc' ps)
  from up_move.hyps(3) show ?case
  proof (cases rule: handler_step_cases)
    case quiet
    then have q: "db_change (us_db s) db'" "ps = []" "post_token pc' = None" by (auto simp: quiet_def)
    show ?thesis
      by (rule upload_inv_weaken [OF up_move.prems])
        (use up_move.prems q rows_ok_change [OF q(1)] spent_change [OF q(1)] in \<open>auto simp: upload_inv_def token_of_def split: if_splits\<close>)
  next
    case (attempt ctx x x')
    have i: "yo_id x' = yo_id x" using attempt(4) by (simp add: attempt_in_fence_def transition_change(2))
    show ?thesis unfolding attempt(3) using attempt(2) i by (intro upload_inv_attempt [OF up_move.prems attempt(4)]) simp
  next
    case (refence ctx x x')
    show ?thesis
      by (rule upload_inv_weaken [OF up_move.prems])
        (use up_move.prems up_move.hyps(1) refence in \<open>auto simp: upload_inv_def token_of_def split: if_splits\<close>)
  next
    case (recheck ctx x)
    show ?thesis
      by (rule upload_inv_weaken [OF up_move.prems])
        (use up_move.prems up_move.hyps(1) recheck in \<open>auto simp: upload_inv_def token_of_def split: if_splits\<close>)
  next
    case (post ctx x)
    have "token_of s p = Some (yo_id x)" using up_move.hyps(1) post(1) by (simp add: token_of_def)
    then show ?thesis unfolding post(3,4) using post(2) by (intro upload_inv_post [OF up_move.prems]) simp_all
  qed
next
  case (up_crash s p)
  show ?case by (rule upload_inv_weaken [OF up_crash.prems]) (use up_crash.prems in \<open>auto simp: upload_inv_def token_of_def split: if_splits\<close>)
next
  case (up_other s w')
  show ?case by (rule upload_inv_weaken [OF up_other.prems]) (use up_other.prems in \<open>auto simp: upload_inv_def token_of_def\<close>)
next
  case (up_delete s jid)
  have r: "rows_ok (us_db s)" using up_delete.prems by (simp add: upload_inv_def)
  have n: "next_operation (delete_job_operations (us_db s) jid) = next_operation (us_db s)" by (simp add: delete_job_operations_def)
  show ?case
    by (rule upload_inv_weaken [OF up_delete.prems])
      (use r in \<open>auto simp: rows_ok_delete token_of_def spent_def n dest: get_operation_delete\<close>)
next
  case (up_unlink s tid)
  have r: "rows_ok (us_db s)" using up_unlink.prems by (simp add: upload_inv_def)
  have n: "next_operation (unlink_task (us_db s) tid) = next_operation (us_db s)" by (simp add: unlink_task_def)
  show ?case
    by (rule upload_inv_weaken [OF up_unlink.prems])
      (use r in \<open>auto simp: rows_ok_unlink token_of_def spent_def n get_operation_unlink split: if_splits\<close>)
qed

interpretation upload_runs: step_invariant "upload_step env" upload_inv for env
  by unfold_locales (rule upload_step_inv)

text \<open>While a handler holds its fence, the schedule, the job and the node still permit its claim.\<close>

definition authorised :: "world \<Rightarrow> NodeExecutionClaim \<Rightarrow> YouTubeUploadOperation \<Rightarrow> bool" where
  "authorised w c x \<longleftrightarrow>
     (case (claim_worker_registration_id c, claim_worker_lease_epoch c) of
        (Some rid, Some epoch) \<Rightarrow> schedule_permits w (yo_job_id x) \<and> job_permits w (yo_job_id x)
          \<and> node_permits w rid epoch (claim_worker_id c) (claim_started_at c) (yo_job_id x) (yo_node_execution_id x)
      | _ \<Rightarrow> False)"

definition fences_authorised :: "upload_system \<Rightarrow> bool" where
  "fences_authorised s \<longleftrightarrow> (\<forall>p pc c x. us_procs s p = Some pc \<longrightarrow> fence_held pc = Some (c, x) \<longrightarrow> authorised (us_world s) c x)"

lemma claim_allows_authorised: "claim_allows env m c x \<Longrightarrow> authorised (m_world m) c x"
  unfolding claim_allows_def authorised_def using claim_permits by (auto split: option.splits)

lemma job_permits_row: "job_permits w jid \<longleftrightarrow> (case job_row w jid of None \<Rightarrow> False | Some j \<Rightarrow> job_status j = JOB_RUNNING)"
  by (simp add: job_permits_def job_row_def split: option.split)

lemma authorised_kept: "rows_kept w w' x \<Longrightarrow> authorised w c x \<Longrightarrow> authorised w' c x"
  by (simp add: authorised_def rows_kept_def job_permits_row schedule_permits_def node_permits_def split: option.splits)

lemma fences_authorised_step:
  assumes "upload_step env s s'" and "fences_authorised s"
  shows "fences_authorised s'"
  using assms
proof (induction rule: upload_step.induct)
  case (up_move s p pc m st db' pc' ps)
  have old: "authorised (us_world s) c x" if "us_procs s q = Some qc" "fence_held qc = Some (c, x)" for q qc c x
    using up_move.prems that unfolding fences_authorised_def by blast
  have new: "authorised (us_world s) c x" if h: "fence_held pc' = Some (c, x)" for c x
    using up_move.hyps(3)
  proof (cases rule: handler_step_cases)
    case quiet
    then have "fence_held pc = Some (c, x)" using h by (auto simp: quiet_def)
    then show ?thesis using old up_move.hyps(1) by blast
  next
    case (refence ctx y y')
    then show ?thesis using h claim_allows_authorised [OF refence(6)] up_move.hyps(2) by simp
  qed (use h old [OF up_move.hyps(1)] in auto)
  show ?case using new old unfolding fences_authorised_def by (auto split: if_splits)
next
  case (up_other s w')
  show ?case unfolding fences_authorised_def
  proof (intro allI impI)
    fix p pc c x assume p: "us_procs (s\<lparr>us_world := w'\<rparr>) p = Some pc" and h: "fence_held pc = Some (c, x)"
    have p': "us_procs s p = Some pc" using p by simp
    have "authorised (us_world s) c x" using up_other.prems p' h unfolding fences_authorised_def by blast
    then show "authorised (us_world (s\<lparr>us_world := w'\<rparr>)) c x" using authorised_kept [OF up_other.hyps [OF p' h]] by simp
  qed
qed (auto simp: fences_authorised_def split: if_splits)

interpretation fence_runs: step_invariant "upload_step env" fences_authorised for env
  by unfold_locales (rule fences_authorised_step)

text \<open>What an operation settles when it ends.\<close>

definition settlement :: "YouTubeUploadOperation \<Rightarrow> string \<times> string option \<times> string option \<times> config \<times> datetime option" where
  "settlement x = (yo_status x, yo_manager_task_id x, yo_platform_video_id x, yo_receipt_json x, yo_completed_at x)"

definition settled_as :: "YouTubeUploadOperation \<Rightarrow> upload_system \<Rightarrow> bool" where
  "settled_as x s \<longleftrightarrow> rows_ok (us_db s) \<and> yo_id x < next_operation (us_db s)
     \<and> (\<forall>y. get_operation (us_db s) (yo_id x) = Some y \<longrightarrow> settlement y = settlement x)"

lemma get_operation_insert:
  "yo_id z \<noteq> i \<Longrightarrow> get_operation (db\<lparr>upload_operations := upload_operations db @ [z], next_operation := n\<rparr>) i = get_operation db i"
  by (simp add: get_operation_def row_get_append split: option.split)

lemma settled_change:
  assumes ch: "db_change (us_db s) db'" and st: "settled_as x s" and fin: "yo_status x \<in> {''succeeded'', ''failed'', ''uncertain''}"
  shows "settled_as x (s\<lparr>us_db := db', us_procs := procs, us_posts := ps\<rparr>)"
proof -
  have ok: "rows_ok db'" using rows_ok_change [OF ch] st by (simp add: settled_as_def)
  from ch have "yo_id x < next_operation db' \<and> (\<forall>y. get_operation db' (yo_id x) = Some y \<longrightarrow> settlement y = settlement x)"
  proof cases
    case dc_same
    then show ?thesis using st by (simp add: settled_as_def)
  next
    case (dc_insert z)
    have lt: "yo_id x < next_operation (us_db s)" using st by (simp add: settled_as_def)
    then have "get_operation db' (yo_id x) = get_operation (us_db s) (yo_id x)"
      unfolding dc_insert(1) by (intro get_operation_insert) (simp add: dc_insert(2))
    then show ?thesis using st lt unfolding dc_insert(1) by (simp add: settled_as_def)
  next
    case (dc_update new old)
    have "yo_id new \<noteq> yo_id x"
    proof
      assume e: "yo_id new = yo_id x"
      then have "settlement old = settlement x" using st dc_update(2) by (simp add: settled_as_def)
      then show False using dc_update(3) fin by (auto simp: evolves_def settlement_def)
    qed
    then show ?thesis using st dc_update(1) by (simp add: settled_as_def get_operation_put) (simp add: put_operation_def)
  qed
  then show ?thesis using ok by (simp add: settled_as_def)
qed

lemma settled_step:
  assumes "upload_step env s s'" and "settled_as x s" and fin: "yo_status x \<in> {''succeeded'', ''failed'', ''uncertain''}"
  shows "settled_as x s'"
  using assms(1,2)
proof (induction rule: upload_step.induct)
  case (up_move s p pc m st db' pc' ps)
  from up_move.hyps(3) have "db_change (us_db s) db'"
    by (cases rule: handler_step_cases) (auto simp: quiet_def dc_same attempt_change)
  then show ?case by (rule settled_change [OF _ up_move.prems fin])
next
  case (up_delete s jid)
  then show ?case
    by (auto simp: settled_as_def rows_ok_delete dest: get_operation_delete) (simp add: delete_job_operations_def)
next
  case (up_unlink s tid)
  then show ?case by (auto simp: settled_as_def rows_ok_unlink get_operation_unlink settlement_def) (simp add: unlink_task_def)
qed (simp_all add: settled_as_def)

interpretation settled_runs: step_invariant "upload_step env"
    "\<lambda>s. yo_status x \<in> {''succeeded'', ''failed'', ''uncertain''} \<and> settled_as x s" for env x
  by unfold_locales (use settled_step in blast)

lemma upload_initial_inv: "upload_inv (upload_initial w)" and upload_initial_fences: "fences_authorised (upload_initial w)"
  by (simp_all add: upload_inv_def upload_initial_def rows_ok_def unique_some_def token_of_def fences_authorised_def)

end
