(* ===== verification/Upload_Properties.thy ===== *)
theory Upload_Properties
  imports Upload_Runs
begin

text \<open>
  What the upload protocol guarantees in every run of any number of handlers: a request is sent at most
  once for an operation, only while the job and the node still belong to the worker that sends it, and
  an operation that has ended keeps its outcome. A run of one handler from its start to the recorded
  video instantiates the three statements.
\<close>

section \<open>A run to the recorded video\<close>

definition upload_world :: world where
  "upload_world = (sample_world ''OPEN'' [sample_job 1 JOB_RUNNING
       [(sample_execution 11 ''up'' RUNNING)\<lparr>ne_node_type := ''youtube_upload'', ne_worker_id := Some ''w1'',
          ne_started_at := Some 3, ne_input_artifact_ids := [21], ne_worker_registration_id := Some 5,
          ne_worker_lease_epoch := Some 1\<rparr>]])
     \<lparr>registrations := [\<lparr>wr_id = 5, wr_grant_id = 0, wr_lease_epoch = 1, wr_status = ''active'', wr_lease_expires_at = 500,
        wr_database_principal = ''worker''\<rparr>],
      artifacts := [\<lparr>art_id = 21, art_job_id = 1, art_node_execution_id = 10, art_kind = FINAL, art_filename = ''v.mp4'',
        art_mime_type = None, art_file_size = None, art_storage_backend = ''local'', art_storage_path = ''p'', art_media_info = None\<rparr>],
      channels := [\<lparr>channel_id = 8, channel_enabled = True, channel_halted_at = None\<rparr>],
      tasks := [\<lparr>task_id = 9, task_channel_profile_id = 8, task_job_id = Some 1, task_state = ''producing''\<rparr>]\<rparr>"

definition upload_context :: UploadOperationContext where
  "upload_context = \<lparr>uc_job_id = 1, uc_node_execution_id = 11,
     uc_execution_claim = \<lparr>claim_job_id = 1, claim_node_execution_id = 11, claim_worker_id = ''w1'', claim_started_at = 3,
       claim_worker_registration_id = Some 5, claim_worker_lease_epoch = Some 1\<rparr>,
     uc_input_artifact_id = 21, uc_content_sha256 = claim_sha, uc_title = ''t'', uc_privacy = ''private''\<rparr>"

definition open_env :: upload_env where
  "open_env = \<lparr>session_principal = ''worker'', principal_privileged = (\<lambda>_. False), job_sealed = (\<lambda>_. False),
     seal_allows = (\<lambda>_ _. True), producer_allows = (\<lambda>_ _ _ _ _ _. True)\<rparr>"

definition upload_moment :: moment where
  "upload_moment = \<lparr>m_seen = upload_world, m_world = upload_world, m_now = 10\<rparr>"

definition answering :: "http_answer \<Rightarrow> stimulus" where
  "answering a = \<lparr>st_cancelled = False, st_refreshed = True, st_file_ok = True, st_timed_out = False, st_answer = a,
     st_persist = Persist_runs\<rparr>"

definition sample_task :: string where
  "sample_task = ''01234567-89ab-cdef-0123-456789abcdef''"

definition quota_answer :: pyval where
  "quota_answer = PDict [(''authenticated'', PBool True),
     (''quota_estimate'', PDict [(''daily_limit'', PInt 10000), (''estimated_units_used'', PInt 0),
        (''estimated_units_remaining'', PInt 10000), (''upload_cost_per_request'', PInt 1600)])]"

definition completed_answer :: pyval where
  "completed_answer = PDict [(''status'', PStr ''completed''),
     (''result'', PDict [(''video_id'', PStr ''vid''), (''url'', PStr ''https://www.youtube.com/watch?v=vid'')])]"

definition empty_db :: upload_db where
  "empty_db = \<lparr>upload_operations = [], next_operation = 0\<rparr>"

definition op_reserved :: YouTubeUploadOperation where
  "op_reserved = reserved_operation 0 (Some 9) upload_context"

definition op_attempted :: YouTubeUploadOperation where
  "op_attempted = op_reserved\<lparr>yo_request_attempted_at := Some 10\<rparr>"

definition op_submitted :: YouTubeUploadOperation where
  "op_submitted = op_attempted\<lparr>yo_status := ''submitted'', yo_manager_task_id := Some sample_task\<rparr>"

definition op_succeeded :: YouTubeUploadOperation where
  "op_succeeded = op_submitted\<lparr>yo_status := ''succeeded'', yo_platform_video_id := Some ''vid'', yo_completed_at := Some 10,
     yo_receipt_json := [(''video_id'', PStr ''vid''), (''url'', PStr ''https://www.youtube.com/watch?v=vid''), (''title'', PStr ''t''),
       (''privacy'', PStr ''private''), (''tags'', PList []), (''quota_estimate'', PNone)]\<rparr>"

definition db_of :: "YouTubeUploadOperation \<Rightarrow> upload_db" where
  "db_of x = \<lparr>upload_operations = [x], next_operation = 1\<rparr>"

lemma run_claim: "handler_step open_env upload_moment (answering Aborted) empty_db (Start upload_context) =
    (db_of op_reserved, Claimed upload_context op_reserved ''submit'', [])"
  by code_simp

lemma run_route: "handler_step open_env upload_moment (answering Aborted) (db_of op_reserved) (Claimed upload_context op_reserved ''submit'') =
    (db_of op_reserved, Fenced upload_context op_reserved, [])"
  by code_simp

lemma float_of_small_int: "\<bar>n\<bar> < 2 ^ 64 \<Longrightarrow> py_float (PInt n) = Inr (FFin (rat_of_int n))"
proof -
  assume n: "\<bar>n\<bar> < 2 ^ 64"
  have "(2::int) ^ 64 \<le> 2 ^ 1024 - 2 ^ 970" by simp
  then have "rat_of_int (2 ^ 64) \<le> rat_of_int (2 ^ 1024 - 2 ^ 970)" by (rule of_int_le_iff [THEN iffD2])
  moreover have "rat_of_int \<bar>n\<bar> < rat_of_int (2 ^ 64)" using n by (rule of_int_less_iff [THEN iffD2])
  ultimately have "\<bar>rat_of_int n\<bar> < float_limit" unfolding float_limit_def by simp
  then show ?thesis by simp
qed

lemma run_preflight: "handler_step open_env upload_moment (answering (Answered (Some quota_answer))) (db_of op_reserved)
      (Fenced upload_context op_reserved) =
    (db_of op_reserved, Preflighted upload_context op_reserved, [])"
  by (simp add: step_preflight_def answering_def quota_answer_def object_json_def validate_auth_and_quota_def dict_get_or_def
      finite_nonnegative_def float_of_small_int UPLOAD_INSERT_COST_def del: py_float.simps)

lemma run_attempt: "handler_step open_env upload_moment (answering Aborted) (db_of op_reserved) (Preflighted upload_context op_reserved) =
    (db_of op_attempted, Attempted upload_context op_attempted, [])"
  by code_simp

lemma run_refence: "handler_step open_env upload_moment (answering Aborted) (db_of op_attempted) (Attempted upload_context op_attempted) =
    (db_of op_attempted, Refenced upload_context op_attempted, [])"
  by code_simp

lemma run_recheck: "handler_step open_env upload_moment (answering Aborted) (db_of op_attempted) (Refenced upload_context op_attempted) =
    (db_of op_attempted, Post_fenced upload_context op_attempted, [])"
  by code_simp

lemma run_post: "handler_step open_env upload_moment (answering Aborted) (db_of op_attempted) (Post_fenced upload_context op_attempted) =
    (db_of op_attempted, Posted upload_context op_attempted, [0])"
  by code_simp

lemma run_answer: "handler_step open_env upload_moment (answering (Answered (Some (PDict [(''task_id'', PStr sample_task)]))))
      (db_of op_attempted) (Posted upload_context op_attempted) =
    (db_of op_attempted, Submitting upload_context op_attempted sample_task, [])"
  by code_simp

lemma run_submit: "handler_step open_env upload_moment (answering Aborted) (db_of op_attempted) (Submitting upload_context op_attempted sample_task) =
    (db_of op_submitted, Submitted upload_context op_attempted sample_task, [])"
  by code_simp

lemma run_submitted: "handler_step open_env upload_moment (answering Aborted) (db_of op_submitted) (Submitted upload_context op_attempted sample_task) =
    (db_of op_submitted, Polling upload_context op_attempted sample_task, [])"
  by code_simp

lemma run_poll: "handler_step open_env upload_moment (answering (Answered (Some completed_answer))) (db_of op_submitted)
      (Polling upload_context op_attempted sample_task) =
    (db_of op_submitted, Completing upload_context op_attempted ''vid''
       [(''video_id'', PStr ''vid''), (''url'', PStr ''https://www.youtube.com/watch?v=vid'')], [])"
  by code_simp

lemma run_complete: "handler_step open_env upload_moment (answering Aborted) (db_of op_submitted)
      (Completing upload_context op_attempted ''vid'' [(''video_id'', PStr ''vid''), (''url'', PStr ''https://www.youtube.com/watch?v=vid'')]) =
    (db_of op_succeeded, Done (Inr [(''youtube'', PDict (yo_receipt_json op_succeeded))]), [])"
  by code_simp

definition us_at :: "upload_db \<Rightarrow> handler_pc \<Rightarrow> uuid list \<Rightarrow> upload_system" where
  "us_at db pc posts = \<lparr>us_world = upload_world, us_db = db, us_procs = [0 \<mapsto> pc], us_posts = posts\<rparr>"

lemma us_at_move:
  assumes "(upload_step open_env)\<^sup>*\<^sup>* s (us_at db pc posts)" and "handler_step open_env upload_moment st db pc = (db', pc', ps)"
  shows "(upload_step open_env)\<^sup>*\<^sup>* s (us_at db' pc' (posts @ ps))"
proof -
  have "upload_step open_env (us_at db pc posts)
      ((us_at db pc posts)\<lparr>us_db := db', us_procs := (us_procs (us_at db pc posts))(0 \<mapsto> pc'), us_posts := us_posts (us_at db pc posts) @ ps\<rparr>)"
    by (rule up_move) (use assms(2) in \<open>simp_all add: us_at_def upload_moment_def\<close>)
  then show ?thesis using assms(1) by (simp add: us_at_def)
qed

lemma us_at_start: "(upload_step open_env)\<^sup>*\<^sup>* (upload_initial upload_world) (us_at empty_db (Start upload_context) [])"
proof -
  have "upload_step open_env (upload_initial upload_world)
      ((upload_initial upload_world)\<lparr>us_procs := (us_procs (upload_initial upload_world))(0 \<mapsto> Start upload_context)\<rparr>)"
    by (rule up_start) (simp add: upload_initial_def)
  then show ?thesis by (simp add: us_at_def upload_initial_def empty_db_def)
qed

lemmas run_to_post = us_at_start [THEN us_at_move, OF run_claim, THEN us_at_move, OF run_route, THEN us_at_move, OF run_preflight,
  THEN us_at_move, OF run_attempt, THEN us_at_move, OF run_refence, THEN us_at_move, OF run_recheck, simplified]

lemmas run_to_end = run_to_post [THEN us_at_move, OF run_post, THEN us_at_move, OF run_answer, THEN us_at_move, OF run_submit,
  THEN us_at_move, OF run_submitted, THEN us_at_move, OF run_poll, THEN us_at_move, OF run_complete, simplified]

section \<open>Properties\<close>

text \<open>C3: An upload is requested at most once. In every run of any number of handlers, with crashes,
  retries with any context, lost answers and interference of the other services between any two calls, no
  operation is posted twice and an operation a handler may still submit has not been posted; an operation is
  the only one of its node, of its production task and of its video.\<close>

theorem upload_at_most_once:
  assumes "(upload_step env)\<^sup>*\<^sup>* (upload_initial w) s"
  shows "distinct (us_posts s)
    \<and> (\<forall>x\<in>set (upload_operations (us_db s)). action_for x = ''submit'' \<longrightarrow> yo_id x \<notin> set (us_posts s))
    \<and> distinct (map yo_node_execution_id (upload_operations (us_db s)))
    \<and> unique_some yo_production_task_id (upload_operations (us_db s))
    \<and> unique_some yo_platform_video_id (upload_operations (us_db s))"
proof -
  have inv: "upload_inv s" by (rule upload_runs.run_inv [OF assms upload_initial_inv])
  then have rows: "rows_ok (us_db s)" by (simp add: upload_inv_def)
  have "yo_id x \<notin> set (us_posts s)" if x: "x \<in> set (upload_operations (us_db s))" and a: "action_for x = ''submit''" for x
  proof
    assume "yo_id x \<in> set (us_posts s)"
    then have "spent (us_db s) (yo_id x)" using inv by (simp add: upload_inv_def)
    moreover have "get_operation (us_db s) (yo_id x) = Some x"
      using rows x by (simp add: get_operation_def rows_ok_def row_get_distinct)
    ultimately have "yo_request_attempted_at x \<noteq> None" by (simp add: spent_def)
    then show False using a by (auto simp: action_for_def Let_def split: if_splits)
  qed
  then show ?thesis using inv rows by (simp add: upload_inv_def rows_ok_def)
qed

theorem upload_at_most_once_witness:
  "(upload_step open_env)\<^sup>*\<^sup>* (upload_initial upload_world)
      (us_at (db_of op_succeeded) (Done (Inr [(''youtube'', PDict (yo_receipt_json op_succeeded))])) [0])
   \<and> distinct (us_posts (us_at (db_of op_succeeded) (Done (Inr [(''youtube'', PDict (yo_receipt_json op_succeeded))])) [0]))"
  using upload_at_most_once [OF run_to_end] run_to_end by blast

text \<open>C4: A request is sent only under authority. Whatever the other services do, when a handler posts an operation
  the schedule is open for its job, the job is running, and the node is running under the very claim of that
  handler: the locks of the fence hold from the last check to the request.\<close>

theorem post_under_authority:
  assumes "(upload_step env)\<^sup>*\<^sup>* (upload_initial w) s" and "us_procs s p = Some pc"
    and "handler_step env m st (us_db s) pc = (db', pc', ps)" and "i \<in> set ps"
  shows "\<exists>ctx x. pc = Post_fenced ctx x \<and> yo_id x = i \<and> authorised (us_world s) (uc_execution_claim ctx) x"
proof -
  have f: "fences_authorised s" by (rule fence_runs.run_inv [OF assms(1) upload_initial_fences])
  from assms(3) show ?thesis
  proof (cases rule: handler_step_cases)
    case (post ctx x)
    then have "authorised (us_world s) (uc_execution_claim ctx) x"
      using f assms(2) unfolding fences_authorised_def by (metis fence_held.simps(2))
    then show ?thesis using post assms(4) by auto
  qed (use assms(4) in \<open>auto simp: quiet_def\<close>)
qed

theorem post_under_authority_witness:
  "\<exists>ctx x. Post_fenced upload_context op_attempted = Post_fenced ctx x \<and> yo_id x = 0
     \<and> authorised upload_world (uc_execution_claim ctx) x"
  using post_under_authority [OF run_to_post, of 0 "Post_fenced upload_context op_attempted" upload_moment "answering Aborted"
      "db_of op_attempted" "Posted upload_context op_attempted" "[0]" 0] run_post
  by (simp add: us_at_def)

text \<open>C8: An outcome is final. Once an operation has succeeded, failed or become uncertain, every later
  state of every run that still has its row has it with the same status, manager task, video, receipt and
  time of completion, so a retry replays the recorded receipt or is refused.\<close>

theorem upload_outcome_final:
  assumes "(upload_step env)\<^sup>*\<^sup>* (upload_initial w) s" and "x \<in> set (upload_operations (us_db s))"
    and "yo_status x \<in> {''succeeded'', ''failed'', ''uncertain''}" and "(upload_step env)\<^sup>*\<^sup>* s s'"
    and "y \<in> set (upload_operations (us_db s'))" and "yo_id y = yo_id x"
  shows "settlement y = settlement x"
proof -
  have ok: "rows_ok (us_db s)" using upload_runs.run_inv [OF assms(1) upload_initial_inv] by (simp add: upload_inv_def)
  then have "get_operation (us_db s) (yo_id x) = Some x"
    using assms(2) by (simp add: get_operation_def rows_ok_def row_get_distinct)
  then have "settled_as x s" using ok assms(2) by (simp add: settled_as_def rows_ok_def)
  then have "settled_as x s'" using settled_runs.run_inv [OF assms(4)] assms(3) by blast
  moreover from this have "get_operation (us_db s') (yo_id x) = Some y"
    using row_get_distinct [of yo_id "upload_operations (us_db s')" y] assms(5,6)
    by (simp add: get_operation_def settled_as_def rows_ok_def)
  ultimately show ?thesis by (simp add: settled_as_def)
qed

theorem upload_outcome_final_witness:
  "yo_status op_succeeded = ''succeeded'' \<and> settlement (unlinked 9 op_succeeded) = settlement op_succeeded"
proof -
  let ?s = "us_at (db_of op_succeeded) (Done (Inr [(''youtube'', PDict (yo_receipt_json op_succeeded))])) [0]"
  have "settlement (unlinked 9 op_succeeded) = settlement op_succeeded"
    by (rule upload_outcome_final [OF run_to_end _ _ r_into_rtranclp [where r = "upload_step open_env", OF up_unlink [of open_env ?s 9]]])
      (simp_all add: us_at_def db_of_def op_succeeded_def unlink_task_def)
  then show ?thesis by (simp add: op_succeeded_def)
qed

end
