(* ===== verification/Spec2Isabelle.thy ===== *)
theory Spec2Isabelle
  imports Catalogue Pipeline_Properties Listener_Runs Job_Properties Upload_Properties
begin

text \<open>
  Verification of the backend of the video pipeline editor.

  \<^bold>\<open>The program.\<close> A user draws a pipeline: nodes of built-in types, joined by edges between typed ports.
  The backend (\<open>src/backend/app\<close>) validates and stores it, turns it into a job with one execution per node,
  and runs the job: it dispatches a node when everything it depends on has succeeded, over a Redis stream to a
  worker, and hears of the outcome over another stream. Jobs only start while a video schedule is open. Workers
  are of two kinds: legacy workers, whose events the engine applies as they come, and registered workers, which hold
  a lease, whose events are recorded as receipts and applied once, and whose uploads to YouTube follow a protocol of
  their own with a durable record of each request.

  \<^bold>\<open>How the code is modelled.\<close> A function of the source is a function on values; the database is the record
  \<open>world\<close> of \<open>Jobs\<close>, a table is a list of rows, and a handler maps the database to the database and a result. A commit in the
  middle of a handler is a point where other sessions may change the database: their change is an argument of
  the handler, or a step of a transition system. Exceptions are the left side of a sum. A dictionary is an association list
  in insertion order, a string is ASCII, a float is its exact value or one of the three special values, an identifier
  is a number and a clock is an argument. Message texts of validation errors are left out; every other field of a
  result is kept.

  \<^bold>\<open>The theories.\<close>

  \<^item> \<open>Prelude\<close>: values, exceptions, dictionaries, the conversions between numbers and text.
  \<^item> Pipelines. \<open>Registry\<close> and \<open>Builtins\<close> (\<open>node_registry/\<close>): the registry and the 31 built-in types, consistent by
    \<open>Catalogue\<close>. \<open>Planner\<close> (\<open>orchestrator/planner.py\<close>, \<open>schemas/pipeline.py\<close>): documents, zip handles and
    \<open>compile_runtime_definition\<close>. \<open>Graph\<close> (\<open>orchestrator/dag.py\<close>): Kahn's sort, which lists exactly the nodes no
    cycle reaches, dependencies first, and ends. \<open>Validate\<close> (\<open>dag.py\<close>): the nine stages of \<open>validate_pipeline\<close>.
    \<open>Valid_Pipelines\<close> states what a valid pipeline is without loops or error lists, and \<open>Pipeline_Properties\<close> shows that
    the validator decides it, when it returns, and three inputs on which it does what it does not mean to.
  \<^item> Rows and services. \<open>Jobs\<close> (\<open>models/\<close>): the rows. \<open>Schedule\<close> (\<open>services/schedule_service.py\<close>): the window.
    \<open>Pipeline_Service\<close> and \<open>Job_Service\<close> (\<open>services/\<close>): creation, listing, update, deletion, overrides, cancelling;
    \<open>Job_Properties\<close> holds their contracts. \<open>Artifact_Cache\<close> (\<open>orchestrator/artifact_cache.py\<close>): keys, lookup, store.
  \<^item> Engine. \<open>Authority\<close> (\<open>services/job_execution_authority.py\<close>): row locks, permission, claims.
    \<open>Engine_Core\<close> and \<open>Engine\<close> (\<open>orchestrator/engine.py\<close>): leaves, finalization, skipping, dispatch, start, completion,
    failure, retry. \<open>Engine_Registered\<close>: events of registered workers and their retries
    (\<open>services/registered_worker_retry.py\<close>). \<open>Startup\<close> (\<open>main.py\<close>, \<open>services/job_runtime.py\<close>). \<open>Engine_Order\<close>,
    \<open>Engine_Handlers\<close> and \<open>Entry_Points\<close> carry one invariant through all of it, under any interference that
    keeps it, and \<open>Engine_Runs\<close> concludes for every run of every operation of the backend.
  \<^item> Registered workers. \<open>Dispatch\<close> and \<open>Receipts\<close> (\<open>services/registered_worker_event_receipt.py\<close>): staging and
    delivery of tasks, acceptance, application, acknowledgement and cancelling. \<open>Dispatch_Runs\<close>: a staged row reaches
    the broker, once, unless an attempt is lost. \<open>Receipt_Runs\<close> and \<open>Registered_Runs\<close>: an event is applied at most once
    and nothing is acknowledged before it is durable. \<open>Event_Listener\<close> and \<open>Listener_Runs\<close>
    (\<open>orchestrator/event_listener.py\<close>): the listener is a run of that service.
  \<^item> Uploads. \<open>Uploads\<close> (\<open>services/youtube_upload_operations.py\<close> with the stored functions of its migrations),
    \<open>Upload_Handler\<close> (\<open>worker/handlers/youtube_upload.py\<close>) as a program counter whose steps are the calls of the source,
    \<open>Upload_Runs\<close> and \<open>Upload_Properties\<close>: in every run of any number of handlers an upload is requested at most
    once, under authority, and its outcome is final.

  \<^bold>\<open>Interfaces.\<close> The locale \<open>node_registry\<close> is what validator and engine need of a registry. \<open>step_invariant\<close>
  lifts an invariant of one step to every run and is interpreted for each transition system of the development.
  The other locales state what one component relies on of another and are interpreted on the definitions of the provider.

  \<^bold>\<open>Bounds and loops.\<close> Every function is total. Loops over lists are structural recursion; Kahn's queue, the
  traversal of downstream nodes and the batches of the receipt service recurse with a measure, so that their end is part
  of their definition; there is no fuel. Limits of the source (64 dynamic inputs, 4300 digits, batches of 100, overflow of a float)
  appear as they are.

  \<^bold>\<open>Parameters.\<close> SHA-256 and the normalisation of URLs in the cache keys, the delivery to Redis, the answers of the
  YouTube manager, the sealing of jobs, and the privileges of database sessions are arguments, with what
  the code relies on as hypotheses; each theorem with such a hypothesis is applied to a concrete instance.

  \<^bold>\<open>Not modelled.\<close> HTTP routers and middleware, which only wrap the services; object storage, FFmpeg and the other
  media handlers of the workers, whose results are files; the channel agent, which plans what to produce and
  reaches this code through the job service; the inventory of own material; registration and leases of workers, written by
  stored procedures, beyond the rows the authority reads; command line tools, migrations and
  deployment; the branches of a service for PostgreSQL where the source has one per database, except the uploads, for
  which those are the modelled ones; the front end.
\<close>

end
